(* ===== verification/NervePrelude.thy ===== *)
theory NervePrelude
  imports Main "HOL-Library.Word"
begin

text \<open>
  What every component of the development shares: fallible results as sums and their
  sequencing, the Rust standard library operations on strings that the source uses,
  unsigned machine integers with saturating and checked addition, and the collections of
  rules that the component proofs draw on.

  A Rust \<^verbatim>\<open>String\<close>, \<^verbatim>\<open>&str\<close> or byte vector is a \<open>string\<close>, a list of \<open>char\<close>. Operations that
  only look for ASCII delimiters (newline, slash, quotes) do the same on the bytes of a UTF-8
  text as on its characters. White space is the ASCII white space of \<^verbatim>\<open>char::is_whitespace\<close>.
\<close>

named_theorems result_simps \<open>equations and inversions of the sequencing of fallible results\<close>
named_theorems string_simps \<open>equations of the string operations\<close>
named_theorems wf_intros \<open>introduction rules of well-formedness predicates\<close>
named_theorems frame_simps \<open>what an operation leaves unchanged\<close>

section \<open>Fallible results\<close>

text \<open>\<^verbatim>\<open>Result<T, E>\<close> is \<open>'e + 'a\<close>, the error on the left; the \<^verbatim>\<open>?\<close> operator is \<open>res_bind\<close>.\<close>

fun res_bind :: "'e + 'a \<Rightarrow> ('a \<Rightarrow> 'e + 'b) \<Rightarrow> 'e + 'b" where
  "res_bind (Inl e) f = Inl e"
| "res_bind (Inr a) f = f a"

lemma res_bind_Inr [result_simps]:
  "res_bind m f = Inr b \<longleftrightarrow> (\<exists>a. m = Inr a \<and> f a = Inr b)"
  by (cases m) auto

lemma res_bind_Inl [result_simps]:
  "res_bind m f = Inl e \<longleftrightarrow> m = Inl e \<or> (\<exists>a. m = Inr a \<and> f a = Inl e)"
  by (cases m) auto

text \<open>A loop \<^verbatim>\<open>for x in xs { f(x)?; }\<close>, which stops at the first error.\<close>

fun res_all :: "('a \<Rightarrow> 'e + unit) \<Rightarrow> 'a list \<Rightarrow> 'e + unit" where
  "res_all f [] = Inr ()"
| "res_all f (x # xs) = res_bind (f x) (\<lambda>_. res_all f xs)"

text \<open>\<^verbatim>\<open>iter().map(f).collect::<Result<Vec<_>, _>>()\<close>.\<close>

fun res_map :: "('a \<Rightarrow> 'e + 'b) \<Rightarrow> 'a list \<Rightarrow> 'e + 'b list" where
  "res_map f [] = Inr []"
| "res_map f (x # xs) = res_bind (f x) (\<lambda>y. res_bind (res_map f xs) (\<lambda>ys. Inr (y # ys)))"

lemma res_all_Inr [result_simps]: "res_all f xs = Inr u \<longleftrightarrow> (\<forall>x \<in> set xs. f x = Inr ())"
  by (induction xs) (auto simp: result_simps)

lemma res_all_Inl:
  "res_all f xs = Inl e \<Longrightarrow> \<exists>x \<in> set xs. f x = Inl e"
  by (induction xs) (auto simp: result_simps)

lemma res_map_Inr: "res_map f xs = Inr ys \<longleftrightarrow> list_all2 (\<lambda>x y. f x = Inr y) xs ys"
proof (induction xs arbitrary: ys)
  case Nil
  then show ?case by auto
next
  case (Cons x xs)
  show ?case
    by (cases ys) (auto simp: result_simps Cons.IH)
qed

lemma res_map_length: "res_map f xs = Inr ys \<Longrightarrow> length ys = length xs"
  by (auto simp: res_map_Inr list_all2_lengthD)

text \<open>
  Stateful fallible code: a step returns its result and the state it leaves, an early
  return keeps the state reached so far.
\<close>

type_synonym ('s, 'e, 'a) step = "'s \<Rightarrow> ('e + 'a) \<times> 's"

definition st_bind :: "('s, 'e, 'a) step \<Rightarrow> ('a \<Rightarrow> ('s, 'e, 'b) step) \<Rightarrow> ('s, 'e, 'b) step" where
  "st_bind m f s = (case m s of (Inl e, s') \<Rightarrow> (Inl e, s') | (Inr a, s') \<Rightarrow> f a s')"

fun st_all :: "('a \<Rightarrow> ('s, 'e, unit) step) \<Rightarrow> 'a list \<Rightarrow> ('s, 'e, unit) step" where
  "st_all f [] s = (Inr (), s)"
| "st_all f (x # xs) s = st_bind (f x) (\<lambda>_. st_all f xs) s"

lemma st_bind_Inr [result_simps]:
  "st_bind m f s = (Inr b, s'') \<longleftrightarrow> (\<exists>a s'. m s = (Inr a, s') \<and> f a s' = (Inr b, s''))"
  by (auto simp: st_bind_def split: prod.splits sum.splits)

lemma st_bind_Inl [result_simps]:
  "st_bind m f s = (Inl e, s'') \<longleftrightarrow>
     m s = (Inl e, s'') \<or> (\<exists>a s'. m s = (Inr a, s') \<and> f a s' = (Inl e, s''))"
  by (auto simp: st_bind_def split: prod.splits sum.splits)

text \<open>\<^verbatim>\<open>map_err\<close> on a stateful step.\<close>

definition st_map_err :: "('e \<Rightarrow> 'd) \<Rightarrow> ('s, 'e, 'a) step \<Rightarrow> ('s, 'd, 'a) step" where
  "st_map_err g m s = (case m s of (Inl e, s') \<Rightarrow> (Inl (g e), s') | (Inr a, s') \<Rightarrow> (Inr a, s'))"

lemma st_map_err_Inr [result_simps]: "st_map_err g m s = (Inr a, s') \<longleftrightarrow> m s = (Inr a, s')"
  by (auto simp: st_map_err_def split: prod.splits sum.splits)

lemma st_map_err_Inl [result_simps]:
  "st_map_err g m s = (Inl d, s') \<longleftrightarrow> (\<exists>e. m s = (Inl e, s') \<and> d = g e)"
  by (auto simp: st_map_err_def split: prod.splits sum.splits)

text \<open>What every step of a loop keeps, the loop keeps.\<close>

lemma st_all_invariant:
  assumes "\<And>x r t t'. x \<in> set xs \<Longrightarrow> P t \<Longrightarrow> f x t = (r, t') \<Longrightarrow> P t'"
    and "P s" and "st_all f xs s = (r, s')"
  shows "P s'"
  using assms
proof (induction xs arbitrary: s)
  case Nil
  then show ?case by simp
next
  case (Cons x xs)
  obtain r1 t where step: "f x s = (r1, t)" by (cases "f x s") auto
  have t: "P t" using Cons.prems(1)[OF _ Cons.prems(2) step] by simp
  show ?case
  proof (cases r1)
    case (Inl e)
    with step Cons.prems(3) t show ?thesis by (auto simp: st_bind_def)
  next
    case (Inr u)
    with step Cons.prems(3) have rest: "st_all f xs t = (r, s')" by (auto simp: st_bind_def)
    show ?thesis
      by (rule Cons.IH[OF _ t rest]) (rule Cons.prems(1), simp_all)
  qed
qed

lemma st_all_append: "st_all f (xs @ ys) s = st_bind (st_all f xs) (\<lambda>_. st_all f ys) s"
  by (induction xs arbitrary: s) (auto simp: st_bind_def split: prod.splits sum.splits)

lemma st_all_concat: "st_all f (concat xss) s = st_all (\<lambda>xs. st_all f xs) xss s"
  by (induction xss arbitrary: s) (auto simp: st_all_append st_bind_def split: prod.splits sum.splits)

lemma st_all_map: "st_all f (map g xs) s = st_all (\<lambda>x. f (g x)) xs s"
  by (induction xs arbitrary: s) (auto simp: st_bind_def split: prod.splits sum.splits)

section \<open>Unsigned machine integers\<close>

type_synonym u8 = "8 word"
type_synonym u16 = "16 word"
type_synonym u32 = "32 word"
type_synonym u64 = "64 word"

definition sat_add :: "'a::len word \<Rightarrow> 'a word \<Rightarrow> 'a word" where
  "sat_add a b = (if unat a + unat b < 2 ^ LENGTH('a) then a + b else - 1)"

definition checked_add :: "'a::len word \<Rightarrow> 'a word \<Rightarrow> 'a word option" where
  "checked_add a b = (if unat a + unat b < 2 ^ LENGTH('a) then Some (a + b) else None)"

definition sat_mul :: "'a::len word \<Rightarrow> 'a word \<Rightarrow> 'a word" where
  "sat_mul a b = (if unat a * unat b < 2 ^ LENGTH('a) then a * b else - 1)"

lemma unat_max_word [simp]: "unat (- 1 :: 'a::len word) = 2 ^ LENGTH('a) - 1"
  by (simp add: unsigned_minus_1_eq_mask mask_eq_exp_minus_1)

lemma unat_sat_add:
  "unat (sat_add a b) = min (unat a + unat b) (2 ^ LENGTH('a) - 1)" for a b :: "'a::len word"
  by (simp add: sat_add_def unat_word_ariths)

lemma unat_sat_mul:
  "unat (sat_mul a b) = min (unat a * unat b) (2 ^ LENGTH('a) - 1)" for a b :: "'a::len word"
  by (simp add: sat_mul_def unat_word_ariths)

lemma checked_add_Some:
  "checked_add a b = Some c \<longleftrightarrow> unat a + unat b < 2 ^ LENGTH('a) \<and> unat c = unat a + unat b"
  for a b c :: "'a::len word"
  by (auto simp: checked_add_def unat_word_ariths word_unat_eq_iff)

lemma sat_add_commute: "sat_add a b = sat_add b a"
  by (simp add: sat_add_def add.commute)

lemma sat_add_assoc: "sat_add (sat_add a b) c = sat_add a (sat_add b c)"
  by (simp add: word_unat_eq_iff unat_sat_add)

lemma sat_add_0 [simp]: "sat_add 0 a = a" "sat_add a 0 = a"
  by (simp_all add: sat_add_def)

section \<open>Strings\<close>

text \<open>\<^verbatim>\<open>str::split(c)\<close>: the pieces between delimiters, at least one piece.\<close>

fun split_on :: "char \<Rightarrow> string \<Rightarrow> string list" where
  "split_on c [] = [[]]"
| "split_on c (x # xs) =
     (if x = c then [] # split_on c xs
      else (case split_on c xs of [] \<Rightarrow> [[x]] | l # ls \<Rightarrow> (x # l) # ls))"

text \<open>\<^verbatim>\<open>str::split_inclusive(c)\<close>: each piece keeps its delimiter, no empty last piece.\<close>

fun split_inclusive :: "char \<Rightarrow> string \<Rightarrow> string list" where
  "split_inclusive c [] = []"
| "split_inclusive c (x # xs) =
     (if x = c then [x] # split_inclusive c xs
      else (case split_inclusive c xs of [] \<Rightarrow> [[x]] | l # ls \<Rightarrow> (x # l) # ls))"

lemma split_on_nonempty [simp]: "split_on c s \<noteq> []"
  by (induction s) (auto split: list.splits)

lemma concat_split_inclusive [string_simps]: "concat (split_inclusive c s) = s"
  by (induction s) (auto split: list.splits)

lemma split_inclusive_pieces: "l \<in> set (split_inclusive c s) \<Longrightarrow> l \<noteq> []"
  by (induction s arbitrary: l) (auto split: list.splits if_splits)

text \<open>A line that is its own piece: text without the delimiter, then the delimiter.\<close>

lemma split_inclusive_line [string_simps]:
  "c \<notin> set l \<Longrightarrow> split_inclusive c (l @ c # rest) = (l @ [c]) # split_inclusive c rest"
  by (induction l) auto

lemma split_inclusive_lines:
  "\<forall>l \<in> set ls. \<exists>b. c \<notin> set b \<and> l = b @ [c] \<Longrightarrow>
   split_inclusive c (concat ls @ rest) = ls @ split_inclusive c rest"
  by (induction ls) (auto simp: string_simps)

lemma split_inclusive_no_delim:
  "c \<notin> set s \<Longrightarrow> s \<noteq> [] \<Longrightarrow> split_inclusive c s = [s]"
proof (induction s)
  case Nil
  then show ?case by simp
next
  case (Cons x xs)
  then show ?case by (cases "xs = []") auto
qed

text \<open>\<^verbatim>\<open>strip_prefix\<close>, \<^verbatim>\<open>starts_with\<close>, \<^verbatim>\<open>trim_end_matches\<close>, \<^verbatim>\<open>trim\<close>.\<close>

fun strip_prefix :: "string \<Rightarrow> string \<Rightarrow> string option" where
  "strip_prefix [] s = Some s"
| "strip_prefix (p # ps) [] = None"
| "strip_prefix (p # ps) (x # xs) = (if p = x then strip_prefix ps xs else None)"

definition starts_with :: "string \<Rightarrow> string \<Rightarrow> bool" where
  "starts_with p s = (strip_prefix p s \<noteq> None)"

lemma strip_prefix_Some [string_simps]: "strip_prefix p s = Some r \<longleftrightarrow> s = p @ r"
  by (induction p s rule: strip_prefix.induct) auto

lemma strip_prefix_append [simp]: "strip_prefix p (p @ r) = Some r"
  by (simp add: string_simps)

definition trim_end_set :: "char set \<Rightarrow> string \<Rightarrow> string" where
  "trim_end_set cs s = rev (dropWhile (\<lambda>c. c \<in> cs) (rev s))"

definition trim_eol :: "string \<Rightarrow> string" where
  "trim_eol s = rev (dropWhile (\<lambda>c. c = CHR 0x0D \<or> c = CHR 0x0A) (rev s))"

definition is_ws :: "char \<Rightarrow> bool" where
  "is_ws c = (c = CHR '' '' \<or> (9 \<le> (of_char c :: nat) \<and> (of_char c :: nat) \<le> 13))"

definition trim_start :: "string \<Rightarrow> string" where
  "trim_start s = dropWhile is_ws s"

definition trim_end :: "string \<Rightarrow> string" where
  "trim_end s = rev (dropWhile is_ws (rev s))"

definition trim_ws :: "string \<Rightarrow> string" where
  "trim_ws s = trim_end (trim_start s)"

lemma trim_eol_line [string_simps]:
  "b = [] \<or> (last b \<noteq> CHR 0x0D \<and> last b \<noteq> CHR 0x0A) \<Longrightarrow> trim_eol (b @ [CHR 0x0A]) = b"
  by (cases b rule: rev_cases) (auto simp: trim_eol_def)

text \<open>
  \<^verbatim>\<open>split(pred).filter(not empty)\<close>: the maximal runs of characters that fail \<open>p\<close>. With
  white space for \<open>p\<close> it is \<^verbatim>\<open>split_whitespace\<close>.
\<close>

fun tokens_by :: "(char \<Rightarrow> bool) \<Rightarrow> string \<Rightarrow> string \<Rightarrow> string list" where
  "tokens_by p acc [] = (if acc = [] then [] else [rev acc])"
| "tokens_by p acc (x # xs) =
     (if p x then (if acc = [] then tokens_by p [] xs else rev acc # tokens_by p [] xs)
      else tokens_by p (x # acc) xs)"

definition split_whitespace :: "string \<Rightarrow> string list" where
  "split_whitespace s = tokens_by is_ws [] s"

lemma tokens_by_run:
  "\<forall>x \<in> set t. \<not> p x \<Longrightarrow> tokens_by p acc (t @ s) = tokens_by p (rev t @ acc) s"
  by (induction t arbitrary: acc) auto

lemma tokens_by_single:
  assumes "t \<noteq> []" and "\<forall>x \<in> set t. \<not> p x"
  shows "tokens_by p [] t = [t]"
  using tokens_by_run[of t p "[]" "[]"] assms by simp

lemma tokens_by_cons:
  assumes "t \<noteq> []" and "\<forall>x \<in> set t. \<not> p x" and "p d"
  shows "tokens_by p [] (t @ d # s) = t # tokens_by p [] s"
proof -
  have "tokens_by p [] (t @ d # s) = tokens_by p (rev t @ []) (d # s)"
    by (rule tokens_by_run) (rule assms(2))
  also have "\<dots> = t # tokens_by p [] s"
    by (simp only: tokens_by.simps append_Nil2 assms(1,3) if_True rev_rev_ident rev_is_Nil_conv
        if_False simp_thms)
  finally show ?thesis .
qed

text \<open>\<^verbatim>\<open>str::lines()\<close> drops the final newline and a carriage return before it.\<close>

definition strip_newline :: "string \<Rightarrow> string" where
  "strip_newline l =
     (if l \<noteq> [] \<and> last l = CHR 0x0A
      then (let b = butlast l in if b \<noteq> [] \<and> last b = CHR 0x0D then butlast b else b)
      else l)"

definition str_lines :: "string \<Rightarrow> string list" where
  "str_lines s = map strip_newline (split_inclusive CHR 0x0A s)"

text \<open>\<^verbatim>\<open>str::find\<close> and \<^verbatim>\<open>str::contains\<close> for a pattern string.\<close>

fun find_sub :: "string \<Rightarrow> string \<Rightarrow> nat option" where
  "find_sub p [] = (if p = [] then Some 0 else None)"
| "find_sub p (x # xs) =
     (if starts_with p (x # xs) then Some 0 else map_option Suc (find_sub p xs))"

text \<open>\<^verbatim>\<open>ends_with\<close>.\<close>

definition ends_with :: "string \<Rightarrow> string \<Rightarrow> bool" where
  "ends_with p s = starts_with (rev p) (rev s)"

lemma starts_with_append [simp]: "starts_with p (p @ r)"
  by (simp add: starts_with_def)

lemma ends_with_append [simp]: "ends_with p (r @ p)"
  by (simp add: ends_with_def)

lemma find_sub_append: "find_sub p (a @ p @ b) \<noteq> None"
proof (induction a)
  case Nil
  have "starts_with p (p @ b)" by simp
  then show ?case by (cases "p @ b") auto
next
  case (Cons x xs)
  then show ?case by simp
qed

definition contains_sub :: "string \<Rightarrow> string \<Rightarrow> bool" where
  "contains_sub p s = (find_sub p s \<noteq> None)"

text \<open>ASCII case: \<^verbatim>\<open>to_ascii_lowercase\<close>, \<^verbatim>\<open>to_ascii_uppercase\<close>.\<close>

definition lower_char :: "char \<Rightarrow> char" where
  "lower_char c =
     (if 65 \<le> (of_char c :: nat) \<and> (of_char c :: nat) \<le> 90 then char_of ((of_char c :: nat) + 32) else c)"

definition upper_char :: "char \<Rightarrow> char" where
  "upper_char c =
     (if 97 \<le> (of_char c :: nat) \<and> (of_char c :: nat) \<le> 122 then char_of ((of_char c :: nat) - 32) else c)"

definition to_lower :: "string \<Rightarrow> string" where
  "to_lower s = map lower_char s"

definition to_upper :: "string \<Rightarrow> string" where
  "to_upper s = map upper_char s"

text \<open>
  \<^verbatim>\<open>str::parse\<close> into an unsigned integer below a bound: an optional plus sign, at least one
  digit, nothing else, and \<^verbatim>\<open>Err\<close> on overflow.
\<close>

definition digit_val :: "char \<Rightarrow> nat option" where
  "digit_val c =
     (if 48 \<le> (of_char c :: nat) \<and> (of_char c :: nat) \<le> 57 then Some ((of_char c :: nat) - 48) else None)"

fun parse_digits :: "nat \<Rightarrow> nat \<Rightarrow> string \<Rightarrow> nat option" where
  "parse_digits bound acc [] = Some acc"
| "parse_digits bound acc (x # xs) =
     (case digit_val x of None \<Rightarrow> None
      | Some d \<Rightarrow> if 10 * acc + d < bound then parse_digits bound (10 * acc + d) xs else None)"

definition parse_uint :: "nat \<Rightarrow> string \<Rightarrow> nat option" where
  "parse_uint bound s =
     (let ds = (case s of x # xs \<Rightarrow> if x = CHR ''+'' then xs else s | [] \<Rightarrow> s)
      in if ds = [] then None else parse_digits bound 0 ds)"

lemma parse_digits_bound: "parse_digits b acc s = Some n \<Longrightarrow> acc < b \<Longrightarrow> n < b"
  by (induction s arbitrary: acc) (auto split: option.splits if_splits)

lemma parse_uint_bound: "parse_uint b s = Some n \<Longrightarrow> 0 < b \<Longrightarrow> n < b"
  by (auto simp: parse_uint_def Let_def split: if_splits intro: parse_digits_bound)

text \<open>Decimal printing, as \<^verbatim>\<open>format!("{n}")\<close>.\<close>

definition digit_char :: "nat \<Rightarrow> char" where
  "digit_char d = char_of (48 + d)"

fun show_nat :: "nat \<Rightarrow> string" where
  "show_nat n = (if n < 10 then [digit_char n] else show_nat (n div 10) @ [digit_char (n mod 10)])"

declare show_nat.simps [simp del]

lemma digit_val_char: "d < 10 \<Longrightarrow> digit_val (digit_char d) = Some d"
  by (simp add: digit_val_def digit_char_def)

lemma parse_digits_app:
  "parse_digits b acc (s @ t) =
     (case parse_digits b acc s of None \<Rightarrow> None | Some n \<Rightarrow> parse_digits b n t)"
  by (induction s arbitrary: acc) (auto split: option.splits)

lemma parse_digits_show: "n < b \<Longrightarrow> parse_digits b 0 (show_nat n) = Some n"
proof (induction n rule: show_nat.induct)
  case (1 n)
  show ?case
  proof (cases "n < 10")
    case True
    then show ?thesis using 1 by (simp add: show_nat.simps[of n] digit_val_char)
  next
    case False
    then have "n div 10 < b" using 1(2) by linarith
    then have "parse_digits b 0 (show_nat (n div 10)) = Some (n div 10)" using 1(1) False by simp
    then show ?thesis
      using False 1(2) by (simp add: show_nat.simps[of n] parse_digits_app digit_val_char)
  qed
qed

lemma show_nat_nonempty [simp]: "show_nat n \<noteq> []"
  by (simp add: show_nat.simps[of n])

lemma show_nat_digits: "c \<in> set (show_nat n) \<Longrightarrow> \<exists>d < 10. c = digit_char d"
proof (induction n rule: show_nat.induct)
  case (1 n)
  show ?case
  proof (cases "n < 10")
    case True
    then show ?thesis using 1 by (auto simp: show_nat.simps[of n])
  next
    case False
    have "n mod 10 < 10" by simp
    then have "\<exists>d < 10. digit_char (n mod 10) = digit_char d" by blast
    then show ?thesis using 1 False by (auto simp: show_nat.simps[of n])
  qed
qed

lemma digit_char_of: "d < 10 \<Longrightarrow> (of_char (digit_char d) :: nat) = 48 + d"
  by (simp add: digit_char_def)

lemma show_nat_char: "c \<in> set (show_nat n) \<Longrightarrow> 48 \<le> (of_char c :: nat) \<and> (of_char c :: nat) \<le> 57"
  using show_nat_digits[of c n] digit_char_of by fastforce

lemma parse_uint_show: "n < b \<Longrightarrow> parse_uint b (show_nat n) = Some n"
proof -
  assume n: "n < b"
  obtain x xs where s: "show_nat n = x # xs" by (cases "show_nat n") auto
  have "48 \<le> (of_char x :: nat)" using show_nat_char[of x n] s by simp
  then have "x \<noteq> CHR ''+''" by auto
  then show ?thesis using parse_digits_show[OF n] s by (simp add: parse_uint_def)
qed

end
