(* ===== verification/NerveFs.thy ===== *)
theory NerveFs
  imports NervePrelude
begin

text \<open>
  The part of \<^verbatim>\<open>std::fs\<close> and of the Unix file tree that the patch code uses: nodes at
  absolute locations (files, directories, symbolic links with an absolute target), name
  resolution with the kernel's limit of 40 links, and the system calls that change the tree.
  Every changing call first looks at a script of faults, so a full disk or a refused call can
  strike anywhere; a faulty \<^verbatim>\<open>fs::write\<close> may leave a partial file.
\<close>

type_synonym name = string
type_synonym loc = "name list"

datatype node = File string | Dir | Link loc

datatype io_kind =
  NotFound | NotADirectory | IsADirectory | AlreadyExists | FilesystemLoop | InvalidData | OtherIo

datatype fault = Fine | Refused | Partial nat

record fs =
  nodes :: "loc \<rightharpoonup> node"
  faults :: "fault list"
  uuid_seq :: "nat \<Rightarrow> string"
  uuid_pos :: nat

definition max_links :: nat where
  "max_links = 40"

section \<open>Name resolution\<close>

definition node_at :: "(loc \<rightharpoonup> node) \<Rightarrow> loc \<Rightarrow> node option" where
  "node_at m l = (if l = [] then Some Dir else m l)"

fun walk :: "(loc \<rightharpoonup> node) \<Rightarrow> nat \<Rightarrow> loc \<Rightarrow> name list \<Rightarrow> io_kind + loc" where
  "walk m n d [] = Inr d"
| "walk m n d (c # cs) =
     (case m (d @ [c]) of
        None \<Rightarrow> Inl NotFound
      | Some (File _) \<Rightarrow> if cs = [] then Inr (d @ [c]) else Inl NotADirectory
      | Some Dir \<Rightarrow> walk m n (d @ [c]) cs
      | Some (Link t) \<Rightarrow> (case n of 0 \<Rightarrow> Inl FilesystemLoop | Suc k \<Rightarrow> walk m k [] (t @ cs)))"

text \<open>The location that \<^verbatim>\<open>open\<close> with \<^verbatim>\<open>O_CREAT\<close> creates or truncates.\<close>

fun walk_new :: "(loc \<rightharpoonup> node) \<Rightarrow> nat \<Rightarrow> loc \<Rightarrow> name list \<Rightarrow> io_kind + loc" where
  "walk_new m n d [] = Inr d"
| "walk_new m n d (c # cs) =
     (case m (d @ [c]) of
        None \<Rightarrow> if cs = [] then Inr (d @ [c]) else Inl NotFound
      | Some (File _) \<Rightarrow> if cs = [] then Inr (d @ [c]) else Inl NotADirectory
      | Some Dir \<Rightarrow> walk_new m n (d @ [c]) cs
      | Some (Link t) \<Rightarrow> (case n of 0 \<Rightarrow> Inl FilesystemLoop | Suc k \<Rightarrow> walk_new m k [] (t @ cs)))"

definition canonicalize :: "(loc \<rightharpoonup> node) \<Rightarrow> loc \<Rightarrow> io_kind + loc" where
  "canonicalize m l = walk m max_links [] l"

definition path_exists :: "(loc \<rightharpoonup> node) \<Rightarrow> loc \<Rightarrow> bool" where
  "path_exists m l = (case canonicalize m l of Inl _ \<Rightarrow> False | Inr _ \<Rightarrow> True)"

definition path_is_dir :: "(loc \<rightharpoonup> node) \<Rightarrow> loc \<Rightarrow> bool" where
  "path_is_dir m l = (case canonicalize m l of Inl _ \<Rightarrow> False | Inr d \<Rightarrow> node_at m d = Some Dir)"

definition read_file :: "(loc \<rightharpoonup> node) \<Rightarrow> loc \<Rightarrow> io_kind + string" where
  "read_file m l =
     res_bind (canonicalize m l) (\<lambda>d.
       case node_at m d of
         Some (File b) \<Rightarrow> Inr b
       | Some Dir \<Rightarrow> Inl IsADirectory
       | _ \<Rightarrow> Inl NotFound)"

text \<open>
  The directory entry a call without final link resolution works on: the parent is resolved,
  the last name is not.
\<close>

definition entry :: "(loc \<rightharpoonup> node) \<Rightarrow> loc \<Rightarrow> io_kind + loc" where
  "entry m l =
     (if l = [] then Inl IsADirectory
      else res_bind (canonicalize m (butlast l)) (\<lambda>d.
        if node_at m d = Some Dir then Inr (d @ [last l]) else Inl NotADirectory))"

section \<open>Calls that change the tree\<close>

definition mkdir_nodes :: "loc \<Rightarrow> (loc \<rightharpoonup> node) \<Rightarrow> io_kind + (loc \<rightharpoonup> node)" where
  "mkdir_nodes l m =
     (if l = [] then Inl AlreadyExists
      else res_bind (entry m l) (\<lambda>e. if m e \<noteq> None then Inl AlreadyExists else Inr (m(e \<mapsto> Dir))))"

definition write_nodes :: "loc \<Rightarrow> string \<Rightarrow> (loc \<rightharpoonup> node) \<Rightarrow> io_kind + (loc \<rightharpoonup> node)" where
  "write_nodes l b m =
     res_bind (walk_new m max_links [] l) (\<lambda>e.
       if node_at m e = Some Dir then Inl IsADirectory else Inr (m(e \<mapsto> File b)))"

text \<open>Renaming a file or a link; the code never renames a directory.\<close>

definition rename_nodes :: "loc \<Rightarrow> loc \<Rightarrow> (loc \<rightharpoonup> node) \<Rightarrow> io_kind + (loc \<rightharpoonup> node)" where
  "rename_nodes src dst m =
     res_bind (entry m src) (\<lambda>es. res_bind (entry m dst) (\<lambda>ed.
       case m es of
         None \<Rightarrow> Inl NotFound
       | Some Dir \<Rightarrow> Inl OtherIo
       | Some n \<Rightarrow> if m ed = Some Dir then Inl IsADirectory else Inr ((m(es := None))(ed \<mapsto> n))))"

definition unlink_nodes :: "loc \<Rightarrow> (loc \<rightharpoonup> node) \<Rightarrow> io_kind + (loc \<rightharpoonup> node)" where
  "unlink_nodes l m =
     res_bind (entry m l) (\<lambda>e.
       case m e of
         None \<Rightarrow> Inl NotFound
       | Some Dir \<Rightarrow> Inl IsADirectory
       | Some _ \<Rightarrow> Inr (m(e := None)))"

definition sys :: "((loc \<rightharpoonup> node) \<Rightarrow> io_kind + (loc \<rightharpoonup> node)) \<Rightarrow> (fs, io_kind, unit) step" where
  "sys f s =
     (let s' = s\<lparr>faults := tl (faults s)\<rparr> in
      if faults s \<noteq> [] \<and> hd (faults s) \<noteq> Fine then (Inl OtherIo, s')
      else (case f (nodes s) of Inl k \<Rightarrow> (Inl k, s') | Inr m \<Rightarrow> (Inr (), s'\<lparr>nodes := m\<rparr>)))"

definition fs_mkdir :: "loc \<Rightarrow> (fs, io_kind, unit) step" where
  "fs_mkdir l = sys (mkdir_nodes l)"

definition fs_rename :: "loc \<Rightarrow> loc \<Rightarrow> (fs, io_kind, unit) step" where
  "fs_rename src dst = sys (rename_nodes src dst)"

definition fs_unlink :: "loc \<Rightarrow> (fs, io_kind, unit) step" where
  "fs_unlink l = sys (unlink_nodes l)"

definition fs_write :: "loc \<Rightarrow> string \<Rightarrow> (fs, io_kind, unit) step" where
  "fs_write l b s =
     (case faults s of
        Partial k # fs' \<Rightarrow>
          (Inl OtherIo,
           s\<lparr>faults := fs', nodes := (case write_nodes l (take k b) (nodes s) of
                                        Inl _ \<Rightarrow> nodes s | Inr m \<Rightarrow> m)\<rparr>)
      | _ \<Rightarrow> sys (write_nodes l b) s)"

text \<open>\<^verbatim>\<open>fs::create_dir_all\<close>, on the reversed location so that its parent is the tail.\<close>

fun create_dirs_rev :: "name list \<Rightarrow> (fs, io_kind, unit) step" where
  "create_dirs_rev [] s = (Inr (), s)"
| "create_dirs_rev (c # r) s =
     (case fs_mkdir (rev (c # r)) s of
        (Inr u, s1) \<Rightarrow> (Inr u, s1)
      | (Inl k, s1) \<Rightarrow>
          if k = NotFound
          then (case create_dirs_rev r s1 of
                  (Inl k', s2) \<Rightarrow> (Inl k', s2)
                | (Inr _, s2) \<Rightarrow>
                    (case fs_mkdir (rev (c # r)) s2 of
                       (Inr u, s3) \<Rightarrow> (Inr u, s3)
                     | (Inl k', s3) \<Rightarrow>
                         if path_is_dir (nodes s3) (rev (c # r)) then (Inr (), s3) else (Inl k', s3)))
          else if path_is_dir (nodes s1) (rev (c # r)) then (Inr (), s1) else (Inl k, s1))"

definition create_dir_all :: "loc \<Rightarrow> (fs, io_kind, unit) step" where
  "create_dir_all l = create_dirs_rev (rev l)"

section \<open>Trees without links\<close>

definition link_free :: "(loc \<rightharpoonup> node) \<Rightarrow> bool" where
  "link_free m = (\<forall>l t. m l \<noteq> Some (Link t))"

definition tree_ok :: "(loc \<rightharpoonup> node) \<Rightarrow> bool" where
  "tree_ok m = (m [] = None \<and> (\<forall>l c. m (l @ [c]) \<noteq> None \<longrightarrow> node_at m l = Some Dir))"

definition plain_tree :: "fs \<Rightarrow> bool" where
  "plain_tree s = (link_free (nodes s) \<and> tree_ok (nodes s))"

definition content :: "fs \<Rightarrow> loc \<Rightarrow> string option" where
  "content s l = (case nodes s l of Some (File b) \<Rightarrow> Some b | _ \<Rightarrow> None)"

lemma walk_plain: "link_free m \<Longrightarrow> walk m n d cs = Inr r \<Longrightarrow> r = d @ cs"
  by (induction m n d cs rule: walk.induct) (auto simp: link_free_def split: option.splits node.splits if_splits)

lemma walk_new_plain: "link_free m \<Longrightarrow> walk_new m n d cs = Inr r \<Longrightarrow> r = d @ cs"
  by (induction m n d cs rule: walk_new.induct) (auto simp: link_free_def split: option.splits node.splits if_splits)

lemma tree_ok_parent: "tree_ok m \<Longrightarrow> m (l @ [c]) \<noteq> None \<Longrightarrow> node_at m l = Some Dir"
  unfolding tree_ok_def by blast

lemma tree_ok_prefix:
  "tree_ok m \<Longrightarrow> m (d @ c # cs) \<noteq> None \<Longrightarrow> cs \<noteq> [] \<Longrightarrow> m (d @ [c]) = Some Dir"
proof (induction cs rule: rev_induct)
  case Nil
  then show ?case by simp
next
  case (snoc x xs)
  have "m ((d @ c # xs) @ [x]) \<noteq> None" using snoc.prems(2) by simp
  then have "node_at m (d @ c # xs) = Some Dir" by (rule tree_ok_parent[OF snoc.prems(1)])
  then have parent: "m (d @ c # xs) = Some Dir" by (simp add: node_at_def)
  show ?case
  proof (cases "xs = []")
    case True
    with parent show ?thesis by simp
  next
    case False
    with parent snoc.IH[OF snoc.prems(1)] show ?thesis by simp
  qed
qed

lemma walk_exists:
  "link_free m \<Longrightarrow> tree_ok m \<Longrightarrow> cs = [] \<or> m (d @ cs) \<noteq> None \<Longrightarrow> walk m n d cs = Inr (d @ cs)"
proof (induction cs arbitrary: d)
  case Nil
  then show ?case by simp
next
  case (Cons c cs)
  show ?case
  proof (cases "cs = []")
    case True
    with Cons.prems show ?thesis
      by (auto simp: link_free_def split: option.splits node.splits)
  next
    case False
    with Cons.prems have "m (d @ [c]) = Some Dir" using tree_ok_prefix[of m d c cs] by simp
    with Cons.IH[of "d @ [c]"] Cons.prems False show ?thesis by simp
  qed
qed

lemma walk_missing:
  "link_free m \<Longrightarrow> walk m n d cs = Inr r \<Longrightarrow> cs = [] \<or> m (d @ cs) \<noteq> None"
proof (induction cs arbitrary: d)
  case Nil
  then show ?case by simp
next
  case (Cons c cs)
  show ?case
  proof (cases "cs = []")
    case True
    with Cons.prems(2) show ?thesis by (auto split: option.splits)
  next
    case False
    have "m (d @ [c]) = Some Dir" and "walk m n (d @ [c]) cs = Inr r"
      using Cons.prems False by (auto simp: link_free_def split: option.splits node.splits)
    with Cons.IH[of "d @ [c]"] Cons.prems(1) False show ?thesis by simp
  qed
qed

lemma canonicalize_plain:
  assumes "link_free m" and "tree_ok m"
  shows "canonicalize m l = Inr r \<longleftrightarrow> r = l \<and> node_at m l \<noteq> None"
proof
  assume "canonicalize m l = Inr r"
  then have w: "walk m max_links [] l = Inr r" by (simp add: canonicalize_def)
  show "r = l \<and> node_at m l \<noteq> None"
    using walk_plain[OF assms(1) w] walk_missing[OF assms(1) w] by (auto simp: node_at_def)
next
  assume "r = l \<and> node_at m l \<noteq> None"
  then show "canonicalize m l = Inr r"
    using walk_exists[OF assms, of l "[]" max_links] by (auto simp: canonicalize_def node_at_def split: if_splits)
qed

lemma path_exists_plain:
  assumes "link_free m" and "tree_ok m"
  shows "path_exists m l \<longleftrightarrow> node_at m l \<noteq> None"
proof (cases "canonicalize m l")
  case (Inl k)
  then have "node_at m l = None" using canonicalize_plain[OF assms, of l l] by auto
  with Inl show ?thesis by (simp add: path_exists_def)
next
  case (Inr r)
  then have "node_at m l \<noteq> None" using canonicalize_plain[OF assms, of l r] by auto
  with Inr show ?thesis by (simp add: path_exists_def)
qed

lemma entry_plain:
  assumes "link_free m" and "tree_ok m"
  shows "entry m l = Inr e \<longleftrightarrow> l \<noteq> [] \<and> e = l \<and> node_at m (butlast l) = Some Dir"
  by (auto simp: entry_def result_simps canonicalize_plain[OF assms])

text \<open>A read of a tree without links sees exactly the content at the location.\<close>

lemma read_file_plain:
  assumes "plain_tree s"
  shows "read_file (nodes s) l = Inr b \<longleftrightarrow> content s l = Some b"
proof -
  have "nodes s [] = None" and lf: "link_free (nodes s)" and ok: "tree_ok (nodes s)"
    using assms by (auto simp: plain_tree_def tree_ok_def)
  then show ?thesis
    by (auto simp: read_file_def result_simps canonicalize_plain[OF lf ok] content_def node_at_def
        split: option.splits node.splits if_splits)
qed

lemma read_file_missing:
  assumes "plain_tree s" and "read_file (nodes s) l = Inl NotFound"
  shows "content s l = None"
proof (rule ccontr)
  assume "content s l \<noteq> None"
  then obtain b where "content s l = Some b" by auto
  then have "read_file (nodes s) l = Inr b" by (simp add: read_file_plain[OF assms(1)])
  with assms(2) show False by simp
qed

section \<open>What the changing calls do to a tree without links\<close>

lemma tree_ok_insert:
  assumes "tree_ok m" and "l \<noteq> []" and "node_at m (butlast l) = Some Dir" and "m l \<noteq> Some Dir"
  shows "tree_ok (m(l \<mapsto> n))"
  unfolding tree_ok_def
proof (intro conjI allI impI)
  show "(m(l \<mapsto> n)) [] = None" using assms(1,2) by (simp add: tree_ok_def)
next
  fix l' c assume here: "(m(l \<mapsto> n)) (l' @ [c]) \<noteq> None"
  show "node_at (m(l \<mapsto> n)) l' = Some Dir"
  proof (cases "l' @ [c] = l")
    case True
    then have "butlast l = l'" and "l' \<noteq> l" by auto
    with assms(3) show ?thesis by (auto simp: node_at_def split: if_splits)
  next
    case False
    with here have "m (l' @ [c]) \<noteq> None" by simp
    then have dir: "node_at m l' = Some Dir" by (rule tree_ok_parent[OF assms(1)])
    then have "l' \<noteq> l" using assms(2,4) by (auto simp: node_at_def)
    with dir show ?thesis by (auto simp: node_at_def split: if_splits)
  qed
qed

lemma tree_ok_delete:
  assumes "tree_ok m" and "m l \<noteq> Some Dir"
  shows "tree_ok (m(l := None))"
  unfolding tree_ok_def
proof (intro conjI allI impI)
  show "(m(l := None)) [] = None" using assms(1) by (simp add: tree_ok_def)
next
  fix l' c assume here: "(m(l := None)) (l' @ [c]) \<noteq> None"
  then have "m (l' @ [c]) \<noteq> None" by (auto split: if_splits)
  then have dir: "node_at m l' = Some Dir" by (rule tree_ok_parent[OF assms(1)])
  with assms show "node_at (m(l := None)) l' = Some Dir"
    by (auto simp: node_at_def split: if_splits)
qed

lemma link_free_insert: "link_free m \<Longrightarrow> \<forall>t. n \<noteq> Link t \<Longrightarrow> link_free (m(l \<mapsto> n))"
  by (simp add: link_free_def)

lemma link_free_delete: "link_free m \<Longrightarrow> link_free (m(l := None))"
  by (simp add: link_free_def)

lemma walk_new_parent:
  "link_free m \<Longrightarrow> node_at m d = Some Dir \<Longrightarrow> walk_new m n d cs = Inr r \<Longrightarrow>
   cs = [] \<or> node_at m (butlast (d @ cs)) = Some Dir"
proof (induction cs arbitrary: d)
  case Nil
  then show ?case by simp
next
  case (Cons c cs)
  show ?case
  proof (cases "cs = []")
    case True
    with Cons.prems show ?thesis by simp
  next
    case False
    have d: "m (d @ [c]) = Some Dir" and w: "walk_new m n (d @ [c]) cs = Inr r"
      using Cons.prems False by (auto simp: link_free_def split: option.splits node.splits)
    have "node_at m (d @ [c]) = Some Dir" using d by (simp add: node_at_def)
    from Cons.IH[OF Cons.prems(1) this w] False show ?thesis by (simp add: butlast_append)
  qed
qed

lemma mkdir_nodes_plain:
  assumes "link_free m" and "tree_ok m" and "mkdir_nodes l m = Inr m'"
  shows "l \<noteq> [] \<and> node_at m (butlast l) = Some Dir \<and> m l = None \<and> m' = m(l \<mapsto> Dir)"
  using assms(3) by (auto simp: mkdir_nodes_def result_simps entry_plain[OF assms(1,2)] split: if_splits)

lemma write_nodes_plain:
  assumes "link_free m" and "tree_ok m" and "write_nodes l b m = Inr m'"
  shows "l \<noteq> [] \<and> node_at m (butlast l) = Some Dir \<and> m l \<noteq> Some Dir \<and> m' = m(l \<mapsto> File b)"
proof -
  obtain e where w: "walk_new m max_links [] l = Inr e" and nd: "node_at m e \<noteq> Some Dir"
    and m': "m' = m(e \<mapsto> File b)"
    using assms(3) by (auto simp: write_nodes_def result_simps split: if_splits)
  have e: "e = l" using walk_new_plain[OF assms(1) w] by simp
  have "l \<noteq> []" using nd e by (auto simp: node_at_def)
  moreover have "node_at m [] = Some Dir" by (simp add: node_at_def)
  ultimately show ?thesis
    using walk_new_parent[OF assms(1) _ w] nd m' e by (auto simp: node_at_def)
qed

lemma unlink_nodes_plain:
  assumes "link_free m" and "tree_ok m" and "unlink_nodes l m = Inr m'"
  shows "\<exists>b. m l = Some (File b) \<and> m' = m(l := None)"
  using assms(1,3)
  by (auto simp: unlink_nodes_def result_simps entry_plain[OF assms(1,2)] link_free_def
      split: option.splits node.splits)

lemma rename_nodes_plain:
  assumes "link_free m" and "tree_ok m" and "rename_nodes src dst m = Inr m'"
  shows "dst \<noteq> [] \<and> node_at m (butlast dst) = Some Dir \<and> m dst \<noteq> Some Dir \<and>
         (\<exists>b. m src = Some (File b) \<and> m' = (m(src := None))(dst \<mapsto> File b))"
  using assms(1,3)
  by (auto simp: rename_nodes_def result_simps entry_plain[OF assms(1,2)] link_free_def
      split: option.splits node.splits if_splits)

lemma sys_result:
  assumes "sys f s = (r, s')"
  shows "(\<exists>k. r = Inl k) \<and> nodes s' = nodes s \<or> r = Inr () \<and> f (nodes s) = Inr (nodes s')"
  using assms by (auto simp: sys_def Let_def split: if_splits sum.splits)

text \<open>Making directories keeps the tree and all file contents.\<close>

lemma fs_mkdir_plain:
  assumes "plain_tree s" and "fs_mkdir l s = (r, s')"
  shows "plain_tree s' \<and> content s' = content s"
proof -
  have lf: "link_free (nodes s)" and ok: "tree_ok (nodes s)" using assms(1) by (auto simp: plain_tree_def)
  consider "nodes s' = nodes s" | "mkdir_nodes l (nodes s) = Inr (nodes s')"
    using sys_result[of "mkdir_nodes l" s r s'] assms(2) by (auto simp: fs_mkdir_def)
  then show ?thesis
  proof cases
    case 1
    with assms(1) show ?thesis by (auto simp: plain_tree_def content_def)
  next
    case 2
    note m = mkdir_nodes_plain[OF lf ok 2]
    have "tree_ok (nodes s')" using tree_ok_insert[OF ok, of l Dir] m by simp
    moreover have "link_free (nodes s')" using link_free_insert[OF lf, of Dir l] m by simp
    moreover have "content s' = content s" using m by (auto simp: content_def)
    ultimately show ?thesis by (simp add: plain_tree_def)
  qed
qed

lemma create_dirs_plain:
  "create_dirs_rev l s = (r, s') \<Longrightarrow> plain_tree s \<Longrightarrow> plain_tree s' \<and> content s' = content s"
proof (induction l s arbitrary: r s' rule: create_dirs_rev.induct)
  case (1 s)
  then show ?case by simp
next
  case (2 c rest s)
  obtain r1 s1 where mk: "fs_mkdir (rev (c # rest)) s = (r1, s1)" by (cases "fs_mkdir (rev (c # rest)) s") auto
  note p1 = fs_mkdir_plain[OF 2(3) mk]
  show ?case
  proof (cases "r1 = Inl NotFound")
    case False
    with 2(2) mk p1 show ?thesis by (cases r1) (auto split: if_splits)
  next
    case True
    obtain r2 s2 where rec: "create_dirs_rev rest s1 = (r2, s2)" by (cases "create_dirs_rev rest s1") auto
    have p2: "plain_tree s2 \<and> content s2 = content s1"
      using 2(1)[OF mk[symmetric] True refl rec] p1 by simp
    show ?thesis
    proof (cases r2)
      case (Inl k)
      with 2(2) mk True rec p1 p2 show ?thesis by simp
    next
      case (Inr u)
      obtain r3 s3 where mk3: "fs_mkdir (rev (c # rest)) s2 = (r3, s3)" by (cases "fs_mkdir (rev (c # rest)) s2") auto
      have "plain_tree s3 \<and> content s3 = content s2" using fs_mkdir_plain[OF _ mk3] p2 by simp
      with 2(2) mk True rec Inr mk3 p1 p2 show ?thesis by (cases r3) (auto split: if_splits)
    qed
  qed
qed

lemma create_dir_all_plain:
  "create_dir_all l s = (r, s') \<Longrightarrow> plain_tree s \<Longrightarrow> plain_tree s' \<and> content s' = content s"
  unfolding create_dir_all_def by (rule create_dirs_plain)

text \<open>Writing, renaming and unlinking change the content of the named locations only.\<close>

lemma plain_tree_write:
  assumes "plain_tree s" and "write_nodes l b (nodes s) = Inr m" and "nodes s' = m"
  shows "plain_tree s' \<and> content s' = (content s)(l \<mapsto> b)"
proof -
  have lf: "link_free (nodes s)" and ok: "tree_ok (nodes s)" using assms(1) by (auto simp: plain_tree_def)
  note w = write_nodes_plain[OF lf ok assms(2)]
  have "tree_ok m" using tree_ok_insert[OF ok, of l "File b"] w by simp
  moreover have "link_free m" using link_free_insert[OF lf, of "File b" l] w by simp
  ultimately show ?thesis using assms(3) w by (auto simp: plain_tree_def content_def)
qed

lemma fs_write_plain:
  assumes "plain_tree s" and "fs_write l b s = (r, s')"
  shows "plain_tree s' \<and> (\<forall>q. q \<noteq> l \<longrightarrow> content s' q = content s q) \<and>
         (r = Inr () \<longrightarrow> content s' l = Some b)"
proof (cases "\<exists>k fs'. faults s = Partial k # fs'")
  case True
  then obtain k fs' where f: "faults s = Partial k # fs'" by auto
  have r: "r = Inl OtherIo" and s': "s' = s\<lparr>faults := fs', nodes := (case write_nodes l (take k b) (nodes s) of
        Inl _ \<Rightarrow> nodes s | Inr m \<Rightarrow> m)\<rparr>"
    using assms(2) f by (auto simp: fs_write_def)
  show ?thesis
  proof (cases "write_nodes l (take k b) (nodes s)")
    case (Inl e)
    then show ?thesis using assms(1) r s' by (simp add: plain_tree_def content_def)
  next
    case (Inr m)
    have "nodes s' = m" using s' Inr by simp
    from plain_tree_write[OF assms(1) Inr this] r show ?thesis by simp
  qed
next
  case False
  then have "sys (write_nodes l b) s = (r, s')"
    using assms(2) by (auto simp: fs_write_def split: list.splits fault.splits)
  from sys_result[OF this] show ?thesis
  proof (elim disjE conjE)
    assume "\<exists>k. r = Inl k" and "nodes s' = nodes s"
    then show ?thesis using assms(1) by (auto simp: plain_tree_def content_def)
  next
    assume "r = Inr ()" and w: "write_nodes l b (nodes s) = Inr (nodes s')"
    then show ?thesis using plain_tree_write[OF assms(1) w refl] by simp
  qed
qed

lemma fs_rename_plain:
  assumes "plain_tree s" and "fs_rename src dst s = (r, s')"
  shows "plain_tree s' \<and> (\<forall>q. q \<noteq> src \<longrightarrow> q \<noteq> dst \<longrightarrow> content s' q = content s q) \<and>
         (r = Inr () \<longrightarrow> content s' dst = content s src \<and> content s src \<noteq> None) \<and>
         (\<forall>k. r = Inl k \<longrightarrow> content s' = content s)"
proof -
  have lf: "link_free (nodes s)" and ok: "tree_ok (nodes s)" using assms(1) by (auto simp: plain_tree_def)
  have "sys (rename_nodes src dst) s = (r, s')" using assms(2) by (simp add: fs_rename_def)
  from sys_result[OF this] show ?thesis
  proof (elim disjE conjE)
    assume "\<exists>k. r = Inl k" and "nodes s' = nodes s"
    then show ?thesis using assms(1) by (auto simp: plain_tree_def content_def)
  next
    assume r: "r = Inr ()" and m: "rename_nodes src dst (nodes s) = Inr (nodes s')"
    obtain b where src: "nodes s src = Some (File b)"
      and s': "nodes s' = ((nodes s)(src := None))(dst \<mapsto> File b)"
      and dst: "dst \<noteq> []" "node_at (nodes s) (butlast dst) = Some Dir" "nodes s dst \<noteq> Some Dir"
      using rename_nodes_plain[OF lf ok m] by auto
    let ?m = "(nodes s)(src := None)"
    have okd: "tree_ok ?m" using tree_ok_delete[OF ok, of src] src by simp
    have "node_at ?m (butlast dst) = Some Dir" using dst(2) src
      by (auto simp: node_at_def split: if_splits)
    then have "tree_ok (nodes s')" using tree_ok_insert[OF okd dst(1), of "File b"] dst(3) s' by simp
    moreover have "link_free (nodes s')"
      using link_free_insert[OF link_free_delete[OF lf, of src], of "File b" dst] s' by simp
    ultimately show ?thesis using r src s' by (auto simp: plain_tree_def content_def)
  qed
qed

lemma fs_unlink_plain:
  assumes "plain_tree s" and "fs_unlink l s = (r, s')"
  shows "plain_tree s' \<and> (\<forall>q. q \<noteq> l \<longrightarrow> content s' q = content s q) \<and>
         (r = Inr () \<longrightarrow> content s' l = None) \<and> (\<forall>k. r = Inl k \<longrightarrow> nodes s' = nodes s)"
proof -
  have lf: "link_free (nodes s)" and ok: "tree_ok (nodes s)" using assms(1) by (auto simp: plain_tree_def)
  have "sys (unlink_nodes l) s = (r, s')" using assms(2) by (simp add: fs_unlink_def)
  from sys_result[OF this] show ?thesis
  proof (elim disjE conjE)
    assume "\<exists>k. r = Inl k" and "nodes s' = nodes s"
    then show ?thesis using assms(1) by (auto simp: plain_tree_def content_def)
  next
    assume r: "r = Inr ()" and m: "unlink_nodes l (nodes s) = Inr (nodes s')"
    obtain b where "nodes s l = Some (File b)" and s': "nodes s' = (nodes s)(l := None)"
      using unlink_nodes_plain[OF lf ok m] by auto
    then have "tree_ok (nodes s')" using tree_ok_delete[OF ok, of l] by simp
    moreover have "link_free (nodes s')" using link_free_delete[OF lf] s' by simp
    ultimately show ?thesis using r s' by (auto simp: plain_tree_def content_def)
  qed
qed

text \<open>Unlinking that fails with "not found" or "not a directory" met no file.\<close>

lemma fs_unlink_absent:
  assumes "plain_tree s" and "fs_unlink l s = (Inl k, s')" and "k = NotFound \<or> k = NotADirectory"
  shows "content s l = None"
proof (rule ccontr)
  have lf: "link_free (nodes s)" and ok: "tree_ok (nodes s)" using assms(1) by (auto simp: plain_tree_def)
  assume "content s l \<noteq> None"
  then obtain b where b: "nodes s l = Some (File b)" by (auto simp: content_def split: option.splits node.splits)
  then have "l \<noteq> []" using ok by (auto simp: tree_ok_def)
  then obtain l' c where l: "l = l' @ [c]" by (cases l rule: rev_cases) auto
  then have "node_at (nodes s) (butlast l) = Some Dir" using tree_ok_parent[OF ok, of l' c] b by simp
  then have "entry (nodes s) l = Inr l" using entry_plain[OF lf ok] \<open>l \<noteq> []\<close> by simp
  then have "unlink_nodes l (nodes s) = Inr ((nodes s)(l := None))" using b by (simp add: unlink_nodes_def)
  then show False using assms(2,3) by (auto simp: fs_unlink_def sys_def Let_def split: if_splits)
qed

end
