(* ===== verification/PatchModel.thy ===== *)
theory PatchModel
  imports NerveFs "HOL-Library.List_Lexorder" "HOL-Library.Char_ord"
begin

text \<open>
  The data and operations of \<^verbatim>\<open>crates/nerve-patch/src/lib.rs\<close> except the unified-diff
  reader: paths and their safety check, file patches, validation, apply, rollback, snapshots
  and the canonical hash. The SHA-256 digest of the \<^verbatim>\<open>sha2\<close> crate and the line diff of the
  \<^verbatim>\<open>similar\<close> crate are parameters.
\<close>

section \<open>Paths\<close>

text \<open>\<^verbatim>\<open>std::path::Component\<close> on Unix, where no path has a prefix component.\<close>

datatype path_component = RootDir | CurDir | ParentDir | Normal name

fun component_rank :: "path_component \<Rightarrow> nat" where
  "component_rank RootDir = 0"
| "component_rank CurDir = 1"
| "component_rank ParentDir = 2"
| "component_rank (Normal _) = 3"

fun component_name :: "path_component \<Rightarrow> name" where
  "component_name (Normal n) = n"
| "component_name _ = []"

text \<open>The derived order of components, by which \<^verbatim>\<open>Path::cmp\<close> compares paths.\<close>

instantiation path_component :: linorder
begin

definition less_eq_path_component :: "path_component \<Rightarrow> path_component \<Rightarrow> bool" where
  "a \<le> b \<longleftrightarrow> component_rank a < component_rank b \<or>
     component_rank a = component_rank b \<and> component_name a \<le> component_name b"

definition less_path_component :: "path_component \<Rightarrow> path_component \<Rightarrow> bool" where
  "a < b \<longleftrightarrow> a \<le> (b :: path_component) \<and> \<not> b \<le> a"

instance
proof
  fix a b c :: path_component
  show "a < b \<longleftrightarrow> a \<le> b \<and> \<not> b \<le> a" by (simp add: less_path_component_def)
  show "a \<le> a" by (simp add: less_eq_path_component_def)
  show "a \<le> b \<Longrightarrow> b \<le> c \<Longrightarrow> a \<le> c" by (auto simp: less_eq_path_component_def)
  show "a \<le> b \<Longrightarrow> b \<le> a \<Longrightarrow> a = b"
    by (cases a; cases b) (auto simp: less_eq_path_component_def)
  show "a \<le> b \<or> b \<le> a" by (auto simp: less_eq_path_component_def)
qed

end

text \<open>\<^verbatim>\<open>Path::components\<close>: empty parts and dots vanish, except a leading dot.\<close>

definition component_of :: "string \<Rightarrow> path_component" where
  "component_of p = (if p = ''..'' then ParentDir else Normal p)"

definition path_components :: "string \<Rightarrow> path_component list" where
  "path_components p =
     (let parts = split_on CHR ''/'' p;
          body = map component_of (filter (\<lambda>c. c \<noteq> [] \<and> c \<noteq> ''.'') parts)
      in if starts_with ''/'' p then RootDir # body
         else if hd parts = ''.'' then CurDir # body
         else body)"

fun normal_names :: "path_component list \<Rightarrow> name list" where
  "normal_names [] = []"
| "normal_names (Normal n # cs) = n # normal_names cs"
| "normal_names (_ # cs) = normal_names cs"

definition path_eq :: "string \<Rightarrow> string \<Rightarrow> bool" where
  "path_eq p q = (path_components p = path_components q)"

text \<open>\<^verbatim>\<open>cwd.join(relative)\<close> for a path without parent components.\<close>

definition join_loc :: "loc \<Rightarrow> string \<Rightarrow> loc" where
  "join_loc cwd p =
     (let cs = path_components p; ns = normal_names cs
      in if RootDir \<in> set cs then ns else cwd @ ns)"

definition show_loc :: "loc \<Rightarrow> string" where
  "show_loc l = (if l = [] then ''/'' else concat (map (\<lambda>c. CHR ''/'' # c) l))"

section \<open>Data\<close>

datatype patch_error =
  HashMismatch string string string
| PatchIo string io_kind
| InvalidUnifiedDiff string
| UnsafePath string string
| ForbiddenPath string string
| Unsupported string
| InvalidOperationState string string
| RollbackFailed patch_error patch_error

datatype file_operation = Modify | Create | Delete | Rename string

record file_patch =
  fp_path :: string
  fp_operation :: file_operation
  fp_original :: string
  fp_modified :: string
  fp_original_sha256 :: string
  fp_modified_sha256 :: string

record nv_patch =
  np_id :: string
  np_base_commit :: "string option"
  np_files :: "file_patch list"

record apply_report =
  ar_patch_id :: string
  ar_changed_files :: "string list"
  ar_dry_run :: bool

datatype file_state = Present string | Missing

record file_snapshot =
  snap_path :: string
  snap_state :: file_state

definition nv_new :: "string \<Rightarrow> file_patch list \<Rightarrow> nv_patch" where
  "nv_new uuid files = \<lparr>np_id = uuid, np_base_commit = None, np_files = files\<rparr>"

text \<open>Lower-case hexadecimal digits of the digest bytes.\<close>

definition hex_digit :: "nat \<Rightarrow> char" where
  "hex_digit n = (if n < 10 then char_of (48 + n) else char_of (87 + n))"

definition hex_byte :: "char \<Rightarrow> string" where
  "hex_byte c = [hex_digit ((of_char c :: nat) div 16), hex_digit ((of_char c :: nat) mod 16)]"

definition to_hex :: "string \<Rightarrow> string" where
  "to_hex bs = concat (map hex_byte bs)"

definition sha256_hex :: "(string \<Rightarrow> string) \<Rightarrow> string \<Rightarrow> string" where
  "sha256_hex digest v = to_hex (digest v)"

definition fp_with_operation ::
  "(string \<Rightarrow> string) \<Rightarrow> string \<Rightarrow> file_operation \<Rightarrow> string \<Rightarrow> string \<Rightarrow> file_patch" where
  "fp_with_operation digest path op original modified =
     \<lparr>fp_path = path, fp_operation = op, fp_original = original, fp_modified = modified,
      fp_original_sha256 = sha256_hex digest original,
      fp_modified_sha256 = sha256_hex digest modified\<rparr>"

definition fp_new :: "(string \<Rightarrow> string) \<Rightarrow> string \<Rightarrow> string \<Rightarrow> string \<Rightarrow> file_patch" where
  "fp_new digest path original modified = fp_with_operation digest path Modify original modified"

definition fp_create :: "(string \<Rightarrow> string) \<Rightarrow> string \<Rightarrow> string \<Rightarrow> file_patch" where
  "fp_create digest path modified = fp_with_operation digest path Create [] modified"

definition fp_delete :: "(string \<Rightarrow> string) \<Rightarrow> string \<Rightarrow> string \<Rightarrow> file_patch" where
  "fp_delete digest path original = fp_with_operation digest path Delete original []"

definition fp_rename :: "(string \<Rightarrow> string) \<Rightarrow> string \<Rightarrow> string \<Rightarrow> string \<Rightarrow> string \<Rightarrow> file_patch" where
  "fp_rename digest from to original modified =
     fp_with_operation digest to (Rename from) original modified"

definition nv_single :: "(string \<Rightarrow> string) \<Rightarrow> string \<Rightarrow> string \<Rightarrow> string \<Rightarrow> string \<Rightarrow> nv_patch" where
  "nv_single digest uuid path original modified = nv_new uuid [fp_new digest path original modified]"

definition fp_is_noop :: "file_patch \<Rightarrow> bool" where
  "fp_is_noop f =
     (fp_original f = fp_modified f \<and> (case fp_operation f of Rename _ \<Rightarrow> False | _ \<Rightarrow> True))"

definition nv_is_empty :: "nv_patch \<Rightarrow> bool" where
  "nv_is_empty p = list_all fp_is_noop (np_files p)"

section \<open>Printing a patch as a unified diff\<close>

text \<open>\<open>text_diff old_header new_header original modified\<close> stands for the \<^verbatim>\<open>similar\<close> crate.\<close>

definition fp_to_unified_diff ::
  "(string \<Rightarrow> string \<Rightarrow> string \<Rightarrow> string \<Rightarrow> string) \<Rightarrow> file_patch \<Rightarrow> string" where
  "fp_to_unified_diff text_diff f =
     (let path = fp_path f; nl = [CHR 0x0A];
          old_path = (case fp_operation f of
              Create \<Rightarrow> ''/dev/null''
            | Rename from \<Rightarrow> ''a/'' @ from
            | _ \<Rightarrow> ''a/'' @ path);
          new_path = (case fp_operation f of Delete \<Rightarrow> ''/dev/null'' | _ \<Rightarrow> ''b/'' @ path);
          textual = text_diff old_path new_path (fp_original f) (fp_modified f)
      in case fp_operation f of
           Rename from \<Rightarrow>
             if fp_original f = fp_modified f
             then ''diff --git a/'' @ from @ '' b/'' @ path @ nl @ ''similarity index 100%'' @ nl
                  @ ''rename from '' @ from @ nl @ ''rename to '' @ path @ nl
             else textual
         | _ \<Rightarrow> textual)"

fun join_diffs :: "string \<Rightarrow> string list \<Rightarrow> string" where
  "join_diffs out [] = out"
| "join_diffs out (d # ds) = join_diffs ((if out = [] then out else out @ [CHR 0x0A]) @ d) ds"

definition nv_to_unified_diff ::
  "(string \<Rightarrow> string \<Rightarrow> string \<Rightarrow> string \<Rightarrow> string) \<Rightarrow> nv_patch \<Rightarrow> string" where
  "nv_to_unified_diff text_diff p =
     join_diffs [] (map (fp_to_unified_diff text_diff) (filter (\<lambda>f. \<not> fp_is_noop f) (np_files p)))"

section \<open>The path safety check\<close>

fun component_check :: "string \<Rightarrow> path_component \<Rightarrow> patch_error + unit" where
  "component_check p (Normal _) = Inr ()"
| "component_check p CurDir = Inr ()"
| "component_check p ParentDir = Inl (UnsafePath p ''parent directory components are not allowed'')"
| "component_check p RootDir = Inl (UnsafePath p ''absolute paths are not allowed'')"

fun nearest_existing_rev :: "(loc \<rightharpoonup> node) \<Rightarrow> name list \<Rightarrow> loc" where
  "nearest_existing_rev m [] = []"
| "nearest_existing_rev m (c # r) =
     (if path_exists m (rev (c # r)) then rev (c # r) else nearest_existing_rev m r)"

definition forbidden_first :: "name list \<Rightarrow> bool" where
  "forbidden_first ns = (ns \<noteq> [] \<and> (hd ns = ''.git'' \<or> hd ns = ''.nerve''))"

definition ensure_safe_relative_path :: "loc \<Rightarrow> string \<Rightarrow> fs \<Rightarrow> patch_error + unit" where
  "ensure_safe_relative_path cwd p s =
     (let cs = path_components p; ns = normal_names cs; m = nodes s in
      if p = [] then Inl (UnsafePath p ''empty path'')
      else res_bind (res_all (component_check p) cs) (\<lambda>_.
        if forbidden_first ns then Inl (ForbiddenPath p (hd ns @ ''/''))
        else (case canonicalize m cwd of
            Inl k \<Rightarrow> Inl (PatchIo (show_loc cwd) k)
          | Inr cc \<Rightarrow>
              (let ancestor = nearest_existing_rev m (rev (cc @ ns)) in
               case canonicalize m ancestor of
                 Inl k \<Rightarrow> Inl (PatchIo (show_loc ancestor) k)
               | Inr ca \<Rightarrow>
                   if take (length cc) ca = cc then Inr ()
                   else Inl (UnsafePath p ''target resolves outside cwd'')))))"

section \<open>File access\<close>

text \<open>\<^verbatim>\<open>std::str::from_utf8\<close> on the byte values.\<close>

definition cont_byte :: "nat \<Rightarrow> bool" where
  "cont_byte b = (128 \<le> b \<and> b \<le> 191)"

definition second_ok :: "nat \<Rightarrow> nat \<Rightarrow> bool" where
  "second_ok a b =
     (if a = 224 then 160 \<le> b \<and> b \<le> 191
      else if a = 237 then 128 \<le> b \<and> b \<le> 159
      else if a = 240 then 144 \<le> b \<and> b \<le> 191
      else if a = 244 then 128 \<le> b \<and> b \<le> 143
      else cont_byte b)"

fun utf8_ok :: "nat list \<Rightarrow> bool" where
  "utf8_ok [] = True"
| "utf8_ok (a # r) =
     (if a < 128 then utf8_ok r
      else if 194 \<le> a \<and> a \<le> 223 then
        (case r of b # r' \<Rightarrow> cont_byte b \<and> utf8_ok r' | _ \<Rightarrow> False)
      else if 224 \<le> a \<and> a \<le> 239 then
        (case r of b # c # r' \<Rightarrow> second_ok a b \<and> cont_byte c \<and> utf8_ok r' | _ \<Rightarrow> False)
      else if 240 \<le> a \<and> a \<le> 244 then
        (case r of b # c # d # r' \<Rightarrow> second_ok a b \<and> cont_byte c \<and> cont_byte d \<and> utf8_ok r'
         | _ \<Rightarrow> False)
      else False)"

definition valid_utf8 :: "string \<Rightarrow> bool" where
  "valid_utf8 b = utf8_ok (map of_char b)"

definition target_exists :: "loc \<Rightarrow> string \<Rightarrow> fs \<Rightarrow> bool" where
  "target_exists cwd p s = path_exists (nodes s) (join_loc cwd p)"

definition read_to_string :: "loc \<Rightarrow> string \<Rightarrow> fs \<Rightarrow> patch_error + string" where
  "read_to_string cwd p s =
     (case read_file (nodes s) (join_loc cwd p) of
        Inr b \<Rightarrow>
          if valid_utf8 b then Inr b
          else Inl (Unsupported (''`'' @ p @
            ''` is not valid UTF-8 text; binary files and binary diffs are not supported''))
      | Inl k \<Rightarrow> if k = NotFound then Inr [] else Inl (PatchIo p k))"

definition read_bytes :: "loc \<Rightarrow> string \<Rightarrow> fs \<Rightarrow> patch_error + string" where
  "read_bytes cwd p s =
     (case read_file (nodes s) (join_loc cwd p) of
        Inr b \<Rightarrow> Inr b
      | Inl k \<Rightarrow> if k = NotFound then Inr [] else Inl (PatchIo p k))"

definition temp_write_name :: "string \<Rightarrow> string \<Rightarrow> name" where
  "temp_write_name file_name uuid = ''.'' @ file_name @ ''.nerve-write-'' @ uuid @ ''.tmp''"

definition temp_write_path :: "loc \<Rightarrow> string \<Rightarrow> loc" where
  "temp_write_path l uuid =
     (if l = [] then [temp_write_name ''target'' uuid]
      else butlast l @ [temp_write_name (last l) uuid])"

definition next_uuid :: "fs \<Rightarrow> string \<times> fs" where
  "next_uuid s = (uuid_seq s (uuid_pos s), s\<lparr>uuid_pos := Suc (uuid_pos s)\<rparr>)"

definition write_bytes :: "loc \<Rightarrow> string \<Rightarrow> string \<Rightarrow> (fs, patch_error, unit) step" where
  "write_bytes cwd p v s =
     (let l = join_loc cwd p in
      st_bind (st_map_err (PatchIo (show_loc (butlast l))) (create_dir_all (butlast l))) (\<lambda>_ s1.
        (let (uuid, s2) = next_uuid s1; tmp = temp_write_path l uuid in
         st_bind (st_map_err (PatchIo (show_loc tmp)) (fs_write tmp v)) (\<lambda>_ s3.
           (case fs_rename tmp l s3 of
              (Inr u, s4) \<Rightarrow> (Inr u, s4)
            | (Inl k, s4) \<Rightarrow> (Inl (PatchIo p k), snd (fs_unlink tmp s4)))) s2)) s)"

definition write_string :: "loc \<Rightarrow> string \<Rightarrow> string \<Rightarrow> (fs, patch_error, unit) step" where
  "write_string cwd p v = write_bytes cwd p v"

definition remove_file :: "loc \<Rightarrow> string \<Rightarrow> (fs, patch_error, unit) step" where
  "remove_file cwd p s =
     (case fs_unlink (join_loc cwd p) s of
        (Inr u, s') \<Rightarrow> (Inr u, s')
      | (Inl k, s') \<Rightarrow>
          if k = NotFound \<or> k = NotADirectory then (Inr (), s') else (Inl (PatchIo p k), s'))"

section \<open>One file patch\<close>

definition fp_changed_paths :: "file_patch \<Rightarrow> string list" where
  "fp_changed_paths f =
     (case fp_operation f of Rename from \<Rightarrow> [from, fp_path f] | _ \<Rightarrow> [fp_path f])"

definition fp_validation_path :: "file_patch \<Rightarrow> bool \<Rightarrow> string" where
  "fp_validation_path f rollback =
     (case (fp_operation f, rollback) of (Rename from, False) \<Rightarrow> from | _ \<Rightarrow> fp_path f)"

definition fp_validate_operation_state :: "loc \<Rightarrow> file_patch \<Rightarrow> bool \<Rightarrow> fs \<Rightarrow> patch_error + unit" where
  "fp_validate_operation_state cwd f rollback s =
     (let ex = (\<lambda>p. target_exists cwd p s); path = fp_path f in
      case (fp_operation f, rollback) of
        (Create, False) \<Rightarrow>
          if ex path then Inl (InvalidOperationState path ''create target already exists'') else Inr ()
      | (Delete, False) \<Rightarrow>
          if \<not> ex path then Inl (InvalidOperationState path ''delete target does not exist'') else Inr ()
      | (Rename from, False) \<Rightarrow>
          if \<not> ex from then Inl (InvalidOperationState from ''rename source does not exist'')
          else if ex path then Inl (InvalidOperationState path ''rename target already exists'')
          else Inr ()
      | (Rename from, True) \<Rightarrow>
          if ex from then Inl (InvalidOperationState from ''rename rollback source already exists'')
          else Inr ()
      | _ \<Rightarrow> Inr ())"

definition fp_validate ::
  "(string \<Rightarrow> string) \<Rightarrow> loc \<Rightarrow> bool \<Rightarrow> fs \<Rightarrow> file_patch \<Rightarrow> patch_error + unit" where
  "fp_validate digest cwd rollback s f =
     res_bind (ensure_safe_relative_path cwd (fp_path f) s) (\<lambda>_.
     res_bind (case fp_operation f of
                 Rename from \<Rightarrow> ensure_safe_relative_path cwd from s | _ \<Rightarrow> Inr ()) (\<lambda>_.
     res_bind (fp_validate_operation_state cwd f rollback s) (\<lambda>_.
       (let expected = (if rollback then fp_modified_sha256 f else fp_original_sha256 f);
            vp = fp_validation_path f rollback in
        res_bind (read_to_string cwd vp s) (\<lambda>current.
          (let actual = sha256_hex digest current in
           if actual \<noteq> expected then Inl (HashMismatch vp expected actual) else Inr ()))))))"

definition fp_apply :: "loc \<Rightarrow> file_patch \<Rightarrow> (fs, patch_error, unit) step" where
  "fp_apply cwd f =
     (case fp_operation f of
        Delete \<Rightarrow> remove_file cwd (fp_path f)
      | Rename from \<Rightarrow>
          st_bind (write_string cwd (fp_path f) (fp_modified f)) (\<lambda>_. remove_file cwd from)
      | _ \<Rightarrow> write_string cwd (fp_path f) (fp_modified f))"

definition fp_rollback :: "loc \<Rightarrow> file_patch \<Rightarrow> (fs, patch_error, unit) step" where
  "fp_rollback cwd f =
     (case fp_operation f of
        Create \<Rightarrow> remove_file cwd (fp_path f)
      | Rename from \<Rightarrow>
          st_bind (write_string cwd from (fp_original f)) (\<lambda>_. remove_file cwd (fp_path f))
      | _ \<Rightarrow> write_string cwd (fp_path f) (fp_original f))"

section \<open>Snapshots and whole patches\<close>

definition nv_changed_files :: "nv_patch \<Rightarrow> string list" where
  "nv_changed_files p = concat (map fp_changed_paths (np_files p))"

definition snapshot_capture :: "loc \<Rightarrow> fs \<Rightarrow> string \<Rightarrow> patch_error + file_snapshot" where
  "snapshot_capture cwd s p =
     res_bind (ensure_safe_relative_path cwd p s) (\<lambda>_.
       if target_exists cwd p s
       then res_bind (read_bytes cwd p s) (\<lambda>b. Inr \<lparr>snap_path = p, snap_state = Present b\<rparr>)
       else Inr \<lparr>snap_path = p, snap_state = Missing\<rparr>)"

definition snapshot_restore :: "loc \<Rightarrow> file_snapshot \<Rightarrow> (fs, patch_error, unit) step" where
  "snapshot_restore cwd sn =
     (case snap_state sn of
        Present v \<Rightarrow> write_bytes cwd (snap_path sn) v
      | Missing \<Rightarrow> remove_file cwd (snap_path sn))"

definition nv_capture_snapshots :: "loc \<Rightarrow> fs \<Rightarrow> nv_patch \<Rightarrow> patch_error + file_snapshot list" where
  "nv_capture_snapshots cwd s p = res_map (snapshot_capture cwd s) (nv_changed_files p)"

definition restore_snapshots :: "loc \<Rightarrow> file_snapshot list \<Rightarrow> (fs, patch_error, unit) step" where
  "restore_snapshots cwd sns = st_all (snapshot_restore cwd) (rev sns)"

definition nv_validate ::
  "(string \<Rightarrow> string) \<Rightarrow> loc \<Rightarrow> bool \<Rightarrow> fs \<Rightarrow> nv_patch \<Rightarrow> patch_error + unit" where
  "nv_validate digest cwd rollback s p = res_all (fp_validate digest cwd rollback s) (np_files p)"

definition nv_report :: "nv_patch \<Rightarrow> bool \<Rightarrow> apply_report" where
  "nv_report p dry =
     \<lparr>ar_patch_id = np_id p, ar_changed_files = nv_changed_files p, ar_dry_run = dry\<rparr>"

definition nv_apply ::
  "(string \<Rightarrow> string) \<Rightarrow> loc \<Rightarrow> nv_patch \<Rightarrow> bool \<Rightarrow> (fs, patch_error, apply_report) step" where
  "nv_apply digest cwd p dry s =
     (case nv_validate digest cwd False s p of
        Inl e \<Rightarrow> (Inl e, s)
      | Inr _ \<Rightarrow>
          if dry then (Inr (nv_report p dry), s)
          else (case nv_capture_snapshots cwd s p of
              Inl e \<Rightarrow> (Inl e, s)
            | Inr sns \<Rightarrow>
                (case st_all (fp_apply cwd) (np_files p) s of
                   (Inr _, s') \<Rightarrow> (Inr (nv_report p dry), s')
                 | (Inl apply_error, s') \<Rightarrow>
                     (case restore_snapshots cwd sns s' of
                        (Inl rollback_error, s'') \<Rightarrow> (Inl (RollbackFailed apply_error rollback_error), s'')
                      | (Inr _, s'') \<Rightarrow> (Inl apply_error, s'')))))"

definition nv_rollback ::
  "(string \<Rightarrow> string) \<Rightarrow> loc \<Rightarrow> nv_patch \<Rightarrow> bool \<Rightarrow> (fs, patch_error, apply_report) step" where
  "nv_rollback digest cwd p dry s =
     (case nv_validate digest cwd True s p of
        Inl e \<Rightarrow> (Inl e, s)
      | Inr _ \<Rightarrow>
          if dry then (Inr (nv_report p dry), s)
          else st_bind (st_all (fp_rollback cwd) (np_files p)) (\<lambda>_ s'. (Inr (nv_report p dry), s')) s)"

section \<open>The canonical hash\<close>

fun crlf_to_lf :: "string \<Rightarrow> string" where
  "crlf_to_lf (x # y # r) =
     (if x = CHR 0x0D \<and> y = CHR 0x0A then y # crlf_to_lf r else x # crlf_to_lf (y # r))"
| "crlf_to_lf s = s"

definition nul :: string where
  "nul = [CHR 0x00]"

definition canonical_entry :: "file_patch \<Rightarrow> string" where
  "canonical_entry f =
     fp_path f @ nul @
     (case fp_operation f of
        Modify \<Rightarrow> ''modify'' @ nul
      | Create \<Rightarrow> ''create'' @ nul
      | Delete \<Rightarrow> ''delete'' @ nul
      | Rename from \<Rightarrow> ''rename'' @ nul @ from @ nul) @
     crlf_to_lf (fp_original f) @ nul @ crlf_to_lf (fp_modified f) @ nul"

definition canonical_bytes :: "nv_patch \<Rightarrow> string" where
  "canonical_bytes p =
     concat (map canonical_entry (sort_key (\<lambda>f. path_components (fp_path f)) (np_files p)))"

definition canonical_hash :: "(string \<Rightarrow> string) \<Rightarrow> nv_patch \<Rightarrow> string" where
  "canonical_hash digest p = to_hex (digest (canonical_bytes p))"

end
