(* ===== verification/UndoStore.thy ===== *)
theory UndoStore
  imports NervePrelude
begin

text \<open>
  The interface between the patch transaction and the file store: two fallible operations that
  put and delete a value under a key, with the frame they promise also when they fail. The
  client lemmas say what a sequence of edits does and when a list of undo edits restores the
  state before it.
\<close>

text \<open>An edit of a path: a new value, or removal.\<close>

type_synonym ('p, 'v) edit = "'p \<times> 'v option"

definition edit_step ::
  "('p \<Rightarrow> 'v \<Rightarrow> ('s, 'e, unit) step) \<Rightarrow> ('p \<Rightarrow> ('s, 'e, unit) step) \<Rightarrow> ('p, 'v) edit \<Rightarrow>
   ('s, 'e, unit) step" where
  "edit_step put del e = (case snd e of Some v \<Rightarrow> put (fst e) v | None \<Rightarrow> del (fst e))"

text \<open>The effect of edits on a plain map, in order.\<close>

fun edits_map :: "('p \<Rightarrow> 'k) \<Rightarrow> ('p, 'v) edit list \<Rightarrow> ('k \<rightharpoonup> 'v) \<Rightarrow> ('k \<rightharpoonup> 'v)" where
  "edits_map key [] m = m"
| "edits_map key (e # es) m = edits_map key es (m(key (fst e) := snd e))"

lemma edits_map_other [frame_simps]:
  "q \<notin> key ` fst ` set es \<Longrightarrow> edits_map key es m q = m q"
  by (induction es arbitrary: m) auto

lemma edits_map_cong:
  "m q = m' q \<or> q \<in> key ` fst ` set es \<Longrightarrow> edits_map key es m q = edits_map key es m' q"
proof (induction es arbitrary: m m')
  case Nil
  then show ?case by simp
next
  case (Cons e es)
  show ?case
    by (cases "q = key (fst e)") (use Cons in auto)
qed

lemma edits_map_const:
  "q \<in> key ` fst ` set es \<Longrightarrow> \<forall>e \<in> set es. key (fst e) = q \<longrightarrow> snd e = v \<Longrightarrow>
   edits_map key es m q = v"
proof (induction es arbitrary: m)
  case Nil
  then show ?case by simp
next
  case (Cons e es)
  show ?case
  proof (cases "q \<in> key ` fst ` set es")
    case True
    with Cons show ?thesis by simp
  next
    case False
    with Cons.prems have "key (fst e) = q" and "snd e = v" by auto
    with False show ?thesis by (simp add: frame_simps)
  qed
qed

locale undo_store =
  fixes look :: "'s \<Rightarrow> 'k \<Rightarrow> 'v option"
    and vis :: "'k \<Rightarrow> bool"
    and ok :: "'s \<Rightarrow> bool"
    and key :: "'p \<Rightarrow> 'k"
    and put :: "'p \<Rightarrow> 'v \<Rightarrow> ('s, 'e, unit) step"
    and del :: "'p \<Rightarrow> ('s, 'e, unit) step"
  assumes put_ok: "ok s \<Longrightarrow> put p v s = (r, s') \<Longrightarrow> ok s'"
    and del_ok: "ok s \<Longrightarrow> del p s = (r, s') \<Longrightarrow> ok s'"
    and put_frame: "ok s \<Longrightarrow> put p v s = (r, s') \<Longrightarrow> vis q \<Longrightarrow> q \<noteq> key p \<Longrightarrow> look s' q = look s q"
    and del_frame: "ok s \<Longrightarrow> del p s = (r, s') \<Longrightarrow> q \<noteq> key p \<Longrightarrow> look s' q = look s q"
    and put_look: "ok s \<Longrightarrow> put p v s = (Inr u, s') \<Longrightarrow> look s' (key p) = Some v"
    and del_look: "ok s \<Longrightarrow> del p s = (Inr u, s') \<Longrightarrow> look s' (key p) = None"
    and put_fail: "ok s \<Longrightarrow> put p v s = (Inl e, s') \<Longrightarrow> vis q \<Longrightarrow> look s' q = look s q"
    and del_fail: "ok s \<Longrightarrow> del p s = (Inl e, s') \<Longrightarrow> look s' q = look s q"
begin

lemma edit_ok: "ok s \<Longrightarrow> edit_step put del e s = (r, s') \<Longrightarrow> ok s'"
  by (auto simp: edit_step_def split: option.splits intro: put_ok del_ok)

lemma edit_frame:
  "ok s \<Longrightarrow> edit_step put del e s = (r, s') \<Longrightarrow> vis q \<Longrightarrow> q \<noteq> key (fst e) \<Longrightarrow> look s' q = look s q"
  by (auto simp: edit_step_def split: option.splits dest: put_frame del_frame)

lemma edit_look:
  "ok s \<Longrightarrow> edit_step put del e s = (Inr u, s') \<Longrightarrow> look s' (key (fst e)) = snd e"
  by (auto simp: edit_step_def split: option.splits dest: put_look del_look)

lemma edit_fail:
  "ok s \<Longrightarrow> edit_step put del e s = (Inl err, s') \<Longrightarrow> vis q \<Longrightarrow> look s' q = look s q"
  by (auto simp: edit_step_def split: option.splits dest: put_fail del_fail)

lemma edits_ok: "ok s \<Longrightarrow> st_all (edit_step put del) es s = (r, s') \<Longrightarrow> ok s'"
  by (rule st_all_invariant[where P = ok]) (auto intro: edit_ok)

lemma edits_frame:
  "ok s \<Longrightarrow> st_all (edit_step put del) es s = (r, s') \<Longrightarrow> vis q \<Longrightarrow> q \<notin> key ` fst ` set es \<Longrightarrow>
   look s' q = look s q"
  using st_all_invariant[where P = "\<lambda>t. ok t \<and> look t q = look s q" and f = "edit_step put del" and xs = es]
  by (metis (no_types, lifting) edit_frame edit_ok image_eqI)

lemma edits_done:
  "ok s \<Longrightarrow> st_all (edit_step put del) es s = (Inr u, s') \<Longrightarrow> vis q \<Longrightarrow>
   look s' q = edits_map key es (look s) q"
proof (induction es arbitrary: s)
  case Nil
  then show ?case by simp
next
  case (Cons e es)
  from Cons.prems(2) obtain t u' where step: "edit_step put del e s = (Inr u', t)"
    and rest: "st_all (edit_step put del) es t = (Inr u, s')"
    by (auto simp: st_bind_Inr)
  have t: "ok t" using edit_ok[OF Cons.prems(1) step] .
  have IH: "look s' q = edits_map key es (look t) q" using Cons.IH[OF t rest Cons.prems(3)] .
  have "look t q = ((look s)(key (fst e) := snd e)) q"
    using edit_look[OF Cons.prems(1) step] edit_frame[OF Cons.prems(1) step Cons.prems(3)] by auto
  then have "edits_map key es (look t) q = edits_map key es ((look s)(key (fst e) := snd e)) q"
    by (intro edits_map_cong) simp
  with IH show ?case by simp
qed

text \<open>
  Undo edits that cover every edited key and carry the values from before restore the store,
  also when the edits stopped half way.
\<close>

lemma undo_restores:
  assumes "ok s0" and "st_all (edit_step put del) es s0 = (r, s1)"
    and "st_all (edit_step put del) us s1 = (Inr u, s2)"
    and "key ` fst ` set es \<subseteq> key ` fst ` set us"
    and "\<And>e. e \<in> set us \<Longrightarrow> vis (key (fst e)) \<Longrightarrow> snd e = look s0 (key (fst e))"
    and "vis q"
  shows "look s2 q = look s0 q"
proof -
  have ok1: "ok s1" using edits_ok[OF assms(1,2)] .
  have s2: "look s2 q = edits_map key us (look s1) q" using edits_done[OF ok1 assms(3,6)] .
  show ?thesis
  proof (cases "q \<in> key ` fst ` set us")
    case True
    then show ?thesis using s2 edits_map_const[of q key us "look s0 q" "look s1"] assms(5,6) by auto
  next
    case False
    then have "q \<notin> key ` fst ` set es" using assms(4) by blast
    then have "look s1 q = look s0 q" by (rule edits_frame[OF assms(1,2,6)])
    with s2 False show ?thesis by (simp add: frame_simps)
  qed
qed

end

end
