(* ===== verification/PatchStore.thy ===== *)
theory PatchStore
  imports PatchModel UndoStore
begin

text \<open>
  The file store keeps the laws of \<open>undo_store\<close>: writing and removing a patch path in a tree
  without links changes the content at that path only, apart from the temporary siblings that
  \<open>write_bytes\<close> renames into place. Patch operations are then lists of edits.
\<close>

definition is_temp_name :: "name \<Rightarrow> bool" where
  "is_temp_name n = (starts_with ''.'' n \<and> contains_sub ''.nerve-write-'' n \<and> ends_with ''.tmp'' n)"

definition is_temp :: "loc \<Rightarrow> bool" where
  "is_temp l = (l \<noteq> [] \<and> is_temp_name (last l))"

lemma temp_write_name_is_temp: "is_temp_name (temp_write_name f u)"
proof -
  have "find_sub ''.nerve-write-'' ((''.'' @ f) @ ''.nerve-write-'' @ (u @ ''.tmp'')) \<noteq> None"
    by (rule find_sub_append)
  moreover have "ends_with ''.tmp'' ((''.'' @ f @ ''.nerve-write-'' @ u) @ ''.tmp'')" by (rule ends_with_append)
  ultimately show ?thesis
    by (simp add: is_temp_name_def temp_write_name_def contains_sub_def starts_with_def)
qed

lemma temp_write_path_is_temp [simp]: "is_temp (temp_write_path l u)"
  by (auto simp: is_temp_def temp_write_path_def temp_write_name_is_temp)

lemma temp_write_path_neq: "temp_write_path l u \<noteq> l"
proof
  assume eq: "temp_write_path l u = l"
  then have "l \<noteq> []" by (auto simp: temp_write_path_def)
  with eq have "last l = temp_write_name (last l) u" by (metis last_snoc temp_write_path_def)
  then have "length (last l) = length (temp_write_name (last l) u)" by simp
  then show False by (simp add: temp_write_name_def)
qed

lemma plain_tree_uuid [simp]: "plain_tree (s\<lparr>uuid_pos := n\<rparr>) = plain_tree s"
  by (simp add: plain_tree_def)

lemma content_uuid [simp]: "content (s\<lparr>uuid_pos := n\<rparr>) = content s"
  by (auto simp: content_def)

lemma not_temp_neq: "\<not> is_temp q \<Longrightarrow> q \<noteq> temp_write_path l u"
  by auto

text \<open>The stages of a write: directories, temporary file, rename, and the clean-up.\<close>

lemma write_bytes_cases:
  assumes "write_bytes cwd p v s = (r, s')"
  obtains (dirs) e where "create_dir_all (butlast (join_loc cwd p)) s = (Inl e, s')" and "\<exists>x. r = Inl x"
  | (temp) s1 u e where "create_dir_all (butlast (join_loc cwd p)) s = (Inr (), s1)"
      and "fs_write (temp_write_path (join_loc cwd p) u) v (s1\<lparr>uuid_pos := Suc (uuid_pos s1)\<rparr>) = (Inl e, s')"
      and "\<exists>x. r = Inl x"
  | (renamed) s1 u s3 where "create_dir_all (butlast (join_loc cwd p)) s = (Inr (), s1)"
      and "fs_write (temp_write_path (join_loc cwd p) u) v (s1\<lparr>uuid_pos := Suc (uuid_pos s1)\<rparr>) = (Inr (), s3)"
      and "fs_rename (temp_write_path (join_loc cwd p) u) (join_loc cwd p) s3 = (Inr (), s')" and "r = Inr ()"
  | (clean) s1 u s3 e s4 where "create_dir_all (butlast (join_loc cwd p)) s = (Inr (), s1)"
      and "fs_write (temp_write_path (join_loc cwd p) u) v (s1\<lparr>uuid_pos := Suc (uuid_pos s1)\<rparr>) = (Inr (), s3)"
      and "fs_rename (temp_write_path (join_loc cwd p) u) (join_loc cwd p) s3 = (Inl e, s4)"
      and "s' = snd (fs_unlink (temp_write_path (join_loc cwd p) u) s4)" and "\<exists>x. r = Inl x"
proof -
  let ?l = "join_loc cwd p"
  obtain r1 s1 where c: "create_dir_all (butlast ?l) s = (r1, s1)" by (cases "create_dir_all (butlast ?l) s") auto
  show ?thesis
  proof (cases r1)
    case (Inl e)
    with c assms show ?thesis
      by (auto simp: write_bytes_def st_bind_def st_map_err_def intro: dirs)
  next
    case (Inr u0)
    let ?u = "uuid_seq s1 (uuid_pos s1)" and ?s2 = "s1\<lparr>uuid_pos := Suc (uuid_pos s1)\<rparr>"
    obtain r2 s3 where w: "fs_write (temp_write_path ?l ?u) v ?s2 = (r2, s3)"
      by (cases "fs_write (temp_write_path ?l ?u) v ?s2") auto
    show ?thesis
    proof (cases r2)
      case (Inl e)
      with c Inr w assms show ?thesis
        by (auto simp: write_bytes_def st_bind_def st_map_err_def next_uuid_def intro: temp)
    next
      case (Inr u2)
      obtain r3 s4 where m: "fs_rename (temp_write_path ?l ?u) ?l s3 = (r3, s4)"
        by (cases "fs_rename (temp_write_path ?l ?u) ?l s3") auto
      show ?thesis
      proof (cases r3)
        case (Inl e)
        with c \<open>r1 = Inr u0\<close> w Inr m assms have "s' = snd (fs_unlink (temp_write_path ?l ?u) s4)" "\<exists>x. r = Inl x"
          by (auto simp: write_bytes_def st_bind_def st_map_err_def next_uuid_def)
        with c \<open>r1 = Inr u0\<close> w Inr m Inl show ?thesis by (auto intro: clean)
      next
        case (Inr u3)
        with c \<open>r1 = Inr u0\<close> w \<open>r2 = Inr u2\<close> m assms have "s' = s4" "r = Inr ()"
          by (auto simp: write_bytes_def st_bind_def st_map_err_def next_uuid_def)
        with c \<open>r1 = Inr u0\<close> w \<open>r2 = Inr u2\<close> m Inr show ?thesis by (auto intro: renamed)
      qed
    qed
  qed
qed

lemma write_bytes_plain:
  assumes "plain_tree s" and "write_bytes cwd p v s = (r, s')"
  shows "plain_tree s' \<and>
         (\<forall>q. \<not> is_temp q \<longrightarrow> q \<noteq> join_loc cwd p \<or> (\<exists>e. r = Inl e) \<longrightarrow> content s' q = content s q) \<and>
         (r = Inr () \<longrightarrow> content s' (join_loc cwd p) = Some v)"
  using assms(2)
proof (cases rule: write_bytes_cases)
  case (dirs e)
  then show ?thesis using create_dir_all_plain[OF dirs(1) assms(1)] by auto
next
  case (temp s1 u e)
  note d = create_dir_all_plain[OF temp(1) assms(1)]
  have "plain_tree (s1\<lparr>uuid_pos := Suc (uuid_pos s1)\<rparr>)" using d by simp
  from fs_write_plain[OF this temp(2)] show ?thesis using d temp(3) not_temp_neq by auto
next
  case (renamed s1 u s3)
  note d = create_dir_all_plain[OF renamed(1) assms(1)]
  have "plain_tree (s1\<lparr>uuid_pos := Suc (uuid_pos s1)\<rparr>)" using d by simp
  note w = fs_write_plain[OF this renamed(2)]
  note m = fs_rename_plain[OF _ renamed(3)]
  show ?thesis using d w m renamed(4) not_temp_neq by auto
next
  case (clean s1 u s3 e s4)
  note d = create_dir_all_plain[OF clean(1) assms(1)]
  have "plain_tree (s1\<lparr>uuid_pos := Suc (uuid_pos s1)\<rparr>)" using d by simp
  note w = fs_write_plain[OF this clean(2)]
  have m: "plain_tree s4 \<and> content s4 = content s3" using fs_rename_plain[OF _ clean(3)] w by blast
  obtain r5 where "fs_unlink (temp_write_path (join_loc cwd p) u) s4 = (r5, s')"
    using clean(4) by (cases "fs_unlink (temp_write_path (join_loc cwd p) u) s4") auto
  note x = fs_unlink_plain[OF _ this]
  show ?thesis using d w m x clean(5) not_temp_neq by auto
qed

lemma remove_file_plain:
  assumes "plain_tree s" and "remove_file cwd p s = (r, s')"
  shows "plain_tree s' \<and>
         (\<forall>q. q \<noteq> join_loc cwd p \<or> (\<exists>e. r = Inl e) \<longrightarrow> content s' q = content s q) \<and>
         (r = Inr () \<longrightarrow> content s' (join_loc cwd p) = None)"
proof -
  obtain r0 where u: "fs_unlink (join_loc cwd p) s = (r0, s')"
    using assms(2) by (auto simp: remove_file_def split: prod.splits sum.splits if_splits)
  note un = fs_unlink_plain[OF assms(1) u]
  show ?thesis
  proof (cases r0)
    case (Inr u0)
    with un u assms(2) show ?thesis by (auto simp: remove_file_def)
  next
    case (Inl k)
    then have same: "content s' = content s" using un by (auto simp: content_def)
    show ?thesis
    proof (cases "k = NotFound \<or> k = NotADirectory")
      case True
      have "content s (join_loc cwd p) = None" using fs_unlink_absent[OF assms(1) u[unfolded Inl] True] .
      with same un show ?thesis by auto
    next
      case False
      with same un u Inl assms(2) show ?thesis by (auto simp: remove_file_def)
    qed
  qed
qed

interpretation patch_store: undo_store
  content "\<lambda>q. \<not> is_temp q" plain_tree "join_loc cwd" "write_bytes cwd" "remove_file cwd"
  for cwd
  by unfold_locales (auto dest: write_bytes_plain remove_file_plain)

section \<open>Patch operations as edits\<close>

definition fp_edits :: "file_patch \<Rightarrow> (string, string) edit list" where
  "fp_edits f =
     (case fp_operation f of
        Delete \<Rightarrow> [(fp_path f, None)]
      | Rename from \<Rightarrow> [(fp_path f, Some (fp_modified f)), (from, None)]
      | _ \<Rightarrow> [(fp_path f, Some (fp_modified f))])"

definition fp_undo_edits :: "file_patch \<Rightarrow> (string, string) edit list" where
  "fp_undo_edits f =
     (case fp_operation f of
        Create \<Rightarrow> [(fp_path f, None)]
      | Rename from \<Rightarrow> [(from, Some (fp_original f)), (fp_path f, None)]
      | _ \<Rightarrow> [(fp_path f, Some (fp_original f))])"

definition nv_edits :: "nv_patch \<Rightarrow> (string, string) edit list" where
  "nv_edits p = concat (map fp_edits (np_files p))"

definition nv_undo_edits :: "nv_patch \<Rightarrow> (string, string) edit list" where
  "nv_undo_edits p = concat (map fp_undo_edits (np_files p))"

definition snapshot_edit :: "file_snapshot \<Rightarrow> (string, string) edit" where
  "snapshot_edit sn = (snap_path sn, case snap_state sn of Present v \<Rightarrow> Some v | Missing \<Rightarrow> None)"

lemma st_all_single [simp]: "st_all f [x] s = f x s"
  by (auto simp: st_bind_def split: prod.splits sum.splits)

lemma st_all_two: "st_all f [x, y] s = st_bind (f x) (\<lambda>_. f y) s"
  by (auto simp: st_bind_def split: prod.splits sum.splits)

lemma fp_apply_edits: "fp_apply cwd f s = st_all (edit_step (write_bytes cwd) (remove_file cwd)) (fp_edits f) s"
  by (cases "fp_operation f") (simp_all add: fp_apply_def fp_edits_def st_all_two edit_step_def write_string_def
      del: st_all.simps(2))

lemma fp_rollback_edits:
  "fp_rollback cwd f s = st_all (edit_step (write_bytes cwd) (remove_file cwd)) (fp_undo_edits f) s"
  by (cases "fp_operation f") (simp_all add: fp_rollback_def fp_undo_edits_def st_all_two edit_step_def
      write_string_def del: st_all.simps(2))

lemma apply_files_edits:
  "st_all (fp_apply cwd) (np_files p) s = st_all (edit_step (write_bytes cwd) (remove_file cwd)) (nv_edits p) s"
proof -
  have "fp_apply cwd = (\<lambda>f. st_all (edit_step (write_bytes cwd) (remove_file cwd)) (fp_edits f))"
    by (intro ext) (rule fp_apply_edits)
  then show ?thesis by (simp add: nv_edits_def st_all_concat st_all_map)
qed

lemma rollback_files_edits:
  "st_all (fp_rollback cwd) (np_files p) s =
     st_all (edit_step (write_bytes cwd) (remove_file cwd)) (nv_undo_edits p) s"
proof -
  have "fp_rollback cwd = (\<lambda>f. st_all (edit_step (write_bytes cwd) (remove_file cwd)) (fp_undo_edits f))"
    by (intro ext) (rule fp_rollback_edits)
  then show ?thesis by (simp add: nv_undo_edits_def st_all_concat st_all_map)
qed

lemma restore_snapshots_edits:
  "restore_snapshots cwd sns s =
     st_all (edit_step (write_bytes cwd) (remove_file cwd)) (map snapshot_edit (rev sns)) s"
proof -
  have "snapshot_restore cwd = (\<lambda>sn. edit_step (write_bytes cwd) (remove_file cwd) (snapshot_edit sn))"
    by (intro ext) (simp add: snapshot_restore_def snapshot_edit_def edit_step_def split: file_state.splits)
  then show ?thesis by (simp add: restore_snapshots_def st_all_map)
qed

lemma nv_edits_paths: "fst ` set (nv_edits p) = set (nv_changed_files p)"
proof -
  have "fst ` set (fp_edits f) = set (fp_changed_paths f)" for f
    by (cases "fp_operation f") (auto simp: fp_edits_def fp_changed_paths_def)
  then show ?thesis by (auto simp: nv_edits_def nv_changed_files_def image_UN)
qed

lemma nv_undo_edits_paths: "fst ` set (nv_undo_edits p) = set (nv_changed_files p)"
proof -
  have "fst ` set (fp_undo_edits f) = set (fp_changed_paths f)" for f
    by (cases "fp_operation f") (auto simp: fp_undo_edits_def fp_changed_paths_def)
  then show ?thesis by (auto simp: nv_undo_edits_def nv_changed_files_def image_UN)
qed

end
