(* ===== verification/PatchSafety.thy ===== *)
theory PatchSafety
  imports PatchProps
begin




section \<open>Trees with links\<close>

lemma walk_snoc:
  assumes "walk m n d l = Inr p" and "node_at m p = Some Dir"
  shows "(m (p @ [c]) = None \<longrightarrow> walk m n d (l @ [c]) = Inl NotFound) \<and>
         ((\<exists>b. m (p @ [c]) = Some (File b)) \<or> m (p @ [c]) = Some Dir \<longrightarrow>
           walk m n d (l @ [c]) = Inr (p @ [c]))"
  using assms
proof (induction m n d l rule: walk.induct)
  case (1 m n d)
  then show ?case by auto
next
  case (2 m n d c' cs)
  show ?case
  proof (cases "m (d @ [c'])")
    case None
    with 2(3) show ?thesis by simp
  next
    case (Some nd)
    show ?thesis
    proof (cases nd)
      case (File b)
      with Some 2(3,4) show ?thesis by (auto simp: node_at_def split: if_splits)
    next
      case Dir
      with Some 2 show ?thesis by simp
    next
      case (Link t)
      with Some 2 show ?thesis by (cases n) auto
    qed
  qed
qed

lemma nearest_existing_here:
  "path_exists m l \<Longrightarrow> nearest_existing_rev m (rev l) = l"
  by (cases l rule: rev_cases) auto

lemma nearest_existing_parent:
  "\<not> path_exists m l \<Longrightarrow> l \<noteq> [] \<Longrightarrow> path_exists m (butlast l) \<Longrightarrow>
   nearest_existing_rev m (rev l) = butlast l"
  by (cases l rule: rev_cases) (auto simp: nearest_existing_here)

lemma ensure_safe_ancestor:
  assumes "canonicalize (nodes s) cwd = Inr cwd" and "ensure_safe_relative_path cwd p s = Inr ()"
  shows "\<exists>ca. canonicalize (nodes s) (nearest_existing_rev (nodes s) (rev (join_loc cwd p))) = Inr ca \<and>
              take (length cwd) ca = cwd"
proof -
  have j: "join_loc cwd p = cwd @ normal_names (path_components p)"
    by (rule safe_join[OF ensure_safe_relative[OF assms(2)]])
  show ?thesis
    using assms by (auto simp: ensure_safe_relative_path_def Let_def result_simps j split: if_splits sum.splits)
qed

text \<open>C6. In a tree with symbolic links, the check confines the entry that a write or a removal
  works on: for a canonical working directory, if the check passes and the entry is not itself
  a link, the entry lies inside the working directory, through whatever links its parent is
  reached.\<close>

theorem ensure_safe_confines_entry:
  assumes "canonicalize (nodes s) cwd = Inr cwd" and "ensure_safe_relative_path cwd p s = Inr ()"
    and "entry (nodes s) (join_loc cwd p) = Inr e" and "\<forall>t. nodes s e \<noteq> Some (Link t)"
  shows "take (length cwd) e = cwd"
proof -
  let ?m = "nodes s" and ?l = "join_loc cwd p"
  obtain ca where ca: "canonicalize ?m (nearest_existing_rev ?m (rev ?l)) = Inr ca"
    and inside: "take (length cwd) ca = cwd"
    using ensure_safe_ancestor[OF assms(1,2)] by auto
  obtain d where d: "canonicalize ?m (butlast ?l) = Inr d" and dir: "node_at ?m d = Some Dir"
    and e: "e = d @ [last ?l]" and l: "?l \<noteq> []"
    using assms(3) by (auto simp: entry_def result_simps split: if_splits)
  have whole: "butlast ?l @ [last ?l] = ?l" using l by simp
  note snoc = walk_snoc[OF d[unfolded canonicalize_def] dir, of "last ?l", unfolded whole e[symmetric]]
  show ?thesis
  proof (cases "?m e")
    case None
    then have "\<not> path_exists ?m ?l" using snoc by (simp add: path_exists_def canonicalize_def)
    moreover have "path_exists ?m (butlast ?l)" using d by (simp add: path_exists_def)
    ultimately have "ca = d" using nearest_existing_parent l ca d by simp
    moreover have "length cwd \<le> length ca" using arg_cong[OF inside, of length] by (simp add: min_def split: if_splits)
    ultimately show ?thesis using inside e by simp
  next
    case (Some n)
    then have "canonicalize ?m ?l = Inr e"
      using snoc assms(4) by (cases n) (auto simp: canonicalize_def)
    moreover have "path_exists ?m ?l" using calculation by (simp add: path_exists_def)
    ultimately show ?thesis using nearest_existing_here ca inside by simp
  qed
qed

text \<open>A working directory with a link \<open>l\<close> to a directory outside that holds a link \<open>y\<close> back.\<close>

definition backlink_fs :: fs where
  "backlink_fs =
     \<lparr>nodes = map_of
        [([''w''], Dir), ([''w'', ''z''], File ''in''), ([''w'', ''l''], Link [''o'']),
         ([''o''], Dir), ([''o'', ''y''], Link [''w'', ''z'']), ([''o'', ''v''], File ''x'')],
      faults = [], uuid_seq = (\<lambda>_. ''u''), uuid_pos = 0\<rparr>"

theorem ensure_safe_confines_entry_witness:
  "take (length [''w'']) [''w'', ''z''] = [''w'']"
proof (rule ensure_safe_confines_entry[of backlink_fs "[''w'']" "''z''"])
  show "canonicalize (nodes backlink_fs) [''w''] = Inr [''w'']" by code_simp
  show "ensure_safe_relative_path [''w''] ''z'' backlink_fs = Inr ()" by code_simp
  show "entry (nodes backlink_fs) (join_loc [''w''] ''z'') = Inr [''w'', ''z'']" by code_simp
  show "\<forall>t. nodes backlink_fs [''w'', ''z''] \<noteq> Some (Link t)" by (simp add: backlink_fs_def)
qed

text \<open>The case the check misses: it canonicalises the target itself, but writing replaces the
  entry in the target's parent. With a link to an outside directory whose entry links back
  inside, the check passes and the patch overwrites the entry outside the working directory.\<close>

theorem backlink_escape:
  "ensure_safe_relative_path [''w''] ''l/y'' backlink_fs = Inr () \<and>
   (case nv_apply id [''w''] (nv_new ''id'' [fp_new id ''l/y'' ''in'' ''evil'']) False backlink_fs of
      (Inl _, _) \<Rightarrow> False
    | (Inr _, s') \<Rightarrow> nodes s' [''o'', ''y''] = Some (File ''evil'') \<and>
                    nodes s' [''w'', ''z''] = Some (File ''in''))"
  by code_simp

section \<open>The canonical hash\<close>

text \<open>What the hash is a function of: the files up to line endings, without digests or id.\<close>

definition canonical_view :: "file_patch \<Rightarrow> string \<times> file_operation \<times> string \<times> string" where
  "canonical_view f = (fp_path f, fp_operation f, crlf_to_lf (fp_original f), crlf_to_lf (fp_modified f))"

definition view_entry :: "string \<times> file_operation \<times> string \<times> string \<Rightarrow> string" where
  "view_entry v = (case v of (path, op, original, modified) \<Rightarrow>
     path @ nul @
     (case op of
        Modify \<Rightarrow> ''modify'' @ nul | Create \<Rightarrow> ''create'' @ nul | Delete \<Rightarrow> ''delete'' @ nul
      | Rename from \<Rightarrow> ''rename'' @ nul @ from @ nul) @ original @ nul @ modified @ nul)"

lemma insort_key_map: "map f (insort_key (\<lambda>x. g (f x)) x xs) = insort_key g (f x) (map f xs)"
  by (induction xs) auto

lemma sort_key_map: "map f (sort_key (\<lambda>x. g (f x)) xs) = sort_key g (map f xs)"
  by (induction xs) (simp_all add: insort_key_map)

lemma canonical_bytes_view:
  "canonical_bytes p = concat (map view_entry (sort_key (\<lambda>v. path_components (fst v)) (map canonical_view (np_files p))))"
proof -
  have e: "canonical_entry f = view_entry (canonical_view f)" for f
    by (simp add: canonical_entry_def view_entry_def canonical_view_def)
  have m: "map canonical_entry xs = map view_entry (map canonical_view xs)" for xs by (simp add: e)
  have k: "(\<lambda>f. path_components (fp_path f)) = (\<lambda>f. path_components (fst (canonical_view f)))"
    by (simp add: canonical_view_def)
  show ?thesis
    unfolding canonical_bytes_def m k sort_key_map[of canonical_view "\<lambda>v. path_components (fst v)"] ..
qed

lemma sort_key_unique:
  assumes "mset xs = mset ys" and "inj_on k (set xs)"
  shows "sort_key k xs = sort_key k ys"
  by (rule sort_key_inj_key_eq) (use assms in auto)

text \<open>C10. Equivalent patches hash equal: the canonical hash does not depend on the order of the
  files, the patch id, the base commit, the stored digests, or whether line ends are CRLF or
  LF, for patches with at most one file per path.\<close>

theorem canonical_hash_equivalent:
  assumes "mset (map canonical_view (np_files p)) = mset (map canonical_view (np_files q))"
    and "inj_on (\<lambda>v. path_components (fst v)) (set (map canonical_view (np_files p)))"
  shows "canonical_hash digest p = canonical_hash digest q"
  by (simp only: canonical_hash_def canonical_bytes_view sort_key_unique[OF assms])

theorem canonical_hash_equivalent_witness:
  "canonical_hash id (nv_new ''1'' [fp_new id ''b'' [] ''x'', fp_new id ''a'' [CHR 0x0D, CHR 0x0A] ''y'']) =
   canonical_hash id (nv_new ''2'' [fp_new id ''a'' [CHR 0x0A] ''y'', fp_new id ''b'' [] ''x''])"
proof (rule canonical_hash_equivalent)
  let ?p = "nv_new ''1'' [fp_new id ''b'' [] ''x'', fp_new id ''a'' [CHR 0x0D, CHR 0x0A] ''y'']"
  have v: "map canonical_view (np_files ?p) =
      [(''b'', Modify, [], ''x''), (''a'', Modify, [CHR 0x0A], ''y'')]" by code_simp
  have w: "map canonical_view (np_files (nv_new ''2'' [fp_new id ''a'' [CHR 0x0A] ''y'', fp_new id ''b'' [] ''x''])) =
      [(''a'', Modify, [CHR 0x0A], ''y''), (''b'', Modify, [], ''x'')]" by code_simp
  show "mset (map canonical_view (np_files ?p)) =
      mset (map canonical_view (np_files (nv_new ''2'' [fp_new id ''a'' [CHR 0x0A] ''y'', fp_new id ''b'' [] ''x''])))"
    unfolding v w by simp
  have "path_components ''a'' \<noteq> path_components ''b''" by code_simp
  then show "inj_on (\<lambda>v. path_components (fst v)) (set (map canonical_view (np_files ?p)))"
    unfolding v by auto
qed

end
