(* ===== verification/DiffModel.thy ===== *)
theory DiffModel
  imports PatchModel
begin

text \<open>
  The unified-diff reader of \<^verbatim>\<open>crates/nerve-patch/src/lib.rs\<close>: file headers, hunk headers and
  bodies, pure renames, and the application of hunks to a text. An index into the list of
  lines is modelled by the lines that are left. A slice at a byte that is not a character
  boundary panics; that outcome is \<open>Panic\<close>.
\<close>

datatype diff_fail = Fail patch_error | Panic

datatype hunk_line = Context string | Add string | Remove string

record parsed_hunk =
  ph_old_start :: nat
  ph_old_count :: nat
  ph_new_count :: nat
  ph_lines :: "hunk_line list"

record parsed_file_diff =
  pd_old_path :: "string option"
  pd_new_path :: "string option"
  pd_rename_from :: "string option"
  pd_rename_to :: "string option"
  pd_hunks :: "parsed_hunk list"

definition invalid_diff :: "string \<Rightarrow> diff_fail" where
  "invalid_diff msg = Fail (InvalidUnifiedDiff msg)"

definition usize_bound :: nat where
  "usize_bound = 2 ^ 64"

section \<open>Paths in headers\<close>

fun unquote_token :: "string \<Rightarrow> string \<Rightarrow> string option" where
  "unquote_token acc [] = None"
| "unquote_token acc (c # cs) =
     (if c = CHR 0x22 then Some acc
      else if c = CHR 0x5C then
        (case cs of
           [] \<Rightarrow> None
         | e # r \<Rightarrow>
             unquote_token (acc @ [if e = CHR ''n'' then CHR 0x0A else if e = CHR ''t'' then CHR 0x09 else e]) r)
      else unquote_token (acc @ [c]) cs)"

definition parse_diff_path_token :: "string \<Rightarrow> string option" where
  "parse_diff_path_token v =
     (case strip_prefix [CHR 0x22] v of
        Some stripped \<Rightarrow> unquote_token [] stripped
      | None \<Rightarrow> (case split_whitespace v of [] \<Rightarrow> None | t # _ \<Rightarrow> Some t))"

definition normalize_diff_path :: "string \<Rightarrow> patch_error + string option" where
  "normalize_diff_path path =
     (if path = ''/dev/null'' then Inr None
      else (let relative = (case strip_prefix ''a/'' path of
                  Some r \<Rightarrow> r
                | None \<Rightarrow> (case strip_prefix ''b/'' path of Some r \<Rightarrow> r | None \<Rightarrow> path))
            in if relative = [] then Inl (UnsafePath path ''empty path'') else Inr (Some relative)))"

definition parse_file_header :: "string \<Rightarrow> string \<Rightarrow> string option option" where
  "parse_file_header line prefix =
     (case strip_prefix prefix (trim_eol line) of
        None \<Rightarrow> None
      | Some rest \<Rightarrow>
          (case parse_diff_path_token (trim_start rest) of
             None \<Rightarrow> None
           | Some token \<Rightarrow>
               (case normalize_diff_path token of Inl _ \<Rightarrow> None | Inr p \<Rightarrow> Some p)))"

fun first_stripped :: "string \<Rightarrow> string list \<Rightarrow> string option" where
  "first_stripped prefix [] = None"
| "first_stripped prefix (l # ls) =
     (case strip_prefix prefix (trim_eol l) of Some r \<Rightarrow> Some r | None \<Rightarrow> first_stripped prefix ls)"

definition parse_rename_path :: "string list \<Rightarrow> string \<Rightarrow> patch_error + string option" where
  "parse_rename_path lines prefix =
     (case first_stripped prefix lines of
        None \<Rightarrow> Inr None
      | Some line \<Rightarrow>
          (case parse_diff_path_token (trim_start line) of
             None \<Rightarrow> Inl (InvalidUnifiedDiff (''empty `'' @ trim_end prefix @ ''` path''))
           | Some token \<Rightarrow> normalize_diff_path token))"

section \<open>Hunks\<close>

fun split_once :: "char \<Rightarrow> string \<Rightarrow> (string \<times> string) option" where
  "split_once c [] = None"
| "split_once c (x # xs) =
     (if x = c then Some ([], xs)
      else map_option (\<lambda>(a, b). (x # a, b)) (split_once c xs))"

definition parse_hunk_range :: "string \<Rightarrow> string \<Rightarrow> (nat \<times> nat) option" where
  "parse_hunk_range v prefix =
     (case strip_prefix prefix v of
        None \<Rightarrow> None
      | Some r \<Rightarrow>
          (case split_once CHR '','' r of
             Some (start, count) \<Rightarrow>
               (case (parse_uint usize_bound start, parse_uint usize_bound count) of
                  (Some a, Some b) \<Rightarrow> Some (a, b) | _ \<Rightarrow> None)
           | None \<Rightarrow> map_option (\<lambda>a. (a, 1)) (parse_uint usize_bound r)))"

definition parse_hunk_header :: "string \<Rightarrow> (nat \<times> nat \<times> nat \<times> nat) option" where
  "parse_hunk_header line =
     (case strip_prefix ''@@ '' (trim_eol line) of
        None \<Rightarrow> None
      | Some rest \<Rightarrow>
          (case find_sub '' @@'' rest of
             None \<Rightarrow> None
           | Some e \<Rightarrow>
               (case split_whitespace (take e rest) of
                  old_range # new_range # _ \<Rightarrow>
                    (case (parse_hunk_range old_range ''-'', parse_hunk_range new_range ''+'') of
                       (Some (os, oc), Some (ns, nc)) \<Rightarrow> Some (os, oc, ns, nc)
                     | _ \<Rightarrow> None)
                | _ \<Rightarrow> None)))"

definition drop_newline :: "string \<Rightarrow> string" where
  "drop_newline v =
     (if v \<noteq> [] \<and> last v = CHR 0x0A
      then (let b = butlast v in if b \<noteq> [] \<and> last b = CHR 0x0D then butlast b else b)
      else v)"

fun hunk_text :: "hunk_line \<Rightarrow> string" where
  "hunk_text (Context v) = v"
| "hunk_text (Add v) = v"
| "hunk_text (Remove v) = v"

fun hunk_map_text :: "(string \<Rightarrow> string) \<Rightarrow> hunk_line \<Rightarrow> hunk_line" where
  "hunk_map_text f (Context v) = Context (f v)"
| "hunk_map_text f (Add v) = Add (f v)"
| "hunk_map_text f (Remove v) = Remove (f v)"

definition mark_previous_line_without_newline :: "hunk_line list \<Rightarrow> diff_fail + hunk_line list" where
  "mark_previous_line_without_newline hls =
     (if hls = [] then Inl (invalid_diff ''newline marker without previous hunk line'')
      else Inr (butlast hls @ [hunk_map_text drop_newline (last hls)]))"

definition newline_marker :: string where
  "newline_marker = [CHR 0x5C] @ '' No newline at end of file''"

definition hunk_finish ::
  "nat \<Rightarrow> nat \<Rightarrow> nat \<Rightarrow> nat \<Rightarrow> hunk_line list \<Rightarrow> string list \<Rightarrow> diff_fail + hunk_line list \<times> string list" where
  "hunk_finish oc nc os ns acc rest =
     (if os \<noteq> oc \<or> ns \<noteq> nc
      then Inl (invalid_diff (''hunk line count mismatch: expected -'' @ show_nat oc @ '' +'' @ show_nat nc
             @ '', got -'' @ show_nat os @ '' +'' @ show_nat ns))
      else Inr (acc, rest))"

text \<open>\<^verbatim>\<open>line[1..]\<close> panics when byte 1 is a continuation byte.\<close>

definition slice_panics :: "string \<Rightarrow> bool" where
  "slice_panics tl_bytes = (tl_bytes \<noteq> [] \<and> cont_byte (of_char (hd tl_bytes)))"

fun parse_hunk_lines ::
  "nat \<Rightarrow> nat \<Rightarrow> nat \<Rightarrow> nat \<Rightarrow> hunk_line list \<Rightarrow> string list \<Rightarrow> diff_fail + hunk_line list \<times> string list" where
  "parse_hunk_lines oc nc os ns acc [] = hunk_finish oc nc os ns acc []"
| "parse_hunk_lines oc nc os ns acc (line # rest) =
     (if os < oc \<or> ns < nc then
        (if starts_with newline_marker line then
           res_bind (mark_previous_line_without_newline acc)
             (\<lambda>acc'. parse_hunk_lines oc nc os ns acc' rest)
         else (case line of
            [] \<Rightarrow> Inl (invalid_diff ''empty hunk line'')
          | p # body \<Rightarrow>
              if slice_panics body then Inl Panic
              else if p = CHR '' '' then
                parse_hunk_lines oc nc (Suc os) (Suc ns) (acc @ [Context body]) rest
              else if p = CHR ''-'' then
                parse_hunk_lines oc nc (Suc os) ns (acc @ [Remove body]) rest
              else if p = CHR ''+'' then
                parse_hunk_lines oc nc os (Suc ns) (acc @ [Add body]) rest
              else Inl (invalid_diff (''unexpected hunk line prefix `'' @ [p] @ ''`''))))
      else hunk_finish oc nc os ns acc (line # rest))"

lemma parse_hunk_lines_rest:
  "parse_hunk_lines oc nc os ns acc ls = Inr (hls, rest) \<Longrightarrow> length rest \<le> length ls"
proof (induction oc nc os ns acc ls rule: parse_hunk_lines.induct)
  case (1 oc nc os ns acc)
  then show ?case by (simp add: hunk_finish_def split: if_splits)
next
  case (2 oc nc os ns acc line rest')
  show ?case
  proof (cases "os < oc \<or> ns < nc")
    case False
    with 2(5) show ?thesis by (auto simp: hunk_finish_def split: if_splits)
  next
    case True
    with 2 show ?thesis
      by (auto simp: res_bind_Inr split: if_splits list.splits) fastforce+
  qed
qed

function parse_hunks :: "string list \<Rightarrow> diff_fail + parsed_hunk list \<times> string list" where
  "parse_hunks [] = Inr ([], [])"
| "parse_hunks (l # ls) =
     (if parse_file_header l ''--- '' \<noteq> None then Inr ([], l # ls)
      else (case parse_hunk_header l of
          None \<Rightarrow> parse_hunks ls
        | Some (os, oc, _, nc) \<Rightarrow>
            (case parse_hunk_lines oc nc 0 0 [] ls of
               Inl e \<Rightarrow> Inl e
             | Inr (hls, rest) \<Rightarrow>
                 res_bind (parse_hunks rest) (\<lambda>(hs, rest').
                   Inr (\<lparr>ph_old_start = os, ph_old_count = oc, ph_new_count = nc, ph_lines = hls\<rparr> # hs,
                        rest')))))"
  by pat_completeness auto
termination
  by (relation "measure length") (auto dest: parse_hunk_lines_rest)

lemma parse_hunks_rest: "parse_hunks ls = Inr (hs, rest) \<Longrightarrow> length rest \<le> length ls"
proof (induction ls arbitrary: hs rest rule: parse_hunks.induct)
  case 1
  then show ?case by simp
next
  case (2 l ls)
  show ?case
  proof (cases "parse_file_header l ''--- '' \<noteq> None")
    case True
    with 2(3) show ?thesis by simp
  next
    case False
    show ?thesis
    proof (cases "parse_hunk_header l")
      case None
      have "length rest \<le> length ls" by (rule 2(1)[OF False None]) (use 2(3) False None in simp)
      then show ?thesis by simp
    next
      case (Some h)
      obtain os oc x nc where h: "h = (os, oc, x, nc)" by (cases h) auto
      from 2(3) False Some h obtain hls mid where
          body: "parse_hunk_lines oc nc 0 0 [] ls = Inr (hls, mid)"
        by (auto split: sum.splits)
      from 2(3) False Some h body obtain hs' where tail: "parse_hunks mid = Inr (hs', rest)"
        by (auto simp: res_bind_Inr)
      have "length rest \<le> length mid" using 2(2)[OF False Some h[symmetric] refl refl body refl tail] .
      with parse_hunk_lines_rest[OF body] show ?thesis by simp
    qed
  qed
qed

section \<open>File diffs\<close>

function parse_file_blocks :: "string list \<Rightarrow> diff_fail + parsed_file_diff list" where
  "parse_file_blocks [] = Inr []"
| "parse_file_blocks (l # ls) =
     (case parse_file_header l ''--- '' of
        None \<Rightarrow> parse_file_blocks ls
      | Some old \<Rightarrow>
          (case ls of
             [] \<Rightarrow> Inl (invalid_diff ''missing +++ file header after --- header'')
           | n # rest \<Rightarrow>
               (case parse_file_header n ''+++ '' of
                  None \<Rightarrow> parse_file_blocks ls
                | Some new \<Rightarrow>
                    (case parse_hunks rest of
                       Inl e \<Rightarrow> Inl e
                     | Inr (hs, rest') \<Rightarrow>
                         res_bind (parse_file_blocks rest') (\<lambda>fs.
                           Inr (if hs = [] then fs
                                else \<lparr>pd_old_path = old, pd_new_path = new, pd_rename_from = None,
                                      pd_rename_to = None, pd_hunks = hs\<rparr> # fs))))))"
  by pat_completeness auto
termination
  by (relation "measure length") (auto dest: parse_hunks_rest)

definition is_git_header :: "string \<Rightarrow> bool" where
  "is_git_header l = starts_with ''diff --git '' l"

function parse_pure_rename_diffs :: "string list \<Rightarrow> diff_fail + parsed_file_diff list" where
  "parse_pure_rename_diffs [] = Inr []"
| "parse_pure_rename_diffs (l # ls) =
     (if \<not> is_git_header l then parse_pure_rename_diffs ls
      else (let block = l # takeWhile (\<lambda>x. \<not> is_git_header x) ls;
                rest = dropWhile (\<lambda>x. \<not> is_git_header x) ls in
            if \<exists>x \<in> set block. parse_file_header x ''--- '' \<noteq> None then parse_pure_rename_diffs rest
            else (case parse_rename_path block ''rename from '' of
                Inl e \<Rightarrow> Inl (Fail e)
              | Inr rfrom \<Rightarrow>
                  (case parse_rename_path block ''rename to '' of
                     Inl e \<Rightarrow> Inl (Fail e)
                   | Inr rto \<Rightarrow>
                       res_bind (parse_pure_rename_diffs rest) (\<lambda>fs.
                         Inr (if rfrom \<noteq> None \<or> rto \<noteq> None
                              then \<lparr>pd_old_path = None, pd_new_path = None, pd_rename_from = rfrom,
                                    pd_rename_to = rto, pd_hunks = []\<rparr> # fs
                              else fs))))))"
  by pat_completeness auto
termination
  by (relation "measure length") (auto simp: le_imp_less_Suc length_dropWhile_le)

definition parse_file_diffs :: "string \<Rightarrow> diff_fail + parsed_file_diff list" where
  "parse_file_diffs diff =
     (let lines = split_inclusive CHR 0x0A diff in
      res_bind (parse_file_blocks lines) (\<lambda>files.
      res_bind (parse_pure_rename_diffs lines) (\<lambda>renames. Inr (files @ renames))))"

section \<open>Applying hunks\<close>

definition hunk_old :: "hunk_line list \<Rightarrow> string list" where
  "hunk_old hls = map hunk_text (filter (\<lambda>l. case l of Add _ \<Rightarrow> False | _ \<Rightarrow> True) hls)"

definition hunk_new :: "hunk_line list \<Rightarrow> string list" where
  "hunk_new hls = map hunk_text (filter (\<lambda>l. case l of Remove _ \<Rightarrow> False | _ \<Rightarrow> True) hls)"

definition validate_hunk_counts :: "parsed_hunk \<Rightarrow> patch_error + unit" where
  "validate_hunk_counts h =
     (let old_seen = length (filter (\<lambda>l. case l of Add _ \<Rightarrow> False | _ \<Rightarrow> True) (ph_lines h));
          new_seen = length (filter (\<lambda>l. case l of Remove _ \<Rightarrow> False | _ \<Rightarrow> True) (ph_lines h)) in
      if old_seen \<noteq> ph_old_count h \<or> new_seen \<noteq> ph_new_count h
      then Inl (InvalidUnifiedDiff ''parsed hunk counts do not match hunk header'')
      else Inr ())"

definition consume_original_line :: "string list \<Rightarrow> nat \<Rightarrow> string \<Rightarrow> patch_error + nat" where
  "consume_original_line orig i expected =
     (if i < length orig then
        (if orig ! i \<noteq> expected
         then Inl (InvalidUnifiedDiff (''hunk context mismatch at target line '' @ show_nat (i + 1)))
         else Inr (i + 1))
      else Inl (InvalidUnifiedDiff ''hunk consumes past end of target file''))"

fun apply_hunk_lines ::
  "string list \<Rightarrow> nat \<Rightarrow> string list \<Rightarrow> hunk_line list \<Rightarrow> patch_error + nat \<times> string list" where
  "apply_hunk_lines orig i acc [] = Inr (i, acc)"
| "apply_hunk_lines orig i acc (Context v # hls) =
     res_bind (consume_original_line orig i v) (\<lambda>i'. apply_hunk_lines orig i' (acc @ [v]) hls)"
| "apply_hunk_lines orig i acc (Remove v # hls) =
     res_bind (consume_original_line orig i v) (\<lambda>i'. apply_hunk_lines orig i' acc hls)"
| "apply_hunk_lines orig i acc (Add v # hls) = apply_hunk_lines orig i (acc @ [v]) hls"

fun apply_hunks_loop ::
  "string list \<Rightarrow> nat \<Rightarrow> string list \<Rightarrow> parsed_hunk list \<Rightarrow> patch_error + string list" where
  "apply_hunks_loop orig i acc [] = Inr (acc @ drop i orig)"
| "apply_hunks_loop orig i acc (h # hs) =
     res_bind (validate_hunk_counts h) (\<lambda>_.
       (let target = ph_old_start h - 1 in
        if target < i \<or> target > length orig
        then Inl (InvalidUnifiedDiff (''hunk starts outside target file at line '' @ show_nat (ph_old_start h)))
        else res_bind (apply_hunk_lines orig target (acc @ take (target - i) (drop i orig)) (ph_lines h))
               (\<lambda>(i', acc'). apply_hunks_loop orig i' acc' hs)))"

definition apply_hunks :: "string \<Rightarrow> parsed_hunk list \<Rightarrow> patch_error + string" where
  "apply_hunks original hunks =
     res_bind (apply_hunks_loop (split_inclusive CHR 0x0A original) 0 [] hunks) (\<lambda>ls. Inr (concat ls))"

section \<open>From a diff to a patch\<close>

definition pd_target :: "parsed_file_diff \<Rightarrow> patch_error + string \<times> file_operation" where
  "pd_target d =
     (if pd_rename_from d \<noteq> None \<or> pd_rename_to d \<noteq> None
      then (case pd_rename_from d of
          None \<Rightarrow> Inl (InvalidUnifiedDiff ''rename diff is missing `rename from`'')
        | Some from \<Rightarrow>
            (case pd_rename_to d of
               None \<Rightarrow> Inl (InvalidUnifiedDiff ''rename diff is missing `rename to`'')
             | Some to \<Rightarrow> Inr (to, Rename from)))
      else (case (pd_old_path d, pd_new_path d) of
          (None, Some new_path) \<Rightarrow> Inr (new_path, Create)
        | (Some old_path, None) \<Rightarrow> Inr (old_path, Delete)
        | (Some old_path, Some new_path) \<Rightarrow>
            if path_eq old_path new_path then Inr (new_path, Modify) else Inr (new_path, Rename old_path)
        | (None, None) \<Rightarrow> Inl (InvalidUnifiedDiff ''file diff has neither old nor new path'')))"

definition to_file_patch ::
  "(string \<Rightarrow> string) \<Rightarrow> loc \<Rightarrow> fs \<Rightarrow> parsed_file_diff \<Rightarrow> patch_error + file_patch" where
  "to_file_patch digest cwd s d =
     res_bind (pd_target d) (\<lambda>(path, operation).
     res_bind (ensure_safe_relative_path cwd path s) (\<lambda>_.
     res_bind (case operation of
                 Rename from \<Rightarrow> ensure_safe_relative_path cwd from s | _ \<Rightarrow> Inr ()) (\<lambda>_.
     res_bind (case operation of
                 Create \<Rightarrow> Inr []
               | Rename from \<Rightarrow> read_to_string cwd from s
               | _ \<Rightarrow> read_to_string cwd path s) (\<lambda>original.
     res_bind (if pd_hunks d = []
               then (case operation of
                   Rename _ \<Rightarrow> Inr original
                 | _ \<Rightarrow> Inl (InvalidUnifiedDiff ''file diff has no hunks''))
               else apply_hunks original (pd_hunks d)) (\<lambda>modified.
     Inr (fp_with_operation digest path operation original modified))))))"

definition fail_res :: "patch_error + 'a \<Rightarrow> diff_fail + 'a" where
  "fail_res r = (case r of Inl e \<Rightarrow> Inl (Fail e) | Inr a \<Rightarrow> Inr a)"

definition from_unified_diff ::
  "(string \<Rightarrow> string) \<Rightarrow> string \<Rightarrow> loc \<Rightarrow> fs \<Rightarrow> string \<Rightarrow> diff_fail + nv_patch option" where
  "from_unified_diff digest uuid cwd s diff =
     res_bind (parse_file_diffs diff) (\<lambda>fds.
       if fds = [] then Inr None
       else res_bind (fail_res (res_map (to_file_patch digest cwd s) fds)) (\<lambda>files.
              Inr (Some (nv_new uuid files))))"

end
