(* ===== verification/DiffRoundtrip.thy ===== *)
theory DiffRoundtrip
  imports DiffProps "HOL-Library.Code_Target_Nat"
begin

text \<open>
  Printing hunks in unified format and reading them back: the specification side prints a file
  diff with \<open>render_file\<close>; the reader of the code recovers the very hunks and, against a
  matching file, builds the patch that the hunks describe. The last section evaluates the
  reader on the corners of the format.
\<close>

section \<open>The printed form\<close>

fun render_line :: "hunk_line \<Rightarrow> string" where
  "render_line (Context v) = CHR '' '' # v"
| "render_line (Add v) = CHR ''+'' # v"
| "render_line (Remove v) = CHR ''-'' # v"

definition hunk_header :: "nat \<Rightarrow> parsed_hunk \<Rightarrow> string" where
  "hunk_header new_start h =
     ''@@ -'' @ show_nat (ph_old_start h) @ '','' @ show_nat (ph_old_count h) @ '' +'' @
     show_nat new_start @ '','' @ show_nat (ph_new_count h) @ '' @@''"

definition render_hunk :: "nat \<times> parsed_hunk \<Rightarrow> string list" where
  "render_hunk nh = (hunk_header (fst nh) (snd nh) @ [CHR 0x0A]) # map render_line (ph_lines (snd nh))"

definition render_file :: "string \<Rightarrow> (nat \<times> parsed_hunk) list \<Rightarrow> string list" where
  "render_file path nhs =
     [''--- a/'' @ path @ [CHR 0x0A], ''+++ b/'' @ path @ [CHR 0x0A]] @ concat (map render_hunk nhs)"

definition full_line :: "string \<Rightarrow> bool" where
  "full_line t = (t \<noteq> [] \<and> last t = CHR 0x0A \<and> CHR 0x0A \<notin> set (butlast t) \<and> \<not> slice_panics t)"

definition wf_hunk :: "parsed_hunk \<Rightarrow> bool" where
  "wf_hunk h =
     (list_all (\<lambda>l. full_line (hunk_text l)) (ph_lines h) \<and>
      ph_old_count h = length (hunk_old (ph_lines h)) \<and>
      ph_new_count h = length (hunk_new (ph_lines h)) \<and>
      ph_old_start h < usize_bound \<and> ph_old_count h < usize_bound \<and> ph_new_count h < usize_bound)"

definition plain_path :: "string \<Rightarrow> bool" where
  "plain_path p = (p \<noteq> [] \<and> list_all (\<lambda>c. \<not> is_ws c) p)"

section \<open>Headers\<close>

lemma digit_not_ws: "c \<in> set (show_nat n) \<Longrightarrow> \<not> is_ws c"
  using show_nat_char[of c n] by (auto simp: is_ws_def)

lemma digit_not_in_show: "\<not> (48 \<le> (of_char c :: nat) \<and> (of_char c :: nat) \<le> 57) \<Longrightarrow> c \<notin> set (show_nat n)"
  using show_nat_char[of c n] by auto

lemma split_once_app: "c \<notin> set a \<Longrightarrow> split_once c (a @ c # b) = Some (a, b)"
  by (induction a) auto

lemma parse_hunk_range_show:
  "a < usize_bound \<Longrightarrow> b < usize_bound \<Longrightarrow>
   parse_hunk_range (p @ show_nat a @ '','' @ show_nat b) p = Some (a, b)"
proof -
  assume ab: "a < usize_bound" "b < usize_bound"
  have "CHR '','' \<notin> set (show_nat a)" by (rule digit_not_in_show) simp
  then have "split_once CHR '','' (show_nat a @ CHR '','' # show_nat b) = Some (show_nat a, show_nat b)"
    by (rule split_once_app)
  with ab show ?thesis by (simp add: parse_hunk_range_def parse_uint_show)
qed

lemma find_sub_first:
  "p = x # y # ps \<Longrightarrow> y \<notin> set a \<Longrightarrow> x \<noteq> y \<Longrightarrow> find_sub p (a @ p @ b) = Some (length a)"
proof (induction a)
  case Nil
  have "starts_with p (p @ b)" by simp
  with Nil show ?case by simp
next
  case (Cons c a)
  have "\<not> starts_with p (c # a @ p @ b)"
    using Cons.prems by (cases a) (auto simp: starts_with_def)
  with Cons show ?case by simp
qed

lemma parse_hunk_header_render:
  assumes "ph_old_start h < usize_bound" and "ph_old_count h < usize_bound"
    and "ph_new_count h < usize_bound" and "n < usize_bound"
  shows "parse_hunk_header (hunk_header n h @ [CHR 0x0A]) = Some (ph_old_start h, ph_old_count h, n, ph_new_count h)"
proof -
  let ?old = "''-'' @ show_nat (ph_old_start h) @ '','' @ show_nat (ph_old_count h)"
  let ?new = "''+'' @ show_nat n @ '','' @ show_nat (ph_new_count h)"
  let ?body = "?old @ '' '' @ ?new"
  have hh: "hunk_header n h = ''@@ '' @ ?body @ '' @@''" by (simp add: hunk_header_def)
  have last: "last (hunk_header n h) = CHR ''@''" by (simp add: hunk_header_def)
  have eol: "trim_eol (hunk_header n h @ [CHR 0x0A]) = hunk_header n h"
    by (rule trim_eol_line) (simp add: last)
  have at: "CHR ''@'' \<notin> set ?body" by (auto dest: show_nat_char)
  have find: "find_sub '' @@'' (?body @ '' @@'') = Some (length ?body)"
    using find_sub_first[of "'' @@''" "CHR '' ''" "CHR ''@''" "''@''" ?body "[]"] at by simp
  have ws: "\<forall>c \<in> set ?old. \<not> is_ws c" "\<forall>c \<in> set ?new. \<not> is_ws c"
    using digit_not_ws by (auto simp: is_ws_def)
  have toks: "split_whitespace ?body = [?old, ?new]"
    using tokens_by_cons[of ?old is_ws "CHR '' ''" ?new] tokens_by_single[of ?new is_ws] ws
    by (simp add: split_whitespace_def is_ws_def)
  have ranges: "parse_hunk_range ?old ''-'' = Some (ph_old_start h, ph_old_count h)"
    "parse_hunk_range ?new ''+'' = Some (n, ph_new_count h)"
    using assms by (simp_all only: parse_hunk_range_show)
  have strip: "strip_prefix ''@@ '' (hunk_header n h) = Some (?body @ '' @@'')"
    unfolding hh by (rule strip_prefix_append)
  have tk: "take (length ?body) (?body @ '' @@'') = ?body" by (rule append_eq_conv_conj[THEN iffD1, THEN conjunct1, OF refl, symmetric])
  show ?thesis
    unfolding parse_hunk_header_def eol strip option.case find tk toks list.case ranges prod.case ..
qed

section \<open>Hunk bodies\<close>

lemma render_line_not_marker: "\<not> starts_with newline_marker (render_line l)"
  by (cases l) (simp_all add: starts_with_def newline_marker_def)

lemma parse_hunk_lines_render:
  "list_all (\<lambda>l. full_line (hunk_text l)) hls \<Longrightarrow>
   parse_hunk_lines (os + length (hunk_old hls)) (ns + length (hunk_new hls)) os ns acc
     (map render_line hls @ rest) = Inr (acc @ hls, rest)"
proof (induction hls arbitrary: os ns acc)
  case Nil
  then show ?case by (cases rest) (simp_all add: hunk_finish_def)
next
  case (Cons l hls)
  have np: "\<not> slice_panics (hunk_text l)" using Cons.prems by (simp add: full_line_def)
  have IH: "parse_hunk_lines (os' + length (hunk_old hls)) (ns' + length (hunk_new hls)) os' ns' (acc @ [l])
      (map render_line hls @ rest) = Inr (acc @ l # hls, rest)" for os' ns'
    using Cons.IH[of os' ns' "acc @ [l]"] Cons.prems by simp
  show ?case
    using np render_line_not_marker[of l] IH[of "Suc os" "Suc ns"] IH[of "Suc os" ns] IH[of os "Suc ns"]
    by (cases l) simp_all
qed

lemma trim_eol_prefix: "\<exists>b. s = trim_eol s @ b"
proof -
  let ?P = "\<lambda>c. c = CHR 0x0D \<or> c = CHR 0x0A"
  have "s = rev (takeWhile ?P (rev s) @ dropWhile ?P (rev s))" by simp
  also have "\<dots> = trim_eol s @ rev (takeWhile ?P (rev s))" by (simp only: rev_append trim_eol_def)
  finally show ?thesis by blast
qed

lemma header_not_file: "p = c # ps \<Longrightarrow> x \<noteq> c \<Longrightarrow> parse_file_header (x # r @ [CHR 0x0A]) p = None"
proof -
  assume p: "p = c # ps" "x \<noteq> c"
  obtain b where b: "x # r @ [CHR 0x0A] = trim_eol (x # r @ [CHR 0x0A]) @ b"
    using trim_eol_prefix[of "x # r @ [CHR 0x0A]"] by blast
  have "trim_eol (x # r @ [CHR 0x0A]) = [] \<or> (\<exists>r'. trim_eol (x # r @ [CHR 0x0A]) = x # r')"
    by (cases "trim_eol (x # r @ [CHR 0x0A])") (use b in auto)
  then show ?thesis using p by (auto simp: parse_file_header_def)
qed

lemma header_line_shape: "hunk_header n h @ [CHR 0x0A] = CHR ''@'' # tl (hunk_header n h) @ [CHR 0x0A]"
  by (simp add: hunk_header_def)

lemma parse_hunks_render:
  "\<forall>nh \<in> set nhs. wf_hunk (snd nh) \<and> fst nh < usize_bound \<Longrightarrow>
   parse_hunks (concat (map render_hunk nhs)) = Inr (map snd nhs, [])"
proof (induction nhs)
  case Nil
  then show ?case by simp
next
  case (Cons nh nhs)
  let ?h = "snd nh" and ?tail = "concat (map render_hunk nhs)"
  have wf: "wf_hunk ?h" and n: "fst nh < usize_bound" using Cons.prems by auto
  have IH: "parse_hunks ?tail = Inr (map snd nhs, [])" using Cons by simp
  have nf: "parse_file_header (hunk_header (fst nh) ?h @ [CHR 0x0A]) ''--- '' = None"
    unfolding header_line_shape by (rule header_not_file[of "''--- ''" "CHR ''-''" "''-- ''"]) simp_all
  have hd: "parse_hunk_header (hunk_header (fst nh) ?h @ [CHR 0x0A]) =
      Some (ph_old_start ?h, ph_old_count ?h, fst nh, ph_new_count ?h)"
    using wf n by (intro parse_hunk_header_render) (simp_all add: wf_hunk_def)
  have body: "parse_hunk_lines (ph_old_count ?h) (ph_new_count ?h) 0 0 []
      (map render_line (ph_lines ?h) @ ?tail) = Inr (ph_lines ?h, ?tail)"
    using parse_hunk_lines_render[of "ph_lines ?h" 0 0 "[]" ?tail] wf by (simp add: wf_hunk_def)
  have "concat (map render_hunk (nh # nhs)) =
      (hunk_header (fst nh) ?h @ [CHR 0x0A]) # (map render_line (ph_lines ?h) @ ?tail)"
    by (simp add: render_hunk_def)
  then show ?case using nf hd body IH by simp
qed

section \<open>Whole files\<close>

lemma parse_file_header_plain:
  assumes "plain_path p" and "prefix = ''--- '' \<and> ab = ''a/'' \<or> prefix = ''+++ '' \<and> ab = ''b/''"
  shows "parse_file_header (prefix @ ab @ p @ [CHR 0x0A]) prefix = Some (Some p)"
proof -
  have p: "p \<noteq> []" "\<forall>c \<in> set p. \<not> is_ws c" using assms(1) by (auto simp: plain_path_def list_all_iff)
  have "\<not> is_ws (last p)" using p by simp
  then have lp: "last p \<noteq> CHR 0x0D \<and> last p \<noteq> CHR 0x0A" by (auto simp: is_ws_def)
  have eol: "trim_eol (prefix @ ab @ p @ [CHR 0x0A]) = prefix @ ab @ p"
    using trim_eol_line[of "prefix @ ab @ p"] lp p(1) by simp
  have "\<forall>c \<in> set ab. \<not> is_ws c" using assms(2) by (elim disjE) (simp_all add: is_ws_def)
  then have ws: "\<forall>c \<in> set (ab @ p). \<not> is_ws c" using p(2) by (simp add: ball_Un)
  have "ab @ p \<noteq> []" using p(1) by simp
  then have "\<not> is_ws (hd (ab @ p))" using ws hd_in_set by blast
  then have start: "trim_start (ab @ p) = ab @ p" by (simp only: trim_start_def dropWhile_eq_self_iff) simp
  have tok: "split_whitespace (ab @ p) = [ab @ p]"
    using tokens_by_single[of "ab @ p" is_ws] ws p(1) by (simp add: split_whitespace_def)
  have token: "parse_diff_path_token (ab @ p) = Some (ab @ p)"
    using assms(2) tok by (auto simp: parse_diff_path_token_def)
  have norm: "normalize_diff_path (ab @ p) = Inr (Some p)"
    using assms(2) p(1) by (auto simp: normalize_diff_path_def)
  show ?thesis
    unfolding parse_file_header_def eol using start token norm by simp
qed

lemma not_git_header: "l = x # r \<Longrightarrow> x \<noteq> CHR ''d'' \<Longrightarrow> \<not> is_git_header l"
  by (simp add: is_git_header_def starts_with_def)

lemma no_renames: "\<forall>l \<in> set ls. \<not> is_git_header l \<Longrightarrow> parse_pure_rename_diffs ls = Inr []"
  by (induction ls) auto

lemma full_line_form: "full_line t \<Longrightarrow> \<exists>b. CHR 0x0A \<notin> set b \<and> t = b @ [CHR 0x0A]"
  unfolding full_line_def by (metis append_butlast_last_id)

lemma render_line_full:
  assumes "full_line (hunk_text l)"
  shows "\<exists>b. CHR 0x0A \<notin> set b \<and> render_line l = b @ [CHR 0x0A]"
proof -
  obtain b where b: "CHR 0x0A \<notin> set b" "hunk_text l = b @ [CHR 0x0A]" using full_line_form[OF assms] by blast
  show ?thesis
  proof (cases l)
    case (Context v)
    with b show ?thesis by (intro exI[of _ "CHR '' '' # b"]) simp
  next
    case (Add v)
    with b show ?thesis by (intro exI[of _ "CHR ''+'' # b"]) simp
  next
    case (Remove v)
    with b show ?thesis by (intro exI[of _ "CHR ''-'' # b"]) simp
  qed
qed

lemma set_two_concat:
  "l \<in> set ([a, b] @ concat (map f xs)) \<Longrightarrow> l = a \<or> l = b \<or> (\<exists>x \<in> set xs. l \<in> set (f x))"
  by auto

lemma render_file_lines:
  assumes "plain_path p" and "\<forall>nh \<in> set nhs. wf_hunk (snd nh)" and "l \<in> set (render_file p nhs)"
  shows "(\<exists>b. CHR 0x0A \<notin> set b \<and> l = b @ [CHR 0x0A]) \<and> \<not> is_git_header l"
proof -
  have nl: "is_ws CHR 0x0A" by (simp add: is_ws_def)
  have np: "CHR 0x0A \<notin> set p"
  proof
    assume "CHR 0x0A \<in> set p"
    moreover have "list_all (\<lambda>c. \<not> is_ws c) p" using assms(1) by (simp add: plain_path_def)
    ultimately show False using nl by (simp add: list_all_iff)
  qed
  have "l = ''--- a/'' @ p @ [CHR 0x0A] \<or> l = ''+++ b/'' @ p @ [CHR 0x0A] \<or>
      (\<exists>nh \<in> set nhs. l \<in> set (render_hunk nh))"
    using assms(3) unfolding render_file_def by (rule set_two_concat)
  then have "l = ''--- a/'' @ p @ [CHR 0x0A] \<or> l = ''+++ b/'' @ p @ [CHR 0x0A] \<or>
      (\<exists>nh \<in> set nhs. l = hunk_header (fst nh) (snd nh) @ [CHR 0x0A] \<or>
         (\<exists>x \<in> set (ph_lines (snd nh)). l = render_line x))"
    unfolding render_hunk_def by (simp only: list.set set_map insert_iff image_iff)
  then consider "l = ''--- a/'' @ p @ [CHR 0x0A]" | "l = ''+++ b/'' @ p @ [CHR 0x0A]"
    | n h where "l = hunk_header n h @ [CHR 0x0A]"
    | h x where "wf_hunk h" "x \<in> set (ph_lines h)" "l = render_line x"
    using assms(2) by blast
  then show ?thesis
  proof cases
    case 1
    have "l = (''--- a/'' @ p) @ [CHR 0x0A]" using 1 by simp
    moreover have "CHR 0x0A \<notin> set (''--- a/'' @ p)" using np by simp
    ultimately show ?thesis by (auto simp: is_git_header_def starts_with_def)
  next
    case 2
    have "l = (''+++ b/'' @ p) @ [CHR 0x0A]" using 2 by simp
    moreover have "CHR 0x0A \<notin> set (''+++ b/'' @ p)" using np by simp
    ultimately show ?thesis by (auto simp: is_git_header_def starts_with_def)
  next
    case 3
    have "CHR 0x0A \<notin> set (hunk_header n h)" by (auto simp: hunk_header_def dest: show_nat_char)
    moreover have "\<not> is_git_header l" unfolding 3 header_line_shape by (rule not_git_header[OF refl]) simp
    ultimately show ?thesis using 3 by auto
  next
    case 4
    then have "full_line (hunk_text x)" by (auto simp: wf_hunk_def list_all_iff)
    moreover have "\<not> is_git_header l" unfolding 4(3)
        by (cases x) (simp_all add: not_git_header[OF refl])
    ultimately show ?thesis using render_line_full[of x] 4 by auto
  qed
qed

text \<open>C8. Round trip of the format: the reader recovers the path and exactly the hunks that were
  printed, for any path without white space and any hunks whose lines are newline-terminated
  and whose counts are those of their lines.\<close>

theorem parse_render_file:
  assumes "plain_path p" and "\<forall>nh \<in> set nhs. wf_hunk (snd nh) \<and> fst nh < usize_bound" and "nhs \<noteq> []"
  shows "parse_file_diffs (concat (render_file p nhs)) =
           Inr [\<lparr>pd_old_path = Some p, pd_new_path = Some p, pd_rename_from = None,
                 pd_rename_to = None, pd_hunks = map snd nhs\<rparr>]"
proof -
  let ?ls = "render_file p nhs"
  have shape: "\<And>l. l \<in> set ?ls \<Longrightarrow> (\<exists>b. CHR 0x0A \<notin> set b \<and> l = b @ [CHR 0x0A]) \<and> \<not> is_git_header l"
    using render_file_lines[OF assms(1), of nhs] assms(2) by simp
  have lines: "split_inclusive CHR 0x0A (concat ?ls) = ?ls"
    using split_inclusive_lines[of ?ls "CHR 0x0A" "[]"] shape by simp
  have old: "parse_file_header (''--- a/'' @ p @ [CHR 0x0A]) ''--- '' = Some (Some p)"
    and new: "parse_file_header (''+++ b/'' @ p @ [CHR 0x0A]) ''+++ '' = Some (Some p)"
    using parse_file_header_plain[OF assms(1), of "''--- ''" "''a/''"]
      parse_file_header_plain[OF assms(1), of "''+++ ''" "''b/''"] by simp_all
  have "parse_file_blocks ?ls = Inr [\<lparr>pd_old_path = Some p, pd_new_path = Some p, pd_rename_from = None,
                 pd_rename_to = None, pd_hunks = map snd nhs\<rparr>]"
    using old new parse_hunks_render[OF assms(2)] assms(3) by (simp add: render_file_def)
  moreover have "parse_pure_rename_diffs ?ls = Inr []"
    using shape by (intro no_renames) blast
  ultimately show ?thesis by (simp add: parse_file_diffs_def lines)
qed

definition demo_hunk :: parsed_hunk where
  "demo_hunk = \<lparr>ph_old_start = 2, ph_old_count = 2, ph_new_count = 2,
     ph_lines = [Context (''b'' @ [CHR 0x0A]), Remove (''c'' @ [CHR 0x0A]), Add (''x'' @ [CHR 0x0A])]\<rparr>"

theorem parse_render_file_witness:
  "parse_file_diffs (concat (render_file ''src/f.rs'' [(2, demo_hunk)])) =
     Inr [\<lparr>pd_old_path = Some ''src/f.rs'', pd_new_path = Some ''src/f.rs'', pd_rename_from = None,
           pd_rename_to = None, pd_hunks = [demo_hunk]\<rparr>]"
proof -
  have 1: "plain_path ''src/f.rs''" by code_simp
  have "wf_hunk demo_hunk" by code_simp
  moreover have "(2::nat) < usize_bound" by (simp add: usize_bound_def)
  ultimately have 2: "\<forall>nh \<in> set [(2, demo_hunk)]. wf_hunk (snd nh) \<and> fst nh < usize_bound" by simp
  show ?thesis using parse_render_file[OF 1 2] by simp
qed



section \<open>Corners of the format\<close>

text \<open>Text without a final newline in the demo tree, and diffs against it.\<close>

definition eof_fs :: fs where
  "eof_fs = \<lparr>nodes = map_of [([''w''], Dir), ([''w'', ''f''], File ''a''),
       ([''w'', ''g''], File (''x'' @ [CHR 0x0A] @ ''end'')),
       ([''w'', ''h''], File (''a'' @ [CHR 0x0A] @ ''b'' @ [CHR 0x0A]))],
     faults = [], uuid_seq = (\<lambda>_. ''u''), uuid_pos = 0\<rparr>"

definition diff_text :: "string list \<Rightarrow> string" where
  "diff_text ls = concat (map (\<lambda>l. l @ [CHR 0x0A]) ls)"

text \<open>The marker after the last line of a hunk is never consumed, because the loop stops when the
  counts are reached: a replacement without final newline gains one.\<close>

lemma eof_marker_ignored:
  "from_unified_diff id ''u'' [''w''] eof_fs
     (diff_text [''--- a/f'', ''+++ b/f'', ''@@ -1 +1 @@'', ''-a'', newline_marker, ''+b'', newline_marker]) =
   Inr (Some (nv_new ''u'' [fp_new id ''f'' ''a'' (''b'' @ [CHR 0x0A])]))"
  by code_simp

text \<open>For the same reason a hunk that ends in an unterminated context line is refused.\<close>

lemma eof_context_refused:
  "from_unified_diff id ''u'' [''w''] eof_fs
     (diff_text [''--- a/g'', ''+++ b/g'', ''@@ -1,2 +1,2 @@'', ''-x'', ''+y'', '' end'', newline_marker]) =
   Inl (Fail (InvalidUnifiedDiff ''hunk context mismatch at target line 2''))"
  by code_simp

text \<open>A pure insertion \<^verbatim>\<open>@@ -1,0 +2 @@\<close> means "after line 1"; the reader inserts before it.\<close>

lemma insertion_hunk_misplaced:
  "from_unified_diff id ''u'' [''w''] eof_fs (diff_text [''--- a/h'', ''+++ b/h'', ''@@ -1,0 +2 @@'', ''+x'']) =
   Inr (Some (nv_new ''u'' [fp_new id ''h'' (diff_text [''a'', ''b'']) (diff_text [''x'', ''a'', ''b''])]))"
  by code_simp

text \<open>A hunk line that starts with a two-byte character panics before its prefix is looked at.\<close>

lemma multibyte_prefix_panics:
  "from_unified_diff id ''u'' [''w''] eof_fs
     (diff_text [''--- a/f'', ''+++ b/f'', ''@@ -1 +1 @@'', [CHR 0xC3, CHR 0xA9]]) = Inl Panic"
  by code_simp

end
