(* ===== verification/NerveTypes.thy ===== *)
theory NerveTypes
  imports PatchModel
begin

text \<open>
  The data that the crates exchange, from \<^verbatim>\<open>crates/nerve-types/src/lib.rs\<close>: tasks, agent
  outputs and their cost, verdicts, reviews, check results, round records, the MCP, session
  and patrol records. Times are milliseconds since the epoch. JSON values keep their numbers
  as text, because the code never computes with them.
\<close>

type_synonym timestamp = nat

datatype json =
  JNull
| JBool bool
| JNum string
| JStr string
| JArr "json list"
| JObj "(string \<times> json) list"

section \<open>Tasks and outputs\<close>

record task =
  task_id :: string
  task_prompt :: string
  task_cwd :: loc
  task_context_paths :: "string list"
  task_started_at :: timestamp

record tool_call =
  tc_name :: string
  tc_arguments :: string

record usage_stats =
  us_input :: u64
  us_output :: u64
  us_cost :: "u64 option"

definition usage_default :: usage_stats where
  "usage_default = \<lparr>us_input = 0, us_output = 0, us_cost = None\<rparr>"

definition total_tokens :: "usage_stats \<Rightarrow> u64" where
  "total_tokens u = sat_add (us_input u) (us_output u)"

fun add_cost :: "u64 option \<Rightarrow> u64 option \<Rightarrow> u64 option" where
  "add_cost (Some current) (Some extra) = Some (sat_add current extra)"
| "add_cost (Some current) None = Some current"
| "add_cost None (Some extra) = Some extra"
| "add_cost None None = None"

definition usage_add :: "usage_stats \<Rightarrow> usage_stats \<Rightarrow> usage_stats" where
  "usage_add a b =
     \<lparr>us_input = sat_add (us_input a) (us_input b),
      us_output = sat_add (us_output a) (us_output b),
      us_cost = add_cost (us_cost a) (us_cost b)\<rparr>"

record agent_output =
  ao_agent_id :: string
  ao_raw_text :: string
  ao_patch :: "nv_patch option"
  ao_tool_calls :: "tool_call list"
  ao_cost :: "usage_stats option"

definition ao_text :: "string \<Rightarrow> string \<Rightarrow> agent_output" where
  "ao_text agent raw =
     \<lparr>ao_agent_id = agent, ao_raw_text = raw, ao_patch = None, ao_tool_calls = [], ao_cost = None\<rparr>"

definition ao_with_patch :: "string \<Rightarrow> string \<Rightarrow> nv_patch \<Rightarrow> agent_output" where
  "ao_with_patch agent raw p = (ao_text agent raw)\<lparr>ao_patch := Some p\<rparr>"

section \<open>Verdicts and reviews\<close>

datatype verdict = Lgtm | AcceptWithNits | RequestChanges | Block

definition is_terminal_success :: "verdict \<Rightarrow> bool" where
  "is_terminal_success v = (case v of Lgtm \<Rightarrow> True | _ \<Rightarrow> False)"

definition accepts_under :: "verdict \<Rightarrow> bool \<Rightarrow> bool" where
  "accepts_under v nits_permitted =
     (case v of Lgtm \<Rightarrow> True | AcceptWithNits \<Rightarrow> nits_permitted | _ \<Rightarrow> False)"

datatype issue_severity = Info | Warning | Blocking

record issue =
  is_severity :: issue_severity
  is_message :: string

record reviewer_feedback =
  rf_reviewer_id :: string
  rf_verdict :: verdict
  rf_issues :: "issue list"
  rf_patch :: "nv_patch option"
  rf_cost :: "usage_stats option"
  rf_raw_text :: string

definition rf_lgtm :: "string \<Rightarrow> string \<Rightarrow> reviewer_feedback" where
  "rf_lgtm reviewer raw =
     \<lparr>rf_reviewer_id = reviewer, rf_verdict = Lgtm, rf_issues = [], rf_patch = None,
      rf_cost = None, rf_raw_text = raw\<rparr>"

definition rf_accept_with_nits :: "string \<Rightarrow> issue list \<Rightarrow> string \<Rightarrow> reviewer_feedback" where
  "rf_accept_with_nits reviewer issues raw =
     \<lparr>rf_reviewer_id = reviewer, rf_verdict = AcceptWithNits, rf_issues = issues, rf_patch = None,
      rf_cost = None, rf_raw_text = raw\<rparr>"

datatype agent_event =
  Stdout string string
| Stderr string string
| Tool string tool_call
| Done string

datatype check_result = CheckPass | CheckFail string "u16 option" | CheckSkipped

definition is_pass :: "check_result \<Rightarrow> bool" where
  "is_pass c = (case c of CheckPass \<Rightarrow> True | _ \<Rightarrow> False)"

record round_record =
  rd_round :: u8
  rd_lead :: agent_output
  rd_reviewer :: reviewer_feedback
  rd_check :: "check_result option"
  rd_patch_sha :: "string option"
  rd_envelope_id :: "string option"

section \<open>Envelopes, MCP, sessions, patrols\<close>

record rpc_envelope =
  re_schema_version :: string
  re_kind :: string
  re_payload :: json
  re_envelope_id :: "string option"
  re_emitted_at :: "timestamp option"

definition rpc_schema_version :: string where
  "rpc_schema_version = ''1.2.0''"

definition envelope_new :: "string \<Rightarrow> json \<Rightarrow> rpc_envelope" where
  "envelope_new kind payload =
     \<lparr>re_schema_version = rpc_schema_version, re_kind = kind, re_payload = payload,
      re_envelope_id = None, re_emitted_at = None\<rparr>"

datatype mcp_transport = Stdio

datatype mcp_role = ReviewerOnly | LeadOnly | Both

datatype mcp_posture = DenyByDefault | LegacyDenylist

record mcp_tool_arg_rules =
  ta_path_args :: "string list"
  ta_deny_substrings :: "(string \<times> string list) list"

type_synonym mcp_argument_policy = "(string \<times> mcp_tool_arg_rules) list"

record mcp_server_spec =
  ms_name :: string
  ms_command :: "string list"
  ms_env :: "(string \<times> string) list"
  ms_transport :: mcp_transport
  ms_allowed_tools :: "string list"
  ms_role :: mcp_role
  ms_read_only :: bool

record mcp_tool_info =
  mt_server :: string
  mt_name :: string
  mt_description :: "string option"
  mt_input_schema :: "json option"
  mt_read_only_hint :: "bool option"
  mt_destructive_hint :: "bool option"

record mcp_tool_call =
  mc_server :: string
  mc_tool :: string
  mc_arguments :: json

record mcp_tool_result =
  mr_server :: string
  mr_tool :: string
  mr_content :: json
  mr_is_error :: bool
  mr_duration_ms :: u64

record session_tree =
  st_session_id :: string
  st_parent_id :: "string option"
  st_branched_at_round :: "u32 option"
  st_branched_from_patch_sha :: "string option"
  st_forked_at :: timestamp
  st_name :: string
  st_children :: "string list"

record patrol_task =
  pt_task_id :: string
  pt_prompt :: string
  pt_cwd :: string
  pt_role_hint :: "string option"
  pt_budget :: "u64 option"
  pt_max_rounds :: "u32 option"
  pt_created_at :: timestamp

record patrol_result =
  pr_task_id :: string
  pr_patrol_id :: string
  pr_verdict :: verdict
  pr_cost :: u64
  pr_tokens :: u64
  pr_patch_sha :: "string option"
  pr_error :: "string option"
  pr_finished_at :: timestamp

record mayor_status =
  my_pending :: u32
  my_claimed :: u32
  my_done :: u32
  my_failed :: u32
  my_active_patrols :: "string list"
  my_total_cost :: u64

section \<open>Laws of the cost ledger\<close>

lemma unat_total_tokens:
  "unat (total_tokens u) = min (unat (us_input u) + unat (us_output u)) (2 ^ 64 - 1)"
  by (simp add: total_tokens_def unat_sat_add)

lemma add_cost_assoc: "add_cost (add_cost a b) c = add_cost a (add_cost b c)"
  by (cases a; cases b; cases c) (simp_all add: sat_add_assoc)

lemma add_cost_commute: "add_cost a b = add_cost b a"
  by (cases a; cases b) (simp_all add: sat_add_commute)

lemma usage_add_assoc: "usage_add (usage_add a b) c = usage_add a (usage_add b c)"
  by (simp add: usage_add_def sat_add_assoc add_cost_assoc)

lemma usage_add_commute: "usage_add a b = usage_add b a"
  by (simp add: usage_add_def sat_add_commute add_cost_commute)

lemma sat_add_mono: "a \<le> sat_add a (b :: u64)"
  using unsigned_less[where ?'a = nat, of a] by (simp add: word_le_nat_alt unat_sat_add)

lemma usage_add_tokens_mono: "total_tokens a \<le> total_tokens (usage_add a b)"
  unfolding word_le_nat_alt unat_total_tokens by (simp add: usage_add_def unat_sat_add)

lemma usage_default_left [simp]: "usage_add usage_default u = u"
  by (cases "us_cost u") (simp_all add: usage_add_def usage_default_def)

section \<open>The order of verdicts\<close>

text \<open>\<^verbatim>\<open>verdict_severity_rank\<close> of the core: the order in which crossfire reviews are compared.\<close>

fun verdict_severity_rank :: "verdict \<Rightarrow> nat" where
  "verdict_severity_rank Lgtm = 0"
| "verdict_severity_rank AcceptWithNits = 1"
| "verdict_severity_rank RequestChanges = 2"
| "verdict_severity_rank Block = 3"

lemma verdict_rank_inj: "verdict_severity_rank a = verdict_severity_rank b \<Longrightarrow> a = b"
  by (cases a; cases b) simp_all

instantiation verdict :: linorder
begin

definition less_eq_verdict :: "verdict \<Rightarrow> verdict \<Rightarrow> bool" where
  "a \<le> b \<longleftrightarrow> verdict_severity_rank a \<le> verdict_severity_rank b"

definition less_verdict :: "verdict \<Rightarrow> verdict \<Rightarrow> bool" where
  "a < b \<longleftrightarrow> verdict_severity_rank a < verdict_severity_rank b"

instance
  by standard (auto simp: less_eq_verdict_def less_verdict_def dest: verdict_rank_inj)

end

lemma verdict_le_Block [simp]: "v \<le> Block"
  by (cases v) (simp_all add: less_eq_verdict_def)

end
