(* ===== verification/NerveConfig.thy ===== *)
theory NerveConfig
  imports NerveTypes
begin

text \<open>
  \<^verbatim>\<open>crates/nerve-config/src\<close>: the configuration tree with its validation, the choice of a
  profile for a task, where a configuration is loaded from and what that source may enable,
  and the validation of goals and goal intents. Parsing JSON (\<^verbatim>\<open>serde_json\<close>) and compiling a
  glob (\<^verbatim>\<open>globset\<close>) are parameters. The error text of \<^verbatim>\<open>anyhow\<close> is a tree: the label that the
  code adds and the error below.
\<close>

section \<open>Errors\<close>

datatype config_error =
  EmptyGoalId
| EmptyCheckCmd
| InvalidCheckCmdProgram string
| ZeroTimeout
| InvalidEnvKey string
| ForbiddenEnvKey string
| InvalidEnvValue string
| EmptyGoalIntentFreeForm
| EmptyGoalIntentRationale
| EmptyGoalIntentSourceAdapter
| InvalidUlimitValue string
| InvalidRpcValue string
| EmptyMcpName
| DuplicateMcpServer string
| EmptyMcpCommand string
| InvalidMayorPatrolValue string
| InvalidMayorPatrolMaxPatrols u32
| InvalidMayorPatrolClaimTtl u32 u32

datatype cfg_fail =
  Bail string
| Invalid string config_error
| Nested string cfg_fail
| BadGlob string
| CfgIo string io_kind

definition ensure :: "bool \<Rightarrow> 'e \<Rightarrow> 'e + unit" where
  "ensure ok e = (if ok then Inr () else Inl e)"

lemma ensure_Inr [result_simps]: "ensure ok e = Inr u \<longleftrightarrow> ok"
  by (simp add: ensure_def)

lemma ensure_Inl [result_simps]: "ensure ok e = Inl d \<longleftrightarrow> \<not> ok \<and> d = e"
  by (auto simp: ensure_def)

definition res_map_err :: "('e \<Rightarrow> 'd) \<Rightarrow> 'e + 'a \<Rightarrow> 'd + 'a" where
  "res_map_err g m = (case m of Inl e \<Rightarrow> Inl (g e) | Inr a \<Rightarrow> Inr a)"

lemma res_map_err_Inr [result_simps]: "res_map_err g m = Inr a \<longleftrightarrow> m = Inr a"
  by (cases m) (simp_all add: res_map_err_def)

lemma res_map_err_Inl [result_simps]: "res_map_err g m = Inl d \<longleftrightarrow> (\<exists>e. m = Inl e \<and> d = g e)"
  by (cases m) (auto simp: res_map_err_def)

fun opt_all :: "('a \<Rightarrow> 'e + unit) \<Rightarrow> 'a option \<Rightarrow> 'e + unit" where
  "opt_all f None = Inr ()"
| "opt_all f (Some x) = f x"

lemma opt_all_Inr [result_simps]: "opt_all f m = Inr u \<longleftrightarrow> (\<forall>x. m = Some x \<longrightarrow> f x = Inr ())"
  by (cases m) auto

section \<open>The configuration tree\<close>

datatype config_source = Project | User | Default

datatype builtin_verifier_mode = VerifierOff | VerifierAuto | VerifierCommand

record builtin_verifier_config =
  bv_mode :: builtin_verifier_mode
  bv_command :: "string list"
  bv_timeout_secs :: u64

datatype sandbox_mode = SandboxOff | SandboxAuto | SandboxRequired

record sandbox_config =
  sb_mode :: sandbox_mode
  sb_allow_network :: bool
  sb_strict :: bool
  sb_landlock :: bool
  sb_seccomp :: bool

definition sandbox_is_enabled :: "sandbox_config \<Rightarrow> bool" where
  "sandbox_is_enabled c = (sb_mode c \<noteq> SandboxOff)"

record check_ulimit =
  ul_nproc :: "u64 option"
  ul_memory_bytes :: "u64 option"
  ul_file_size_bytes :: "u64 option"
  ul_cpu_secs :: "u64 option"

definition ulimit_is_empty :: "check_ulimit \<Rightarrow> bool" where
  "ulimit_is_empty u =
     (ul_nproc u = None \<and> ul_memory_bytes u = None \<and> ul_file_size_bytes u = None \<and> ul_cpu_secs u = None)"

definition ulimit_validate :: "check_ulimit \<Rightarrow> config_error + unit" where
  "ulimit_validate u =
     res_bind (ensure (ul_nproc u \<noteq> Some 0) (InvalidUlimitValue ''nproc'')) (\<lambda>_.
     res_bind (ensure (ul_memory_bytes u \<noteq> Some 0) (InvalidUlimitValue ''memory_bytes'')) (\<lambda>_.
     res_bind (ensure (ul_file_size_bytes u \<noteq> Some 0) (InvalidUlimitValue ''file_size_bytes'')) (\<lambda>_.
     ensure (ul_cpu_secs u \<noteq> Some 0) (InvalidUlimitValue ''cpu_secs''))))"

datatype strategy = Consensus | Pipeline | Tournament

datatype plan_strategy = Single | DualReview

datatype conflict_policy =
  LeadPriority | ReviewerPriority | MergeAttempt | AbortOnConflict | ReviewerBlock | Manual

datatype review_strictness = Low | Normal_strictness | High

definition permits_nits :: "review_strictness \<Rightarrow> bool" where
  "permits_nits r = (case r of Low \<Rightarrow> True | Normal_strictness \<Rightarrow> True | High \<Rightarrow> False)"

datatype crossfire_action = CrossfireOff | Redirect | Halt

definition redirects :: "crossfire_action \<Rightarrow> bool" where
  "redirects a = (case a of Redirect \<Rightarrow> True | Halt \<Rightarrow> True | _ \<Rightarrow> False)"

definition halts :: "crossfire_action \<Rightarrow> bool" where
  "halts a = (case a of Halt \<Rightarrow> True | _ \<Rightarrow> False)"

datatype apply_classifier_mode = ClassifierOff | Advisory | Enforce

definition classifies :: "apply_classifier_mode \<Rightarrow> bool" where
  "classifies md = (case md of Advisory \<Rightarrow> True | Enforce \<Rightarrow> True | _ \<Rightarrow> False)"

definition enforces :: "apply_classifier_mode \<Rightarrow> bool" where
  "enforces md = (case md of Enforce \<Rightarrow> True | _ \<Rightarrow> False)"

record apply_classifier_config =
  ac_mode :: apply_classifier_mode
  ac_max_files :: nat
  ac_max_lines :: nat
  ac_risky_path_globs :: "string list"
  ac_flag_destructive_ops :: bool

definition classifier_default :: apply_classifier_config where
  "classifier_default =
     \<lparr>ac_mode = ClassifierOff, ac_max_files = 25, ac_max_lines = 800,
      ac_risky_path_globs = [''**/Cargo.lock'', ''**/package-lock.json'', ''**/pnpm-lock.yaml'',
        ''**/yarn.lock'', ''**/go.sum'', ''**/.github/**'', ''**/.env*'', ''**/Dockerfile'', ''**/Makefile''],
      ac_flag_destructive_ops = True\<rparr>"

definition classifier_validate :: "apply_classifier_config \<Rightarrow> cfg_fail + unit" where
  "classifier_validate c =
     ensure (\<not> (classifies (ac_mode c) \<and> ac_max_files c = 0 \<and> ac_max_lines c = 0))
       (Bail ''max_files and max_lines cannot both be 0 when the classifier is enabled'')"

record rpc_config =
  rpc_per_consumer_queue :: nat
  rpc_payload_cap_kib :: nat
  rpc_token_path :: string
  rpc_token_size_bytes :: nat
  rpc_print_token :: bool
  rpc_envelope_version :: string

definition rpc_default :: rpc_config where
  "rpc_default =
     \<lparr>rpc_per_consumer_queue = 1024, rpc_payload_cap_kib = 64,
      rpc_token_path = ''.nerve/session-meta/rpc-token'', rpc_token_size_bytes = 32,
      rpc_print_token = False, rpc_envelope_version = ''1.1.0''\<rparr>"

definition rpc_validate :: "rpc_config \<Rightarrow> config_error + unit" where
  "rpc_validate r =
     res_bind (ensure (rpc_per_consumer_queue r \<noteq> 0) (InvalidRpcValue ''per_consumer_queue'')) (\<lambda>_.
     res_bind (ensure (rpc_payload_cap_kib r \<noteq> 0) (InvalidRpcValue ''payload_cap_kib'')) (\<lambda>_.
     ensure (rpc_token_size_bytes r \<noteq> 0) (InvalidRpcValue ''token_size_bytes'')))"

record fork_config =
  fk_copy_patch_history :: bool
  fk_auto_name :: bool

record mcp_config =
  mcp_servers :: "mcp_server_spec list"
  mcp_allow_tools :: "string list"
  mcp_write_tool_patterns :: "string list"
  mcp_read_only_posture :: mcp_posture
  mcp_policy :: mcp_argument_policy

definition default_mcp_write_patterns :: "string list" where
  "default_mcp_write_patterns =
     [''shell'', ''exec'', ''fs.write'', ''fs.delete'', ''write_file'', ''run_command'', ''execute_command'']"

definition mcp_config_default :: mcp_config where
  "mcp_config_default =
     \<lparr>mcp_servers = [], mcp_allow_tools = [], mcp_write_tool_patterns = default_mcp_write_patterns,
      mcp_read_only_posture = DenyByDefault, mcp_policy = []\<rparr>"

text \<open>The servers of a list are checked in order against the names seen before.\<close>

fun mcp_validate_servers :: "string set \<Rightarrow> mcp_server_spec list \<Rightarrow> config_error + unit" where
  "mcp_validate_servers names [] = Inr ()"
| "mcp_validate_servers names (sv # svs) =
     (if trim_ws (ms_name sv) = [] then Inl EmptyMcpName
      else if ms_name sv \<in> names then Inl (DuplicateMcpServer (ms_name sv))
      else if ms_command sv = [] then Inl (EmptyMcpCommand (ms_name sv))
      else if list_ex (\<lambda>arg. trim_ws arg = []) (ms_command sv) then Inl (EmptyMcpCommand (ms_name sv))
      else mcp_validate_servers (insert (ms_name sv) names) svs)"

definition mcp_validate :: "mcp_config \<Rightarrow> config_error + unit" where
  "mcp_validate m = mcp_validate_servers {} (mcp_servers m)"

record mayor_patrol_config =
  mp_queue_dir :: string
  mp_results_dir :: string
  mp_max_patrols :: u32
  mp_per_patrol_budget :: "u64 option"
  mp_heartbeat_secs :: u32
  mp_claim_ttl_secs :: u32
  mp_coordination_enabled :: bool

definition mayor_patrol_default :: mayor_patrol_config where
  "mayor_patrol_default =
     \<lparr>mp_queue_dir = ''.nerve/queue'', mp_results_dir = ''.nerve/results'', mp_max_patrols = 8,
      mp_per_patrol_budget = None, mp_heartbeat_secs = 30, mp_claim_ttl_secs = 600,
      mp_coordination_enabled = True\<rparr>"

definition mayor_patrol_validate :: "mayor_patrol_config \<Rightarrow> config_error + unit" where
  "mayor_patrol_validate m =
     res_bind (ensure (\<not> (mp_max_patrols m = 0 \<or> mp_max_patrols m > 64))
       (InvalidMayorPatrolMaxPatrols (mp_max_patrols m))) (\<lambda>_.
     res_bind (ensure (mp_heartbeat_secs m \<noteq> 0) (InvalidMayorPatrolValue ''heartbeat_secs'')) (\<lambda>_.
     res_bind (ensure (\<not> mp_claim_ttl_secs m < sat_mul (mp_heartbeat_secs m) 2)
       (InvalidMayorPatrolClaimTtl (mp_claim_ttl_secs m) (mp_heartbeat_secs m))) (\<lambda>_.
     ensure (mp_per_patrol_budget m \<noteq> Some 0) (InvalidMayorPatrolValue ''per_patrol_budget_microusd''))))"

record orchestration =
  or_default_strategy :: strategy
  or_max_refinement_rounds :: u8
  or_conflict_policy :: conflict_policy
  or_max_total_tokens :: "u64 option"
  or_max_cost :: "u64 option"
  or_check_env :: "string list"
  or_check_output_cap_bytes :: nat
  or_adapter_timeout_secs :: "u64 option"
  or_adapter_max_output_bytes :: "nat option"
  or_adapter_spawn_retries :: "u32 option"
  or_budget_cost_ceiling :: "u64 option"
  or_budget_tokens_ceiling :: "u64 option"
  or_check_ulimit :: "check_ulimit option"
  or_worktree_apply :: bool
  or_mayor_patrol :: "mayor_patrol_config option"
  or_builtin_verifier :: builtin_verifier_config
  or_sandbox :: sandbox_config
  or_crossfire_action :: crossfire_action
  or_apply_classifier :: apply_classifier_config

record roles =
  ro_architect :: string
  ro_reviewer :: string
  ro_plan_strategy :: plan_strategy
  ro_plan_prompt :: "string option"
  ro_fork :: "fork_config option"
  ro_mcp :: "mcp_config option"

datatype match_rules = AnyOf "string list" | Logic "string list" "string list"

record profile =
  pf_id :: string
  pf_match_rules :: match_rules
  pf_lead :: string
  pf_reviewer :: string
  pf_strictness :: review_strictness
  pf_max_rounds :: "u8 option"
  pf_plan_strategy :: plan_strategy
  pf_plan_prompt :: "string option"
  pf_fork :: "fork_config option"
  pf_mcp :: "mcp_config option"

record prompt_template =
  tp_id :: string
  tp_prompt :: string
  tp_description :: "string option"

record tui_config =
  tui_enabled :: bool
  tui_auto_in_cmux :: bool
  tui_refresh_ms :: u64
  tui_log_height_pct :: u8

record config =
  cf_orchestration :: orchestration
  cf_roles :: roles
  cf_profiles :: "profile list"
  cf_templates :: "prompt_template list"
  cf_rpc :: "rpc_config option"
  cf_tui :: tui_config
  cf_source :: config_source

record profile_selection =
  ps_id :: "string option"
  ps_lead :: string
  ps_reviewer :: string
  ps_strictness :: review_strictness
  ps_max_rounds :: u8
  ps_plan_strategy :: plan_strategy
  ps_plan_prompt :: "string option"

section \<open>Validation\<close>

text \<open>\<^verbatim>\<open>program.contains(\"..\")\<close> and the other refusals of \<^verbatim>\<open>command[0]\<close>.\<close>

definition program_refused :: "string \<Rightarrow> bool" where
  "program_refused p =
     (p = [] \<or> starts_with ''-'' p \<or> contains_sub ''/'' p \<or> contains_sub [CHR 0x5C] p \<or> contains_sub ''..'' p)"

definition builtin_verifier_validate :: "builtin_verifier_config \<Rightarrow> cfg_fail + unit" where
  "builtin_verifier_validate c =
     res_bind (ensure (bv_timeout_secs c \<noteq> 0) (Bail ''timeout_secs must be greater than 0'')) (\<lambda>_.
       if bv_mode c = VerifierCommand then
         (case bv_command c of
            [] \<Rightarrow> Inl (Bail ''command must be a non-empty argv when mode = command'')
          | program # _ \<Rightarrow>
              ensure (\<not> program_refused program)
                (Bail (''command[0] `'' @ program @ ''` must be a PATH-searchable program name'')))
       else Inr ())"

definition profile_validate :: "profile \<Rightarrow> cfg_fail + unit" where
  "profile_validate p =
     res_bind (ensure (trim_ws (pf_id p) \<noteq> []) (Bail ''profile id must not be empty'')) (\<lambda>_.
     res_bind (ensure (trim_ws (pf_lead p) \<noteq> []) (Bail (''profile `'' @ pf_id p @ ''` lead must not be empty''))) (\<lambda>_.
     res_bind (ensure (trim_ws (pf_reviewer p) \<noteq> [])
       (Bail (''profile `'' @ pf_id p @ ''` reviewer must not be empty''))) (\<lambda>_.
     res_bind (ensure (\<not> (case pf_max_rounds p of Some n \<Rightarrow> n > 5 | None \<Rightarrow> False))
       (Bail (''profile `'' @ pf_id p @ ''` max_refinement_rounds must be <= 5''))) (\<lambda>_.
     opt_all (\<lambda>m. res_map_err (Invalid (''profile `'' @ pf_id p @ ''` mcp'')) (mcp_validate m)) (pf_mcp p)))))"

definition template_validate :: "prompt_template \<Rightarrow> cfg_fail + unit" where
  "template_validate t =
     res_bind (ensure (trim_ws (tp_id t) \<noteq> []) (Bail ''template id must not be empty'')) (\<lambda>_.
     ensure (trim_ws (tp_prompt t) \<noteq> []) (Bail (''template `'' @ tp_id t @ ''` prompt must not be empty'')))"

definition orchestration_validate :: "orchestration \<Rightarrow> cfg_fail + unit" where
  "orchestration_validate o' =
     res_bind (ensure (\<not> or_max_refinement_rounds o' > 5) (Bail ''orchestration.max_refinement_rounds must be <= 5'')) (\<lambda>_.
     res_bind (ensure (or_max_total_tokens o' \<noteq> Some 0)
       (Bail ''orchestration.max_total_tokens must be greater than 0 when set'')) (\<lambda>_.
     res_bind (ensure (or_max_cost o' \<noteq> Some 0)
       (Bail ''orchestration.max_estimated_cost_microusd must be greater than 0 when set'')) (\<lambda>_.
     res_bind (ensure (or_budget_cost_ceiling o' \<noteq> Some 0)
       (Bail ''orchestration.budget_cost_microusd_ceiling must be greater than 0 when set'')) (\<lambda>_.
     res_bind (ensure (or_budget_tokens_ceiling o' \<noteq> Some 0)
       (Bail ''orchestration.budget_tokens_ceiling must be greater than 0 when set'')) (\<lambda>_.
     res_bind (ensure (or_adapter_timeout_secs o' \<noteq> Some 0)
       (Bail ''orchestration.adapter_timeout_secs must be greater than 0 when set'')) (\<lambda>_.
     res_bind (ensure (or_adapter_max_output_bytes o' \<noteq> Some 0)
       (Bail ''orchestration.adapter_max_output_bytes must be greater than 0 when set'')) (\<lambda>_.
     opt_all (\<lambda>u. res_map_err (Invalid ''orchestration.check_ulimit'') (ulimit_validate u)) (or_check_ulimit o'))))))))"

definition config_validate :: "config \<Rightarrow> cfg_fail + unit" where
  "config_validate c =
     res_bind (orchestration_validate (cf_orchestration c)) (\<lambda>_.
     res_bind (opt_all (\<lambda>r. res_map_err (Invalid ''daemon.rpc'') (rpc_validate r)) (cf_rpc c)) (\<lambda>_.
     res_bind (ensure (tui_refresh_ms (cf_tui c) \<noteq> 0) (Bail ''tui.refresh_ms must be greater than 0'')) (\<lambda>_.
     res_bind (ensure (\<not> (tui_log_height_pct (cf_tui c) = 0 \<or> tui_log_height_pct (cf_tui c) > 100))
       (Bail ''tui.log_height_pct must be in (0, 100]'')) (\<lambda>_.
     res_bind (opt_all (\<lambda>m. res_map_err (Invalid ''orchestration.mayor_patrol'') (mayor_patrol_validate m))
       (or_mayor_patrol (cf_orchestration c))) (\<lambda>_.
     res_bind (res_map_err (Nested ''orchestration.builtin_verifier'')
       (builtin_verifier_validate (or_builtin_verifier (cf_orchestration c)))) (\<lambda>_.
     res_bind (res_map_err (Nested ''orchestration.apply_classifier'')
       (classifier_validate (or_apply_classifier (cf_orchestration c)))) (\<lambda>_.
     res_bind (ensure (trim_ws (ro_architect (cf_roles c)) \<noteq> []) (Bail ''roles.architect must not be empty'')) (\<lambda>_.
     res_bind (ensure (trim_ws (ro_reviewer (cf_roles c)) \<noteq> []) (Bail ''roles.reviewer must not be empty'')) (\<lambda>_.
     res_bind (opt_all (\<lambda>m. res_map_err (Invalid ''roles.mcp'') (mcp_validate m)) (ro_mcp (cf_roles c))) (\<lambda>_.
     res_bind (res_all profile_validate (cf_profiles c)) (\<lambda>_.
     res_all template_validate (cf_templates c))))))))))))"

section \<open>Loading\<close>

text \<open>\<^verbatim>\<open>from_json_str\<close> over a parser for the JSON text; \<^verbatim>\<open>from_path\<close> reads a file first.\<close>

definition from_json_str :: "(string \<Rightarrow> cfg_fail + config) \<Rightarrow> string \<Rightarrow> cfg_fail + config" where
  "from_json_str parse raw =
     res_bind (parse raw) (\<lambda>c. res_bind (config_validate c) (\<lambda>_. Inr c))"

definition from_path :: "(string \<Rightarrow> cfg_fail + config) \<Rightarrow> fs \<Rightarrow> loc \<Rightarrow> cfg_fail + config" where
  "from_path parse s path =
     (case read_file (nodes s) path of
        Inl e \<Rightarrow> Inl (Nested ''failed to read config'' (CfgIo (show_loc path) e))
      | Inr raw \<Rightarrow>
          if valid_utf8 raw then res_map_err (Nested ''invalid config'') (from_json_str parse raw)
          else Inl (Nested ''failed to read config'' (CfgIo (show_loc path) InvalidData)))"

definition load_from ::
  "(string \<Rightarrow> cfg_fail + config) \<Rightarrow> string \<Rightarrow> fs \<Rightarrow> loc \<Rightarrow> loc option \<Rightarrow> cfg_fail + config" where
  "load_from parse default_config s cwd home =
     (let cwd_config = cwd @ [''nerve.config.json''] in
      if path_exists (nodes s) cwd_config
      then res_bind (from_path parse s cwd_config) (\<lambda>c. Inr (c\<lparr>cf_source := Project\<rparr>))
      else (case home of
          Some h \<Rightarrow>
            (let user_config = h @ [''.config'', ''nerve'', ''config.json''] in
             if path_exists (nodes s) user_config
             then res_bind (from_path parse s user_config) (\<lambda>c. Inr (c\<lparr>cf_source := User\<rparr>))
             else res_map_err (Nested ''embedded default config is invalid'')
                    (res_bind (from_json_str parse default_config) (\<lambda>c. Inr (c\<lparr>cf_source := Default\<rparr>))))
        | None \<Rightarrow> res_map_err (Nested ''embedded default config is invalid'')
                    (res_bind (from_json_str parse default_config) (\<lambda>c. Inr (c\<lparr>cf_source := Default\<rparr>)))))"

definition builtin_verifier_exec_trusted :: "config \<Rightarrow> bool \<Rightarrow> bool" where
  "builtin_verifier_exec_trusted c operator_consent =
     (case cf_source c of User \<Rightarrow> True | Default \<Rightarrow> True | Project \<Rightarrow> operator_consent)"

fun resolve_mcp_read_only_posture :: "config_source \<Rightarrow> mcp_posture \<Rightarrow> bool \<Rightarrow> mcp_posture" where
  "resolve_mcp_read_only_posture _ DenyByDefault _ = DenyByDefault"
| "resolve_mcp_read_only_posture User LegacyDenylist _ = LegacyDenylist"
| "resolve_mcp_read_only_posture Default LegacyDenylist _ = LegacyDenylist"
| "resolve_mcp_read_only_posture Project LegacyDenylist operator_consent =
     (if operator_consent then LegacyDenylist else DenyByDefault)"

section \<open>Profiles\<close>

definition rules_is_empty :: "match_rules \<Rightarrow> bool" where
  "rules_is_empty r = (case r of AnyOf rules \<Rightarrow> rules = [] | Logic all any \<Rightarrow> all = [] \<and> any = [])"

definition looks_like_glob :: "string \<Rightarrow> bool" where
  "looks_like_glob rule = (contains_sub ''*'' rule \<or> contains_sub ''?'' rule \<or> contains_sub ''['' rule)"

type_synonym glob_compiler = "string \<Rightarrow> (string \<Rightarrow> bool) option"

definition rule_matches :: "glob_compiler \<Rightarrow> string \<Rightarrow> task \<Rightarrow> cfg_fail + bool" where
  "rule_matches glob rule t =
     (if \<not> looks_like_glob rule then Inr (contains_sub (to_lower rule) (to_lower (task_prompt t)))
      else (case glob rule of
          None \<Rightarrow> Inl (BadGlob rule)
        | Some is_match \<Rightarrow> Inr (list_ex is_match (task_context_paths t))))"

fun any_rule_matches :: "glob_compiler \<Rightarrow> string list \<Rightarrow> task \<Rightarrow> cfg_fail + bool" where
  "any_rule_matches glob [] t = Inr False"
| "any_rule_matches glob (r # rs) t =
     res_bind (rule_matches glob r t) (\<lambda>b. if b then Inr True else any_rule_matches glob rs t)"

fun all_rules_match :: "glob_compiler \<Rightarrow> string list \<Rightarrow> task \<Rightarrow> cfg_fail + bool" where
  "all_rules_match glob [] t = Inr True"
| "all_rules_match glob (r # rs) t =
     res_bind (rule_matches glob r t) (\<lambda>b. if \<not> b then Inr False else all_rules_match glob rs t)"

definition profile_matches :: "glob_compiler \<Rightarrow> profile \<Rightarrow> task \<Rightarrow> cfg_fail + bool" where
  "profile_matches glob p t =
     (if rules_is_empty (pf_match_rules p) then Inr False
      else (case pf_match_rules p of
          AnyOf rules \<Rightarrow> any_rule_matches glob rules t
        | Logic all any \<Rightarrow>
            res_bind (all_rules_match glob all t) (\<lambda>all_match.
            res_bind (if any = [] \<and> all \<noteq> [] then Inr True else any_rule_matches glob any t) (\<lambda>any_match.
            Inr (all_match \<and> any_match)))))"

definition selection_of :: "config \<Rightarrow> profile \<Rightarrow> profile_selection" where
  "selection_of c p =
     \<lparr>ps_id = Some (pf_id p), ps_lead = pf_lead p, ps_reviewer = pf_reviewer p,
      ps_strictness = pf_strictness p,
      ps_max_rounds = (case pf_max_rounds p of Some n \<Rightarrow> n | None \<Rightarrow> or_max_refinement_rounds (cf_orchestration c)),
      ps_plan_strategy = pf_plan_strategy p,
      ps_plan_prompt = (case pf_plan_prompt p of Some x \<Rightarrow> Some x | None \<Rightarrow> ro_plan_prompt (cf_roles c))\<rparr>"

definition default_selection :: "config \<Rightarrow> profile_selection" where
  "default_selection c =
     \<lparr>ps_id = None, ps_lead = ro_architect (cf_roles c), ps_reviewer = ro_reviewer (cf_roles c),
      ps_strictness = Normal_strictness,
      ps_max_rounds = or_max_refinement_rounds (cf_orchestration c),
      ps_plan_strategy = ro_plan_strategy (cf_roles c), ps_plan_prompt = ro_plan_prompt (cf_roles c)\<rparr>"

fun select_among :: "glob_compiler \<Rightarrow> config \<Rightarrow> task \<Rightarrow> profile list \<Rightarrow> cfg_fail + profile_selection" where
  "select_among glob c t [] = Inr (default_selection c)"
| "select_among glob c t (p # ps) =
     res_bind (profile_matches glob p t) (\<lambda>b. if b then Inr (selection_of c p) else select_among glob c t ps)"

definition select_profile :: "glob_compiler \<Rightarrow> config \<Rightarrow> task \<Rightarrow> cfg_fail + profile_selection" where
  "select_profile glob c t = select_among glob c t (cf_profiles c)"

section \<open>Goals\<close>

record goal_spec =
  gs_id :: string
  gs_check_cmd :: "string list"
  gs_timeout_secs :: u64
  gs_cwd :: "string option"
  gs_env :: "(string \<times> string) list"
  gs_no_progress_max :: "u8 option"

definition is_ascii_control :: "char \<Rightarrow> bool" where
  "is_ascii_control c = ((of_char c :: nat) < 32 \<or> (of_char c :: nat) = 127)"

definition forbidden_env_exact :: "string list" where
  "forbidden_env_exact =
     [''PATH'', ''RUSTC_WRAPPER'', ''RUSTC_WORKSPACE_WRAPPER'', ''BASH_ENV'', ''SHELLOPTS'', ''BASHOPTS'',
      ''IFS'', ''PROMPT_COMMAND'', ''GIT_SSH_COMMAND'', ''GIT_EXTERNAL_DIFF'', ''PYTHONPATH'',
      ''PYTHONSTARTUP'', ''NODE_OPTIONS'', ''PERL5OPT'', ''PERL5LIB'', ''RUBYOPT'', ''RUBYLIB'']"

definition is_forbidden_goal_env_key :: "string \<Rightarrow> bool" where
  "is_forbidden_goal_env_key key =
     (let folded = to_upper key in
      list_ex (\<lambda>p. starts_with p folded) [''LD_'', ''DYLD_''] \<or> folded \<in> set forbidden_env_exact)"

definition env_entry_validate :: "string \<times> string \<Rightarrow> config_error + unit" where
  "env_entry_validate kv =
     (case kv of (key, v) \<Rightarrow>
       if key = [] \<or> contains_sub ''='' key \<or> contains_sub [CHR 0x00] key \<or> list_ex is_ascii_control key
       then Inl (InvalidEnvKey key)
       else if is_forbidden_goal_env_key key then Inl (ForbiddenEnvKey key)
       else if list_ex is_ascii_control v then Inl (InvalidEnvValue key)
       else Inr ())"

definition goal_validate :: "goal_spec \<Rightarrow> config_error + unit" where
  "goal_validate g =
     (if trim_ws (gs_id g) = [] then Inl EmptyGoalId
      else (case gs_check_cmd g of
          [] \<Rightarrow> Inl EmptyCheckCmd
        | program # _ \<Rightarrow>
            if program_refused program \<or> list_ex (\<lambda>seg. seg = ''..'') (split_on CHR ''/'' program)
            then Inl (InvalidCheckCmdProgram program)
            else if gs_timeout_secs g = 0 then Inl ZeroTimeout
            else res_all env_entry_validate (gs_env g)))"

record goal_intent =
  gi_free_form :: string
  gi_proposed_spec :: goal_spec
  gi_rationale :: string
  gi_source_adapter :: string
  gi_created_at :: timestamp

definition goal_intent_validate :: "goal_intent \<Rightarrow> config_error + unit" where
  "goal_intent_validate g =
     res_bind (ensure (trim_ws (gi_free_form g) \<noteq> []) EmptyGoalIntentFreeForm) (\<lambda>_.
     res_bind (ensure (trim_ws (gi_rationale g) \<noteq> []) EmptyGoalIntentRationale) (\<lambda>_.
     res_bind (ensure (trim_ws (gi_source_adapter g) \<noteq> []) EmptyGoalIntentSourceAdapter) (\<lambda>_.
     goal_validate (gi_proposed_spec g))))"

end
