(* ===== verification/Sandbox.thy ===== *)
theory Sandbox
  imports NerveConfig
begin

text \<open>
  \<^verbatim>\<open>crates/nerve-core/src/sandbox.rs\<close>: the decision to wrap, refuse or run a check unconfined on
  each platform, the Seatbelt profile and the bubblewrap and helper command lines it builds, the
  helper that runs inside the jail with its argument parser, and the reading of the markers it
  prints. What the host answers (which files exist, where paths lead, how far Landlock and seccomp
  took effect) is an argument.
\<close>

section \<open>The decision\<close>

datatype platform = MacOs | Linux | OtherOs

record sandbox_env =
  se_platform :: platform
  se_os :: string
  se_is_file :: "string \<Rightarrow> bool"
  se_exists :: "string \<Rightarrow> bool"
  se_canonicalize :: "string \<Rightarrow> string option"
  se_home :: "string option"

datatype sandbox_decision =
  Unconfined "string option"
| Wrap string "string list"
| Refuse string

definition no_backend_decide :: "sandbox_env \<Rightarrow> sandbox_mode \<Rightarrow> sandbox_decision" where
  "no_backend_decide env md =
     (case md of
        SandboxRequired \<Rightarrow>
          Refuse (''sandbox.mode=required but no OS sandbox backend is available on this platform ('' @
            se_os env @ ''); refusing to run the check unconfined'')
      | _ \<Rightarrow>
          Unconfined (Some (''sandbox.mode=auto requested but no OS sandbox backend is available on this platform ('' @
            se_os env @ ''); running the check UNCONFINED'')))"

definition canonical_or_self :: "sandbox_env \<Rightarrow> string \<Rightarrow> string" where
  "canonical_or_self env p = (case se_canonicalize env p of Some q \<Rightarrow> q | None \<Rightarrow> p)"

definition canonical_writable_roots :: "sandbox_env \<Rightarrow> string \<Rightarrow> string list \<Rightarrow> string list" where
  "canonical_writable_roots env cwd extra = map (canonical_or_self env) (cwd # extra)"

subsection \<open>macOS\<close>

definition sandbox_exec :: string where
  "sandbox_exec = ''/usr/bin/sandbox-exec''"

definition quote :: string where "quote = [CHR 0x22]"
definition nl :: string where "nl = [CHR 0x0A]"

definition sbpl_escape :: "char \<Rightarrow> string" where
  "sbpl_escape c = (if c = CHR 0x22 \<or> c = CHR 0x5C then [CHR 0x5C, c] else [c])"

definition sbpl_string :: "string \<Rightarrow> string" where
  "sbpl_string s = quote @ concat (map sbpl_escape s) @ quote"

definition sbpl_subpaths :: "string list \<Rightarrow> string" where
  "sbpl_subpaths paths = concat (map (\<lambda>p. ''    (subpath '' @ sbpl_string p @ '')'' @ nl) paths)"

definition sbpl_deny_lookup :: "string list \<Rightarrow> string" where
  "sbpl_deny_lookup names =
     ''(deny mach-lookup'' @ concat (map (\<lambda>n. nl @ ''    (global-name '' @ quote @ n @ quote @ '')'') names) @ '')'' @ nl"

definition seatbelt_profile :: "string list \<Rightarrow> bool \<Rightarrow> bool \<Rightarrow> string list \<Rightarrow> string" where
  "seatbelt_profile writable_roots allow_network strict sensitive =
     ''(version 1)'' @ nl @ ''(allow default)'' @ nl @ ''(deny file-write*)'' @ nl @
     (if writable_roots \<noteq> [] then ''(allow file-write*'' @ nl @ sbpl_subpaths writable_roots @ '')'' @ nl else []) @
     (if \<not> allow_network then ''(deny network*)'' @ nl else []) @
     (if strict then
        sbpl_deny_lookup [''com.apple.cfprefsd.agent'', ''com.apple.cfprefsd.daemon''] @
        (if \<not> allow_network
         then sbpl_deny_lookup [''com.apple.mDNSResponder'', ''com.apple.mDNSResponder.dnsproxy''] else []) @
        (if sensitive \<noteq> [] then ''(deny file-read*'' @ nl @ sbpl_subpaths sensitive @ '')'' @ nl else [])
      else [])"

definition path_join :: "string \<Rightarrow> string \<Rightarrow> string" where
  "path_join p c = (if p = [] \<or> last p = CHR ''/'' then p @ c else p @ CHR ''/'' # c)"

definition home_sensitive_read_paths :: "string option \<Rightarrow> string list" where
  "home_sensitive_read_paths home =
     (case home of
        Some h \<Rightarrow> if h \<noteq> [] then [path_join h ''.ssh'', path_join h ''.aws'', path_join (path_join h ''Library'') ''Keychains'']
                 else []
      | None \<Rightarrow> [])"

definition seatbelt_decide ::
  "sandbox_env \<Rightarrow> sandbox_config \<Rightarrow> string \<Rightarrow> string list \<Rightarrow> string list \<Rightarrow> sandbox_decision" where
  "seatbelt_decide env cfg cwd check_cmd extra =
     (if \<not> se_exists env sandbox_exec then no_backend_decide env (sb_mode cfg)
      else
        (let writable = canonical_writable_roots env cwd extra;
             sensitive = (if sb_strict cfg
                          then map (canonical_or_self env) (home_sensitive_read_paths (se_home env)) else [])
         in Wrap sandbox_exec
              ([''-p'', seatbelt_profile writable (sb_allow_network cfg) (sb_strict cfg) sensitive, ''--''] @ check_cmd)))"

definition canary_enforced :: "bool \<Rightarrow> bool \<Rightarrow> bool option" where
  "canary_enforced escape_exists live_exists =
     (if escape_exists then Some False else if live_exists then Some True else None)"

subsection \<open>Linux\<close>

definition bwrap_trusted_paths :: "string list" where
  "bwrap_trusted_paths = [''/usr/bin/bwrap'', ''/bin/bwrap'', ''/usr/sbin/bwrap'']"

definition trusted_bwrap :: "sandbox_env \<Rightarrow> string option" where
  "trusted_bwrap env = find (se_is_file env) bwrap_trusted_paths"

definition confine_helper_token :: string where
  "confine_helper_token = ''__nv-confine''"


definition confine_mode_token :: "sandbox_mode \<Rightarrow> string" where
  "confine_mode_token md = (case md of SandboxRequired \<Rightarrow> ''required'' | _ \<Rightarrow> ''auto'')"


definition build_confine_helper_argv ::
  "string \<Rightarrow> sandbox_mode \<Rightarrow> bool \<Rightarrow> bool \<Rightarrow> string list \<Rightarrow> string list \<Rightarrow> string list" where
  "build_confine_helper_argv nv md landlock seccomp roots check_cmd =
     [nv, confine_helper_token, ''--mode'', confine_mode_token md] @
     (if landlock then [''--landlock''] else []) @
     (if seccomp then [''--seccomp''] else []) @
     (if landlock then concat (map (\<lambda>r. [''--root'', r]) roots) else []) @
     [''--''] @ check_cmd"

definition confine_unresolved_helper_refuses :: "sandbox_mode \<Rightarrow> bool \<Rightarrow> bool" where
  "confine_unresolved_helper_refuses md landlock = (md = SandboxRequired \<and> landlock)"

definition landlock_helper_unresolved :: string where
  "landlock_helper_unresolved =
     ''sandbox.mode=required with sandbox.landlock=true, but the Nerve binary path could not be resolved to insert the in-jail Landlock helper; refusing to run the check (fail closed)''"

definition bwrap_args :: "string list \<Rightarrow> string \<Rightarrow> string list \<Rightarrow> bool \<Rightarrow> string list" where
  "bwrap_args writable_roots cwd check_cmd allow_network =
     [''--ro-bind'', ''/'', ''/'', ''--proc'', ''/proc'', ''--dev'', ''/dev'', ''--chdir'', cwd, ''--die-with-parent''] @
     concat (map (\<lambda>r. [''--bind'', r, r]) writable_roots) @
     (if \<not> allow_network then [''--unshare-net''] else []) @
     [''--''] @ check_cmd"

definition bwrap_decide ::
  "sandbox_env \<Rightarrow> sandbox_config \<Rightarrow> string \<Rightarrow> string list \<Rightarrow> string list \<Rightarrow> string option \<Rightarrow> sandbox_decision" where
  "bwrap_decide env cfg cwd check_cmd extra confine_helper =
     (case trusted_bwrap env of
        None \<Rightarrow> no_backend_decide env (sb_mode cfg)
      | Some bwrap \<Rightarrow>
          (let writable = canonical_writable_roots env cwd extra;
               wrapped = (\<lambda>inner. Wrap bwrap (bwrap_args writable cwd inner (sb_allow_network cfg)))
           in if sb_landlock cfg \<or> sb_seccomp cfg then
                (case confine_helper of
                   Some nv \<Rightarrow> wrapped (build_confine_helper_argv nv (sb_mode cfg) (sb_landlock cfg)
                                        (sb_seccomp cfg) writable check_cmd)
                 | None \<Rightarrow>
                     if confine_unresolved_helper_refuses (sb_mode cfg) (sb_landlock cfg)
                     then Refuse landlock_helper_unresolved else wrapped check_cmd)
              else wrapped check_cmd))"

definition decide ::
  "sandbox_env \<Rightarrow> sandbox_config \<Rightarrow> string \<Rightarrow> string list \<Rightarrow> string list \<Rightarrow> string option \<Rightarrow> sandbox_decision" where
  "decide env cfg cwd check_cmd extra confine_helper =
     (if \<not> sandbox_is_enabled cfg then Unconfined None
      else (case se_platform env of
          MacOs \<Rightarrow> seatbelt_decide env cfg cwd check_cmd extra
        | Linux \<Rightarrow> bwrap_decide env cfg cwd check_cmd extra confine_helper
        | OtherOs \<Rightarrow> no_backend_decide env (sb_mode cfg)))"

section \<open>The helper inside the jail\<close>







definition confine_degraded_marker :: string where
  "confine_degraded_marker = ''[nv-confine:landlock-auto-degraded]''"

definition confine_seccomp_degraded_marker :: string where
  "confine_seccomp_degraded_marker = ''[nv-confine:seccomp-degraded]''"




definition stderr_signals_landlock_degraded :: "string \<Rightarrow> bool" where
  "stderr_signals_landlock_degraded err = contains_sub confine_degraded_marker err"

definition stderr_signals_seccomp_degraded :: "string \<Rightarrow> bool" where
  "stderr_signals_seccomp_degraded err = contains_sub confine_seccomp_degraded_marker err"






section \<open>Properties\<close>





lemma no_backend_required: "no_backend_decide env SandboxRequired \<noteq> Unconfined w"
  by (simp add: no_backend_decide_def)

text \<open>What a decision must be for a check that has to be confined: refused, or handed to the
  platform's trusted wrapper, after whose \<^verbatim>\<open>--\<close> comes the check itself or, always under Landlock,
  the helper that is told to be strict about the canonical writable roots.\<close>

definition confined_decision ::
  "sandbox_env \<Rightarrow> sandbox_config \<Rightarrow> string list \<Rightarrow> string list \<Rightarrow> string option \<Rightarrow> sandbox_decision \<Rightarrow> bool" where
  "confined_decision env cfg check_cmd roots helper d =
     (case d of
        Unconfined _ \<Rightarrow> False
      | Refuse _ \<Rightarrow> True
      | Wrap program args \<Rightarrow>
          (\<exists>pre inner. args = pre @ [''--''] @ inner \<and>
            (case se_platform env of
               MacOs \<Rightarrow> program = sandbox_exec \<and> se_exists env program \<and> inner = check_cmd
             | Linux \<Rightarrow> program \<in> set bwrap_trusted_paths \<and> se_is_file env program \<and>
                 (if sb_landlock cfg
                  then \<exists>nv. helper = Some nv \<and> inner = build_confine_helper_argv nv SandboxRequired True (sb_seccomp cfg) roots check_cmd
                  else inner = check_cmd \<or>
                    (\<exists>nv. helper = Some nv \<and> inner = build_confine_helper_argv nv SandboxRequired False (sb_seccomp cfg) roots check_cmd))
             | OtherOs \<Rightarrow> False)))"

lemma seatbelt_confined:
  assumes "sb_mode cfg = SandboxRequired" and "se_platform env = MacOs"
  shows "confined_decision env cfg check_cmd roots helper (seatbelt_decide env cfg cwd check_cmd extra)"
proof -
  have "[''-p'', prof, ''--''] @ check_cmd = [''-p'', prof] @ [''--''] @ check_cmd" for prof by simp
  then show ?thesis
    using assms unfolding confined_decision_def seatbelt_decide_def Let_def
    by (auto simp: no_backend_decide_def simp del: append_Cons)
qed

lemma trusted_bwrapD: "trusted_bwrap env = Some b \<Longrightarrow> b \<in> set bwrap_trusted_paths \<and> se_is_file env b"
  unfolding trusted_bwrap_def find_Some_iff by auto

lemma bwrap_args_tail: "\<exists>pre. bwrap_args ws cwd inner net = pre @ [''--''] @ inner"
  unfolding bwrap_args_def append_assoc[symmetric] by blast

lemma confined_refuse: "confined_decision env cfg check_cmd roots helper (Refuse r)"
  by (simp add: confined_decision_def)

lemma confined_wrapI:
  assumes "se_platform env = Linux" and "b \<in> set bwrap_trusted_paths \<and> se_is_file env b"
    and "sb_landlock cfg \<Longrightarrow> \<exists>nv. helper = Some nv \<and>
           inner = build_confine_helper_argv nv SandboxRequired True (sb_seccomp cfg) roots check_cmd"
    and "\<not> sb_landlock cfg \<Longrightarrow> inner = check_cmd \<or> (\<exists>nv. helper = Some nv \<and>
           inner = build_confine_helper_argv nv SandboxRequired False (sb_seccomp cfg) roots check_cmd)"
  shows "confined_decision env cfg check_cmd roots helper (Wrap b (bwrap_args ws cwd inner net))"
proof -
  obtain pre where pre: "bwrap_args ws cwd inner net = pre @ [''--''] @ inner" using bwrap_args_tail by blast
  show ?thesis
    unfolding confined_decision_def sandbox_decision.case assms(1) platform.case pre
    by (intro exI[of _ pre] exI[of _ inner] conjI refl) (use assms(2-4) in \<open>simp_all del: append_Cons\<close>)
qed

lemma bwrap_confined:
  assumes "sb_mode cfg = SandboxRequired" and "se_platform env = Linux"
  shows "confined_decision env cfg check_cmd (canonical_writable_roots env cwd extra) helper
           (bwrap_decide env cfg cwd check_cmd extra helper)"
proof (cases "trusted_bwrap env")
  case None
  then show ?thesis using assms by (simp add: confined_decision_def bwrap_decide_def no_backend_decide_def)
next
  case (Some b)
  show ?thesis
    unfolding bwrap_decide_def Some option.case Let_def
    by (cases helper; cases "sb_landlock cfg"; cases "sb_seccomp cfg")
      (auto simp: confine_unresolved_helper_refuses_def assms(1)
        intro!: confined_refuse confined_wrapI[OF assms(2) trusted_bwrapD[OF Some]])
qed

text \<open>C22. Required mode never runs a check outside a sandbox, on any platform and host.\<close>

theorem decide_required_confines:
  assumes "sb_mode cfg = SandboxRequired"
  shows "confined_decision env cfg check_cmd (canonical_writable_roots env cwd extra) helper
           (decide env cfg cwd check_cmd extra helper)"
proof (cases "se_platform env")
  case MacOs
  then show ?thesis using assms seatbelt_confined by (simp add: decide_def sandbox_is_enabled_def)
next
  case Linux
  then show ?thesis using assms bwrap_confined by (simp add: decide_def sandbox_is_enabled_def)
next
  case OtherOs
  then show ?thesis
    using assms by (simp add: decide_def sandbox_is_enabled_def no_backend_decide_def confined_decision_def)
qed

definition demo_env :: sandbox_env where
  "demo_env = \<lparr>se_platform = Linux, se_os = ''linux'', se_is_file = (\<lambda>p. p = ''/usr/bin/bwrap''),
     se_exists = (\<lambda>_. False), se_canonicalize = Some, se_home = None\<rparr>"

definition strict_sandbox :: sandbox_config where
  "strict_sandbox = \<lparr>sb_mode = SandboxRequired, sb_allow_network = False, sb_strict = True,
     sb_landlock = True, sb_seccomp = True\<rparr>"

theorem decide_required_confines_witness:
  "confined_decision demo_env strict_sandbox [''cargo'', ''test''] [''/w'', ''/tmp/t''] (Some ''/nv'')
     (decide demo_env strict_sandbox ''/w'' [''cargo'', ''test''] [''/tmp/t''] (Some ''/nv''))"
  using decide_required_confines[of strict_sandbox demo_env "[''cargo'', ''test'']" "''/w''" "[''/tmp/t'']" "Some ''/nv''"]
  by (simp add: strict_sandbox_def canonical_writable_roots_def canonical_or_self_def demo_env_def)



text \<open>How a quoted literal is read: a backslash takes the next character as it is.\<close>

fun sbpl_read :: "string \<Rightarrow> (string \<times> string) option" where
  "sbpl_read [] = None"
| "sbpl_read (c # cs) =
     (if c = CHR 0x22 then Some ([], cs)
      else if c = CHR 0x5C then
        (case cs of [] \<Rightarrow> None | d # ds \<Rightarrow> map_option (\<lambda>(s, r). (d # s, r)) (sbpl_read ds))
      else map_option (\<lambda>(s, r). (c # s, r)) (sbpl_read cs))"

lemma sbpl_read_escaped: "sbpl_read (concat (map sbpl_escape s) @ CHR 0x22 # rest) = Some (s, rest)"
  by (induction s) (simp_all add: sbpl_escape_def)

text \<open>No path can break out of its literal in the Seatbelt profile: reading a quoted path gives the
  path back and leaves exactly what follows the literal.\<close>

theorem sbpl_string_roundtrip:
  "\<exists>lit. sbpl_string s @ rest = CHR 0x22 # lit \<and> sbpl_read lit = Some (s, rest)"
  by (simp add: sbpl_string_def quote_def sbpl_read_escaped)

end
