(* ===== verification/GoalCheck.thy ===== *)
theory GoalCheck
  imports Sandbox
begin

text \<open>
  The deterministic check of a run: \<^verbatim>\<open>crates/nerve-core/src/goal.rs\<close> (the evaluator, its verdict
  on the child process, the progress that a failing test run exposes) and
  \<^verbatim>\<open>crates/nerve-core/src/verifier.rs\<close> (the built-in verifier that stands in when no goal is set).
  The host, which makes temporary directories and runs processes, is a record of functions over a
  world; a process is what it writes, when both its pipes reach their end, and how it exits.
\<close>

section \<open>Progress of a failing check\<close>

definition ratio_permille :: "u64 \<Rightarrow> u64 \<Rightarrow> u16 option" where
  "ratio_permille passed failed =
     (case checked_add passed failed of
        None \<Rightarrow> None
      | Some n \<Rightarrow>
          if n = 0 then None
          else Some (ucast (min (sat_mul passed 1000 div n) 1000)))"

definition is_count_sep :: "char \<Rightarrow> bool" where
  "is_count_sep c = (is_ws c \<or> c = CHR '';'' \<or> c = CHR '','' \<or> c = CHR '':'')"

text \<open>The loop over \<^verbatim>\<open>tokens.windows(2)\<close>: the last number before the word counts.\<close>

fun count_windows :: "string \<Rightarrow> u64 option \<Rightarrow> string list \<Rightarrow> u64 option" where
  "count_windows word found (a # b # ts) =
     count_windows word
       (if trim_end_set {CHR ''.''} b = word
        then (case parse_uint (2 ^ 64) a of Some n \<Rightarrow> Some (of_nat n) | None \<Rightarrow> found) else found)
       (b # ts)"
| "count_windows word found _ = found"

definition count_before_word :: "string \<Rightarrow> string \<Rightarrow> u64 option" where
  "count_before_word line word = count_windows word None (tokens_by is_count_sep [] line)"

definition unwrap_or :: "'a option \<Rightarrow> 'a \<Rightarrow> 'a" where
  "unwrap_or m d = (case m of Some x \<Rightarrow> x | None \<Rightarrow> d)"

definition progress_from_line :: "string \<Rightarrow> u16 option" where
  "progress_from_line line =
     (case (count_before_word line ''passed'', count_before_word line ''failed'') of
        (None, None) \<Rightarrow> None
      | (p, f) \<Rightarrow> ratio_permille (unwrap_or p 0) (unwrap_or f 0))"

definition go_test_progress :: "string \<Rightarrow> u16 option" where
  "go_test_progress text' =
     (let ls = map trim_start (str_lines text')
      in ratio_permille (of_nat (length (filter (starts_with ''--- PASS:'') ls)))
           (of_nat (length (filter (\<lambda>l. \<not> starts_with ''--- PASS:'' l \<and> starts_with ''--- FAIL:'' l) ls))))"

fun pessimistic :: "u16 option \<Rightarrow> u16 option \<Rightarrow> u16 option" where
  "pessimistic (Some a) (Some b) = Some (min a b)"
| "pessimistic only None = only"
| "pessimistic None only = only"

text \<open>\<^verbatim>\<open>filter_map(f).next_back()\<close>.\<close>

definition last_some :: "('a \<Rightarrow> 'b option) \<Rightarrow> 'a list \<Rightarrow> 'b option" where
  "last_some f xs = (case filter (\<lambda>x. f x \<noteq> None) (rev xs) of x # _ \<Rightarrow> f x | [] \<Rightarrow> None)"

definition parse_progress_in :: "string \<Rightarrow> u16 option" where
  "parse_progress_in text' =
     pessimistic (last_some progress_from_line (str_lines text')) (go_test_progress text')"

definition parse_progress :: "string \<Rightarrow> string \<Rightarrow> u16 option" where
  "parse_progress stdout stderr = pessimistic (parse_progress_in stdout) (parse_progress_in stderr)"

section \<open>The child process\<close>

text \<open>\<^verbatim>\<open>String::from_utf8_lossy\<close>: an ill-formed sequence becomes one replacement character per
  maximal prefix of a well-formed one.\<close>

definition replacement :: "nat list" where
  "replacement = [239, 191, 189]"

fun lossy :: "nat list \<Rightarrow> nat list" where
  "lossy [] = []"
| "lossy (a # r) =
     (if a < 128 then a # lossy r
      else if 194 \<le> a \<and> a \<le> 223 then
        (case r of b # r' \<Rightarrow> if cont_byte b then a # b # lossy r' else replacement @ lossy r
         | [] \<Rightarrow> replacement)
      else if 224 \<le> a \<and> a \<le> 239 then
        (case r of
           b # c # r' \<Rightarrow>
             if second_ok a b then (if cont_byte c then a # b # c # lossy r' else replacement @ lossy (c # r'))
             else replacement @ lossy r
         | [b] \<Rightarrow> if second_ok a b then replacement else replacement @ lossy r
         | [] \<Rightarrow> replacement)
      else if 240 \<le> a \<and> a \<le> 244 then
        (case r of
           b # c # d # r' \<Rightarrow>
             if second_ok a b then
               (if cont_byte c then
                  (if cont_byte d then a # b # c # d # lossy r' else replacement @ lossy (d # r'))
                else replacement @ lossy (c # d # r'))
             else replacement @ lossy r
         | [b, c] \<Rightarrow>
             if second_ok a b then (if cont_byte c then replacement else replacement @ lossy [c])
             else replacement @ lossy r
         | [b] \<Rightarrow> if second_ok a b then replacement else replacement @ lossy r
         | [] \<Rightarrow> replacement)
      else replacement @ lossy r)"

definition from_utf8_lossy :: "string \<Rightarrow> string" where
  "from_utf8_lossy b = map char_of (lossy (map of_char b))"

text \<open>Reading chunks up to a cap; a read error ends the stream like its end.\<close>

fun read_capped :: "nat \<Rightarrow> string \<Rightarrow> string list \<Rightarrow> nat + string" where
  "read_capped cap buf [] = Inr (from_utf8_lossy buf)"
| "read_capped cap buf (chunk # chunks) =
     (if length buf + length chunk > cap then Inl cap else read_capped cap (buf @ chunk) chunks)"

definition tail_for_reason :: "string \<Rightarrow> string" where
  "tail_for_reason text' =
     (let trimmed = trim_eol text' in
      if length trimmed \<le> 512 then trimmed
      else dropWhile (\<lambda>c. cont_byte (of_char c)) (drop (length trimmed - 512) trimmed))"

datatype exit_outcome = Exited bool string | WaitFailed string | NeverExits

record process =
  px_stdout :: "string list"
  px_stderr :: "string list"
  px_drain_secs :: "nat option"
  px_exit :: exit_outcome

record check_outcome =
  ck_result :: check_result
  ck_unconfined :: bool

datatype goal_error =
  InvalidSpec config_error
| InvalidOptions string
| SpawnFailed string
| UlimitZero string
| PrivateTmpDir string

definition goal_error_text :: "goal_error \<Rightarrow> string" where
  "goal_error_text e =
     (case e of
        SpawnFailed t \<Rightarrow> ''failed to spawn goal check command: '' @ t
      | PrivateTmpDir t \<Rightarrow> ''failed to create per-check private temp dir: '' @ t
      | UlimitZero f \<Rightarrow> ''check_ulimit invalid: check_ulimit field `'' @ f @ ''` must be > 0''
      | InvalidOptions t \<Rightarrow> ''goal spec is invalid: '' @ t
      | InvalidSpec _ \<Rightarrow> ''goal spec is invalid'')"

text \<open>The verdict on a child that has exited: caps first, then the status.\<close>

definition exit_result :: "nat + string \<Rightarrow> nat + string \<Rightarrow> bool \<Rightarrow> string \<Rightarrow> check_result" where
  "exit_result stdout stderr success status =
     (case stdout of
        Inl cap \<Rightarrow> CheckFail (''stdout exceeded '' @ show_nat cap @ '' bytes'') None
      | Inr stdout_text \<Rightarrow>
          (case stderr of
             Inl cap \<Rightarrow> CheckFail (''stderr exceeded '' @ show_nat cap @ '' bytes'') None
           | Inr stderr_text \<Rightarrow>
               if success then CheckPass
               else (let tail = tail_for_reason stderr_text in
                 CheckFail
                   (if tail = [] then ''check_cmd exited with status '' @ status
                    else ''status '' @ status @ '': '' @ tail)
                   (parse_progress stdout_text stderr_text))))"

text \<open>The wait for the child. The timeout covers the draining of its pipes only: when that ends in
  time, \<^verbatim>\<open>child.wait()\<close> is awaited without one, and a child that never exits makes the whole
  evaluation never return, which is \<open>None\<close>.\<close>

definition await_child :: "nat \<Rightarrow> u64 \<Rightarrow> process \<Rightarrow> check_result option" where
  "await_child cap timeout px =
     (case px_drain_secs px of
        None \<Rightarrow> Some (CheckFail (''timeout after '' @ show_nat (unat timeout) @ ''s'') None)
      | Some t \<Rightarrow>
          if t > unat timeout
          then Some (CheckFail (''timeout after '' @ show_nat (unat timeout) @ ''s'') None)
          else (case px_exit px of
              NeverExits \<Rightarrow> None
            | WaitFailed e \<Rightarrow> Some (CheckFail (''failed to await check_cmd: '' @ e) None)
            | Exited success status \<Rightarrow>
                Some (exit_result (read_capped cap [] (px_stdout px)) (read_capped cap [] (px_stderr px))
                        success status)))"

section \<open>The evaluator\<close>

record command =
  co_program :: string
  co_args :: "string list"
  co_cwd :: string
  co_env :: "string \<rightharpoonup> string"
  co_ulimit :: "check_ulimit option"

record canary_run =
  cn_exited_in_time :: bool
  cn_escape_exists :: bool
  cn_live_exists :: bool

record 'w host =
  ho_sandbox :: sandbox_env
  ho_env :: "string \<Rightarrow> string option"
  ho_exe :: "string option"
  ho_tempdir :: "string \<Rightarrow> 'w \<Rightarrow> (string + string) \<times> 'w"
  ho_canary :: "command \<Rightarrow> nat \<Rightarrow> 'w \<Rightarrow> (string + canary_run) \<times> 'w"
  ho_spawn :: "command \<Rightarrow> 'w \<Rightarrow> (string + process) \<times> 'w"

record goal_evaluator =
  ge_goal :: goal_spec
  ge_allowed_env :: "string list"
  ge_output_cap :: nat
  ge_cwd :: string
  ge_ulimit :: "check_ulimit option"
  ge_sandbox :: sandbox_config

text \<open>\<^verbatim>\<open>ulimit::validate\<close> of the core.\<close>

definition core_ulimit_validate :: "check_ulimit \<Rightarrow> goal_error + unit" where
  "core_ulimit_validate u =
     res_bind (ensure (ul_nproc u \<noteq> Some 0) (UlimitZero ''nproc'')) (\<lambda>_.
     res_bind (ensure (ul_memory_bytes u \<noteq> Some 0) (UlimitZero ''address_space_bytes'')) (\<lambda>_.
     res_bind (ensure (ul_file_size_bytes u \<noteq> Some 0) (UlimitZero ''file_size_bytes'')) (\<lambda>_.
     ensure (ul_cpu_secs u \<noteq> Some 0) (UlimitZero ''cpu_secs''))))"

definition evaluator_with_options ::
  "goal_spec \<Rightarrow> string list \<Rightarrow> nat \<Rightarrow> string \<Rightarrow> check_ulimit option \<Rightarrow> sandbox_config \<Rightarrow> goal_error + goal_evaluator" where
  "evaluator_with_options goal allowed_env output_cap cwd ulimit sandbox =
     res_bind (res_map_err InvalidSpec (goal_validate goal)) (\<lambda>_.
     res_bind (ensure (output_cap \<noteq> 0) (InvalidOptions ''output_cap must be greater than 0'')) (\<lambda>_.
     res_bind (ensure (starts_with ''/'' cwd)
       (InvalidOptions (''evaluator cwd `'' @ cwd @ ''` must be absolute''))) (\<lambda>_.
     res_bind (opt_all core_ulimit_validate ulimit) (\<lambda>_.
     Inr \<lparr>ge_goal = goal, ge_allowed_env = allowed_env, ge_output_cap = output_cap, ge_cwd = cwd,
          ge_ulimit = ulimit, ge_sandbox = sandbox\<rparr>))))"

definition decision_is_unconfined_degrade :: "sandbox_decision \<Rightarrow> bool" where
  "decision_is_unconfined_degrade d = (case d of Unconfined (Some _) \<Rightarrow> True | _ \<Rightarrow> False)"

definition private_check_tmpdir :: "'w host \<Rightarrow> sandbox_config \<Rightarrow> ('w, goal_error, string option) step" where
  "private_check_tmpdir h cfg w =
     (if \<not> sandbox_is_enabled cfg then (Inr None, w)
      else (case ho_tempdir h ''nerve-check-'' w of
          (Inl e, w') \<Rightarrow> (Inl (PrivateTmpDir e), w')
        | (Inr dir, w') \<Rightarrow> (Inr (Some dir), w')))"

definition confine_helper_path :: "'w host \<Rightarrow> sandbox_config \<Rightarrow> string option" where
  "confine_helper_path h cfg = (if \<not> sb_landlock cfg \<and> \<not> sb_seccomp cfg then None else ho_exe h)"

definition canary_confined :: "bool \<Rightarrow> bool \<Rightarrow> bool" where
  "canary_confined escape_exists live_exists = (\<not> escape_exists \<and> live_exists)"

definition canary_cmd :: "string list" where
  "canary_cmd = [''sh'', ''-c'',
     ''printf x > '' @ quote @ ''$NERVE_CANARY_LIVE'' @ quote @ ''; printf x > '' @ quote @ ''$NERVE_CANARY_ESCAPE'' @ quote]"

definition run_confinement_probe ::
  "'w host \<Rightarrow> sandbox_config \<Rightarrow> string \<Rightarrow> string list \<Rightarrow> string \<Rightarrow> string \<Rightarrow> u64 \<Rightarrow> ('w, goal_error, bool) step" where
  "run_confinement_probe h cfg cwd profile_writable grant_dir probe_dir timeout w =
     (case decide (ho_sandbox h) cfg cwd canary_cmd profile_writable (confine_helper_path h cfg) of
        Wrap program args \<Rightarrow>
          (case ho_canary h
              \<lparr>co_program = program, co_args = args, co_cwd = cwd,
               co_env = [''NERVE_CANARY_LIVE'' \<mapsto> path_join grant_dir ''.nerve-canary-live'',
                         ''NERVE_CANARY_ESCAPE'' \<mapsto> path_join probe_dir ''nerve-canary-escape''],
               co_ulimit = None\<rparr> (max 1 (min (unat timeout) 10)) w of
             (Inl e, w') \<Rightarrow> (Inl (SpawnFailed e), w')
           | (Inr run, w') \<Rightarrow>
               (Inr (cn_exited_in_time run \<and> canary_confined (cn_escape_exists run) (cn_live_exists run)), w'))
      | _ \<Rightarrow> (Inr False, w))"

definition verify_confinement ::
  "'w host \<Rightarrow> goal_evaluator \<Rightarrow> string list \<Rightarrow> string \<Rightarrow> ('w, goal_error, bool) step" where
  "verify_confinement h ev profile_writable grant_dir w =
     (case ho_tempdir h ''nerve-canary-'' w of
        (Inl e, w') \<Rightarrow> (Inl (PrivateTmpDir e), w')
      | (Inr probe, w') \<Rightarrow>
          run_confinement_probe h (ge_sandbox ev) (ge_cwd ev) profile_writable grant_dir probe
            (gs_timeout_secs (ge_goal ev)) w')"

text \<open>\<^verbatim>\<open>env_clear\<close> and then the allowed variables of the host, those of the goal, and the private
  temporary directory, each set over what is there.\<close>

definition allowed_vars :: "'w host \<Rightarrow> string list \<Rightarrow> (string \<rightharpoonup> string)" where
  "allowed_vars h names = (\<lambda>k. if k \<in> set names then ho_env h k else None)"

definition child_env :: "'w host \<Rightarrow> goal_evaluator \<Rightarrow> string option \<Rightarrow> (string \<rightharpoonup> string)" where
  "child_env h ev private_tmp =
     (let env = allowed_vars h (ge_allowed_env ev) ++ map_of (rev (gs_env (ge_goal ev)))
      in (case private_tmp of Some dir \<Rightarrow> env(''TMPDIR'' \<mapsto> dir) | None \<Rightarrow> env))"

definition confinement_selftest_failed :: string where
  "confinement_selftest_failed = ''sandbox confinement self-test failed: an out-of-root write was NOT denied under sandbox.mode=required; refusing to run the check unconfined (fail closed)''"

definition fail_outcome :: "string \<Rightarrow> bool \<Rightarrow> check_outcome" where
  "fail_outcome reason unconfined = \<lparr>ck_result = CheckFail reason None, ck_unconfined = unconfined\<rparr>"

text \<open>From the spawned command on; the result is \<open>None\<close> when the evaluation never returns.\<close>

definition spawn_check ::
  "'w host \<Rightarrow> goal_evaluator \<Rightarrow> string option \<Rightarrow> bool \<Rightarrow> string \<Rightarrow> string list \<Rightarrow>
   'w \<Rightarrow> (goal_error + check_outcome) option \<times> 'w" where
  "spawn_check h ev private_tmp unconfined program args w =
     (case ho_spawn h
         \<lparr>co_program = program, co_args = args, co_cwd = ge_cwd ev, co_env = child_env h ev private_tmp,
          co_ulimit = ge_ulimit ev\<rparr> w of
        (Inl e, w') \<Rightarrow> (Some (Inl (SpawnFailed e)), w')
      | (Inr px, w') \<Rightarrow>
          (map_option (\<lambda>r. Inr \<lparr>ck_result = r, ck_unconfined = unconfined\<rparr>)
             (await_child (ge_output_cap ev) (gs_timeout_secs (ge_goal ev)) px), w'))"

definition spawn_and_wait ::
  "'w host \<Rightarrow> goal_evaluator \<Rightarrow> 'w \<Rightarrow> (goal_error + check_outcome) option \<times> 'w" where
  "spawn_and_wait h ev w =
     (case private_check_tmpdir h (ge_sandbox ev) w of
        (Inl e, w1) \<Rightarrow> (Some (Inl e), w1)
      | (Inr private_tmp, w1) \<Rightarrow>
          (let extra = (case private_tmp of Some dir \<Rightarrow> [dir] | None \<Rightarrow> []);
               decision = decide (ho_sandbox h) (ge_sandbox ev) (ge_cwd ev) (gs_check_cmd (ge_goal ev)) extra
                            (confine_helper_path h (ge_sandbox ev));
               unconfined = decision_is_unconfined_degrade decision
           in (case decision of
                 Unconfined _ \<Rightarrow>
                   spawn_check h ev private_tmp unconfined (hd (gs_check_cmd (ge_goal ev))) (tl (gs_check_cmd (ge_goal ev))) w1
               | Refuse reason \<Rightarrow> (Some (Inr (fail_outcome reason unconfined)), w1)
               | Wrap program args \<Rightarrow>
                   if sb_mode (ge_sandbox ev) = SandboxRequired \<and> se_platform (ho_sandbox h) \<noteq> OtherOs then
                     (case private_tmp of
                        None \<Rightarrow> (Some (Inr (fail_outcome confinement_selftest_failed unconfined)), w1)
                      | Some dir \<Rightarrow>
                          (case verify_confinement h ev extra dir w1 of
                             (Inl e, w2) \<Rightarrow> (Some (Inl e), w2)
                           | (Inr confined, w2) \<Rightarrow>
                               if \<not> confined
                               then (Some (Inr (fail_outcome confinement_selftest_failed unconfined)), w2)
                               else spawn_check h ev private_tmp unconfined program args w2))
                   else spawn_check h ev private_tmp unconfined program args w1)))"

definition evaluate :: "'w host \<Rightarrow> goal_evaluator \<Rightarrow> 'w \<Rightarrow> check_outcome option \<times> 'w" where
  "evaluate h ev w =
     (case spawn_and_wait h ev w of
        (None, w') \<Rightarrow> (None, w')
      | (Some (Inr outcome), w') \<Rightarrow> (Some outcome, w')
      | (Some (Inl e), w') \<Rightarrow> (Some (fail_outcome (goal_error_text e) False), w'))"

section \<open>The built-in verifier\<close>

definition builtin_verifier_goal_id :: string where
  "builtin_verifier_goal_id = ''builtin-verifier''"

record resolved_verifier =
  rv_spec :: goal_spec
  rv_label :: string

definition json_get :: "string \<Rightarrow> json \<Rightarrow> json option" where
  "json_get k j = (case j of JObj kvs \<Rightarrow> map_of kvs k | _ \<Rightarrow> None)"

definition node_has_test_script :: "(string \<Rightarrow> json option) \<Rightarrow> fs \<Rightarrow> loc \<Rightarrow> bool" where
  "node_has_test_script parse_json s cwd =
     (case read_file (nodes s) (cwd @ [''package.json'']) of
        Inl _ \<Rightarrow> False
      | Inr raw \<Rightarrow>
          valid_utf8 raw \<and>
          (case Option.bind (Option.bind (parse_json raw) (json_get ''scripts'')) (json_get ''test'') of
             Some (JStr t) \<Rightarrow> trim_ws t \<noteq> [] | _ \<Rightarrow> False))"

definition detect_builtin_verifier ::
  "(string \<Rightarrow> json option) \<Rightarrow> fs \<Rightarrow> loc \<Rightarrow> (string \<times> string list) option" where
  "detect_builtin_verifier parse_json s cwd =
     (if path_exists (nodes s) (cwd @ [''Cargo.toml'']) then Some (''cargo test'', [''cargo'', ''test'', ''--quiet''])
      else if path_exists (nodes s) (cwd @ [''go.mod'']) then Some (''go test ./...'', [''go'', ''test'', ''./...''])
      else if node_has_test_script parse_json s cwd then Some (''npm test'', [''npm'', ''test''])
      else None)"

definition consent_from_env :: "string option \<Rightarrow> bool" where
  "consent_from_env v =
     (case v of Some t \<Rightarrow> to_lower (trim_ws t) \<in> {''1'', ''true'', ''yes'', ''on''} | None \<Rightarrow> False)"

fun join_with :: "string \<Rightarrow> string list \<Rightarrow> string" where
  "join_with sep [] = []"
| "join_with sep [x] = x"
| "join_with sep (x # xs) = x @ sep @ join_with sep xs"

definition resolve_builtin_verifier ::
  "(string \<Rightarrow> json option) \<Rightarrow> fs \<Rightarrow> orchestration \<Rightarrow> loc \<Rightarrow> bool \<Rightarrow> resolved_verifier option" where
  "resolve_builtin_verifier parse_json s orch cwd exec_trusted =
     (let cfg = or_builtin_verifier orch in
      if bv_mode cfg = VerifierOff then None
      else if \<not> exec_trusted then None
      else Option.bind
        (case bv_mode cfg of
           VerifierOff \<Rightarrow> None
         | VerifierAuto \<Rightarrow> detect_builtin_verifier parse_json s cwd
         | VerifierCommand \<Rightarrow> Some (''configured: '' @ join_with '' '' (bv_command cfg), bv_command cfg))
        (\<lambda>(label, cmd).
          if cmd = [] then None
          else Some \<lparr>rv_spec = \<lparr>gs_id = builtin_verifier_goal_id, gs_check_cmd = cmd,
                       gs_timeout_secs = bv_timeout_secs cfg, gs_cwd = None, gs_env = [],
                       gs_no_progress_max = None\<rparr>,
                     rv_label = label\<rparr>))"

end
