(* ===== verification/GoalProps.thy ===== *)
theory GoalProps
  imports GoalCheck "HOL-Library.Code_Target_Nat"
begin

text \<open>
  What the deterministic check guarantees: a pass is a clean exit of the check under its caps and,
  where confinement is required, inside a jail that has just been shown to hold; when the
  evaluation returns; and what the progress number of a failing run can claim.
\<close>

section \<open>The child process\<close>





text \<open>The wait hangs exactly on a child that closes its pipes in time and then never exits.\<close>

definition lingers :: "u64 \<Rightarrow> process \<Rightarrow> bool" where
  "lingers timeout px =
     ((case px_drain_secs px of None \<Rightarrow> False | Some t \<Rightarrow> t \<le> unat timeout) \<and> px_exit px = NeverExits)"

lemma await_child_None: "await_child cap timeout px = None \<longleftrightarrow> lingers timeout px"
  by (cases "px_drain_secs px"; cases "px_exit px") (auto simp: await_child_def lingers_def)

section \<open>The evaluation\<close>

text \<open>The command that the evaluator spawns when it has decided for \<open>program\<close> and \<open>args\<close>.\<close>

definition check_command ::
  "'w host \<Rightarrow> goal_evaluator \<Rightarrow> string option \<Rightarrow> string \<Rightarrow> string list \<Rightarrow> command" where
  "check_command h ev private_tmp program args =
     \<lparr>co_program = program, co_args = args, co_cwd = ge_cwd ev, co_env = child_env h ev private_tmp,
      co_ulimit = ge_ulimit ev\<rparr>"

lemma spawn_check_cases:
  assumes "spawn_check h ev t u program args w = (r, w')"
  obtains (failed) e where "ho_spawn h (check_command h ev t program args) w = (Inl e, w')"
      "r = Some (Inl (SpawnFailed e))"
  | (ran) px where "ho_spawn h (check_command h ev t program args) w = (Inr px, w')"
      "r = map_option (\<lambda>r. Inr \<lparr>ck_result = r, ck_unconfined = u\<rparr>)
             (await_child (ge_output_cap ev) (gs_timeout_secs (ge_goal ev)) px)"
  using assms by (auto simp: spawn_check_def check_command_def split: prod.splits sum.splits)

text \<open>What the code has decided and shown before it spawns the check.\<close>

definition cleared ::
  "'w host \<Rightarrow> goal_evaluator \<Rightarrow> string option \<Rightarrow> string \<Rightarrow> string list \<Rightarrow> 'w \<Rightarrow> bool" where
  "cleared h ev private_tmp program args w1 =
     (let extra = (case private_tmp of Some dir \<Rightarrow> [dir] | None \<Rightarrow> []);
          cfg = ge_sandbox ev;
          d = decide (ho_sandbox h) cfg (ge_cwd ev) (gs_check_cmd (ge_goal ev)) extra (confine_helper_path h cfg)
      in (d = Wrap program args \<or>
          (\<exists>warning. d = Unconfined warning) \<and> sb_mode cfg \<noteq> SandboxRequired \<and>
            program = hd (gs_check_cmd (ge_goal ev)) \<and> args = tl (gs_check_cmd (ge_goal ev))) \<and>
         (sb_mode cfg = SandboxRequired \<longrightarrow>
           (\<exists>dir w0. private_tmp = Some dir \<and> verify_confinement h ev [dir] dir w0 = (Inr True, w1))))"

lemma decide_required_cases:
  assumes "sb_mode cfg = SandboxRequired" and "decide env cfg cwd cmd extra helper = d"
  shows "(\<forall>x. d \<noteq> Unconfined x) \<and> (\<forall>p a. d = Wrap p a \<longrightarrow> se_platform env \<noteq> OtherOs)"
  using assms decide_required_confines[OF assms(1), of env cmd cwd extra helper]
  by (cases d; cases "se_platform env") (auto simp: confined_decision_def)

lemma spawn_and_wait_cases:
  assumes "spawn_and_wait h ev w = (r, w')"
  obtains (refused) e where "r = Some (Inl e)"
  | (stopped) reason u where "r = Some (Inr (fail_outcome reason u))"
  | (spawned) t program args w1 u where "cleared h ev t program args w1" "spawn_check h ev t u program args w1 = (r, w')"
proof -
  let ?cfg = "ge_sandbox ev"
  obtain m w1 where tmp: "private_check_tmpdir h ?cfg w = (m, w1)" by (cases "private_check_tmpdir h ?cfg w") auto
  show thesis
  proof (cases m)
    case (Inl e)
    then show thesis using assms tmp by (intro refused[of e]) (simp add: spawn_and_wait_def)
  next
    case (Inr t)
    define extra where "extra = (case t of Some dir \<Rightarrow> [dir] | None \<Rightarrow> [])"
    define d where "d = decide (ho_sandbox h) ?cfg (ge_cwd ev) (gs_check_cmd (ge_goal ev)) extra (confine_helper_path h ?cfg)"
    note run = assms[unfolded spawn_and_wait_def tmp Inr prod.case sum.case Let_def, folded extra_def, folded d_def]
    note req = decide_required_cases[OF _ d_def[symmetric]]
    show thesis
    proof (cases d)
      case (Unconfined x)
      have "cleared h ev t (hd (gs_check_cmd (ge_goal ev))) (tl (gs_check_cmd (ge_goal ev))) w1"
        using Unconfined req unfolding cleared_def Let_def extra_def[symmetric] d_def[symmetric] by auto
      then show thesis using run Unconfined by (auto intro: spawned)
    next
      case (Refuse reason)
      then show thesis using run stopped by auto
    next
      case (Wrap program args)
      show thesis
      proof (cases "sb_mode ?cfg = SandboxRequired")
        case False
        then have "cleared h ev t program args w1"
          using Wrap unfolding cleared_def Let_def extra_def[symmetric] d_def[symmetric] by auto
        then show thesis using run Wrap False by (auto intro: spawned)
      next
        case True
        then have os: "se_platform (ho_sandbox h) \<noteq> OtherOs" using req Wrap by auto
        show thesis
        proof (cases t)
          case None
          then show thesis using run Wrap True os stopped by auto
        next
          case (Some dir)
          obtain v w2 where v: "verify_confinement h ev extra dir w1 = (v, w2)"
            by (cases "verify_confinement h ev extra dir w1") auto
          note run' = run[unfolded Wrap sandbox_decision.case Some option.case v prod.case]
          show thesis
          proof (cases v)
            case (Inl e)
            then show thesis using run' True os refused by auto
          next
            case (Inr b)
            show thesis
            proof (cases b)
              case False
              then show thesis using run' Inr True os stopped by auto
            next
              case bt: True
              have "extra = [dir]" using Some by (simp add: extra_def)
              then have "cleared h ev t program args w2"
                using v Inr bt Some Wrap True
                unfolding cleared_def Let_def extra_def[symmetric] d_def[symmetric] by auto
              moreover have "spawn_check h ev t (decision_is_unconfined_degrade d) program args w2 = (r, w')"
                using run' Inr bt True os Some Wrap by simp
              ultimately show thesis by (rule spawned)
            qed
          qed
        qed
      qed
    qed
  qed
qed


lemma evaluate_returns_from:
  assumes "\<And>cmd w1 px w2. ho_spawn h cmd w1 = (Inr px, w2) \<Longrightarrow> \<not> lingers (gs_timeout_secs (ge_goal ev)) px"
  shows "\<exists>outcome w'. evaluate h ev w = (Some outcome, w')"
proof -
  obtain r w' where run: "spawn_and_wait h ev w = (r, w')" by (cases "spawn_and_wait h ev w") auto
  have "r \<noteq> None"
    using run
  proof (cases rule: spawn_and_wait_cases)
    case (spawned t program args w1 u)
    from spawned(2) show ?thesis
      by (cases rule: spawn_check_cases) (use assms await_child_None in \<open>auto simp del: not_None_eq\<close>)
  qed auto
  then show ?thesis using run by (auto simp: evaluate_def split: sum.splits)
qed

text \<open>C19. The evaluation returns, except on a check that closes its pipes in time and then never exits:
  the timeout of the goal does not bound the wait for the exit.\<close>

theorem evaluate_returns:
  assumes "\<And>cmd w1 px w2. ho_spawn h cmd w1 = (Inr px, w2) \<Longrightarrow> \<not> lingers (gs_timeout_secs (ge_goal ev)) px"
  shows "\<exists>outcome w'. evaluate h ev w = (Some outcome, w')"
  using evaluate_returns_from[OF assms] .

section \<open>A demonstration host\<close>

text \<open>A Linux host with bubblewrap; its world counts the temporary directories made so far. Every
  child but a canary exits as \<open>px\<close> says.\<close>

definition demo_host :: "process \<Rightarrow> nat host" where
  "demo_host px =
     \<lparr>ho_sandbox = demo_env, ho_env = (\<lambda>k. if k = ''HOME'' then Some ''/root'' else None), ho_exe = Some ''/nv'',
      ho_tempdir = (\<lambda>p n. (Inr (''/tmp/'' @ p @ show_nat n), n + 1)),
      ho_canary = (\<lambda>_ _ n. (Inr \<lparr>cn_exited_in_time = True, cn_escape_exists = False, cn_live_exists = True\<rparr>, n)),
      ho_spawn = (\<lambda>_ n. (Inr px, n))\<rparr>"

definition demo_goal :: goal_spec where
  "demo_goal = \<lparr>gs_id = ''g'', gs_check_cmd = [''cargo'', ''test''], gs_timeout_secs = 60, gs_cwd = None,
     gs_env = [(''CI'', ''1'')], gs_no_progress_max = Some 2\<rparr>"

definition demo_evaluator :: goal_evaluator where
  "demo_evaluator = \<lparr>ge_goal = demo_goal, ge_allowed_env = [''HOME''], ge_output_cap = 1000, ge_cwd = ''/w'',
     ge_ulimit = None, ge_sandbox = strict_sandbox\<rparr>"

definition passing :: process where
  "passing = \<lparr>px_stdout = [''ok''], px_stderr = [], px_drain_secs = Some 3, px_exit = Exited True ''exit status: 0''\<rparr>"

definition lingering :: process where
  "lingering = passing\<lparr>px_exit := NeverExits\<rparr>"


theorem evaluate_returns_witness: "\<exists>outcome w'. evaluate (demo_host passing) demo_evaluator 0 = (Some outcome, w')"
  by (rule evaluate_returns) (auto simp: demo_host_def lingers_def passing_def)

text \<open>The check that never exits, with a timeout of a minute.\<close>

lemma evaluate_hangs: "evaluate (demo_host lingering) demo_evaluator 0 = (None, 2)"
  by code_simp

section \<open>The environment of the check\<close>

text \<open>C20. What a child of a validated goal finds in its environment: an allowed variable with the host's
  value, a variable of the goal that is no code-execution vector, or the private directory.\<close>

theorem child_env_confined:
  assumes "evaluator_with_options goal allowed cap cwd ulimit sandbox = Inr ev"
    and "child_env h ev private_tmp k = Some v"
  shows "k \<in> set allowed \<and> ho_env h k = Some v \<or>
     (k, v) \<in> set (gs_env goal) \<and> \<not> is_forbidden_goal_env_key k \<and> \<not> list_ex is_ascii_control v \<or>
     k = ''TMPDIR'' \<and> private_tmp = Some v"
proof -
  have ev: "ge_goal ev = goal" "ge_allowed_env ev = allowed" and val: "goal_validate goal = Inr ()"
    using assms(1) by (auto simp: evaluator_with_options_def result_simps)
  have entries: "\<forall>kv \<in> set (gs_env goal). env_entry_validate kv = Inr ()"
    using val by (auto simp: goal_validate_def result_simps split: if_splits list.splits)
  have goal_var: "\<not> is_forbidden_goal_env_key k \<and> \<not> list_ex is_ascii_control v" if "(k, v) \<in> set (gs_env goal)"
    using bspec[OF entries that] by (simp add: env_entry_validate_def split: if_splits)
  have "k = ''TMPDIR'' \<and> private_tmp = Some v \<or> (allowed_vars h allowed ++ map_of (rev (gs_env goal))) k = Some v"
    using assms(2) unfolding child_env_def Let_def ev by (auto split: option.splits if_splits)
  then show ?thesis
    using goal_var by (auto simp: allowed_vars_def map_add_Some_iff dest!: map_of_SomeD split: if_splits)
qed

theorem child_env_confined_witness:
  "''CI'' \<in> set [''HOME''] \<and> ho_env (demo_host passing) ''CI'' = Some ''1'' \<or>
     (''CI'', ''1'') \<in> set (gs_env demo_goal) \<and> \<not> is_forbidden_goal_env_key ''CI'' \<and> \<not> list_ex is_ascii_control ''1'' \<or>
     ''CI'' = ''TMPDIR'' \<and> Some ''/tmp/x'' = Some ''1''"
proof (rule child_env_confined[where ev = demo_evaluator])
  show "evaluator_with_options demo_goal [''HOME''] 1000 ''/w'' None strict_sandbox = Inr demo_evaluator"
    by code_simp
  show "child_env (demo_host passing) demo_evaluator (Some ''/tmp/x'') ''CI'' = Some ''1''"
    by code_simp
qed

section \<open>Progress\<close>

lemma ratio_permille_value:
  assumes "ratio_permille p f = Some n"
  shows "unat n = min (min (1000 * unat p) (2 ^ 64 - 1) div (unat p + unat f)) 1000"
    and "0 < unat p + unat f"
proof -
  obtain t where t: "checked_add p f = Some t" "t \<noteq> 0" "n = ucast (min (sat_mul p 1000 div t) 1000)"
    using assms by (auto simp: ratio_permille_def split: option.splits if_splits)
  have sum: "unat t = unat p + unat f" using t(1) by (simp add: checked_add_Some)
  have m: "unat (min (sat_mul p 1000 div t) 1000 :: u64) = min (min (1000 * unat p) (2 ^ 64 - 1) div unat t) 1000"
    by (simp add: min_def word_le_nat_alt unat_div unat_sat_mul mult.commute)
  then show "unat n = min (min (1000 * unat p) (2 ^ 64 - 1) div (unat p + unat f)) 1000"
    unfolding t(3) sum[symmetric] unsigned_ucast_eq take_bit_eq_mod m by simp
  show "0 < unat p + unat f" using t(2) unfolding sum[symmetric] by (metis gr0I unsigned_eq_0_iff)
qed

lemma ratio_permille_bound: "ratio_permille p f = Some n \<Longrightarrow> unat n \<le> 1000"
  by (simp add: ratio_permille_value)

text \<open>A failing test is never rounded away, not even when the multiplication saturates.\<close>

lemma ratio_permille_full:
  assumes "ratio_permille p f = Some 1000"
  shows "f = 0"
proof (rule ccontr)
  assume "f \<noteq> 0"
  then have f: "0 < unat f" by (metis gr0I unsigned_eq_0_iff)
  have "1000 \<le> min (1000 * unat p) (2 ^ 64 - 1) div (unat p + unat f)"
    using ratio_permille_value(1)[OF assms] by simp
  then have "1000 * (unat p + unat f) \<le> min (1000 * unat p) (2 ^ 64 - 1)"
    using ratio_permille_value(2)[OF assms] by (simp add: less_eq_div_iff_mult_less_eq)
  then show False using f by simp
qed

lemma pessimistic_Some:
  "pessimistic a b = Some n \<Longrightarrow>
     (\<exists>m. (a = Some m \<or> b = Some m) \<and> n = m) \<and> (\<forall>m. a = Some m \<or> b = Some m \<longrightarrow> n \<le> m)"
  by (cases a; cases b) (auto simp: min_def)

lemma last_some_Some:
  assumes "last_some f xs = Some n"
  shows "\<exists>x \<in> set xs. f x = Some n"
proof -
  obtain x ys where eq: "filter (\<lambda>x. f x \<noteq> None) (rev xs) = x # ys" and x: "f x = Some n"
    using assms by (auto simp: last_some_def split: list.splits)
  have "x \<in> set (filter (\<lambda>x. f x \<noteq> None) (rev xs))" unfolding eq by simp
  with x show ?thesis by auto
qed

lemma progress_from_line_bound: "progress_from_line l = Some n \<Longrightarrow> n \<le> 1000"
  by (auto simp: progress_from_line_def word_le_nat_alt split: option.splits dest: ratio_permille_bound)

lemma parse_progress_in_bound: "parse_progress_in s = Some n \<Longrightarrow> n \<le> 1000"
  by (auto simp: parse_progress_in_def go_test_progress_def Let_def word_le_nat_alt
      dest!: pessimistic_Some last_some_Some dest: progress_from_line_bound ratio_permille_bound)

lemma length_split_inclusive: "length (split_inclusive c s) \<le> length s"
  by (induction c s rule: split_inclusive.induct) (auto split: list.splits)

definition go_failure :: "string \<Rightarrow> bool" where
  "go_failure s = list_ex (\<lambda>l. starts_with ''--- FAIL:'' (trim_start l)) (str_lines s)"

lemma starts_with_clash: "starts_with ''--- PASS:'' l \<Longrightarrow> \<not> starts_with ''--- FAIL:'' l"
  by (auto simp: starts_with_def string_simps)

lemma length_filter_disjoint:
  "\<forall>x. P x \<longrightarrow> \<not> Q x \<Longrightarrow> length (filter P xs) + length (filter Q xs) \<le> length xs"
  by (induction xs) auto

lemma go_failure_not_full:
  assumes "go_failure s" and "length s < 2 ^ 64"
  shows "\<exists>n. go_test_progress s = Some n \<and> n < 1000"
proof -
  let ?ls = "map trim_start (str_lines s)"
  let ?fails = "filter (\<lambda>l. \<not> starts_with ''--- PASS:'' l \<and> starts_with ''--- FAIL:'' l) ?ls"
  let ?passes = "filter (starts_with ''--- PASS:'') ?ls"
  have len: "length ?ls < 2 ^ 64"
    using length_split_inclusive[of "CHR 0x0A" s] assms(2) by (simp add: str_lines_def)
  have le: "length ?passes + length ?fails \<le> length ?ls"
    by (rule length_filter_disjoint) simp
  obtain l where "l \<in> set ?ls" "starts_with ''--- FAIL:'' l"
    using assms(1) by (auto simp: go_failure_def list_ex_iff)
  then have "l \<in> set ?fails" using starts_with_clash by auto
  then have f: "length ?fails \<noteq> 0" using length_pos_if_in_set[of l ?fails] by simp
  define p f where "p = (of_nat (length ?passes) :: u64)" and "f = (of_nat (length ?fails) :: u64)"
  have u: "unat p = length ?passes" "unat f = length ?fails"
    using le len unfolding p_def f_def unsigned_of_nat take_bit_eq_mod by simp_all
  have go: "go_test_progress s = ratio_permille p f" by (simp add: go_test_progress_def p_def f_def)
  have "\<exists>t. checked_add p f = Some t \<and> t \<noteq> 0"
  proof -
    have "unat p + unat f < 2 ^ 64" using u le len by simp
    then have "checked_add p f = Some (p + f)" by (simp add: checked_add_Some unat_word_ariths)
    moreover have "unat (p + f) \<noteq> 0" using u f \<open>unat p + unat f < 2 ^ 64\<close> by (simp add: unat_word_ariths)
    ultimately show ?thesis by auto
  qed
  then obtain n where n: "ratio_permille p f = Some n" by (auto simp: ratio_permille_def)
  have "f \<noteq> 0" using u(2) f by auto
  then have "n \<noteq> 1000" using ratio_permille_full n by auto
  moreover have "n \<le> 1000" using ratio_permille_bound[OF n] by (simp add: word_le_nat_alt)
  ultimately show ?thesis using n go by (auto simp: order_less_le)
qed

text \<open>C21. The progress of a failing run is a permille, and a run in which any Go test has failed never
  reports a full one, whatever its summary lines say and whichever stream they are on.\<close>

theorem parse_progress_sound:
  assumes "parse_progress stdout stderr = Some n" and "length stdout < 2 ^ 64" and "length stderr < 2 ^ 64"
  shows "n \<le> 1000 \<and> (go_failure stdout \<or> go_failure stderr \<longrightarrow> n < 1000)"
proof
  show "n \<le> 1000"
    using assms(1) parse_progress_in_bound by (auto simp: parse_progress_def dest!: pessimistic_Some)
  have full: "m < 1000" if s: "go_failure s" "length s < 2 ^ 64" and m: "parse_progress_in s = Some m" for s m
  proof -
    obtain g where "go_test_progress s = Some g" "g < 1000" using go_failure_not_full[OF s] by blast
    moreover have "m \<le> g"
      using m calculation(1) pessimistic_Some[of "last_some progress_from_line (str_lines s)" "Some g" m]
      by (simp add: parse_progress_in_def)
    ultimately show ?thesis by (simp add: le_less_trans)
  qed
  have some: "\<exists>m. parse_progress_in s = Some m" if s: "go_failure s" "length s < 2 ^ 64" for s
    using go_failure_not_full[OF s] by (cases "last_some progress_from_line (str_lines s)") (auto simp: parse_progress_in_def)
  have le: "n \<le> m" if "parse_progress_in stdout = Some m \<or> parse_progress_in stderr = Some m" for m
    using pessimistic_Some[OF assms(1)[unfolded parse_progress_def]] that by blast
  show "go_failure stdout \<or> go_failure stderr \<longrightarrow> n < 1000"
    using full[of stdout] full[of stderr] some[of stdout] some[of stderr] assms(2,3) le le_less_trans by metis
qed

theorem parse_progress_sound_witness:
  "parse_progress (''--- PASS: A'' @ nl @ ''--- FAIL: B'') ''3 passed'' = Some 500 \<and>
     go_failure (''--- PASS: A'' @ nl @ ''--- FAIL: B'') \<and> (500 :: u16) < 1000"
proof -
  have run: "parse_progress (''--- PASS: A'' @ nl @ ''--- FAIL: B'') ''3 passed'' = Some 500" by code_simp
  have fail: "go_failure (''--- PASS: A'' @ nl @ ''--- FAIL: B'')" by code_simp
  from parse_progress_sound[OF run] run fail show ?thesis by (simp add: nl_def)
qed

end
