(* ===== verification/ApplyGate.thy ===== *)
theory ApplyGate
  imports GoalCheck
begin

text \<open>
  What stands between the end of a run and the working tree, from
  \<^verbatim>\<open>crates/nerve-core/src/lib.rs\<close>: which patch a conflict policy selects, the file-wise merge of
  the lead's and the reviewer's patch, which verdicts block, the risk classifier and its veto,
  and the application itself, in place or through an isolated git worktree. The world of a run is
  the file system and whatever else its adapters, git and the host keep.
\<close>

record 'x world =
  w_fs :: fs
  w_ext :: 'x

datatype run_error =
  RunMsg string
| RunContext string run_error
| RunPatch patch_error
| RunConfig cfg_fail
| RunGoal goal_error

section \<open>Merging patches\<close>

text \<open>\<open>git base lead reviewer\<close> is the exit code and the output of \<^verbatim>\<open>git merge-file -p\<close>; an error is a
  failure to run it.\<close>

type_synonym git_merge = "string \<Rightarrow> string \<Rightarrow> string \<Rightarrow> run_error + (nat option \<times> string)"

definition git_merge_file :: "git_merge \<Rightarrow> string \<Rightarrow> string \<Rightarrow> string \<Rightarrow> run_error + string" where
  "git_merge_file git base lead reviewer =
     res_bind (git base lead reviewer) (\<lambda>(code, out).
       case code of
         Some c \<Rightarrow> if c = 0 \<or> 1 \<le> c \<and> c < 128 then Inr (from_utf8_lossy out)
                   else Inl (RunMsg ''`git merge-file` failed'')
       | None \<Rightarrow> Inl (RunMsg ''`git merge-file` failed''))"

text \<open>\<^verbatim>\<open>PartialEq\<close> of file patches, whose paths are compared by components.\<close>

definition op_eq :: "file_operation \<Rightarrow> file_operation \<Rightarrow> bool" where
  "op_eq a b = (case (a, b) of (Rename x, Rename y) \<Rightarrow> path_eq x y | _ \<Rightarrow> a = b)"

definition fp_eq :: "file_patch \<Rightarrow> file_patch \<Rightarrow> bool" where
  "fp_eq f g =
     (path_eq (fp_path f) (fp_path g) \<and> op_eq (fp_operation f) (fp_operation g) \<and>
      fp_original f = fp_original g \<and> fp_modified f = fp_modified g \<and>
      fp_original_sha256 f = fp_original_sha256 g \<and> fp_modified_sha256 f = fp_modified_sha256 g)"

text \<open>\<^verbatim>\<open>Debug\<close> of an operation, for a path without characters to escape.\<close>

fun op_debug :: "file_operation \<Rightarrow> string" where
  "op_debug Modify = ''Modify''"
| "op_debug Create = ''Create''"
| "op_debug Delete = ''Delete''"
| "op_debug (Rename from) = ''Rename { from: '' @ quote @ from @ quote @ '' }''"

definition merge_file_patch ::
  "(string \<Rightarrow> string) \<Rightarrow> git_merge \<Rightarrow> file_patch \<Rightarrow> file_patch \<Rightarrow> run_error + file_patch" where
  "merge_file_patch digest git lead reviewer =
     (if \<not> op_eq (fp_operation lead) (fp_operation reviewer)
      then Inl (RunMsg (''cannot merge different operations for `'' @ fp_path lead @ ''`''))
      else if fp_original_sha256 lead \<noteq> fp_original_sha256 reviewer
      then Inl (RunMsg (''cannot merge patches with different bases for `'' @ fp_path lead @ ''`''))
      else if fp_operation lead \<noteq> Modify \<and> fp_operation lead \<noteq> Create
      then Inl (RunMsg (''merge_attempt only supports modify/create conflicts, got '' @ op_debug (fp_operation lead) @
             '' for `'' @ fp_path lead @ ''`''))
      else res_bind
        (res_map_err (RunContext (''git merge-file failed for `'' @ fp_path lead @ ''`''))
          (git_merge_file git (fp_original lead) (fp_modified lead) (fp_modified reviewer))) (\<lambda>merged.
        Inr (fp_with_operation digest (fp_path lead) (fp_operation lead) (fp_original lead) merged)))"

text \<open>The first file of the list at the path, with its index.\<close>

fun find_path :: "file_patch list \<Rightarrow> string \<Rightarrow> nat option" where
  "find_path [] p = None"
| "find_path (f # fs) p = (if path_eq (fp_path f) p then Some 0 else map_option Suc (find_path fs p))"

fun merge_files ::
  "(string \<Rightarrow> string) \<Rightarrow> git_merge \<Rightarrow> file_patch list \<Rightarrow> file_patch list \<Rightarrow> run_error + file_patch list" where
  "merge_files digest git files [] = Inr files"
| "merge_files digest git files (r # rs) =
     (case find_path files (fp_path r) of
        None \<Rightarrow> merge_files digest git (files @ [r]) rs
      | Some i \<Rightarrow>
          if fp_eq (files ! i) r then merge_files digest git files rs
          else res_bind (merge_file_patch digest git (files ! i) r) (\<lambda>f.
                 merge_files digest git (files[i := f]) rs))"

definition merge_patches ::
  "(string \<Rightarrow> string) \<Rightarrow> git_merge \<Rightarrow> string \<Rightarrow> nv_patch option \<Rightarrow> nv_patch option \<Rightarrow> run_error + nv_patch option" where
  "merge_patches digest git uuid lead reviewer =
     (case lead of
        None \<Rightarrow> Inr reviewer
      | Some l \<Rightarrow>
          (case reviewer of
             None \<Rightarrow> Inr (Some l)
           | Some r \<Rightarrow>
               res_bind (merge_files digest git (np_files l) (np_files r)) (\<lambda>files.
                 Inr (Some (nv_new uuid files)))))"

definition opt_or :: "'a option \<Rightarrow> 'a option \<Rightarrow> 'a option" where
  "opt_or a b = (case a of Some x \<Rightarrow> Some x | None \<Rightarrow> b)"

definition select_final_patch ::
  "(string \<Rightarrow> string) \<Rightarrow> git_merge \<Rightarrow> string \<Rightarrow> agent_output \<Rightarrow> reviewer_feedback \<Rightarrow> conflict_policy \<Rightarrow>
   run_error + nv_patch option" where
  "select_final_patch digest git uuid lead_output feedback policy =
     (case policy of
        ReviewerPriority \<Rightarrow> Inr (opt_or (rf_patch feedback) (ao_patch lead_output))
      | MergeAttempt \<Rightarrow>
          res_map_err (RunContext ''failed to merge lead and reviewer patches'')
            (merge_patches digest git uuid (ao_patch lead_output) (rf_patch feedback))
      | _ \<Rightarrow> Inr (ao_patch lead_output))"

definition is_blocked :: "reviewer_feedback \<Rightarrow> conflict_policy \<Rightarrow> bool" where
  "is_blocked feedback policy =
     (case policy of
        LeadPriority \<Rightarrow> False
      | ReviewerPriority \<Rightarrow> False
      | AbortOnConflict \<Rightarrow> rf_verdict feedback \<noteq> Lgtm \<and> rf_verdict feedback \<noteq> AcceptWithNits
      | MergeAttempt \<Rightarrow> rf_verdict feedback = Block
      | ReviewerBlock \<Rightarrow> rf_verdict feedback = Block
      | Manual \<Rightarrow> True)"

section \<open>The risk classifier\<close>

datatype apply_risk = LowRisk | HighRisk

record apply_classification =
  cl_risk :: apply_risk
  cl_reasons :: "string list"
  cl_files_touched :: nat
  cl_lines_changed :: nat
  cl_downgraded :: bool

definition is_high :: "apply_classification \<Rightarrow> bool" where
  "is_high c = (cl_risk c = HighRisk)"

definition changed_line :: "string \<Rightarrow> bool" where
  "changed_line l =
     (starts_with ''+'' l \<and> \<not> starts_with ''+++'' l \<or> starts_with ''-'' l \<and> \<not> starts_with ''---'' l)"

type_synonym text_diff = "string \<Rightarrow> string \<Rightarrow> string \<Rightarrow> string \<Rightarrow> string"

definition changed_line_count :: "text_diff \<Rightarrow> file_patch \<Rightarrow> nat" where
  "changed_line_count td f = length (filter changed_line (str_lines (fp_to_unified_diff td f)))"

definition risky_path :: "glob_compiler \<Rightarrow> string list \<Rightarrow> string \<Rightarrow> bool" where
  "risky_path glob globs p =
     list_ex (\<lambda>pat. case glob pat of Some is_match \<Rightarrow> is_match p | None \<Rightarrow> False) globs"

definition destructive_reason :: "file_patch \<Rightarrow> string list" where
  "destructive_reason f =
     (case fp_operation f of
        Delete \<Rightarrow> [''deletes '' @ fp_path f]
      | Rename from \<Rightarrow> [''renames '' @ from @ '' -> '' @ fp_path f]
      | _ \<Rightarrow> [])"

definition classify_apply ::
  "text_diff \<Rightarrow> glob_compiler \<Rightarrow> nv_patch option \<Rightarrow> apply_classifier_config \<Rightarrow> apply_classification" where
  "classify_apply td glob patch cfg =
     (let files = (case patch of Some p \<Rightarrow> filter (\<lambda>f. \<not> fp_is_noop f) (np_files p) | None \<Rightarrow> []);
          files_touched = length files;
          lines_changed = sum_list (map (changed_line_count td) files);
          reasons =
            (if files_touched > ac_max_files cfg
             then [''touches '' @ show_nat files_touched @ '' files (> max_files '' @ show_nat (ac_max_files cfg) @ '')''] else []) @
            (if lines_changed > ac_max_lines cfg
             then [''changes '' @ show_nat lines_changed @ '' lines (> max_lines '' @ show_nat (ac_max_lines cfg) @ '')''] else []) @
            (if ac_flag_destructive_ops cfg then concat (map destructive_reason files) else []) @
            map (\<lambda>f. ''touches risky path '' @ fp_path f)
              (filter (\<lambda>f. risky_path glob (ac_risky_path_globs cfg) (fp_path f)) files)
      in \<lparr>cl_risk = (if reasons = [] then LowRisk else HighRisk), cl_reasons = reasons,
          cl_files_touched = files_touched, cl_lines_changed = lines_changed, cl_downgraded = False\<rparr>)"

definition apply_classifier_decision ::
  "text_diff \<Rightarrow> glob_compiler \<Rightarrow> bool \<Rightarrow> nv_patch option \<Rightarrow> apply_classifier_config \<Rightarrow>
   bool \<times> apply_classification option" where
  "apply_classifier_decision td glob want_apply patch cfg =
     (if \<not> classifies (ac_mode cfg) then (want_apply, None)
      else
        (let c = classify_apply td glob patch cfg;
             veto = enforces (ac_mode cfg) \<and> want_apply \<and> is_high c
         in (want_apply \<and> \<not> veto, Some (c\<lparr>cl_downgraded := veto\<rparr>))))"

section \<open>Applying\<close>

text \<open>What the isolated worktree is to this code: its operations, on the world. A round is known by
  its path.\<close>

record 'x worktree_ops =
  wt_new :: "loc \<Rightarrow> ('x world, string, unit) step"
  wt_prepare :: "loc \<Rightarrow> nat \<Rightarrow> ('x world, string, loc) step"
  wt_apply :: "loc \<Rightarrow> loc \<Rightarrow> nv_patch \<Rightarrow> ('x world, string, unit) step"
  wt_commit :: "loc \<Rightarrow> ('x world, string, unit) step"
  wt_discard :: "loc \<Rightarrow> loc \<Rightarrow> ('x world, string, unit) step"
  wt_merge :: "loc \<Rightarrow> loc \<Rightarrow> ('x world, string, unit) step"

text \<open>A file-system step as a step of the world.\<close>

definition lift_fs :: "(fs, 'e, 'a) step \<Rightarrow> ('x world, 'e, 'a) step" where
  "lift_fs m w = (case m (w_fs w) of (r, s) \<Rightarrow> (r, w\<lparr>w_fs := s\<rparr>))"

text \<open>An operation, and \<^verbatim>\<open>discard_round\<close> with its result ignored when it fails.\<close>

definition or_discard ::
  "'x worktree_ops \<Rightarrow> loc \<Rightarrow> loc \<Rightarrow> string \<Rightarrow> ('x world, string, unit) step \<Rightarrow> ('x world, run_error, unit) step" where
  "or_discard wt cwd round label m w =
     (case m w of
        (Inr u, w') \<Rightarrow> (Inr u, w')
      | (Inl e, w') \<Rightarrow> (Inl (RunMsg (label @ e)), snd (wt_discard wt cwd round w')))"

definition apply_final_patch ::
  "(string \<Rightarrow> string) \<Rightarrow> 'x worktree_ops \<Rightarrow> task \<Rightarrow> nv_patch option \<Rightarrow> bool \<Rightarrow> bool \<Rightarrow>
   ('x world, run_error, bool) step" where
  "apply_final_patch digest wt t final_patch should_apply use_worktree w =
     (if \<not> should_apply then (Inr False, w)
      else (case final_patch of
          None \<Rightarrow> (Inr False, w)
        | Some p \<Rightarrow>
            (let cwd = task_cwd t in
             if \<not> use_worktree
             then st_bind (st_map_err RunPatch (lift_fs (nv_apply digest cwd p False))) (\<lambda>_ w'. (Inr True, w')) w
             else
               st_bind (st_map_err (\<lambda>e. RunMsg (''worktree isolator setup failed: '' @ e)) (wt_new wt cwd)) (\<lambda>_.
               st_bind (st_map_err (\<lambda>e. RunMsg (''worktree prepare failed: '' @ e)) (wt_prepare wt cwd 0)) (\<lambda>round.
               st_bind (or_discard wt cwd round ''worktree patch apply failed: '' (wt_apply wt cwd round p)) (\<lambda>_.
               st_bind (or_discard wt cwd round ''worktree commit failed: '' (wt_commit wt round)) (\<lambda>_.
               st_bind (st_map_err (\<lambda>e. RunMsg (''worktree merge failed: '' @ e)) (wt_merge wt cwd round)) (\<lambda>_ w'.
               (Inr True, w')))))) w)))"

end
