(* ===== verification/SynapticLoop.thy ===== *)
theory SynapticLoop
  imports ApplyGate
begin

text \<open>
  The run itself, \<^verbatim>\<open>run_synaptic_loop_inner\<close> and \<^verbatim>\<open>run_tournament_strategy\<close> of
  \<^verbatim>\<open>crates/nerve-core/src/lib.rs\<close>, with the shared state \<^verbatim>\<open>Synapse\<close>, the watcher of the scratch
  directory, the usage ledger and the feedback that the loop itself makes up.

  Adapters are records of functions over the world. A generation runs beside the watcher: the
  environment gives the scans that complete before its output is ready, and the output is
  computed after the reviews of these scans. A result is an option over a fallible value: \<open>None\<close>
  is a run that hangs in its goal check.
\<close>

section \<open>Adapters, options, runtime\<close>

record 'x adapter =
  ad_id :: string
  ad_implement :: "task \<Rightarrow> ('x world, run_error, agent_output) step"
  ad_review :: "task \<Rightarrow> agent_output \<Rightarrow> string \<Rightarrow> ('x world, run_error, reviewer_feedback) step"
  ad_refine :: "task \<Rightarrow> agent_output \<Rightarrow> reviewer_feedback \<Rightarrow> ('x world, run_error, agent_output) step"
  ad_crossfire :: "task \<Rightarrow> string \<Rightarrow> string \<Rightarrow> ('x world, run_error, reviewer_feedback) step"

definition find_adapter :: "'x adapter list \<Rightarrow> string \<Rightarrow> run_error + 'x adapter" where
  "find_adapter adapters i =
     (case find (\<lambda>a. ad_id a = i) adapters of
        Some a \<Rightarrow> Inr a | None \<Rightarrow> Inl (RunMsg (''no adapter registered for `'' @ i @ ''`'')))"

text \<open>A consent or cancel token is a shared flag; it is read from the world at the time.\<close>

record 'x run_options =
  op_apply :: bool
  op_goal :: "goal_spec option"
  op_ulimit :: "check_ulimit option"
  op_worktree :: "bool option"
  op_apply_grant :: "('x world \<Rightarrow> bool) option"
  op_cancel_token :: "('x world \<Rightarrow> bool) option"

definition run_is_cancelled :: "'x run_options \<Rightarrow> 'x world \<Rightarrow> bool" where
  "run_is_cancelled o' w = (case op_cancel_token o' of Some tok \<Rightarrow> tok w | None \<Rightarrow> False)"

definition apply_consented :: "'x run_options \<Rightarrow> 'x world \<Rightarrow> bool" where
  "apply_consented o' w = (op_apply o' \<or> (case op_apply_grant o' of Some g \<Rightarrow> g w | None \<Rightarrow> False))"

definition resolve_worktree_apply :: "'x run_options \<Rightarrow> orchestration \<Rightarrow> bool" where
  "resolve_worktree_apply o' orch = (case op_worktree o' of Some b \<Rightarrow> b | None \<Rightarrow> or_worktree_apply orch)"

text \<open>One scan of the scratch directory: its files in path order with their times, and their text.\<close>

record scan =
  sc_files :: "(string \<times> nat) list"
  sc_text :: "string \<Rightarrow> string"

record 'x runtime =
  rt_digest :: "string \<Rightarrow> string"
  rt_uuid :: string
  rt_git :: git_merge
  rt_glob :: glob_compiler
  rt_text_diff :: text_diff
  rt_json :: "string \<Rightarrow> json option"
  rt_consent_env :: "string option"
  rt_host :: "'x world host"
  rt_worktree :: "'x worktree_ops"
  rt_watch :: "'x world \<Rightarrow> (run_error + (scan \<times> (run_error + scan) list)) \<times> 'x world"
  rt_checkpoint :: "round_record list \<Rightarrow> 'x world \<Rightarrow> 'x world"
  rt_events :: "'x world \<Rightarrow> agent_event list"

section \<open>The shared state\<close>

record synapse =
  sy_lead_output :: "agent_output option"
  sy_reviewer_feedback :: "reviewer_feedback option"
  sy_rounds :: "round_record list"
  sy_crossfire :: "reviewer_feedback list"

definition synapse_new :: synapse where
  "synapse_new = \<lparr>sy_lead_output = None, sy_reviewer_feedback = None, sy_rounds = [], sy_crossfire = []\<rparr>"

text \<open>The checkpoint gets all rounds so far; a failing write is only logged.\<close>

definition record_round :: "'x runtime \<Rightarrow> round_record \<Rightarrow> synapse \<Rightarrow> 'x world \<Rightarrow> synapse \<times> 'x world" where
  "record_round rt r sy w =
     (let rounds = sy_rounds sy @ [r] in
      (sy\<lparr>sy_lead_output := Some (rd_lead r), sy_reviewer_feedback := Some (rd_reviewer r), sy_rounds := rounds\<rparr>,
       rt_checkpoint rt rounds w))"

definition record_crossfire_feedback :: "reviewer_feedback \<Rightarrow> synapse \<Rightarrow> synapse" where
  "record_crossfire_feedback f sy = sy\<lparr>sy_crossfire := sy_crossfire sy @ [f]\<rparr>"

section \<open>Usage and the loop's own feedback\<close>

definition accumulate_output_usage :: "usage_stats \<Rightarrow> agent_output \<Rightarrow> usage_stats" where
  "accumulate_output_usage u out = (case ao_cost out of Some c \<Rightarrow> usage_add u c | None \<Rightarrow> u)"

definition accumulate_feedback_usage :: "usage_stats \<Rightarrow> reviewer_feedback \<Rightarrow> usage_stats" where
  "accumulate_feedback_usage u f = (case rf_cost f of Some c \<Rightarrow> usage_add u c | None \<Rightarrow> u)"

definition exceeds_budget :: "usage_stats \<Rightarrow> orchestration \<Rightarrow> bool" where
  "exceeds_budget u orch =
     ((case or_max_total_tokens orch of Some limit \<Rightarrow> total_tokens u > limit | None \<Rightarrow> False) \<or>
      (case or_max_cost orch of
         Some limit \<Rightarrow> (case us_cost u of Some cost \<Rightarrow> cost > limit | None \<Rightarrow> False)
       | None \<Rightarrow> False))"

definition block_feedback :: "string \<Rightarrow> string \<Rightarrow> string \<Rightarrow> reviewer_feedback" where
  "block_feedback reviewer message raw =
     \<lparr>rf_reviewer_id = reviewer, rf_verdict = Block,
      rf_issues = [\<lparr>is_severity = Blocking, is_message = message\<rparr>],
      rf_patch = None, rf_cost = None, rf_raw_text = raw\<rparr>"

definition budget_exceeded_feedback :: "string \<Rightarrow> usage_stats \<Rightarrow> reviewer_feedback" where
  "budget_exceeded_feedback reviewer u =
     block_feedback reviewer (''Session budget exceeded: '' @ show_nat (unat (total_tokens u)) @ '' total tokens'')
       (''BLOCK: session budget exceeded after '' @ show_nat (unat (total_tokens u)) @ '' total tokens'')"

definition no_progress_feedback :: "string \<Rightarrow> u8 \<Rightarrow> reviewer_feedback" where
  "no_progress_feedback reviewer n =
     block_feedback reviewer
       (''No progress for '' @ show_nat (unat n) @ '' consecutive rounds (no closer to a green check)'')
       (''BLOCK: no-progress exceeded after '' @ show_nat (unat n) @ '' stalled rounds'')"

definition cancelled_feedback :: "string \<Rightarrow> reviewer_feedback" where
  "cancelled_feedback reviewer =
     block_feedback reviewer ''Run cancelled by operator'' ''BLOCK: run cancelled by operator''"

definition strictness_label :: "review_strictness \<Rightarrow> string" where
  "strictness_label s = (case s of Low \<Rightarrow> ''low'' | Normal_strictness \<Rightarrow> ''normal'' | High \<Rightarrow> ''high'')"

section \<open>Crossfire\<close>

definition truncate_at_char_boundary :: "string \<Rightarrow> nat \<Rightarrow> string" where
  "truncate_at_char_boundary v limit =
     (if length v \<le> limit then v
      else rev (drop (if cont_byte (of_char (v ! limit))
                      then Suc (length (takeWhile (\<lambda>c. cont_byte (of_char c)) (rev (take limit v)))) else 0)
                 (rev (take limit v))))"

definition truncate_for_crossfire :: "string \<Rightarrow> string" where
  "truncate_for_crossfire c =
     (if length c \<le> 8192 then c else truncate_at_char_boundary c 8192 @ ''...'')"

text \<open>\<^verbatim>\<open>ScratchWatcher::next_change\<close>: the first file that is new or newer than when last seen.\<close>

definition next_change :: "(string \<times> nat) list \<Rightarrow> scan \<Rightarrow> string option" where
  "next_change known sc =
     (case find (\<lambda>(path, modified). case map_of known path of Some prev \<Rightarrow> prev < modified | None \<Rightarrow> True) (sc_files sc) of
        None \<Rightarrow> None
      | Some (path, _) \<Rightarrow>
          Some (''scratch changed: '' @ path @ nl @ truncate_for_crossfire (sc_text sc path)))"

fun crossfire_polls ::
  "'x adapter \<Rightarrow> task \<Rightarrow> string \<Rightarrow> (run_error + scan) list \<Rightarrow> (string \<times> nat) list \<Rightarrow>
   reviewer_feedback list \<Rightarrow> synapse \<Rightarrow> ('x world, run_error, reviewer_feedback list \<times> synapse) step" where
  "crossfire_polls reviewer t strict [] known collected sy w = (Inr (collected, sy), w)"
| "crossfire_polls reviewer t strict (poll # polls) known collected sy w =
     (case poll of
        Inl e \<Rightarrow> (Inl e, w)
      | Inr sc \<Rightarrow>
          (case next_change known sc of
             None \<Rightarrow> crossfire_polls reviewer t strict polls (sc_files sc) collected sy w
           | Some summary \<Rightarrow>
               (case ad_crossfire reviewer t summary strict w of
                  (Inl e, w') \<Rightarrow> (Inl e, w')
                | (Inr f, w') \<Rightarrow>
                    crossfire_polls reviewer t strict polls (sc_files sc) (collected @ [f])
                      (record_crossfire_feedback f sy) w')))"

definition collect_output_with_crossfire ::
  "'x runtime \<Rightarrow> ('x world, run_error, agent_output) step \<Rightarrow> 'x adapter \<Rightarrow> task \<Rightarrow> profile_selection \<Rightarrow>
   synapse \<Rightarrow> ('x world, run_error, agent_output \<times> reviewer_feedback list \<times> synapse) step" where
  "collect_output_with_crossfire rt output reviewer t sel sy w =
     (case rt_watch rt w of
        (Inl e, w1) \<Rightarrow> (Inl e, w1)
      | (Inr (first, polls), w1) \<Rightarrow>
          st_bind (crossfire_polls reviewer t (strictness_label (ps_strictness sel)) polls (sc_files first) [] sy)
            (\<lambda>(collected, sy'). st_bind output (\<lambda>out w2. (Inr (out, collected, sy'), w2))) w1)"

text \<open>\<^verbatim>\<open>max_by_key\<close> returns the last of several greatest items.\<close>

fun most_severe :: "reviewer_feedback list \<Rightarrow> verdict option \<Rightarrow> verdict option" where
  "most_severe [] best = best"
| "most_severe (f # fs) best =
     most_severe fs (case best of
        Some v \<Rightarrow> if verdict_severity_rank v \<le> verdict_severity_rank (rf_verdict f) then Some (rf_verdict f) else Some v
      | None \<Rightarrow> Some (rf_verdict f))"

definition most_severe_crossfire :: "reviewer_feedback list \<Rightarrow> verdict option" where
  "most_severe_crossfire fs = most_severe fs None"

fun verdict_token :: "verdict \<Rightarrow> string" where
  "verdict_token Lgtm = ''LGTM''"
| "verdict_token AcceptWithNits = ''ACCEPT_WITH_NITS''"
| "verdict_token RequestChanges = ''REQUEST_CHANGES''"
| "verdict_token Block = ''BLOCK''"

fun issue_severity_token :: "issue_severity \<Rightarrow> string" where
  "issue_severity_token Info = ''INFO''"
| "issue_severity_token Warning = ''WARNING''"
| "issue_severity_token Blocking = ''BLOCKING''"

definition raise_verdict :: "verdict \<Rightarrow> reviewer_feedback \<Rightarrow> verdict" where
  "raise_verdict v item =
     (if verdict_severity_rank (rf_verdict item) > verdict_severity_rank v then rf_verdict item else v)"

definition crossfire_section :: "reviewer_feedback \<Rightarrow> string" where
  "crossfire_section item =
     nl @ ''[CROSSFIRE '' @ verdict_token (rf_verdict item) @ '']'' @
     (let body = trim_ws (rf_raw_text item) in if body \<noteq> [] then CHR '' '' # body else []) @
     concat (map (\<lambda>i. nl @ ''  - '' @ issue_severity_token (is_severity i) @ '': '' @ is_message i) (rf_issues item))"

definition merge_crossfire_into_feedback :: "reviewer_feedback \<Rightarrow> reviewer_feedback list \<Rightarrow> reviewer_feedback" where
  "merge_crossfire_into_feedback base crossfire =
     (if crossfire = [] then base
      else
        (let sec = ''--- Live crossfire feedback (over-the-shoulder review captured during generation) ---'' @ nl @
               ''Treat the following as ADDITIONAL change requests for this refine:'' @
               concat (map crossfire_section crossfire)
         in base\<lparr>rf_verdict := fold (\<lambda>item v. raise_verdict v item) crossfire (rf_verdict base),
                 rf_issues := rf_issues base @ concat (map rf_issues crossfire),
                 rf_raw_text := (if trim_ws (rf_raw_text base) = [] then sec else rf_raw_text base @ nl @ nl @ sec)\<rparr>))"

section \<open>The goal check of a run\<close>

definition apply_builtin_verifier :: "'x runtime \<Rightarrow> 'x run_options \<Rightarrow> task \<Rightarrow> config \<Rightarrow> fs \<Rightarrow> 'x run_options" where
  "apply_builtin_verifier rt o' t cfg s =
     (if op_goal o' \<noteq> None then o'
      else
        (let exec_trusted = builtin_verifier_exec_trusted cfg (consent_from_env (rt_consent_env rt)) in
         case resolve_builtin_verifier (rt_json rt) s (cf_orchestration cfg) (task_cwd t) exec_trusted of
           Some rv \<Rightarrow> o'\<lparr>op_goal := Some (rv_spec rv)\<rparr>
         | None \<Rightarrow> o'))"

definition build_goal_evaluator :: "task \<Rightarrow> 'x run_options \<Rightarrow> orchestration \<Rightarrow> run_error + goal_evaluator option" where
  "build_goal_evaluator t o' orch =
     (case op_goal o' of
        None \<Rightarrow> Inr None
      | Some spec \<Rightarrow>
          (let cwd = (case gs_cwd spec of Some c \<Rightarrow> c | None \<Rightarrow> show_loc (task_cwd t)) in
           res_bind
             (res_map_err (\<lambda>e. RunContext ''goal evaluator setup failed'' (RunGoal e))
               (evaluator_with_options spec (or_check_env orch) (or_check_output_cap_bytes orch) cwd
                  (op_ulimit o') (or_sandbox orch))) (\<lambda>ev. Inr (Some ev))))"

definition run_goal_check :: "'x runtime \<Rightarrow> goal_evaluator option \<Rightarrow> 'x world \<Rightarrow> check_outcome option \<times> 'x world" where
  "run_goal_check rt ev w =
     (case ev of
        Some e \<Rightarrow> evaluate (rt_host rt) e w
      | None \<Rightarrow> (Some \<lparr>ck_result = CheckSkipped, ck_unconfined = False\<rparr>, w))"

definition goal_check_failed :: "goal_spec option \<Rightarrow> check_result option \<Rightarrow> bool" where
  "goal_check_failed goal check =
     (goal \<noteq> None \<and> \<not> (case check of Some CheckPass \<Rightarrow> True | Some CheckSkipped \<Rightarrow> True | _ \<Rightarrow> False))"

fun check_result_progress :: "check_result \<Rightarrow> u16 option" where
  "check_result_progress CheckPass = Some 1000"
| "check_result_progress CheckSkipped = None"
| "check_result_progress (CheckFail _ progress) = progress"

definition round_is_stalled :: "string option \<Rightarrow> string option \<Rightarrow> u16 option \<Rightarrow> u16 option \<Rightarrow> bool" where
  "round_is_stalled prev_sha cur_sha best current =
     (case (prev_sha, cur_sha) of
        (Some prev, Some cur) \<Rightarrow>
          prev = cur \<or> (case (current, best) of (Some now, Some b) \<Rightarrow> now \<le> b | _ \<Rightarrow> False)
      | _ \<Rightarrow> False)"

section \<open>The refinement loop\<close>

text \<open>What stays fixed during a run.\<close>

record 'x ctx =
  cx_rt :: "'x runtime"
  cx_task :: task
  cx_orch :: orchestration
  cx_sel :: profile_selection
  cx_lead :: "'x adapter"
  cx_reviewer :: "'x adapter"
  cx_options :: "'x run_options"
  cx_evaluator :: "goal_evaluator option"
  cx_max_rounds :: u8

definition cx_no_progress_max :: "'x ctx \<Rightarrow> u8" where
  "cx_no_progress_max cx =
     (case op_goal (cx_options cx) of
        Some spec \<Rightarrow> (case gs_no_progress_max spec of Some n \<Rightarrow> n | None \<Rightarrow> 0)
      | None \<Rightarrow> 0)"

record loop_state =
  ls_lead_output :: agent_output
  ls_crossfire :: "reviewer_feedback list"
  ls_usage :: usage_stats
  ls_feedback :: reviewer_feedback
  ls_budget_exceeded :: bool
  ls_prev_sha :: "string option"
  ls_np_count :: u8
  ls_np_exceeded :: bool
  ls_halted :: bool
  ls_cancelled :: bool
  ls_last_check :: "check_result option"
  ls_unconfined :: bool
  ls_best :: "u16 option"
  ls_synapse :: synapse

definition is_terminal :: "verdict \<Rightarrow> review_strictness \<Rightarrow> check_result \<Rightarrow> bool" where
  "is_terminal v strict c =
     (case v of
        Lgtm \<Rightarrow> (case c of CheckPass \<Rightarrow> True | CheckSkipped \<Rightarrow> True | _ \<Rightarrow> False)
      | AcceptWithNits \<Rightarrow> permits_nits strict \<and> is_pass c
      | _ \<Rightarrow> False)"

text \<open>The first half of a round: review, check, record, and the budget after the review.\<close>

definition review_round ::
  "'x ctx \<Rightarrow> u8 \<Rightarrow> loop_state \<Rightarrow> 'x world \<Rightarrow> (run_error + (check_result \<times> string option \<times> loop_state)) option \<times> 'x world" where
  "review_round cx i ls w =
     (case ad_review (cx_reviewer cx) (cx_task cx) (ls_lead_output ls) (strictness_label (ps_strictness (cx_sel cx))) w of
        (Inl e, w1) \<Rightarrow>
          (Some (Inl (RunContext (''reviewer adapter `'' @ ad_id (cx_reviewer cx) @ ''` failed'') e)), w1)
      | (Inr feedback, w1) \<Rightarrow>
          (let usage = accumulate_feedback_usage (ls_usage ls) feedback in
           case run_goal_check (cx_rt cx) (cx_evaluator cx) w1 of
             (None, w2) \<Rightarrow> (None, w2)
           | (Some outcome, w2) \<Rightarrow>
               (let check = ck_result outcome;
                    sha = map_option (canonical_hash (rt_digest (cx_rt cx))) (ao_patch (ls_lead_output ls));
                    rec = \<lparr>rd_round = i, rd_lead = ls_lead_output ls, rd_reviewer = feedback,
                           rd_check = Some check, rd_patch_sha = sha, rd_envelope_id = None\<rparr>;
                    (sy, w3) = record_round (cx_rt cx) rec (ls_synapse ls) w2;
                    over = exceeds_budget usage (cx_orch cx)
                in (Some (Inr (check, sha,
                     ls\<lparr>ls_usage := usage,
                        ls_feedback := (if over then budget_exceeded_feedback (ad_id (cx_reviewer cx)) usage else feedback),
                        ls_budget_exceeded := over, ls_last_check := Some check,
                        ls_unconfined := (ls_unconfined ls \<or> ck_unconfined outcome), ls_synapse := sy\<rparr>)), w3))))"

text \<open>The decision at the seam of a round, in the code's order. It says whether the loop breaks.\<close>

definition no_progress_applies :: "'x ctx \<Rightarrow> loop_state \<Rightarrow> check_result \<Rightarrow> string option \<Rightarrow> bool" where
  "no_progress_applies cx ls check sha =
     (cx_no_progress_max cx > 0 \<and>
      (rf_verdict (ls_feedback ls) = RequestChanges \<or> rf_verdict (ls_feedback ls) = AcceptWithNits) \<and>
      round_is_stalled (ls_prev_sha ls) sha (ls_best ls) (check_result_progress check))"

definition round_seam ::
  "'x ctx \<Rightarrow> check_result \<Rightarrow> string option \<Rightarrow> loop_state \<Rightarrow> 'x world \<Rightarrow> bool \<times> loop_state" where
  "round_seam cx check sha ls w =
     (if ls_budget_exceeded ls then (True, ls)
      else if is_terminal (rf_verdict (ls_feedback ls)) (ps_strictness (cx_sel cx)) check then (True, ls)
      else if run_is_cancelled (cx_options cx) w
      then (True, ls\<lparr>ls_cancelled := True, ls_feedback := cancelled_feedback (ad_id (cx_reviewer cx))\<rparr>)
      else if rf_verdict (ls_feedback ls) = Block then (True, ls)
      else if halts (or_crossfire_action (cx_orch cx)) \<and> most_severe_crossfire (ls_crossfire ls) = Some Block
      then (True, ls\<lparr>ls_halted := True\<rparr>)
      else
        (let stalled = no_progress_applies cx ls check sha;
             n = (if stalled then sat_add (ls_np_count ls) 1 else 0)
         in if stalled \<and> n \<ge> cx_no_progress_max cx
            then (True, ls\<lparr>ls_np_count := n, ls_np_exceeded := True,
                           ls_feedback := no_progress_feedback (ad_id (cx_reviewer cx)) n\<rparr>)
            else (False,
              ls\<lparr>ls_np_count := n,
                 ls_best := (case check_result_progress check of
                     Some p \<Rightarrow> Some (case ls_best ls of Some b \<Rightarrow> max b p | None \<Rightarrow> p)
                   | None \<Rightarrow> ls_best ls),
                 ls_prev_sha := sha\<rparr>)))"

text \<open>The refinement at the tail of a round that is not the last.\<close>

definition refine_round ::
  "'x ctx \<Rightarrow> loop_state \<Rightarrow> 'x world \<Rightarrow> (run_error + loop_state) \<times> 'x world" where
  "refine_round cx ls w =
     (let refine_feedback =
            (if redirects (or_crossfire_action (cx_orch cx))
             then merge_crossfire_into_feedback (ls_feedback ls) (ls_crossfire ls) else ls_feedback ls)
      in case collect_output_with_crossfire (cx_rt cx)
            (ad_refine (cx_lead cx) (cx_task cx) (ls_lead_output ls) refine_feedback)
            (cx_reviewer cx) (cx_task cx) (cx_sel cx) (ls_synapse ls) w of
           (Inl e, w') \<Rightarrow>
             (Inl (RunContext (''lead adapter `'' @ ad_id (cx_lead cx) @ ''` failed during refinement'') e), w')
         | (Inr (out, crossfire, sy), w') \<Rightarrow>
             (let usage = accumulate_output_usage (ls_usage ls) out;
                  over = exceeds_budget usage (cx_orch cx)
              in (Inr (ls\<lparr>ls_lead_output := out, ls_crossfire := crossfire, ls_usage := usage,
                          ls_budget_exceeded := over,
                          ls_feedback := (if over then budget_exceeded_feedback (ad_id (cx_reviewer cx)) usage
                                          else ls_feedback ls),
                          ls_synapse := sy\<rparr>), w')))"

text \<open>\<^verbatim>\<open>for round_index in 0..=max_refinement_rounds\<close>, over the indices left.\<close>

fun refinement_loop ::
  "'x ctx \<Rightarrow> nat list \<Rightarrow> loop_state \<Rightarrow> 'x world \<Rightarrow> (run_error + loop_state) option \<times> 'x world" where
  "refinement_loop cx [] ls w = (Some (Inr ls), w)"
| "refinement_loop cx (i # is) ls w =
     (if ls_budget_exceeded ls then (Some (Inr ls), w)
      else (case review_round cx (of_nat i) ls w of
          (None, w1) \<Rightarrow> (None, w1)
        | (Some (Inl e), w1) \<Rightarrow> (Some (Inl e), w1)
        | (Some (Inr (check, sha, ls1)), w1) \<Rightarrow>
            (case round_seam cx check sha ls1 w1 of
               (True, ls2) \<Rightarrow> (Some (Inr ls2), w1)
             | (False, ls2) \<Rightarrow>
                 if i = unat (cx_max_rounds cx) then (Some (Inr ls2), w1)
                 else (case refine_round cx ls2 w1 of
                     (Inl e, w2) \<Rightarrow> (Some (Inl e), w2)
                   | (Inr ls3, w2) \<Rightarrow> refinement_loop cx is ls3 w2))))"

section \<open>The end of a run\<close>

record run_report =
  rr_task :: task
  rr_selection :: profile_selection
  rr_rounds :: "round_record list"
  rr_crossfire :: "reviewer_feedback list"
  rr_final_output :: agent_output
  rr_final_feedback :: reviewer_feedback
  rr_final_patch :: "nv_patch option"
  rr_events :: "agent_event list"
  rr_usage :: usage_stats
  rr_budget_exceeded :: bool
  rr_no_progress_exceeded :: bool
  rr_crossfire_halted :: bool
  rr_cancelled :: bool
  rr_goal_satisfied :: "bool option"
  rr_applied :: bool
  rr_blocked :: bool
  rr_apply_classification :: "apply_classification option"
  rr_ran_unconfined :: bool

definition nits_unverified :: "verdict \<Rightarrow> review_strictness \<Rightarrow> check_result option \<Rightarrow> bool" where
  "nits_unverified v strict check =
     (v = AcceptWithNits \<and> \<not> (permits_nits strict \<and> check = Some CheckPass))"

definition run_blocked :: "'x ctx \<Rightarrow> loop_state \<Rightarrow> bool" where
  "run_blocked cx ls =
     (ls_budget_exceeded ls \<or> ls_np_exceeded ls \<or> ls_halted ls \<or> ls_cancelled ls \<or>
      goal_check_failed (op_goal (cx_options cx)) (ls_last_check ls) \<or>
      nits_unverified (rf_verdict (ls_feedback ls)) (ps_strictness (cx_sel cx)) (ls_last_check ls) \<or>
      is_blocked (ls_feedback ls) (or_conflict_policy (cx_orch cx)))"

definition run_goal_satisfied :: "'x ctx \<Rightarrow> loop_state \<Rightarrow> bool option" where
  "run_goal_satisfied cx ls =
     map_option (\<lambda>_.
       (case ls_last_check ls of Some CheckPass \<Rightarrow> True | Some CheckSkipped \<Rightarrow> True | _ \<Rightarrow> False) \<and>
       accepts_under (rf_verdict (ls_feedback ls)) (permits_nits (ps_strictness (cx_sel cx))) \<and>
       \<not> ls_budget_exceeded ls \<and> \<not> ls_np_exceeded ls \<and> \<not> ls_halted ls \<and> \<not> ls_cancelled ls)
     (op_goal (cx_options cx))"

definition conclude :: "'x ctx \<Rightarrow> loop_state \<Rightarrow> ('x world, run_error, run_report) step" where
  "conclude cx ls w =
     (let rt = cx_rt cx; orch = cx_orch cx in
      case select_final_patch (rt_digest rt) (rt_git rt) (rt_uuid rt) (ls_lead_output ls) (ls_feedback ls)
             (or_conflict_policy orch) of
        Inl e \<Rightarrow> (Inl e, w)
      | Inr final_patch \<Rightarrow>
          (let blocked = run_blocked cx ls;
               want_apply = (apply_consented (cx_options cx) w \<and> \<not> blocked);
               (allow_apply, classification) =
                 apply_classifier_decision (rt_text_diff rt) (rt_glob rt) want_apply final_patch (or_apply_classifier orch)
           in st_bind (apply_final_patch (rt_digest rt) (rt_worktree rt) (cx_task cx) final_patch allow_apply
                  (resolve_worktree_apply (cx_options cx) orch)) (\<lambda>applied w'.
              (Inr \<lparr>rr_task = cx_task cx, rr_selection = cx_sel cx, rr_rounds = sy_rounds (ls_synapse ls),
                    rr_crossfire = sy_crossfire (ls_synapse ls), rr_final_output = ls_lead_output ls,
                    rr_final_feedback = ls_feedback ls, rr_final_patch = final_patch, rr_events = rt_events rt w',
                    rr_usage = ls_usage ls, rr_budget_exceeded = ls_budget_exceeded ls,
                    rr_no_progress_exceeded = ls_np_exceeded ls, rr_crossfire_halted = ls_halted ls,
                    rr_cancelled = ls_cancelled ls, rr_goal_satisfied = run_goal_satisfied cx ls,
                    rr_applied = applied, rr_blocked = blocked, rr_apply_classification = classification,
                    rr_ran_unconfined = ls_unconfined ls\<rparr>, w')) w))"

section \<open>The strategies\<close>

text \<open>The state in which the loop starts, from the first generation of the lead.\<close>

definition initial_state :: "orchestration \<Rightarrow> 'x adapter \<Rightarrow> agent_output \<Rightarrow> reviewer_feedback list \<Rightarrow> synapse \<Rightarrow> loop_state" where
  "initial_state orch reviewer out crossfire sy =
     (let usage = accumulate_output_usage usage_default out;
          over = exceeds_budget usage orch
      in \<lparr>ls_lead_output = out, ls_crossfire = crossfire, ls_usage = usage,
          ls_feedback = (if over then budget_exceeded_feedback (ad_id reviewer) usage
                         else rf_lgtm (ad_id reviewer) ''review not run''),
          ls_budget_exceeded = over, ls_prev_sha = None, ls_np_count = 0, ls_np_exceeded = False,
          ls_halted = False, ls_cancelled = False, ls_last_check = None, ls_unconfined = False,
          ls_best = None, ls_synapse = sy\<rparr>)"

definition run_consensus ::
  "'x runtime \<Rightarrow> task \<Rightarrow> orchestration \<Rightarrow> profile_selection \<Rightarrow> 'x adapter \<Rightarrow> 'x adapter \<Rightarrow> 'x run_options \<Rightarrow>
   'x world \<Rightarrow> (run_error + run_report) option \<times> 'x world" where
  "run_consensus rt t orch sel lead reviewer o' w =
     (case collect_output_with_crossfire rt (ad_implement lead t) reviewer t sel synapse_new w of
        (Inl e, w1) \<Rightarrow> (Some (Inl (RunContext (''lead adapter `'' @ ad_id lead @ ''` failed'') e)), w1)
      | (Inr (out, crossfire, sy), w1) \<Rightarrow>
          (let max = (case or_default_strategy orch of Pipeline \<Rightarrow> 0 | _ \<Rightarrow> ps_max_rounds sel) in
           case build_goal_evaluator t o' orch of
             Inl e \<Rightarrow> (Some (Inl e), w1)
           | Inr ev \<Rightarrow>
               (let cx = \<lparr>cx_rt = rt, cx_task = t, cx_orch = orch, cx_sel = sel, cx_lead = lead,
                          cx_reviewer = reviewer, cx_options = o', cx_evaluator = ev, cx_max_rounds = max\<rparr>
                in case refinement_loop cx [0..<Suc (unat max)] (initial_state orch reviewer out crossfire sy) w1 of
                     (None, w2) \<Rightarrow> (None, w2)
                   | (Some (Inl e), w2) \<Rightarrow> (Some (Inl e), w2)
                   | (Some (Inr ls), w2) \<Rightarrow> (case conclude cx ls w2 of (r, w3) \<Rightarrow> (Some r, w3)))))"

text \<open>Both candidates, each reviewed by the other side, and the winner: feedback, output, usage,
  budget.\<close>

definition tournament_pick ::
  "orchestration \<Rightarrow> agent_output \<Rightarrow> agent_output \<Rightarrow> reviewer_feedback \<Rightarrow> reviewer_feedback \<Rightarrow> agent_output \<times> reviewer_feedback" where
  "tournament_pick orch lead_output reviewer_output lead_review reviewer_review =
     (if is_terminal_success (rf_verdict lead_review) then (lead_output, lead_review)
      else if is_terminal_success (rf_verdict reviewer_review) \<or> or_conflict_policy orch = ReviewerPriority
      then (reviewer_output, reviewer_review)
      else (lead_output, lead_review))"

definition tournament_reviews ::
  "task \<Rightarrow> orchestration \<Rightarrow> profile_selection \<Rightarrow> 'x adapter \<Rightarrow> 'x adapter \<Rightarrow> agent_output \<Rightarrow> agent_output \<Rightarrow> usage_stats \<Rightarrow>
   ('x world, run_error, agent_output \<times> reviewer_feedback \<times> usage_stats \<times> bool) step" where
  "tournament_reviews t orch sel lead reviewer lead_output reviewer_output usage =
     (let label = strictness_label (ps_strictness sel) in
      st_bind (st_map_err (RunContext (''reviewer adapter `'' @ ad_id reviewer @ ''` failed''))
        (ad_review reviewer t lead_output label)) (\<lambda>lead_review.
      st_bind (st_map_err (RunContext (''lead adapter `'' @ ad_id lead @ ''` failed during tournament review''))
        (ad_review lead t reviewer_output label)) (\<lambda>reviewer_review w.
        (let usage' = accumulate_feedback_usage (accumulate_feedback_usage usage lead_review) reviewer_review;
             over = exceeds_budget usage' orch;
             (out, feedback) =
               (if over then (lead_output, budget_exceeded_feedback (ad_id reviewer) usage')
                else tournament_pick orch lead_output reviewer_output lead_review reviewer_review)
         in (Inr (out, feedback, usage', over), w)))))"

definition tournament_candidates ::
  "task \<Rightarrow> orchestration \<Rightarrow> profile_selection \<Rightarrow> 'x adapter \<Rightarrow> 'x adapter \<Rightarrow>
   ('x world, run_error, agent_output \<times> reviewer_feedback \<times> usage_stats \<times> bool) step" where
  "tournament_candidates t orch sel lead reviewer =
     st_bind (st_map_err (RunContext ''tournament candidate generation failed'') (ad_implement lead t)) (\<lambda>lead_output.
     st_bind (st_map_err (RunContext ''tournament candidate generation failed'') (ad_implement reviewer t)) (\<lambda>reviewer_output.
       (let usage = accumulate_output_usage (accumulate_output_usage usage_default lead_output) reviewer_output in
        if exceeds_budget usage orch
        then (\<lambda>w. (Inr (lead_output, budget_exceeded_feedback (ad_id reviewer) usage, usage, True), w))
        else tournament_reviews t orch sel lead reviewer lead_output reviewer_output usage)))"

definition run_tournament_strategy ::
  "'x runtime \<Rightarrow> task \<Rightarrow> orchestration \<Rightarrow> profile_selection \<Rightarrow> 'x adapter \<Rightarrow> 'x adapter \<Rightarrow> 'x run_options \<Rightarrow>
   'x world \<Rightarrow> (run_error + run_report) option \<times> 'x world" where
  "run_tournament_strategy rt t orch sel lead reviewer o' w =
     (case tournament_candidates t orch sel lead reviewer w of
        (Inl e, w1) \<Rightarrow> (Some (Inl e), w1)
      | (Inr (out, feedback, usage, over), w1) \<Rightarrow>
          (case build_goal_evaluator t o' orch of
             Inl e \<Rightarrow> (Some (Inl e), w1)
           | Inr ev \<Rightarrow>
               (case run_goal_check rt ev w1 of
                  (None, w2) \<Rightarrow> (None, w2)
                | (Some outcome, w2) \<Rightarrow>
                    (let cx = \<lparr>cx_rt = rt, cx_task = t, cx_orch = orch, cx_sel = sel, cx_lead = lead,
                               cx_reviewer = reviewer, cx_options = o', cx_evaluator = ev, cx_max_rounds = 0\<rparr>;
                         rec = \<lparr>rd_round = 0, rd_lead = out, rd_reviewer = feedback,
                                rd_check = Some (ck_result outcome),
                                rd_patch_sha = map_option (canonical_hash (rt_digest rt)) (ao_patch out),
                                rd_envelope_id = None\<rparr>;
                         (sy, w3) = record_round rt rec synapse_new w2;
                         ls = \<lparr>ls_lead_output = out, ls_crossfire = [], ls_usage = usage, ls_feedback = feedback,
                               ls_budget_exceeded = over, ls_prev_sha = None, ls_np_count = 0,
                               ls_np_exceeded = False, ls_halted = False,
                               ls_cancelled = run_is_cancelled o' w3, ls_last_check = Some (ck_result outcome),
                               ls_unconfined = ck_unconfined outcome, ls_best = None, ls_synapse = sy\<rparr>
                     in (case conclude cx ls w3 of (r, w4) \<Rightarrow> (Some r, w4))))))"

definition run_synaptic_loop ::
  "'x runtime \<Rightarrow> task \<Rightarrow> config \<Rightarrow> 'x adapter list \<Rightarrow> 'x run_options \<Rightarrow>
   'x world \<Rightarrow> (run_error + run_report) option \<times> 'x world" where
  "run_synaptic_loop rt t cfg adapters o' w =
     (let o1 = apply_builtin_verifier rt o' t cfg (w_fs w); orch = cf_orchestration cfg in
      case res_map_err RunConfig (select_profile (rt_glob rt) cfg t) of
        Inl e \<Rightarrow> (Some (Inl e), w)
      | Inr sel \<Rightarrow>
          (case find_adapter adapters (ps_lead sel) of
             Inl e \<Rightarrow> (Some (Inl e), w)
           | Inr lead \<Rightarrow>
               (case find_adapter adapters (ps_reviewer sel) of
                  Inl e \<Rightarrow> (Some (Inl e), w)
                | Inr reviewer \<Rightarrow>
                    if or_default_strategy orch = Tournament
                    then run_tournament_strategy rt t orch sel lead reviewer o1 w
                    else run_consensus rt t orch sel lead reviewer o1 w)))"

end
