(* ===== verification/LoopInvariant.thy ===== *)
theory LoopInvariant
  imports SynapticLoop GoalProps
begin

text \<open>
  The contract of the refinement loop as a locale: a predicate on the states at a round's start
  and one on the states in which the loop ends, with what each half of a round owes them. The
  interpretations prove the contract once for each question asked of a run: how rounds are
  numbered, what the budget flag and the usage ledger say, where an acceptance comes from, and
  what cancellation does.
\<close>

section \<open>The contract\<close>

locale loop_contract =
  fixes cx :: "'x ctx" and start :: "nat \<Rightarrow> loop_state \<Rightarrow> bool" and ending :: "loop_state \<Rightarrow> bool"
  assumes over_budget: "\<And>i ls. start i ls \<Longrightarrow> i \<le> unat (cx_max_rounds cx) \<Longrightarrow> ls_budget_exceeded ls \<Longrightarrow> ending ls"
    and breaks: "\<And>i ls w w1 check sha ls1 ls2. start i ls \<Longrightarrow> \<not> ls_budget_exceeded ls \<Longrightarrow> i \<le> unat (cx_max_rounds cx) \<Longrightarrow>
           review_round cx (of_nat i) ls w = (Some (Inr (check, sha, ls1)), w1) \<Longrightarrow>
           round_seam cx check sha ls1 w1 = (True, ls2) \<Longrightarrow> ending ls2"
    and last_round: "\<And>i ls w w1 check sha ls1 ls2. start i ls \<Longrightarrow> \<not> ls_budget_exceeded ls \<Longrightarrow> i = unat (cx_max_rounds cx) \<Longrightarrow>
           review_round cx (of_nat i) ls w = (Some (Inr (check, sha, ls1)), w1) \<Longrightarrow>
           round_seam cx check sha ls1 w1 = (False, ls2) \<Longrightarrow> ending ls2"
    and continues: "\<And>i ls w w1 w2 check sha ls1 ls2 ls3. start i ls \<Longrightarrow> \<not> ls_budget_exceeded ls \<Longrightarrow> i < unat (cx_max_rounds cx) \<Longrightarrow>
           review_round cx (of_nat i) ls w = (Some (Inr (check, sha, ls1)), w1) \<Longrightarrow>
           round_seam cx check sha ls1 w1 = (False, ls2) \<Longrightarrow>
           refine_round cx ls2 w1 = (Inr ls3, w2) \<Longrightarrow> start (Suc i) ls3"
begin

lemma loop_ends:
  assumes "start i ls" and "i \<le> unat (cx_max_rounds cx)"
    and "refinement_loop cx [i..<Suc (unat (cx_max_rounds cx))] ls w = (Some (Inr ls'), w')"
  shows "ending ls'"
  using assms
proof (induction "unat (cx_max_rounds cx) - i" arbitrary: i ls w)
  case 0
  then have i: "i = unat (cx_max_rounds cx)" by simp
  then have "[i..<Suc (unat (cx_max_rounds cx))] = [i]" by simp
  note run = 0(4)[unfolded this refinement_loop.simps]
  show ?case
  proof (cases "ls_budget_exceeded ls")
    case True
    then show ?thesis using run i over_budget[OF 0(2)] by simp
  next
    case False
    then obtain check sha ls1 w1 where rev: "review_round cx (of_nat i) ls w = (Some (Inr (check, sha, ls1)), w1)"
      using run by (auto split: prod.splits option.splits sum.splits)
    then show ?thesis
      using run False i breaks[OF 0(2) False _ rev] last_round[OF 0(2) False i rev]
      by (auto split: prod.splits bool.splits)
  qed
next
  case (Suc n)
  then have i: "i < unat (cx_max_rounds cx)" by simp
  then have "[i..<Suc (unat (cx_max_rounds cx))] = i # [Suc i..<Suc (unat (cx_max_rounds cx))]"
    by (simp add: upt_conv_Cons)
  note run = Suc(5)[unfolded this refinement_loop.simps]
  show ?case
  proof (cases "ls_budget_exceeded ls")
    case True
    then show ?thesis using run i over_budget[OF Suc(3)] by simp
  next
    case False
    then obtain check sha ls1 w1 where rev: "review_round cx (of_nat i) ls w = (Some (Inr (check, sha, ls1)), w1)"
      using run by (auto split: prod.splits option.splits sum.splits)
    obtain b ls2 where seam: "round_seam cx check sha ls1 w1 = (b, ls2)" by (cases "round_seam cx check sha ls1 w1") auto
    show ?thesis
    proof (cases b)
      case True
      then show ?thesis using run False rev seam breaks[OF Suc(3) False _ rev] i by simp
    next
      case no: False
      then obtain ls3 w2 where ref: "refine_round cx ls2 w1 = (Inr ls3, w2)"
        using run False rev seam i by (auto split: prod.splits sum.splits)
      have "refinement_loop cx [Suc i..<Suc (unat (cx_max_rounds cx))] ls3 w2 = (Some (Inr ls'), w')"
        using run False rev seam no i ref by simp
      then show ?thesis
        using Suc(1)[of "Suc i" ls3 w2] Suc(2) i continues[OF Suc(3) False i rev _ ref] seam no by simp
    qed
  qed
qed

end

text \<open>A predicate that both halves of a round keep satisfies the contract.\<close>

locale loop_invariant =
  fixes cx :: "'x ctx" and inv :: "nat \<Rightarrow> loop_state \<Rightarrow> bool"
  assumes reviewed: "\<And>i ls w w1 w2 b check sha ls1 ls2. inv i ls \<Longrightarrow>
           review_round cx (of_nat i) ls w = (Some (Inr (check, sha, ls1)), w1) \<Longrightarrow>
           round_seam cx check sha ls1 w2 = (b, ls2) \<Longrightarrow> inv (Suc i) ls2"
    and refined: "\<And>i ls ls' w w'. inv i ls \<Longrightarrow> refine_round cx ls w = (Inr ls', w') \<Longrightarrow> inv i ls'"

sublocale loop_invariant \<subseteq> loop_contract cx inv "\<lambda>ls. \<exists>n \<le> Suc (unat (cx_max_rounds cx)). inv n ls"
proof
  show "\<exists>n \<le> Suc (unat (cx_max_rounds cx)). inv n ls" if "inv i ls" "i \<le> unat (cx_max_rounds cx)" for i ls
    using that by (intro exI[of _ i]) simp
qed (use reviewed refined in \<open>blast+\<close>)

section \<open>What the halves of a round do\<close>

lemma review_round_Inr:
  assumes "review_round cx i ls w = (Some (Inr (check, sha, ls1)), w1)"
  obtains feedback outcome w2 w3 where
    "ad_review (cx_reviewer cx) (cx_task cx) (ls_lead_output ls) (strictness_label (ps_strictness (cx_sel cx))) w = (Inr feedback, w2)"
    "run_goal_check (cx_rt cx) (cx_evaluator cx) w2 = (Some outcome, w3)"
    "check = ck_result outcome"
    "sha = map_option (canonical_hash (rt_digest (cx_rt cx))) (ao_patch (ls_lead_output ls))"
    "ls1 = ls\<lparr>ls_usage := accumulate_feedback_usage (ls_usage ls) feedback,
              ls_feedback := (if exceeds_budget (accumulate_feedback_usage (ls_usage ls) feedback) (cx_orch cx)
                 then budget_exceeded_feedback (ad_id (cx_reviewer cx)) (accumulate_feedback_usage (ls_usage ls) feedback)
                 else feedback),
              ls_budget_exceeded := exceeds_budget (accumulate_feedback_usage (ls_usage ls) feedback) (cx_orch cx),
              ls_last_check := Some check, ls_unconfined := (ls_unconfined ls \<or> ck_unconfined outcome),
              ls_synapse := (ls_synapse ls)\<lparr>sy_lead_output := Some (ls_lead_output ls),
                 sy_reviewer_feedback := Some feedback,
                 sy_rounds := sy_rounds (ls_synapse ls) @
                   [\<lparr>rd_round = i, rd_lead = ls_lead_output ls, rd_reviewer = feedback, rd_check = Some check,
                     rd_patch_sha = sha, rd_envelope_id = None\<rparr>]\<rparr>\<rparr>"
  using assms
  by (auto simp: review_round_def record_round_def Let_def split: prod.splits option.splits sum.splits)

text \<open>The seam only touches the flags and the progress bookkeeping.\<close>

lemma round_seam_frame:
  assumes "round_seam cx check sha ls w = (b, ls')"
  shows "ls_synapse ls' = ls_synapse ls" "ls_lead_output ls' = ls_lead_output ls" "ls_usage ls' = ls_usage ls"
    "ls_budget_exceeded ls' = ls_budget_exceeded ls" "ls_last_check ls' = ls_last_check ls"
    "ls_crossfire ls' = ls_crossfire ls" "ls_unconfined ls' = ls_unconfined ls"
  using assms by (auto simp: round_seam_def Let_def split: if_splits)

lemma round_seam_feedback:
  assumes "round_seam cx check sha ls w = (b, ls')"
  shows "ls_feedback ls' = ls_feedback ls \<or>
     rf_verdict (ls_feedback ls') = Block \<and> (ls_np_exceeded ls' \<or> ls_cancelled ls')"
  using assms
  by (auto simp: round_seam_def Let_def cancelled_feedback_def no_progress_feedback_def block_feedback_def split: if_splits)

lemma round_seam_continues:
  assumes "round_seam cx check sha ls w = (False, ls')"
  shows "\<not> ls_budget_exceeded ls" "\<not> is_terminal (rf_verdict (ls_feedback ls)) (ps_strictness (cx_sel cx)) check"
    "\<not> run_is_cancelled (cx_options cx) w" "rf_verdict (ls_feedback ls) \<noteq> Block"
    "ls_np_exceeded ls' = ls_np_exceeded ls" "ls_halted ls' = ls_halted ls" "ls_cancelled ls' = ls_cancelled ls"
    "ls_feedback ls' = ls_feedback ls"
  using assms by (auto simp: round_seam_def Let_def split: if_splits)

lemma crossfire_polls_rounds:
  "crossfire_polls reviewer t strict polls known collected sy w = (Inr (c, sy'), w') \<Longrightarrow> sy_rounds sy' = sy_rounds sy"
  by (induction reviewer t strict polls known collected sy w rule: crossfire_polls.induct)
    (auto simp: record_crossfire_feedback_def split: sum.splits option.splits prod.splits)

lemma collect_rounds:
  assumes "collect_output_with_crossfire rt output reviewer t sel sy w = (Inr (out, crossfire, sy'), w')"
  shows "sy_rounds sy' = sy_rounds sy"
  using assms crossfire_polls_rounds
  by (auto simp: collect_output_with_crossfire_def result_simps split: prod.splits sum.splits)

lemma refine_round_Inr:
  assumes "refine_round cx ls w = (Inr ls', w')"
  obtains out crossfire sy where
    "sy_rounds sy = sy_rounds (ls_synapse ls)"
    "ls' = ls\<lparr>ls_lead_output := out, ls_crossfire := crossfire, ls_usage := accumulate_output_usage (ls_usage ls) out,
              ls_budget_exceeded := exceeds_budget (accumulate_output_usage (ls_usage ls) out) (cx_orch cx),
              ls_feedback := (if exceeds_budget (accumulate_output_usage (ls_usage ls) out) (cx_orch cx)
                 then budget_exceeded_feedback (ad_id (cx_reviewer cx)) (accumulate_output_usage (ls_usage ls) out)
                 else ls_feedback ls),
              ls_synapse := sy\<rparr>"
proof -
  let ?refine = "if redirects (or_crossfire_action (cx_orch cx))
      then merge_crossfire_into_feedback (ls_feedback ls) (ls_crossfire ls) else ls_feedback ls"
  obtain r w1 where c: "collect_output_with_crossfire (cx_rt cx)
      (ad_refine (cx_lead cx) (cx_task cx) (ls_lead_output ls) ?refine)
      (cx_reviewer cx) (cx_task cx) (cx_sel cx) (ls_synapse ls) w = (r, w1)" by (rule prod.exhaust)
  note run = assms[unfolded refine_round_def Let_def c prod.case]
  show thesis
  proof (cases r)
    case (Inl e)
    then show thesis using run by simp
  next
    case (Inr x)
    obtain out crossfire sy where x: "x = (out, crossfire, sy)" by (cases x)
    show thesis
      using run by (intro that[OF collect_rounds[OF c[unfolded Inr x]], of out crossfire]) (simp add: Inr x)
  qed
qed

section \<open>Numbering\<close>

definition numbered :: "nat \<Rightarrow> loop_state \<Rightarrow> bool" where
  "numbered n ls = (map rd_round (sy_rounds (ls_synapse ls)) = map of_nat [0..<n])"

interpretation numbering: loop_invariant cx numbered for cx
proof
  show "numbered (Suc i) ls2"
    if "numbered i ls" "review_round cx (of_nat i) ls w = (Some (Inr (check, sha, ls1)), w1)"
      "round_seam cx check sha ls1 w2 = (b, ls2)" for i ls w w1 w2 b check sha ls1 ls2
    using that(2,1) round_seam_frame(1)[OF that(3)] by (elim review_round_Inr) (simp add: numbered_def)
  show "numbered i ls'" if "numbered i ls" "refine_round cx ls w = (Inr ls', w')" for i ls ls' w w'
    using that(2,1) by (elim refine_round_Inr) (simp add: numbered_def)
qed

section \<open>Budget and ledger\<close>

definition budget_flag :: "'x ctx \<Rightarrow> nat \<Rightarrow> loop_state \<Rightarrow> bool" where
  "budget_flag cx _ ls = (ls_budget_exceeded ls = exceeds_budget (ls_usage ls) (cx_orch cx))"

interpretation budget: loop_invariant cx "budget_flag cx" for cx
proof
  show "budget_flag cx (Suc i) ls2"
    if "budget_flag cx i ls" "review_round cx (of_nat i) ls w = (Some (Inr (check, sha, ls1)), w1)"
      "round_seam cx check sha ls1 w2 = (b, ls2)" for i ls w w1 w2 b check sha ls1 ls2
    using that(2) round_seam_frame[OF that(3)] by (elim review_round_Inr) (simp add: budget_flag_def)
  show "budget_flag cx i ls'" if "budget_flag cx i ls" "refine_round cx ls w = (Inr ls', w')" for i ls ls' w w'
    using that(2) by (elim refine_round_Inr) (simp add: budget_flag_def)
qed

text \<open>What the recorded rounds have cost: the output and the review of each.\<close>

definition spent :: "round_record list \<Rightarrow> usage_stats" where
  "spent rounds =
     foldl (\<lambda>u r. accumulate_feedback_usage (accumulate_output_usage u (rd_lead r)) (rd_reviewer r)) usage_default rounds"

definition ledger_start :: "nat \<Rightarrow> loop_state \<Rightarrow> bool" where
  "ledger_start _ ls = (ls_usage ls = accumulate_output_usage (spent (sy_rounds (ls_synapse ls))) (ls_lead_output ls))"

text \<open>At the end there may be one more output, whose cost is what broke the budget.\<close>

definition ledger_end :: "loop_state \<Rightarrow> bool" where
  "ledger_end ls =
     (ls_usage ls = spent (sy_rounds (ls_synapse ls)) \<or>
      ls_budget_exceeded ls \<and>
      ls_usage ls = accumulate_output_usage (spent (sy_rounds (ls_synapse ls))) (ls_lead_output ls))"

lemma ledger_round:
  assumes "ledger_start i ls" and "review_round cx (of_nat i) ls w = (Some (Inr (check, sha, ls1)), w1)"
    and "round_seam cx check sha ls1 w2 = (b, ls2)"
  shows "ls_usage ls2 = spent (sy_rounds (ls_synapse ls2))"
  using assms(2,1) round_seam_frame[OF assms(3)]
  by (elim review_round_Inr) (simp add: ledger_start_def spent_def)

interpretation ledger: loop_contract cx ledger_start ledger_end for cx
proof
  show "ledger_end ls" if "ledger_start i ls" "ls_budget_exceeded ls" for i ls
    using that by (simp add: ledger_start_def ledger_end_def)
  show "ledger_start (Suc i) ls3"
    if "ledger_start i ls" "review_round cx (of_nat i) ls w = (Some (Inr (check, sha, ls1)), w1)"
      "round_seam cx check sha ls1 w1 = (False, ls2)" "refine_round cx ls2 w1 = (Inr ls3, w2)"
    for i ls w w1 w2 check sha ls1 ls2 ls3
    using that(4) ledger_round[OF that(1-3)] by (elim refine_round_Inr) (simp add: ledger_start_def)
qed (unfold ledger_end_def, (blast dest: ledger_round)+)

section \<open>Acceptance\<close>

definition terminal_round :: "'x ctx \<Rightarrow> round_record \<Rightarrow> bool" where
  "terminal_round cx r =
     (case rd_check r of
        Some c \<Rightarrow> is_terminal (rf_verdict (rd_reviewer r)) (ps_strictness (cx_sel cx)) c | None \<Rightarrow> False)"

definition no_flags :: "loop_state \<Rightarrow> bool" where
  "no_flags ls = (\<not> ls_np_exceeded ls \<and> \<not> ls_halted ls \<and> \<not> ls_cancelled ls)"

definition undecided :: "'x ctx \<Rightarrow> nat \<Rightarrow> loop_state \<Rightarrow> bool" where
  "undecided cx _ ls = (no_flags ls \<and> (\<forall>r \<in> set (sy_rounds (ls_synapse ls)). \<not> terminal_round cx r))"

text \<open>The last round is the one that the state speaks of: its output, its review, its check.\<close>

definition speaks_of :: "'x ctx \<Rightarrow> loop_state \<Rightarrow> round_record \<Rightarrow> bool" where
  "speaks_of cx ls r =
     (rd_lead r = ls_lead_output ls \<and> rd_reviewer r = ls_feedback ls \<and> rd_check r = ls_last_check ls \<and>
      rd_patch_sha r = map_option (canonical_hash (rt_digest (cx_rt cx))) (ao_patch (ls_lead_output ls)) \<and>
      ls_last_check ls \<noteq> None \<and> (cx_evaluator cx \<noteq> None \<longrightarrow> ls_last_check ls \<noteq> Some CheckSkipped))"

definition decided :: "'x ctx \<Rightarrow> loop_state \<Rightarrow> bool" where
  "decided cx ls =
     ((\<forall>r \<in> set (butlast (sy_rounds (ls_synapse ls))). \<not> terminal_round cx r) \<and>
      (\<not> ls_budget_exceeded ls \<and> no_flags ls \<longrightarrow>
        (\<exists>rs r. sy_rounds (ls_synapse ls) = rs @ [r] \<and> speaks_of cx ls r)))"

text \<open>A goal check that runs gives a verdict: it is never skipped.\<close>

lemma exit_result_not_skipped: "exit_result a b c d \<noteq> CheckSkipped"
  by (simp add: exit_result_def Let_def split: sum.splits)

lemma await_child_not_skipped: "await_child cap timeout px \<noteq> Some CheckSkipped"
  by (simp add: await_child_def exit_result_not_skipped split: option.splits exit_outcome.splits)

lemma evaluate_not_skipped:
  assumes "evaluate h ev w = (Some outcome, w')"
  shows "ck_result outcome \<noteq> CheckSkipped"
proof -
  obtain r where run: "spawn_and_wait h ev w = (Some r, w')"
      and out: "outcome = (case r of Inr o' \<Rightarrow> o' | Inl e \<Rightarrow> fail_outcome (goal_error_text e) False)"
    using assms by (auto simp: evaluate_def split: prod.splits option.splits sum.splits)
  from run show ?thesis
  proof (cases rule: spawn_and_wait_cases)
    case (spawned t program args w1 u)
    from spawned(2) show ?thesis
    proof (cases rule: spawn_check_cases)
      case (ran px)
      then show ?thesis
        using out await_child_not_skipped[of "ge_output_cap ev" "gs_timeout_secs (ge_goal ev)" px]
        by (cases "await_child (ge_output_cap ev) (gs_timeout_secs (ge_goal ev)) px") auto
    qed (simp add: out fail_outcome_def)
  qed (simp_all add: out fail_outcome_def)
qed

lemma review_decides:
  assumes "undecided cx i ls" and "review_round cx (of_nat i) ls w = (Some (Inr (check, sha, ls1)), w1)"
    and "round_seam cx check sha ls1 w2 = (b, ls2)"
  shows "decided cx ls2"
  using assms(2)
proof (rule review_round_Inr)
  fix feedback outcome v v'
  let ?r = "\<lparr>rd_round = of_nat i, rd_lead = ls_lead_output ls, rd_reviewer = feedback, rd_check = Some check,
             rd_patch_sha = sha, rd_envelope_id = None\<rparr>"
  let ?usage = "accumulate_feedback_usage (ls_usage ls) feedback"
  let ?over = "exceeds_budget ?usage (cx_orch cx)"
  assume check: "run_goal_check (cx_rt cx) (cx_evaluator cx) v = (Some outcome, v')" "check = ck_result outcome"
    and sha: "sha = map_option (canonical_hash (rt_digest (cx_rt cx))) (ao_patch (ls_lead_output ls))"
    and ls1: "ls1 = ls\<lparr>ls_usage := ?usage,
        ls_feedback := (if ?over then budget_exceeded_feedback (ad_id (cx_reviewer cx)) ?usage else feedback),
        ls_budget_exceeded := ?over, ls_last_check := Some check,
        ls_unconfined := (ls_unconfined ls \<or> ck_unconfined outcome),
        ls_synapse := (ls_synapse ls)\<lparr>sy_lead_output := Some (ls_lead_output ls),
           sy_reviewer_feedback := Some feedback, sy_rounds := sy_rounds (ls_synapse ls) @ [?r]\<rparr>\<rparr>"
  have skip: "check \<noteq> CheckSkipped" if "cx_evaluator cx \<noteq> None"
    using that check evaluate_not_skipped[of "rt_host (cx_rt cx)" _ v outcome v'] by (auto simp: run_goal_check_def)
  have "speaks_of cx ls2 ?r" if "\<not> ls_budget_exceeded ls2" "no_flags ls2"
  proof -
    have "ls_feedback ls2 = feedback"
      using that round_seam_feedback[OF assms(3)] round_seam_frame[OF assms(3)] by (auto simp: ls1 no_flags_def)
    then show ?thesis
      using round_seam_frame[OF assms(3)] skip by (simp add: speaks_of_def ls1 sha)
  qed
  then show "decided cx ls2"
    using round_seam_frame(1)[OF assms(3)] assms(1) by (simp add: decided_def ls1 undecided_def)
qed

interpretation acceptance: loop_contract cx "undecided cx" "decided cx" for cx
proof
  show "decided cx ls" if "undecided cx i ls" "ls_budget_exceeded ls" for i ls
    using that by (auto simp: undecided_def decided_def dest: in_set_butlastD)
  show "undecided cx (Suc i) ls3"
    if "undecided cx i ls" "review_round cx (of_nat i) ls w = (Some (Inr (check, sha, ls1)), w1)"
      "round_seam cx check sha ls1 w1 = (False, ls2)" "refine_round cx ls2 w1 = (Inr ls3, w2)"
    for i ls w w1 w2 check sha ls1 ls2 ls3
  proof -
    have "undecided cx (Suc i) ls2"
      using that(2,1) round_seam_continues[OF that(3)] round_seam_frame[OF that(3)]
      by (elim review_round_Inr) (auto simp: undecided_def no_flags_def terminal_round_def)
    then show ?thesis
      using that(4) by (elim refine_round_Inr) (simp add: undecided_def no_flags_def)
  qed
qed (use review_decides in blast)+

section \<open>Cancellation\<close>

text \<open>With a cancel token that stays set, the loop ends after its first round.\<close>

definition cancel_token_set :: "'x ctx \<Rightarrow> bool" where
  "cancel_token_set cx = (\<exists>tok. op_cancel_token (cx_options cx) = Some tok \<and> (\<forall>w. tok w))"

definition first_round :: "'x ctx \<Rightarrow> nat \<Rightarrow> loop_state \<Rightarrow> bool" where
  "first_round cx i ls = (cancel_token_set cx \<longrightarrow> i = 0 \<and> sy_rounds (ls_synapse ls) = [] \<and> no_flags ls)"

definition stopped_early :: "'x ctx \<Rightarrow> loop_state \<Rightarrow> bool" where
  "stopped_early cx ls =
     (cancel_token_set cx \<longrightarrow>
        length (sy_rounds (ls_synapse ls)) \<le> 1 \<and>
        (ls_budget_exceeded ls \<or> ls_cancelled ls \<or> (\<exists>r. sy_rounds (ls_synapse ls) = [r] \<and> terminal_round cx r)))"

lemma cancelled_seam:
  assumes "cancel_token_set cx" and "round_seam cx check sha ls w = (b, ls')"
  shows "b \<and> (ls_budget_exceeded ls' \<or> ls_cancelled ls' \<or>
     is_terminal (rf_verdict (ls_feedback ls)) (ps_strictness (cx_sel cx)) check)"
  using assms by (auto simp: round_seam_def cancel_token_set_def run_is_cancelled_def split: if_splits)

lemma cancelled_round:
  assumes "first_round cx i ls" and "review_round cx (of_nat i) ls w = (Some (Inr (check, sha, ls1)), w1)"
    and "round_seam cx check sha ls1 w2 = (b, ls2)"
  shows "stopped_early cx ls2"
proof (cases "cancel_token_set cx")
  case False
  then show ?thesis by (simp add: stopped_early_def)
next
  case True
  show ?thesis
    using assms(2)
  proof (rule review_round_Inr)
    fix feedback outcome v v'
    let ?usage = "accumulate_feedback_usage (ls_usage ls) feedback"
    let ?over = "exceeds_budget ?usage (cx_orch cx)"
    assume "ls1 = ls\<lparr>ls_usage := ?usage,
        ls_feedback := (if ?over then budget_exceeded_feedback (ad_id (cx_reviewer cx)) ?usage else feedback),
        ls_budget_exceeded := ?over, ls_last_check := Some check,
        ls_unconfined := (ls_unconfined ls \<or> ck_unconfined outcome),
        ls_synapse := (ls_synapse ls)\<lparr>sy_lead_output := Some (ls_lead_output ls),
           sy_reviewer_feedback := Some feedback, sy_rounds := sy_rounds (ls_synapse ls) @
             [\<lparr>rd_round = of_nat i, rd_lead = ls_lead_output ls, rd_reviewer = feedback, rd_check = Some check,
               rd_patch_sha = sha, rd_envelope_id = None\<rparr>]\<rparr>\<rparr>"
    then show ?thesis
      using True assms(1) cancelled_seam[OF True assms(3)] round_seam_frame[OF assms(3)]
      by (auto simp: stopped_early_def first_round_def terminal_round_def split: if_splits)
  qed
qed

interpretation cancellation: loop_contract cx "first_round cx" "stopped_early cx" for cx
proof
  show "stopped_early cx ls" if "first_round cx i ls" "ls_budget_exceeded ls" for i ls
    using that by (simp add: first_round_def stopped_early_def)
  show "first_round cx (Suc i) ls3" if "round_seam cx check sha ls1 w1 = (False, ls2)" for i w1 check sha ls1 ls2 ls3
    using cancelled_seam[OF _ that] by (auto simp: first_round_def)
qed (use cancelled_round in blast)+

end
