(* ===== verification/LoopDemo.thy ===== *)
theory LoopDemo
  imports LoopInvariant PatchProps
begin

text \<open>
  A complete run to evaluate on: a configuration with one profile, a host on which every check
  passes, a lead that first proposes half a patch and then the whole one, and a reviewer that
  asks for changes the first time. The world counts the reviews.
\<close>

definition demo_verifier :: builtin_verifier_config where
  "demo_verifier = \<lparr>bv_mode = VerifierCommand, bv_command = [''make''], bv_timeout_secs = 9\<rparr>"

definition demo_orchestration :: orchestration where
  "demo_orchestration =
     \<lparr>or_default_strategy = Consensus, or_max_refinement_rounds = 2, or_conflict_policy = AbortOnConflict,
      or_max_total_tokens = Some 1000, or_max_cost = None, or_check_env = [''HOME''],
      or_check_output_cap_bytes = 1000, or_adapter_timeout_secs = None, or_adapter_max_output_bytes = None,
      or_adapter_spawn_retries = None, or_budget_cost_ceiling = None, or_budget_tokens_ceiling = None,
      or_check_ulimit = None, or_worktree_apply = False, or_mayor_patrol = Some mayor_patrol_default,
      or_builtin_verifier = demo_verifier, or_sandbox = strict_sandbox, or_crossfire_action = Halt,
      or_apply_classifier = classifier_default\<lparr>ac_mode := Advisory\<rparr>\<rparr>"

definition demo_config :: config where
  "demo_config =
     \<lparr>cf_orchestration = demo_orchestration,
      cf_roles = \<lparr>ro_architect = ''other'', ro_reviewer = ''rev'', ro_plan_strategy = Single, ro_plan_prompt = None,
        ro_fork = None, ro_mcp = None\<rparr>,
      cf_profiles = [\<lparr>pf_id = ''p'', pf_match_rules = Logic [''fix''] [], pf_lead = ''lead'', pf_reviewer = ''rev'',
        pf_strictness = Normal_strictness, pf_max_rounds = None, pf_plan_strategy = Single, pf_plan_prompt = None,
        pf_fork = None, pf_mcp = None\<rparr>],
      cf_templates = [], cf_rpc = None,
      cf_tui = \<lparr>tui_enabled = True, tui_auto_in_cmux = True, tui_refresh_ms = 100, tui_log_height_pct = 60\<rparr>,
      cf_source = Project\<rparr>"

definition demo_task :: task where
  "demo_task = \<lparr>task_id = ''t'', task_prompt = ''Please FIX it'', task_cwd = [''w''], task_context_paths = [], task_started_at = 0\<rparr>"

definition demo_output :: "nv_patch \<Rightarrow> agent_output" where
  "demo_output p = (ao_with_patch ''lead'' ''done'' p)\<lparr>ao_cost := Some \<lparr>us_input = 10, us_output = 5, us_cost = Some 7\<rparr>\<rparr>"

definition half_patch :: nv_patch where
  "half_patch = nv_new ''h'' [fp_new id ''a'' ''one'' ''two'']"

definition demo_lead :: "nat adapter" where
  "demo_lead =
     \<lparr>ad_id = ''lead'', ad_implement = (\<lambda>_ w. (Inr (demo_output half_patch), w)),
      ad_review = (\<lambda>_ _ _ w. (Inr (rf_lgtm ''lead'' ''ok''), w)),
      ad_refine = (\<lambda>_ _ _ w. (Inr (demo_output demo_patch), w)),
      ad_crossfire = (\<lambda>_ _ _ w. (Inr (rf_lgtm ''lead'' ''ok''), w))\<rparr>"

definition demo_reviewer :: "nat adapter" where
  "demo_reviewer =
     \<lparr>ad_id = ''rev'', ad_implement = (\<lambda>_ w. (Inr (demo_output half_patch), w)),
      ad_review = (\<lambda>_ _ _ w.
        (Inr (if w_ext w = 0 then (rf_lgtm ''rev'' ''more'')\<lparr>rf_verdict := RequestChanges\<rparr> else rf_lgtm ''rev'' ''ok''),
         w\<lparr>w_ext := Suc (w_ext w)\<rparr>)),
      ad_refine = (\<lambda>_ _ _ w. (Inr (demo_output half_patch), w)),
      ad_crossfire = (\<lambda>_ _ _ w. (Inr (rf_lgtm ''rev'' ''live''), w))\<rparr>"

definition no_worktree :: "nat worktree_ops" where
  "no_worktree =
     \<lparr>wt_new = (\<lambda>_ w. (Inl ''no git'', w)), wt_prepare = (\<lambda>_ _ w. (Inl ''no git'', w)),
      wt_apply = (\<lambda>_ _ _ w. (Inl ''no git'', w)), wt_commit = (\<lambda>_ w. (Inl ''no git'', w)),
      wt_discard = (\<lambda>_ _ w. (Inl ''no git'', w)), wt_merge = (\<lambda>_ _ w. (Inl ''no git'', w))\<rparr>"

definition run_host :: "process \<Rightarrow> (nat world) host" where
  "run_host px =
     \<lparr>ho_sandbox = demo_env, ho_env = (\<lambda>_. None), ho_exe = Some ''/nv'',
      ho_tempdir = (\<lambda>p w. (Inr (''/tmp/'' @ p), w)),
      ho_canary = (\<lambda>_ _ w. (Inr \<lparr>cn_exited_in_time = True, cn_escape_exists = False, cn_live_exists = True\<rparr>, w)),
      ho_spawn = (\<lambda>_ w. (Inr px, w))\<rparr>"

definition demo_runtime :: "nat runtime" where
  "demo_runtime =
     \<lparr>rt_digest = id, rt_uuid = ''u'', rt_git = (\<lambda>_ _ _. Inr (None, [])), rt_glob = (\<lambda>_. None),
      rt_text_diff = (\<lambda>_ _ _ _. []), rt_json = (\<lambda>_. None), rt_consent_env = None, rt_host = run_host passing,
      rt_worktree = no_worktree,
      rt_watch = (\<lambda>w. (Inr (\<lparr>sc_files = [], sc_text = (\<lambda>_. [])\<rparr>,
                             [Inr \<lparr>sc_files = [(''n'', 1)], sc_text = (\<lambda>_. ''draft'')\<rparr>]), w)),
      rt_checkpoint = (\<lambda>_ w. w), rt_events = (\<lambda>_. [])\<rparr>"

definition demo_options :: "nat run_options" where
  "demo_options =
     \<lparr>op_apply = True, op_goal = Some demo_goal, op_ulimit = None, op_worktree = None, op_apply_grant = None,
      op_cancel_token = None\<rparr>"

definition demo_world :: "nat world" where
  "demo_world = \<lparr>w_fs = demo_fs, w_ext = 0\<rparr>"

section \<open>The run, step by step\<close>

definition demo_sel :: profile_selection where
  "demo_sel = selection_of demo_config (hd (cf_profiles demo_config))"

definition demo_ev :: goal_evaluator where
  "demo_ev = \<lparr>ge_goal = demo_goal, ge_allowed_env = [''HOME''], ge_output_cap = 1000, ge_cwd = ''/w'',
     ge_ulimit = None, ge_sandbox = strict_sandbox\<rparr>"

lemma demo_select: "select_profile (rt_glob demo_runtime) demo_config demo_task = Inr demo_sel"
  by code_simp

lemma demo_build: "build_goal_evaluator demo_task demo_options demo_orchestration = Inr (Some demo_ev)"
  by code_simp

lemma demo_decides:
  "case decide demo_env strict_sandbox ''/w'' cmd [''/tmp/nerve-check-''] (Some ''/nv'') of Wrap p a \<Rightarrow> True | _ \<Rightarrow> False"
  by code_simp

lemma passing_clean: "await_child 1000 60 passing = Some CheckPass"
  by code_simp

lemma demo_check: "evaluate (run_host passing) demo_ev w = (Some \<lparr>ck_result = CheckPass, ck_unconfined = False\<rparr>, w)"
proof -
  obtain p a where d: "decide demo_env strict_sandbox ''/w'' [''cargo'', ''test''] [''/tmp/nerve-check-''] (Some ''/nv'') = Wrap p a"
    using demo_decides[of "[''cargo'', ''test'']"] by (auto split: sandbox_decision.splits)
  obtain p' a' where c: "decide demo_env strict_sandbox ''/w'' canary_cmd [''/tmp/nerve-check-''] (Some ''/nv'') = Wrap p' a'"
    using demo_decides[of canary_cmd] by (auto split: sandbox_decision.splits)
  have sb: "sb_mode strict_sandbox = SandboxRequired" "confine_helper_path (run_host passing) strict_sandbox = Some ''/nv''"
      "sandbox_is_enabled strict_sandbox"
    by (simp_all add: strict_sandbox_def confine_helper_path_def sandbox_is_enabled_def run_host_def)
  have host: "ho_sandbox (run_host passing) = demo_env" "se_platform demo_env = Linux"
      "ho_tempdir (run_host passing) n w = (Inr (''/tmp/'' @ n), w)"
      "ho_canary (run_host passing) cmd t w = (Inr \<lparr>cn_exited_in_time = True, cn_escape_exists = False, cn_live_exists = True\<rparr>, w)"
      "ho_spawn (run_host passing) cmd w = (Inr passing, w)" for n w cmd t
    by (simp_all add: run_host_def demo_env_def)
  have ev: "ge_sandbox demo_ev = strict_sandbox" "ge_cwd demo_ev = ''/w''" "ge_output_cap demo_ev = 1000"
      "gs_check_cmd (ge_goal demo_ev) = [''cargo'', ''test'']" "gs_timeout_secs (ge_goal demo_ev) = 60"
    by (simp_all add: demo_ev_def demo_goal_def)
  show ?thesis
    by (simp add: evaluate_def spawn_and_wait_def private_check_tmpdir_def verify_confinement_def
        run_confinement_probe_def spawn_check_def Let_def sb host ev d c passing_clean canary_confined_def
        decision_is_unconfined_degrade_def)
qed

lemma demo_apply: "\<exists>rep s'. nv_apply id [''w''] demo_patch False demo_fs = (Inr rep, s')"
proof -
  have "fst (nv_apply id [''w''] demo_patch False demo_fs) = Inr (nv_report demo_patch False)" by code_simp
  then show ?thesis by (metis prod.collapse)
qed

definition usage1 :: usage_stats where "usage1 = \<lparr>us_input = 10, us_output = 5, us_cost = Some 7\<rparr>"
definition usage2 :: usage_stats where "usage2 = \<lparr>us_input = 20, us_output = 10, us_cost = Some 14\<rparr>"

lemma demo_usage:
  "accumulate_output_usage usage_default (demo_output p) = usage1"
  "accumulate_output_usage usage1 (demo_output p) = usage2"
  "\<not> exceeds_budget usage1 demo_orchestration" "\<not> exceeds_budget usage2 demo_orchestration"
  by code_simp+

lemma demo_runtime_simps:
  "rt_digest demo_runtime = id" "rt_host demo_runtime = run_host passing"
  "rt_watch demo_runtime w = (Inr (\<lparr>sc_files = [], sc_text = (\<lambda>_. [])\<rparr>,
                             [Inr \<lparr>sc_files = [(''n'', 1)], sc_text = (\<lambda>_. ''draft'')\<rparr>]), w)"
  "rt_checkpoint demo_runtime rs w = w" "rt_events demo_runtime w = []"
  by (simp_all add: demo_runtime_def)

lemma demo_adapter_simps:
  "ad_id demo_lead = ''lead''" "ad_id demo_reviewer = ''rev''"
  "ad_implement demo_lead t = (\<lambda>w. (Inr (demo_output half_patch), w))"
  "ad_refine demo_lead t out f = (\<lambda>w. (Inr (demo_output demo_patch), w))"
  "ad_crossfire demo_reviewer t summary l w = (Inr (rf_lgtm ''rev'' ''live''), w)"
  "ad_review demo_reviewer t out l w =
     (Inr (if w_ext w = 0 then (rf_lgtm ''rev'' ''more'')\<lparr>rf_verdict := RequestChanges\<rparr> else rf_lgtm ''rev'' ''ok''),
         w\<lparr>w_ext := Suc (w_ext w)\<rparr>)"
  by (simp_all add: demo_lead_def demo_reviewer_def)

lemma demo_generation:
  "collect_output_with_crossfire demo_runtime (\<lambda>w. (Inr out, w)) demo_reviewer t sel sy w =
     (Inr (out, [rf_lgtm ''rev'' ''live''], record_crossfire_feedback (rf_lgtm ''rev'' ''live'') sy), w)"
  by (simp add: collect_output_with_crossfire_def demo_runtime_simps next_change_def demo_adapter_simps st_bind_def)

lemma demo_config_simps:
  "cf_orchestration demo_config = demo_orchestration" "or_default_strategy demo_orchestration = Consensus"
  "ps_lead demo_sel = ''lead''" "ps_reviewer demo_sel = ''rev''" "ps_max_rounds demo_sel = 2"
  "ps_strictness demo_sel = Normal_strictness"
  "or_conflict_policy demo_orchestration = AbortOnConflict" "or_crossfire_action demo_orchestration = Halt"
  "or_worktree_apply demo_orchestration = False" "ac_mode (or_apply_classifier demo_orchestration) = Advisory"
  by (simp_all add: demo_config_def demo_orchestration_def demo_sel_def selection_of_def classifier_default_def)

lemma demo_options_simps:
  "op_apply demo_options" "op_goal demo_options = Some demo_goal" "op_worktree demo_options = None"
  "op_cancel_token demo_options = None" "gs_no_progress_max demo_goal = Some 2"
  by (simp_all add: demo_options_def demo_goal_def)

lemma demo_output_simps [simp]: "ao_patch (demo_output p) = Some p"
  by (simp add: demo_output_def ao_with_patch_def)

definition demo_cx :: "nat ctx" where
  "demo_cx = \<lparr>cx_rt = demo_runtime, cx_task = demo_task, cx_orch = demo_orchestration, cx_sel = demo_sel,
     cx_lead = demo_lead, cx_reviewer = demo_reviewer, cx_options = demo_options, cx_evaluator = Some demo_ev,
     cx_max_rounds = 2\<rparr>"

lemma demo_cx_simps [simp]:
  "cx_rt demo_cx = demo_runtime" "cx_task demo_cx = demo_task" "cx_orch demo_cx = demo_orchestration"
  "cx_sel demo_cx = demo_sel" "cx_lead demo_cx = demo_lead" "cx_reviewer demo_cx = demo_reviewer"
  "cx_options demo_cx = demo_options" "cx_evaluator demo_cx = Some demo_ev" "cx_max_rounds demo_cx = 2"
  by (simp_all add: demo_cx_def)

definition demo_start :: loop_state where
  "demo_start = initial_state demo_orchestration demo_reviewer (demo_output half_patch) [rf_lgtm ''rev'' ''live'']
     (record_crossfire_feedback (rf_lgtm ''rev'' ''live'') synapse_new)"

lemma demo_loop:
  "\<exists>ls w. refinement_loop demo_cx [0..<Suc (unat (cx_max_rounds demo_cx))] demo_start demo_world = (Some (Inr ls), w) \<and>
     w_fs w = demo_fs \<and> ls_lead_output ls = demo_output demo_patch \<and> rf_verdict (ls_feedback ls) = Lgtm \<and>
     \<not> ls_budget_exceeded ls \<and> no_flags ls \<and> ls_last_check ls = Some CheckPass"
proof -
  have up: "[0..<Suc (unat (cx_max_rounds demo_cx))] = [0, 1, 2]" by (simp add: upt_rec)
  show ?thesis
    unfolding up
    by (simp add: review_round_def run_goal_check_def demo_runtime_simps demo_check demo_adapter_simps demo_usage
        record_round_def accumulate_feedback_usage_def rf_lgtm_def Let_def round_seam_def is_terminal_def
        run_is_cancelled_def demo_options_simps demo_config_simps no_progress_applies_def round_is_stalled_def
        halts_def redirects_def most_severe_crossfire_def refine_round_def demo_generation demo_start_def initial_state_def demo_world_def no_flags_def)
qed
text \<open>Two rounds, the second accepted; then the whole patch is applied.\<close>

lemma demo_run:
  "\<exists>rep w. run_synaptic_loop demo_runtime demo_task demo_config [demo_lead, demo_reviewer] demo_options demo_world =
       (Some (Inr rep), w) \<and> rr_applied rep \<and> rr_goal_satisfied rep = Some True"
proof -
  obtain ls w where loop: "refinement_loop demo_cx [0..<Suc (unat (cx_max_rounds demo_cx))] demo_start demo_world = (Some (Inr ls), w)"
    and ls: "w_fs w = demo_fs" "ls_lead_output ls = demo_output demo_patch" "rf_verdict (ls_feedback ls) = Lgtm"
      "\<not> ls_budget_exceeded ls" "no_flags ls" "ls_last_check ls = Some CheckPass"
    using demo_loop by blast
  obtain r s' where app: "nv_apply id [''w''] demo_patch False demo_fs = (Inr r, s')" using demo_apply by blast
  have nb: "\<not> run_blocked demo_cx ls" "run_goal_satisfied demo_cx ls = Some True"
    using ls by (simp_all add: run_blocked_def run_goal_satisfied_def no_flags_def goal_check_failed_def
        nits_unverified_def is_blocked_def demo_config_simps demo_options_simps accepts_under_def)
  have cls: "classifies (ac_mode (or_apply_classifier demo_orchestration))" "\<not> enforces (ac_mode (or_apply_classifier demo_orchestration))"
    by (simp_all add: demo_config_simps classifies_def enforces_def)
  have "\<exists>rep w'. conclude demo_cx ls w = (Inr rep, w') \<and> rr_applied rep \<and> rr_goal_satisfied rep = Some True"
    using ls nb cls
    by (simp add: conclude_def Let_def select_final_patch_def demo_config_simps demo_runtime_simps apply_consented_def
        demo_options_simps apply_classifier_decision_def apply_final_patch_def resolve_worktree_apply_def lift_fs_def
        st_bind_def st_map_err_def app demo_task_def split: conflict_policy.splits)
  then obtain rep w' where fin: "conclude demo_cx ls w = (Inr rep, w')" "rr_applied rep" "rr_goal_satisfied rep = Some True"
    by blast
  have opts: "apply_builtin_verifier demo_runtime demo_options demo_task demo_config (w_fs demo_world) = demo_options"
    by (simp add: apply_builtin_verifier_def demo_options_simps)
  have "run_consensus demo_runtime demo_task demo_orchestration demo_sel demo_lead demo_reviewer demo_options demo_world =
      (Some (Inr rep), w')"
    using loop fin(1)
    by (simp add: run_consensus_def demo_adapter_simps demo_generation demo_config_simps demo_build
        demo_cx_def[symmetric] demo_start_def[symmetric] del: upt_Suc)
  then have "run_synaptic_loop demo_runtime demo_task demo_config [demo_lead, demo_reviewer] demo_options demo_world = (Some (Inr rep), w')"
    by (simp add: run_synaptic_loop_def opts demo_select res_map_err_def find_adapter_def demo_config_simps demo_adapter_simps)
  then show ?thesis using fin(2,3) by blast
qed

lemma demo_valid: "config_validate demo_config = Inr ()"
proof -
  have 1: "orchestration_validate demo_orchestration = Inr ()" by code_simp
  have 2: "mayor_patrol_validate mayor_patrol_default = Inr ()" by code_simp
  have 3: "builtin_verifier_validate demo_verifier = Inr ()" by code_simp
  have 4: "classifier_validate (or_apply_classifier demo_orchestration) = Inr ()" by code_simp
  have 5: "trim_ws ''other'' = ''other'' \<and> trim_ws ''rev'' = ''rev'' \<and> trim_ws ''lead'' = ''lead'' \<and> trim_ws ''p'' = ''p''" by code_simp
  have 6: "or_mayor_patrol demo_orchestration = Some mayor_patrol_default" "or_builtin_verifier demo_orchestration = demo_verifier"
    by (simp_all add: demo_orchestration_def)
  show ?thesis using 1 2 3 4 5 6
    by (simp add: config_validate_def demo_config_def result_simps res_map_err_def profile_validate_def ensure_def)
qed

text \<open>The same run with its cancel token set: it stops after the first review.\<close>

definition cancelled_cx :: "nat ctx" where
  "cancelled_cx = demo_cx\<lparr>cx_options := demo_options\<lparr>op_cancel_token := Some (\<lambda>_. True)\<rparr>\<rparr>"

lemma cancelled_cx_simps [simp]:
  "cx_rt cancelled_cx = demo_runtime" "cx_task cancelled_cx = demo_task" "cx_orch cancelled_cx = demo_orchestration"
  "cx_sel cancelled_cx = demo_sel" "cx_lead cancelled_cx = demo_lead" "cx_reviewer cancelled_cx = demo_reviewer"
  "cx_options cancelled_cx = demo_options\<lparr>op_cancel_token := Some (\<lambda>_. True)\<rparr>"
  "cx_evaluator cancelled_cx = Some demo_ev" "cx_max_rounds cancelled_cx = 2"
  by (simp_all add: cancelled_cx_def)

lemma cancelled_loop:
  "\<exists>ls w. refinement_loop cancelled_cx [0..<Suc (unat (cx_max_rounds cancelled_cx))] demo_start demo_world = (Some (Inr ls), w) \<and>
     ls_lead_output ls = demo_output half_patch \<and> ls_cancelled ls \<and> rf_patch (ls_feedback ls) = None"
proof -
  have up: "[0..<Suc (unat (cx_max_rounds cancelled_cx))] = [0, 1, 2]" by (simp add: upt_rec)
  show ?thesis
    unfolding up
    by (simp add: review_round_def run_goal_check_def demo_runtime_simps demo_check demo_adapter_simps demo_usage
        record_round_def accumulate_feedback_usage_def rf_lgtm_def Let_def round_seam_def is_terminal_def
        run_is_cancelled_def demo_start_def initial_state_def demo_world_def cancelled_feedback_def block_feedback_def)
qed

lemma demo_cancelled_run:
  "\<exists>rep w. run_synaptic_loop demo_runtime demo_task demo_config [demo_lead, demo_reviewer]
       (demo_options\<lparr>op_cancel_token := Some (\<lambda>_. True)\<rparr>) demo_world = (Some (Inr rep), w) \<and> rr_cancelled rep"
proof -
  let ?o = "demo_options\<lparr>op_cancel_token := Some (\<lambda>_. True)\<rparr>"
  obtain ls w where loop: "refinement_loop cancelled_cx [0..<Suc (unat (cx_max_rounds cancelled_cx))] demo_start demo_world = (Some (Inr ls), w)"
    and ls: "ls_lead_output ls = demo_output half_patch" "ls_cancelled ls" "rf_patch (ls_feedback ls) = None"
    using cancelled_loop by blast
  have "run_blocked cancelled_cx ls" using ls by (simp add: run_blocked_def)
  then have "\<exists>rep w'. conclude cancelled_cx ls w = (Inr rep, w') \<and> rr_cancelled rep"
    using ls by (simp add: conclude_def Let_def select_final_patch_def demo_config_simps demo_runtime_simps
        apply_classifier_decision_def apply_final_patch_def st_bind_def split: prod.splits)
  then obtain rep w' where fin: "conclude cancelled_cx ls w = (Inr rep, w')" "rr_cancelled rep" by blast
  have opts: "apply_builtin_verifier demo_runtime ?o demo_task demo_config (w_fs demo_world) = ?o"
    by (simp add: apply_builtin_verifier_def demo_options_simps)
  have ev: "build_goal_evaluator demo_task ?o demo_orchestration = build_goal_evaluator demo_task demo_options demo_orchestration"
    by (simp add: build_goal_evaluator_def split: option.split)
  have cx: "\<lparr>cx_rt = demo_runtime, cx_task = demo_task, cx_orch = demo_orchestration, cx_sel = demo_sel,
      cx_lead = demo_lead, cx_reviewer = demo_reviewer, cx_options = ?o, cx_evaluator = Some demo_ev,
      cx_max_rounds = 2\<rparr> = cancelled_cx"
    by (simp add: cancelled_cx_def demo_cx_def)
  have "run_consensus demo_runtime demo_task demo_orchestration demo_sel demo_lead demo_reviewer ?o demo_world =
      (Some (Inr rep), w')"
    using loop fin(1)
    by (simp add: run_consensus_def demo_adapter_simps demo_generation demo_config_simps ev demo_build cx
        demo_start_def[symmetric] del: upt_Suc)
  then have "run_synaptic_loop demo_runtime demo_task demo_config [demo_lead, demo_reviewer] ?o demo_world = (Some (Inr rep), w')"
    by (simp add: run_synaptic_loop_def opts demo_select res_map_err_def find_adapter_def demo_config_simps demo_adapter_simps)
  then show ?thesis using fin(2) by blast
qed

end
