(* ===== verification/LoopProps.thy ===== *)
theory LoopProps
  imports LoopDemo
begin

text \<open>
  What a run guarantees, for both strategies: when a patch is applied, what a satisfied goal
  means, how many rounds there are, what the budget flag says, what cancelling does, and when a
  run returns at all.
\<close>

section \<open>From a report back to the loop\<close>

text \<open>Everything that the loop contracts say about the state in which a run concludes.\<close>

definition concluded :: "'x runtime \<Rightarrow> config \<Rightarrow> task \<Rightarrow> 'x run_options \<Rightarrow> 'x ctx \<Rightarrow> loop_state \<Rightarrow> bool" where
  "concluded rt cfg t o' cx ls =
     (cx_rt cx = rt \<and> cx_task cx = t \<and> cx_orch cx = cf_orchestration cfg \<and> cx_options cx = o' \<and>
      select_profile (rt_glob rt) cfg t = Inr (cx_sel cx) \<and>
      cx_max_rounds cx \<le> ps_max_rounds (cx_sel cx) \<and> (cx_evaluator cx = None \<longleftrightarrow> op_goal o' = None) \<and>
      decided cx ls \<and> (\<exists>n \<le> Suc (unat (cx_max_rounds cx)). numbered n ls) \<and> budget_flag cx 0 ls \<and>
      stopped_early cx ls)"

lemma build_goal_evaluator_None: "build_goal_evaluator t o' orch = Inr ev \<Longrightarrow> ev = None \<longleftrightarrow> op_goal o' = None"
  by (auto simp: build_goal_evaluator_def Let_def result_simps split: option.splits)

lemma run_consensus_concluded:
  assumes "run_consensus rt t (cf_orchestration cfg) sel lead reviewer o' w = (Some (Inr rep), w')"
    and "select_profile (rt_glob rt) cfg t = Inr sel"
  shows "\<exists>cx ls w1. conclude cx ls w1 = (Inr rep, w') \<and> concluded rt cfg t o' cx ls \<and> ledger_end ls"
proof -
  let ?orch = "cf_orchestration cfg"
  obtain out crossfire sy w1 where
    gen: "collect_output_with_crossfire rt (ad_implement lead t) reviewer t sel synapse_new w = (Inr (out, crossfire, sy), w1)"
    using assms(1) by (auto simp: run_consensus_def split: prod.splits sum.splits)
  obtain ev where ev: "build_goal_evaluator t o' ?orch = Inr ev"
    using assms(1) by (auto simp: run_consensus_def gen Let_def split: prod.splits sum.splits)
  define cx where "cx = \<lparr>cx_rt = rt, cx_task = t, cx_orch = ?orch, cx_sel = sel, cx_lead = lead,
      cx_reviewer = reviewer, cx_options = o', cx_evaluator = ev,
      cx_max_rounds = (case or_default_strategy ?orch of Pipeline \<Rightarrow> 0 | _ \<Rightarrow> ps_max_rounds sel)\<rparr>"
  let ?ls0 = "initial_state ?orch reviewer out crossfire sy"
  note run = assms(1)[unfolded run_consensus_def gen prod.case sum.case Let_def ev, folded cx_def]
  have m: "(case or_default_strategy ?orch of Pipeline \<Rightarrow> 0 | _ \<Rightarrow> ps_max_rounds sel) = cx_max_rounds cx"
    by (simp add: cx_def)
  obtain ls w2 where loop: "refinement_loop cx [0..<Suc (unat (cx_max_rounds cx))] ?ls0 w1 = (Some (Inr ls), w2)"
    and fin: "conclude cx ls w2 = (Inr rep, w')"
    using run unfolding m by (auto split: prod.splits option.splits sum.splits)
  have sy: "sy_rounds sy = []" using collect_rounds[OF gen] by (simp add: synapse_new_def)
  have "ledger_end ls"
    by (rule ledger.loop_ends[OF _ _ loop]) (simp_all add: ledger_start_def initial_state_def Let_def sy spent_def)
  moreover have "decided cx ls"
    by (rule acceptance.loop_ends[OF _ _ loop]) (simp_all add: undecided_def no_flags_def initial_state_def Let_def sy)
  moreover have "\<exists>n \<le> Suc (unat (cx_max_rounds cx)). numbered n ls"
    by (rule numbering.loop_ends[OF _ _ loop]) (simp_all add: numbered_def initial_state_def Let_def sy)
  moreover have "budget_flag cx 0 ls"
    using budget.loop_ends[OF _ _ loop] by (simp add: budget_flag_def initial_state_def Let_def cx_def)
  moreover have "stopped_early cx ls"
    by (rule cancellation.loop_ends[OF _ _ loop]) (simp_all add: first_round_def no_flags_def initial_state_def Let_def sy)
  moreover have "cx_max_rounds cx \<le> ps_max_rounds sel"
    by (simp add: cx_def split: strategy.splits)
  ultimately have "concluded rt cfg t o' cx ls"
    using assms(2) build_goal_evaluator_None[OF ev] by (simp add: concluded_def cx_def)
  then show ?thesis using fin \<open>ledger_end ls\<close> by blast
qed

lemma tournament_reviews_budget:
  assumes "tournament_reviews t orch sel lead reviewer lo ro u w = (Inr (out, feedback, usage, over), w')"
  shows "over = exceeds_budget usage orch"
  using assms unfolding tournament_reviews_def Let_def
  by (elim st_bind_Inr[THEN iffD1, elim_format] exE conjE) (clarsimp split: prod.splits)

lemma tournament_candidates_budget:
  assumes "tournament_candidates t orch sel lead reviewer w = (Inr (out, feedback, usage, over), w')"
  shows "over = exceeds_budget usage orch"
proof -
  obtain lo ro w2 where "(let usage = accumulate_output_usage (accumulate_output_usage usage_default lo) ro in
        if exceeds_budget usage orch
        then (\<lambda>w. (Inr (lo, budget_exceeded_feedback (ad_id reviewer) usage, usage, True), w))
        else tournament_reviews t orch sel lead reviewer lo ro usage) w2 = (Inr (out, feedback, usage, over), w')"
    using assms unfolding tournament_candidates_def by (elim st_bind_Inr[THEN iffD1, elim_format] exE conjE) blast
  then show ?thesis
    by (cases "exceeds_budget (accumulate_output_usage (accumulate_output_usage usage_default lo) ro) orch")
      (auto simp: Let_def dest: tournament_reviews_budget)
qed

lemma run_tournament_concluded:
  assumes "run_tournament_strategy rt t (cf_orchestration cfg) sel lead reviewer o' w = (Some (Inr rep), w')"
    and "select_profile (rt_glob rt) cfg t = Inr sel"
  shows "\<exists>cx ls w1. conclude cx ls w1 = (Inr rep, w') \<and> concluded rt cfg t o' cx ls"
proof -
  let ?orch = "cf_orchestration cfg"
  obtain out feedback usage over w1 where
    gen: "tournament_candidates t ?orch sel lead reviewer w = (Inr (out, feedback, usage, over), w1)"
    using assms(1) by (auto simp: run_tournament_strategy_def split: prod.splits sum.splits)
  obtain ev where ev: "build_goal_evaluator t o' ?orch = Inr ev"
    using assms(1) by (auto simp: run_tournament_strategy_def gen Let_def split: prod.splits sum.splits)
  obtain outcome w2 where check: "run_goal_check rt ev w1 = (Some outcome, w2)"
    using assms(1) by (auto simp: run_tournament_strategy_def gen ev Let_def split: prod.splits option.splits)
  define cx where "cx = \<lparr>cx_rt = rt, cx_task = t, cx_orch = ?orch, cx_sel = sel, cx_lead = lead,
      cx_reviewer = reviewer, cx_options = o', cx_evaluator = ev, cx_max_rounds = 0\<rparr>"
  define rec where "rec = \<lparr>rd_round = (0 :: u8), rd_lead = out, rd_reviewer = feedback,
      rd_check = Some (ck_result outcome),
      rd_patch_sha = map_option (canonical_hash (rt_digest rt)) (ao_patch out), rd_envelope_id = None\<rparr>"
  obtain sy w3 where sy: "record_round rt rec synapse_new w2 = (sy, w3)" by (rule prod.exhaust)
  define ls where "ls = \<lparr>ls_lead_output = out, ls_crossfire = [], ls_usage = usage, ls_feedback = feedback,
      ls_budget_exceeded = over, ls_prev_sha = None, ls_np_count = 0, ls_np_exceeded = False, ls_halted = False,
      ls_cancelled = run_is_cancelled o' w3, ls_last_check = Some (ck_result outcome),
      ls_unconfined = ck_unconfined outcome, ls_best = None, ls_synapse = sy\<rparr>"
  note run = assms(1)[unfolded run_tournament_strategy_def gen prod.case sum.case Let_def ev check option.case,
      folded cx_def rec_def, unfolded sy prod.case, folded ls_def]
  have fin: "conclude cx ls w3 = (Inr rep, w')" using run by (auto split: prod.splits)
  have rounds: "sy_rounds sy = [rec]" using sy by (auto simp: record_round_def Let_def synapse_new_def)
  have skip: "ck_result outcome \<noteq> CheckSkipped" if "ev \<noteq> None"
    using that check evaluate_not_skipped[of "rt_host rt" _ w1 outcome w2] by (auto simp: run_goal_check_def)
  have "decided cx ls"
    using skip by (simp add: decided_def ls_def rounds speaks_of_def rec_def cx_def)
  moreover have "numbered 1 ls" by (simp add: numbered_def ls_def rounds rec_def)
  moreover have "budget_flag cx 0 ls"
    using tournament_candidates_budget[OF gen] by (simp add: budget_flag_def ls_def cx_def)
  moreover have "stopped_early cx ls"
    by (auto simp: stopped_early_def ls_def rounds cancel_token_set_def cx_def run_is_cancelled_def)
  ultimately have "concluded rt cfg t o' cx ls"
    using assms(2) build_goal_evaluator_None[OF ev] by (auto simp: concluded_def cx_def)
  then show ?thesis using fin by blast
qed

lemma run_concluded:
  assumes "run_synaptic_loop rt t cfg adapters o' w = (Some (Inr rep), w')"
  obtains cx ls w1 where "conclude cx ls w1 = (Inr rep, w')"
    "concluded rt cfg t (apply_builtin_verifier rt o' t cfg (w_fs w)) cx ls"
proof -
  let ?o = "apply_builtin_verifier rt o' t cfg (w_fs w)" and ?orch = "cf_orchestration cfg"
  obtain sel where sel: "select_profile (rt_glob rt) cfg t = Inr sel"
    using assms by (cases "select_profile (rt_glob rt) cfg t") (simp_all add: run_synaptic_loop_def res_map_err_def)
  note run = assms[unfolded run_synaptic_loop_def Let_def sel res_map_err_def sum.case]
  obtain lead where lead: "find_adapter adapters (ps_lead sel) = Inr lead"
    using run by (cases "find_adapter adapters (ps_lead sel)") simp_all
  obtain reviewer where reviewer: "find_adapter adapters (ps_reviewer sel) = Inr reviewer"
    using run lead by (cases "find_adapter adapters (ps_reviewer sel)") simp_all
  show thesis
  proof (cases "or_default_strategy ?orch = Tournament")
    case True
    then have "run_tournament_strategy rt t ?orch sel lead reviewer ?o w = (Some (Inr rep), w')"
      using run lead reviewer by simp
    then show thesis using run_tournament_concluded sel that by blast
  next
    case False
    then have "run_consensus rt t ?orch sel lead reviewer ?o w = (Some (Inr rep), w')"
      using run lead reviewer by simp
    then show thesis using run_consensus_concluded sel that by blast
  qed
qed

text \<open>The fields of a report.\<close>

lemma conclude_Inr:
  assumes "conclude cx ls w = (Inr rep, w')"
  obtains allow classification where
    "apply_classifier_decision (rt_text_diff (cx_rt cx)) (rt_glob (cx_rt cx))
       (apply_consented (cx_options cx) w \<and> \<not> run_blocked cx ls) (rr_final_patch rep)
       (or_apply_classifier (cx_orch cx)) = (allow, classification)"
    "apply_final_patch (rt_digest (cx_rt cx)) (rt_worktree (cx_rt cx)) (cx_task cx) (rr_final_patch rep) allow
       (resolve_worktree_apply (cx_options cx) (cx_orch cx)) w = (Inr (rr_applied rep), w')"
    "select_final_patch (rt_digest (cx_rt cx)) (rt_git (cx_rt cx)) (rt_uuid (cx_rt cx)) (ls_lead_output ls)
       (ls_feedback ls) (or_conflict_policy (cx_orch cx)) = Inr (rr_final_patch rep)"
    "rr_rounds rep = sy_rounds (ls_synapse ls)" "rr_final_output rep = ls_lead_output ls"
    "rr_final_feedback rep = ls_feedback ls" "rr_usage rep = ls_usage ls"
    "rr_budget_exceeded rep = ls_budget_exceeded ls" "rr_no_progress_exceeded rep = ls_np_exceeded ls"
    "rr_crossfire_halted rep = ls_halted ls" "rr_cancelled rep = ls_cancelled ls"
    "rr_goal_satisfied rep = run_goal_satisfied cx ls" "rr_blocked rep = run_blocked cx ls"
    "rr_selection rep = cx_sel cx" "rr_apply_classification rep = classification"
  using assms
  by (auto simp: conclude_def Let_def result_simps split: sum.splits prod.splits)

lemma classifier_monotone:
  "apply_classifier_decision td glob want patch cfg = (allow, c) \<Longrightarrow> allow \<Longrightarrow>
     want \<and> (enforces (ac_mode cfg) \<longrightarrow> (\<exists>x. c = Some x \<and> \<not> is_high x))"
  by (auto simp: apply_classifier_decision_def Let_def is_high_def enforces_def classifies_def
      split: if_splits apply_classifier_mode.splits)

lemma apply_final_patch_applied:
  "apply_final_patch digest wt t p allow use_wt w = (Inr True, w') \<Longrightarrow> allow \<and> p \<noteq> None"
  by (auto simp: apply_final_patch_def split: if_splits option.splits)

section \<open>Applied runs\<close>

text \<open>What has been applied is the output of the last recorded round, reviewed and checked there.\<close>

definition last_round_is :: "run_report \<Rightarrow> round_record \<Rightarrow> bool" where
  "last_round_is rep r =
     ((\<exists>rs. rr_rounds rep = rs @ [r]) \<and> rd_lead r = rr_final_output rep \<and> rd_reviewer r = rr_final_feedback rep)"

lemma concluded_last_round:
  assumes "concluded rt cfg t o' cx ls" and "conclude cx ls w1 = (Inr rep, w')"
    and "\<not> ls_budget_exceeded ls" "no_flags ls"
  obtains r where "last_round_is rep r" "rd_check r = ls_last_check ls" "ls_last_check ls \<noteq> None"
    "op_goal o' \<noteq> None \<longrightarrow> ls_last_check ls \<noteq> Some CheckSkipped"
proof -
  obtain rs r where "sy_rounds (ls_synapse ls) = rs @ [r]" "speaks_of cx ls r"
    using assms(1,3,4) by (auto simp: concluded_def decided_def)
  moreover have "rr_rounds rep = sy_rounds (ls_synapse ls)" "rr_final_output rep = ls_lead_output ls"
      "rr_final_feedback rep = ls_feedback ls"
    by (rule conclude_Inr[OF assms(2)], blast)+
  ultimately show thesis
    using assms(1) by (intro that[of r]) (auto simp: last_round_is_def speaks_of_def concluded_def)
qed

lemma applied_unblocked:
  assumes "conclude cx ls w = (Inr rep, w')" and "rr_applied rep"
  shows "\<not> run_blocked cx ls"
  by (rule conclude_Inr[OF assms(1)])
    (use assms(2) in \<open>auto dest!: apply_final_patch_applied dest: classifier_monotone\<close>)




section \<open>Satisfied goals\<close>

text \<open>C12. A satisfied goal was verified, never skipped: the last round passed the check and its review
  accepts under the profile's strictness. It is also the first round that did both.\<close>

theorem run_goal_satisfied_sound:
  assumes "run_synaptic_loop rt t cfg adapters o' w = (Some (Inr rep), w')" and "rr_goal_satisfied rep = Some True"
  shows "\<exists>r. last_round_is rep r \<and> rd_check r = Some CheckPass \<and>
     accepts_under (rf_verdict (rd_reviewer r)) (permits_nits (ps_strictness (rr_selection rep))) \<and>
     (\<forall>r' \<in> set (butlast (rr_rounds rep)).
        \<not> (rd_check r' = Some CheckPass \<and> accepts_under (rf_verdict (rd_reviewer r')) (permits_nits (ps_strictness (rr_selection rep)))))"
proof -
  let ?o = "apply_builtin_verifier rt o' t cfg (w_fs w)"
  obtain cx ls w1 where fin: "conclude cx ls w1 = (Inr rep, w')" and con: "concluded rt cfg t ?o cx ls"
    using run_concluded[OF assms(1)] .
  have rep: "rr_goal_satisfied rep = run_goal_satisfied cx ls" "rr_final_feedback rep = ls_feedback ls"
      "rr_selection rep = cx_sel cx" "rr_rounds rep = sy_rounds (ls_synapse ls)"
    by (rule conclude_Inr[OF fin], blast)+
  have g: "op_goal ?o \<noteq> None" "no_flags ls" "\<not> ls_budget_exceeded ls"
      "accepts_under (rf_verdict (ls_feedback ls)) (permits_nits (ps_strictness (cx_sel cx)))"
      "ls_last_check ls \<in> {Some CheckPass, Some CheckSkipped}"
    using assms(2) con rep(1)
    by (auto simp: run_goal_satisfied_def no_flags_def concluded_def split: option.splits check_result.splits)
  obtain r where r: "last_round_is rep r" "rd_check r = ls_last_check ls" "ls_last_check ls \<noteq> Some CheckSkipped"
    using concluded_last_round[OF con fin g(3,2)] g(1) by blast
  have "\<not> (rd_check r' = Some CheckPass \<and> accepts_under (rf_verdict (rd_reviewer r')) (permits_nits (ps_strictness (rr_selection rep))))"
    if "r' \<in> set (butlast (rr_rounds rep))" for r'
  proof -
    have "\<not> terminal_round cx r'" using con that rep(4) by (auto simp: concluded_def decided_def)
    then show ?thesis
      using rep(3) by (auto simp: terminal_round_def is_terminal_def accepts_under_def is_pass_def split: verdict.splits)
  qed
  then show ?thesis using r g(4,5) rep(2,3) by (auto simp: last_round_is_def)
qed

theorem run_goal_satisfied_sound_witness:
  "\<exists>rep r. rr_goal_satisfied rep = Some True \<and> last_round_is rep r \<and> rd_check r = Some CheckPass"
proof -
  obtain rep w where "run_synaptic_loop demo_runtime demo_task demo_config [demo_lead, demo_reviewer] demo_options demo_world =
      (Some (Inr rep), w)" and "rr_goal_satisfied rep = Some True"
    using demo_run by blast
  from run_goal_satisfied_sound[OF this] this(2) show ?thesis by blast
qed

section \<open>Bounds, budget and ledger\<close>

lemma validated_rounds:
  assumes "config_validate cfg = Inr ()" and "select_profile glob cfg t = Inr sel"
  shows "ps_max_rounds sel \<le> 5"
proof -
  have orch: "or_max_refinement_rounds (cf_orchestration cfg) \<le> 5"
    using assms(1) by (auto simp: config_validate_def orchestration_validate_def result_simps split: if_splits)
  have each: "\<forall>p \<in> set (cf_profiles cfg). profile_validate p = Inr ()"
    using assms(1) by (auto simp: config_validate_def result_simps split: if_splits)
  have "ps_max_rounds sel \<le> 5"
    if "select_among glob cfg t ps = Inr sel" "set ps \<subseteq> set (cf_profiles cfg)" for ps
    using that
  proof (induction ps)
    case Nil
    then show ?case using orch by (auto simp: default_selection_def)
  next
    case (Cons p ps)
    have "profile_validate p = Inr ()" using each Cons(3) by simp
    then have "case pf_max_rounds p of Some n \<Rightarrow> n \<le> 5 | None \<Rightarrow> True"
      by (auto simp: profile_validate_def result_simps split: if_splits option.splits)
    then have "ps_max_rounds (selection_of cfg p) \<le> 5" using orch by (auto simp: selection_of_def split: option.splits)
    then show ?case using Cons by (auto simp: result_simps split: if_splits)
  qed
  then show ?thesis using assms(2) by (simp add: select_profile_def)
qed

text \<open>C13. Under a validated configuration a run records at most six rounds, numbered from 0 without a gap,
  and never more than the profile's limit plus one.\<close>

theorem run_rounds_bounded:
  assumes "config_validate cfg = Inr ()" and "run_synaptic_loop rt t cfg adapters o' w = (Some (Inr rep), w')"
  shows "\<exists>n. n \<le> Suc (unat (ps_max_rounds (rr_selection rep))) \<and> n \<le> 6 \<and> map rd_round (rr_rounds rep) = map of_nat [0..<n]"
proof -
  obtain cx ls w1 where fin: "conclude cx ls w1 = (Inr rep, w')"
    and con: "concluded rt cfg t (apply_builtin_verifier rt o' t cfg (w_fs w)) cx ls"
    using run_concluded[OF assms(2)] .
  have rep: "rr_rounds rep = sy_rounds (ls_synapse ls)" "rr_selection rep = cx_sel cx"
    by (rule conclude_Inr[OF fin], blast)+
  have sel: "unat (cx_max_rounds cx) \<le> unat (ps_max_rounds (cx_sel cx))" "unat (ps_max_rounds (cx_sel cx)) \<le> 5"
    using con validated_rounds[OF assms(1)] by (auto simp: concluded_def word_le_nat_alt)
  obtain n where "n \<le> Suc (unat (cx_max_rounds cx))" "numbered n ls" using con by (auto simp: concluded_def)
  then show ?thesis using sel rep by (intro exI[of _ n]) (simp add: numbered_def)
qed

theorem run_rounds_bounded_witness:
  "\<exists>(rep :: run_report) n. n \<le> (6 :: nat) \<and> map rd_round (rr_rounds rep) = map of_nat [0..<n] \<and> rr_applied rep"
proof -
  obtain rep w where run: "run_synaptic_loop demo_runtime demo_task demo_config [demo_lead, demo_reviewer] demo_options demo_world =
      (Some (Inr rep), w)" and "rr_applied rep"
    using demo_run by blast
  from run_rounds_bounded[OF demo_valid run] show ?thesis using \<open>rr_applied rep\<close> by blast
qed

lemma run_budget_flag:
  assumes "run_synaptic_loop rt t cfg adapters o' w = (Some (Inr rep), w')"
  shows "rr_budget_exceeded rep = exceeds_budget (rr_usage rep) (cf_orchestration cfg)"
proof -
  obtain cx ls w1 where fin: "conclude cx ls w1 = (Inr rep, w')"
    and con: "concluded rt cfg t (apply_builtin_verifier rt o' t cfg (w_fs w)) cx ls"
    using run_concluded[OF assms] .
  have "rr_usage rep = ls_usage ls" "rr_budget_exceeded rep = ls_budget_exceeded ls"
    by (rule conclude_Inr[OF fin], blast)+
  then show ?thesis using con by (simp add: concluded_def budget_flag_def)
qed

text \<open>C14. The budget flag of a report says exactly whether the usage it reports exceeds the limits, and a run
  over its budget is blocked, is not applied and does not satisfy its goal.\<close>

theorem run_budget_respected:
  assumes "run_synaptic_loop rt t cfg adapters o' w = (Some (Inr rep), w')"
  shows "rr_budget_exceeded rep = exceeds_budget (rr_usage rep) (cf_orchestration cfg) \<and>
     (rr_budget_exceeded rep \<longrightarrow> rr_blocked rep \<and> \<not> rr_applied rep \<and> rr_goal_satisfied rep \<noteq> Some True)"
proof -
  obtain cx ls w1 where fin: "conclude cx ls w1 = (Inr rep, w')"
    and "concluded rt cfg t (apply_builtin_verifier rt o' t cfg (w_fs w)) cx ls"
    using run_concluded[OF assms] .
  have rep: "rr_budget_exceeded rep = ls_budget_exceeded ls" "rr_blocked rep = run_blocked cx ls"
      "rr_goal_satisfied rep = run_goal_satisfied cx ls"
    by (rule conclude_Inr[OF fin], blast)+
  moreover have "run_blocked cx ls" "run_goal_satisfied cx ls \<noteq> Some True" if "ls_budget_exceeded ls"
    using that by (auto simp: run_blocked_def run_goal_satisfied_def)
  ultimately show ?thesis using applied_unblocked[OF fin] run_budget_flag[OF assms] by auto
qed

theorem run_budget_respected_witness:
  "\<exists>rep :: run_report. rr_applied rep \<and> \<not> exceeds_budget (rr_usage rep) demo_orchestration"
proof -
  obtain rep w where run: "run_synaptic_loop demo_runtime demo_task demo_config [demo_lead, demo_reviewer] demo_options demo_world =
      (Some (Inr rep), w)" and "rr_applied rep"
    using demo_run by blast
  then show ?thesis using run_budget_respected[OF run] demo_config_simps(1) by (intro exI[of _ rep]) auto
qed

section \<open>Cancellation\<close>

text \<open>C16. A run whose cancel token is set throughout records at most one round, and either it stopped on its
  budget, or it reports the cancellation, or that one round was accepted at once.\<close>

theorem run_cancelled_early:
  assumes "run_synaptic_loop rt t cfg adapters o' w = (Some (Inr rep), w')"
    and "op_cancel_token o' = Some tok" "\<forall>v. tok v"
  shows "length (rr_rounds rep) \<le> 1 \<and>
     (rr_budget_exceeded rep \<or> rr_cancelled rep \<or>
      (\<exists>r c. rr_rounds rep = [r] \<and> rd_check r = Some c \<and>
         is_terminal (rf_verdict (rd_reviewer r)) (ps_strictness (rr_selection rep)) c)) \<and>
     (rr_cancelled rep \<longrightarrow> \<not> rr_applied rep)"
proof -
  let ?o = "apply_builtin_verifier rt o' t cfg (w_fs w)"
  have tok: "op_cancel_token ?o = op_cancel_token o'"
    by (simp add: apply_builtin_verifier_def Let_def split: option.splits)
  obtain cx ls w1 where fin: "conclude cx ls w1 = (Inr rep, w')" and con: "concluded rt cfg t ?o cx ls"
    using run_concluded[OF assms(1)] .
  have rep: "rr_rounds rep = sy_rounds (ls_synapse ls)" "rr_budget_exceeded rep = ls_budget_exceeded ls"
      "rr_cancelled rep = ls_cancelled ls" "rr_selection rep = cx_sel cx"
    by (rule conclude_Inr[OF fin], blast)+
  have "\<not> rr_applied rep" if "ls_cancelled ls"
    using applied_unblocked[OF fin] that by (auto simp: run_blocked_def)
  moreover have "cancel_token_set cx" using con tok assms(2,3) by (simp add: cancel_token_set_def concluded_def)
  moreover have "stopped_early cx ls" using con by (simp add: concluded_def)
  ultimately show ?thesis
    unfolding rep by (auto simp: stopped_early_def terminal_round_def split: option.splits)
qed

theorem run_cancelled_early_witness:
  "\<exists>rep :: run_report. length (rr_rounds rep) \<le> 1 \<and> rr_cancelled rep \<and> \<not> rr_applied rep"
proof -
  obtain rep w where run: "run_synaptic_loop demo_runtime demo_task demo_config [demo_lead, demo_reviewer]
      (demo_options\<lparr>op_cancel_token := Some (\<lambda>_. True)\<rparr>) demo_world = (Some (Inr rep), w)" and "rr_cancelled rep"
    using demo_cancelled_run by blast
  from run_cancelled_early[OF run, of "\<lambda>_. True"] this(2) show ?thesis by auto
qed

section \<open>The ledger\<close>



section \<open>Termination\<close>






end
