(* ===== verification/MayorQueue.thy ===== *)
theory MayorQueue
  imports GoalCheck "HOL-Library.AList" "HOL-Library.Char_ord" "HOL-Library.List_Lexorder"
begin

text \<open>
  The multi-instance orchestrator, from \<^verbatim>\<open>crates/nerve-core/src/mayor_patrol.rs\<close>: the Mayor's
  queue on disk, the Patrols that claim from it and work, orphan recovery, and the coordination
  ledger and mailbox beside the queue.

  A directory of the queue is the list of its files, in the order in which \<^verbatim>\<open>read_dir\<close> gives them;
  the per-patrol directories below \<^verbatim>\<open>claimed\<close> and \<^verbatim>\<open>mailbox\<close> are one list keyed by directory and
  file name, so that creating or removing an empty directory changes nothing. The content of a file
  is the value whose JSON it holds, or a text that parses as none. Times are in seconds. Disk
  errors other than a missing file are not modelled; a lock may be unavailable until its deadline.
\<close>

section \<open>Data\<close>

record queue_task =
  qt_task_id :: string
  qt_prompt :: string
  qt_budget :: u64
  qt_mcp_servers :: "string list"
  qt_created_at :: "timestamp option"

datatype patrol_verdict = PatrolSuccess | PatrolFailed | PatrolSkipped

record queue_result =
  qr_task_id :: string
  qr_patrol_id :: string
  qr_verdict :: patrol_verdict
  qr_cost :: u64
  qr_patch_sha :: "string option"
  qr_error :: "string option"
  qr_finished_at :: "timestamp option"

definition result_failed :: "timestamp \<Rightarrow> string \<Rightarrow> string \<Rightarrow> u64 \<Rightarrow> string \<Rightarrow> queue_result" where
  "result_failed now i patrol cost err =
     \<lparr>qr_task_id = i, qr_patrol_id = patrol, qr_verdict = PatrolFailed, qr_cost = cost, qr_patch_sha = None,
      qr_error = Some err, qr_finished_at = Some now\<rparr>"

definition result_success :: "timestamp \<Rightarrow> string \<Rightarrow> string \<Rightarrow> u64 \<Rightarrow> queue_result" where
  "result_success now i patrol cost =
     \<lparr>qr_task_id = i, qr_patrol_id = patrol, qr_verdict = PatrolSuccess, qr_cost = cost, qr_patch_sha = None,
      qr_error = None, qr_finished_at = Some now\<rparr>"

record queue_status =
  qs_pending_count :: nat
  qs_claimed_count :: nat
  qs_done_count :: nat
  qs_failed_count :: nat
  qs_active_patrols :: "string list"
  qs_orphans_recovered :: nat

datatype mayor_error =
  MayorIo string
| QueueEmpty
| ClaimFailed string
| LockTimeout
| TaskAlreadyExists string
| BudgetCeilingExceeded string u64 u64
| InvalidIdentifier string
| OrphanRecovered string
| MayorSerde string

fun mayor_error_text :: "mayor_error \<Rightarrow> string" where
  "mayor_error_text (MayorIo e) = ''io: '' @ e"
| "mayor_error_text QueueEmpty = ''queue empty''"
| "mayor_error_text (ClaimFailed e) = ''claim failed: '' @ e"
| "mayor_error_text LockTimeout = ''lock timeout''"
| "mayor_error_text (TaskAlreadyExists i) = ''task already exists: '' @ i"
| "mayor_error_text (BudgetCeilingExceeded i b c) =
     ''budget ceiling exceeded for patrol '' @ i @ '': requested '' @ show_nat (unat b) @ '' > ceiling '' @ show_nat (unat c)"
| "mayor_error_text (InvalidIdentifier k) = ''invalid '' @ k @ '': must be 1..=128 chars of [A-Za-z0-9_-]''"
| "mayor_error_text (OrphanRecovered e) = ''orphaned claim recovered: '' @ e"
| "mayor_error_text (MayorSerde e) = ''serde: '' @ e"

datatype ledger_phase = LedgerPending | LedgerClaimed | LedgerDone | LedgerFailed

record ledger_entry =
  le_task_id :: string
  le_state :: ledger_phase
  le_owner :: "string option"
  le_created_at :: "timestamp option"
  le_claimed_at :: "timestamp option"
  le_finished_at :: "timestamp option"
  le_cost :: "u64 option"
  le_verdict :: "patrol_verdict option"

definition ledger_entry_pending :: "string \<Rightarrow> ledger_entry" where
  "ledger_entry_pending i =
     \<lparr>le_task_id = i, le_state = LedgerPending, le_owner = None, le_created_at = None, le_claimed_at = None,
      le_finished_at = None, le_cost = None, le_verdict = None\<rparr>"

record ledger =
  lg_version :: nat
  lg_entries :: "string \<rightharpoonup> ledger_entry"

definition ledger_version :: nat where "ledger_version = 1"

datatype mail_kind = MailNote | MailProgress | MailReclaimed

record mail_message =
  mm_id :: string
  mm_from :: string
  mm_to :: string
  mm_kind :: mail_kind
  mm_body :: string
  mm_created_at :: "timestamp option"

datatype file_content =
  TaskFile queue_task
| ResultFile queue_result
| LedgerFile ledger
| MailFile mail_message
| RawFile string

type_synonym dir = "(string \<times> file_content) list"

text \<open>What is below the queue root and the results directory, and the envelopes sent on the bus.\<close>

record queue =
  q_pending :: dir
  q_claimed :: "((string \<times> string) \<times> file_content) list"
  q_done :: dir
  q_failed :: dir
  q_results :: dir
  q_heartbeat :: "(string \<times> timestamp) list"
  q_ledger :: "file_content option"
  q_mailbox :: "((string \<times> string) \<times> file_content) list"
  q_rpc :: "(string \<times> json) list"

definition empty_queue :: queue where
  "empty_queue =
     \<lparr>q_pending = [], q_claimed = [], q_done = [], q_failed = [], q_results = [], q_heartbeat = [],
      q_ledger = None, q_mailbox = [], q_rpc = []\<rparr>"

text \<open>What an operation finds when it runs: its configuration, the clock, whether the locks can be had,
  whether a bus is attached, and the Mayor's budget.\<close>

record mayor_env =
  me_config :: mayor_patrol_config
  me_total_budget :: "u64 option"
  me_now :: timestamp
  me_mayor_lock :: bool
  me_ledger_lock :: bool
  me_rpc :: bool

section \<open>Names\<close>

definition id_char :: "char \<Rightarrow> bool" where
  "id_char c =
     (let n = (of_char c :: nat) in
      48 \<le> n \<and> n \<le> 57 \<or> 65 \<le> n \<and> n \<le> 90 \<or> 97 \<le> n \<and> n \<le> 122 \<or> n = 45 \<or> n = 95)"

definition is_valid_queue_id :: "string \<Rightarrow> bool" where
  "is_valid_queue_id i = (i \<noteq> [] \<and> length i \<le> 128 \<and> list_all id_char i)"

definition validate_file_component :: "string \<Rightarrow> string \<Rightarrow> mayor_error + unit" where
  "validate_file_component kind v = (if is_valid_queue_id v then Inr () else Inl (InvalidIdentifier kind))"

text \<open>\<^verbatim>\<open>Path::file_stem\<close> and \<^verbatim>\<open>extension\<close> of a plain file name.\<close>

definition split_ext :: "string \<Rightarrow> string \<times> string option" where
  "split_ext n =
     (let ext = takeWhile (\<lambda>c. c \<noteq> CHR ''.'') (rev n); stem = rev (drop (Suc (length ext)) (rev n))
      in if length ext = length n \<or> stem = [] then (n, None) else (stem, Some (rev ext)))"

definition is_json :: "string \<Rightarrow> bool" where
  "is_json n = (snd (split_ext n) = Some ''json'')"

definition json_name :: "string \<Rightarrow> string" where
  "json_name i = i @ ''.json''"

text \<open>\<^verbatim>\<open>trim_end_matches(".json")\<close>, on the reversed name.\<close>

fun trim_json_rev :: "string \<Rightarrow> string" where
  "trim_json_rev (a # b # c # d # e # r) =
     (if [a, b, c, d, e] = ''nosj.'' then trim_json_rev r else a # b # c # d # e # r)"
| "trim_json_rev r = r"

definition trim_json :: "string \<Rightarrow> string" where
  "trim_json n = rev (trim_json_rev (rev n))"

section \<open>Directories\<close>

definition count_json_files :: "dir \<Rightarrow> nat" where
  "count_json_files d = length (filter (\<lambda>(n, _). is_json n) d)"

definition count_claimed_recursive :: "((string \<times> string) \<times> file_content) list \<Rightarrow> nat" where
  "count_claimed_recursive d = length (filter (\<lambda>((_, n), _). is_json n) d)"

definition sorted_json_filenames :: "string list \<Rightarrow> string list" where
  "sorted_json_filenames ns = sort (remdups (filter valid_utf8 (filter is_json ns)))"

definition list_heartbeats :: "(string \<times> timestamp) list \<Rightarrow> string list" where
  "list_heartbeats d = sort (filter valid_utf8 (map fst d))"

definition task_exists_anywhere :: "queue \<Rightarrow> string \<Rightarrow> bool" where
  "task_exists_anywhere q i =
     (let n = json_name i in
      map_of (q_pending q) n \<noteq> None \<or> map_of (q_done q) n \<noteq> None \<or> map_of (q_failed q) n \<noteq> None \<or>
      map_of (q_results q) n \<noteq> None \<or> list_ex (\<lambda>((_, m), _). m = n) (q_claimed q))"

text \<open>The names of the directories below one keyed by directory and file.\<close>

definition subdirs :: "((string \<times> string) \<times> file_content) list \<Rightarrow> string list" where
  "subdirs d = remdups (map (fst \<circ> fst) d)"

definition entries_of :: "string \<Rightarrow> ((string \<times> string) \<times> file_content) list \<Rightarrow> dir" where
  "entries_of p d = map (\<lambda>((_, n), c). (n, c)) (filter (\<lambda>((x, _), _). x = p) d)"

text \<open>\<^verbatim>\<open>read_json\<close> at the type asked for.\<close>

fun read_task :: "file_content \<Rightarrow> mayor_error + queue_task" where
  "read_task (TaskFile t) = Inr t"
| "read_task _ = Inl (MayorSerde ''not a task'')"

fun read_ledger :: "file_content \<Rightarrow> mayor_error + ledger" where
  "read_ledger (LedgerFile l) = Inr l"
| "read_ledger _ = Inl (MayorSerde ''not a ledger'')"

fun read_mail :: "file_content \<Rightarrow> mail_message option" where
  "read_mail (MailFile msg) = Some msg"
| "read_mail _ = None"

fun read_result_file :: "file_content \<Rightarrow> queue_result option" where
  "read_result_file (ResultFile r) = Some r"
| "read_result_file _ = None"

definition emit :: "mayor_env \<Rightarrow> string \<Rightarrow> json \<Rightarrow> queue \<Rightarrow> queue" where
  "emit env kind payload q = (if me_rpc env then q\<lparr>q_rpc := q_rpc q @ [(kind, payload)]\<rparr> else q)"

definition jnat :: "nat \<Rightarrow> json" where "jnat n = JNum (show_nat n)"

section \<open>The coordination ledger and the mailbox\<close>

fun terminal_state :: "patrol_verdict \<Rightarrow> ledger_phase" where
  "terminal_state PatrolSuccess = LedgerDone"
| "terminal_state PatrolSkipped = LedgerDone"
| "terminal_state PatrolFailed = LedgerFailed"

definition coord_ledger :: "queue \<Rightarrow> mayor_error + ledger" where
  "coord_ledger q =
     (case q_ledger q of None \<Rightarrow> Inr \<lparr>lg_version = ledger_version, lg_entries = Map.empty\<rparr> | Some c \<Rightarrow> read_ledger c)"

definition mutate_ledger :: "mayor_env \<Rightarrow> (ledger \<Rightarrow> ledger) \<Rightarrow> (queue, mayor_error, unit) step" where
  "mutate_ledger env f q =
     (if \<not> mp_coordination_enabled (me_config env) then (Inr (), q)
      else if \<not> me_ledger_lock env then (Inl LockTimeout, q)
      else (case coord_ledger q of
          Inl e \<Rightarrow> (Inl e, q)
        | Inr l \<Rightarrow> (Inr (), q\<lparr>q_ledger := Some (LedgerFile ((f l)\<lparr>lg_version := ledger_version\<rparr>))\<rparr>)))"

text \<open>\<^verbatim>\<open>entry(id).or_insert_with(pending)\<close>, updated in place.\<close>

definition update_entry :: "string \<Rightarrow> (ledger_entry \<Rightarrow> ledger_entry) \<Rightarrow> ledger \<Rightarrow> ledger" where
  "update_entry i f l =
     l\<lparr>lg_entries := (lg_entries l)(i \<mapsto>
        f (case lg_entries l i of Some e \<Rightarrow> e | None \<Rightarrow> ledger_entry_pending i))\<rparr>"

definition checked_step :: "(mayor_error + unit) \<Rightarrow> (queue, mayor_error, unit) step \<Rightarrow> (queue, mayor_error, unit) step" where
  "checked_step v m q = (case v of Inl e \<Rightarrow> (Inl e, q) | Inr _ \<Rightarrow> m q)"

definition record_enqueued :: "mayor_env \<Rightarrow> string \<Rightarrow> timestamp option \<Rightarrow> (queue, mayor_error, unit) step" where
  "record_enqueued env i created =
     checked_step (validate_file_component ''ledger task_id'' i)
       (mutate_ledger env (update_entry i (\<lambda>e.
          e\<lparr>le_state := LedgerPending, le_owner := None, le_claimed_at := None,
            le_created_at := (if le_created_at e = None
              then (case created of Some t \<Rightarrow> Some t | None \<Rightarrow> Some (me_now env)) else le_created_at e)\<rparr>)))"

definition record_claimed :: "mayor_env \<Rightarrow> string \<Rightarrow> string \<Rightarrow> (queue, mayor_error, unit) step" where
  "record_claimed env i patrol =
     checked_step (validate_file_component ''ledger task_id'' i)
     (checked_step (validate_file_component ''ledger patrol_id'' patrol)
       (mutate_ledger env (update_entry i (\<lambda>e.
          e\<lparr>le_state := LedgerClaimed, le_owner := Some patrol, le_claimed_at := Some (me_now env)\<rparr>))))"

definition record_finished :: "mayor_env \<Rightarrow> string \<Rightarrow> patrol_verdict \<Rightarrow> u64 \<Rightarrow> (queue, mayor_error, unit) step" where
  "record_finished env i v cost =
     checked_step (validate_file_component ''ledger task_id'' i)
       (mutate_ledger env (update_entry i (\<lambda>e.
          e\<lparr>le_state := terminal_state v, le_verdict := Some v, le_cost := Some cost,
            le_finished_at := Some (me_now env)\<rparr>)))"

definition record_recovered :: "mayor_env \<Rightarrow> string \<Rightarrow> (queue, mayor_error, unit) step" where
  "record_recovered env i =
     checked_step (validate_file_component ''ledger task_id'' i)
       (mutate_ledger env (update_entry i (\<lambda>e.
          e\<lparr>le_state := LedgerPending, le_owner := None, le_claimed_at := None\<rparr>)))"

text \<open>The callers only warn when a ledger or mailbox operation fails.\<close>

definition best_effort :: "(queue, mayor_error, unit) step \<Rightarrow> queue \<Rightarrow> queue" where
  "best_effort m q = snd (m q)"

definition send_mail :: "mayor_env \<Rightarrow> mail_message \<Rightarrow> (queue, mayor_error, unit) step" where
  "send_mail env msg q =
     (if \<not> mp_coordination_enabled (me_config env) then (Inr (), q)
      else checked_step (validate_file_component ''mail recipient'' (mm_to msg))
          (checked_step (validate_file_component ''mail sender'' (mm_from msg))
          (checked_step (validate_file_component ''mail id'' (mm_id msg))
             (\<lambda>q. (Inr (), q\<lparr>q_mailbox :=
                AList.update (mm_to msg, json_name (mm_id msg)) (MailFile msg) (q_mailbox q)\<rparr>)))) q)"

fun drain_names :: "string \<Rightarrow> string list \<Rightarrow> ((string \<times> string) \<times> file_content) list \<Rightarrow>
    mail_message list \<times> ((string \<times> string) \<times> file_content) list" where
  "drain_names rcpt [] box = ([], box)"
| "drain_names rcpt (n # ns) box =
     (case Option.bind (map_of box (rcpt, n)) read_mail of
        None \<Rightarrow> drain_names rcpt ns box
      | Some msg \<Rightarrow>
          (case drain_names rcpt ns (AList.delete (rcpt, n) box) of (msgs, box') \<Rightarrow> (msg # msgs, box')))"

definition drain_mail :: "mayor_env \<Rightarrow> string \<Rightarrow> (queue, mayor_error, mail_message list) step" where
  "drain_mail env rcpt q =
     (if \<not> mp_coordination_enabled (me_config env) then (Inr [], q)
      else (case validate_file_component ''mail recipient'' rcpt of
          Inl e \<Rightarrow> (Inl e, q)
        | Inr _ \<Rightarrow>
            (case drain_names rcpt (sorted_json_filenames (map fst (entries_of rcpt (q_mailbox q)))) (q_mailbox q) of
               (msgs, box) \<Rightarrow> (Inr msgs, q\<lparr>q_mailbox := box\<rparr>))))"

text \<open>Rebuilding the ledger from the directories.\<close>

definition read_task_ids :: "dir \<Rightarrow> (string \<times> timestamp option) list" where
  "read_task_ids d =
     map (\<lambda>(n, c). (fst (split_ext n), case read_task c of Inr t \<Rightarrow> qt_created_at t | Inl _ \<Rightarrow> None))
       (filter (\<lambda>(n, _). is_json n \<and> is_valid_queue_id (fst (split_ext n))) d)"

definition scan_live :: "ledger_phase \<Rightarrow> string option \<Rightarrow> dir \<Rightarrow> (string \<times> ledger_entry) list" where
  "scan_live ph owner d =
     map (\<lambda>(i, created). (i, (ledger_entry_pending i)\<lparr>le_state := ph, le_owner := owner, le_created_at := created\<rparr>))
       (read_task_ids d)"

definition read_result :: "queue \<Rightarrow> string \<Rightarrow> queue_result option" where
  "read_result q i = Option.bind (map_of (q_results q) (json_name i)) read_result_file"

definition scan_terminal :: "queue \<Rightarrow> ledger_phase \<Rightarrow> dir \<Rightarrow> (string \<times> ledger_entry) list" where
  "scan_terminal q ph d =
     map (\<lambda>(i, created).
        (let result = (case read_result q i of
               Some r \<Rightarrow> if terminal_state (qr_verdict r) = ph then Some r else None | None \<Rightarrow> None)
         in (i, \<lparr>le_task_id = i, le_state = ph, le_owner = map_option qr_patrol_id result, le_created_at = created,
                 le_claimed_at = None, le_finished_at = Option.bind result qr_finished_at,
                 le_cost = map_option qr_cost result, le_verdict = map_option qr_verdict result\<rparr>)))
       (read_task_ids d)"

definition scan_queue_dirs :: "queue \<Rightarrow> ledger" where
  "scan_queue_dirs q =
     \<lparr>lg_version = ledger_version,
      lg_entries = map_of (rev
        (scan_live LedgerPending None (q_pending q) @
         concat (map (\<lambda>p. scan_live LedgerClaimed (Some (from_utf8_lossy p)) (entries_of p (q_claimed q))) (subdirs (q_claimed q))) @
         scan_terminal q LedgerDone (q_done q) @ scan_terminal q LedgerFailed (q_failed q)))\<rparr>"

definition reconcile :: "mayor_env \<Rightarrow> (queue, mayor_error, ledger) step" where
  "reconcile env q =
     (if \<not> mp_coordination_enabled (me_config env) then (coord_ledger q, q)
      else if \<not> me_ledger_lock env then (Inl LockTimeout, q)
      else (let l = scan_queue_dirs q in (Inr l, q\<lparr>q_ledger := Some (LedgerFile l)\<rparr>)))"

section \<open>The Mayor\<close>

definition enqueue :: "mayor_env \<Rightarrow> queue_task \<Rightarrow> (queue, mayor_error, unit) step" where
  "enqueue env t q =
     (case validate_file_component ''task_id'' (qt_task_id t) of
        Inl e \<Rightarrow> (Inl e, q)
      | Inr _ \<Rightarrow>
          if (case me_total_budget env of Some cap \<Rightarrow> qt_budget t > cap | None \<Rightarrow> False)
          then (Inl (BudgetCeilingExceeded (qt_task_id t) (qt_budget t) (the (me_total_budget env))), q)
          else if task_exists_anywhere q (qt_task_id t) then (Inl (TaskAlreadyExists (qt_task_id t)), q)
          else
            (let q1 = q\<lparr>q_pending := AList.update (json_name (qt_task_id t)) (TaskFile t) (q_pending q)\<rparr>;
                 q2 = best_effort (record_enqueued env (qt_task_id t) (qt_created_at t)) q1
             in (Inr (), emit env ''mayor.dispatched''
                  (JObj [(''task_id'', JStr (qt_task_id t)), (''budget_microusd'', jnat (unat (qt_budget t)))]) q2)))"

definition patrol_alive :: "mayor_env \<Rightarrow> queue \<Rightarrow> string \<Rightarrow> bool" where
  "patrol_alive env q patrol =
     (case map_of (q_heartbeat q) patrol of
        Some mtime \<Rightarrow> me_now env - mtime < unat (mp_claim_ttl_secs (me_config env)) | None \<Rightarrow> False)"

text \<open>One claimed file back to the pending directory; the name of a file that is not UTF-8 becomes
  \<^verbatim>\<open>unknown\<close>.\<close>

definition recover_file :: "mayor_env \<Rightarrow> string \<Rightarrow> string \<times> file_content \<Rightarrow> queue \<Rightarrow> queue" where
  "recover_file env p nc q =
     (let (n, c) = nc; stem = fst (split_ext n); i = (if valid_utf8 stem then stem else ''unknown'');
          patrol = from_utf8_lossy p;
          q1 = q\<lparr>q_claimed := AList.delete (p, n) (q_claimed q),
                 q_pending := AList.update (json_name i) c (q_pending q)\<rparr>;
          q2 = best_effort (record_recovered env i) q1;
          q3 = best_effort (send_mail env
                 \<lparr>mm_id = i, mm_from = ''mayor'', mm_to = patrol, mm_kind = MailReclaimed,
                  mm_body = ''task `'' @ i @ ''` reclaimed from `'' @ patrol @ ''` (stale heartbeat)'',
                  mm_created_at = Some (me_now env)\<rparr>) q2
      in emit env ''mayor.orphan_recovered'' (JObj [(''task_id'', JStr i), (''patrol_id'', JStr patrol)]) q3)"

fun recover_patrols :: "mayor_env \<Rightarrow> string list \<Rightarrow> queue \<Rightarrow> nat \<times> queue" where
  "recover_patrols env [] q = (0, q)"
| "recover_patrols env (p # ps) q =
     (if patrol_alive env q (from_utf8_lossy p) then recover_patrols env ps q
      else (let orphans = filter (\<lambda>(n, _). is_json n) (entries_of p (q_claimed q));
                q1 = fold (recover_file env p) orphans q;
                (k, q2) = recover_patrols env ps q1
            in (length orphans + k, q2)))"

definition recover_orphans :: "mayor_env \<Rightarrow> queue \<Rightarrow> nat \<times> queue" where
  "recover_orphans env q = recover_patrols env (subdirs (q_claimed q)) q"

definition mayor_status_of :: "mayor_env \<Rightarrow> queue \<Rightarrow> queue_status \<times> queue" where
  "mayor_status_of env q =
     (let (k, q1) = recover_orphans env q in
      (\<lparr>qs_pending_count = count_json_files (q_pending q1), qs_claimed_count = count_claimed_recursive (q_claimed q1),
        qs_done_count = count_json_files (q_done q1), qs_failed_count = count_json_files (q_failed q1),
        qs_active_patrols = list_heartbeats (q_heartbeat q1), qs_orphans_recovered = k\<rparr>, q1))"

text \<open>One turn of \<^verbatim>\<open>run_until_idle\<close>: does it return?\<close>

definition idle_turn :: "mayor_env \<Rightarrow> bool \<Rightarrow> queue \<Rightarrow> bool \<times> queue" where
  "idle_turn env shutdown q =
     (if shutdown then (True, q)
      else (case mayor_status_of env q of (st, q1) \<Rightarrow> (qs_pending_count st = 0 \<and> qs_claimed_count st = 0, q1)))"

definition shutdown_mayor :: "mayor_env \<Rightarrow> queue \<Rightarrow> queue" where
  "shutdown_mayor env = emit env ''mayor.shutting_down'' (JObj [(''reason'', JStr ''shutdown_requested'')])"

section \<open>The Patrol\<close>

definition write_heartbeat :: "mayor_env \<Rightarrow> string \<Rightarrow> (queue, mayor_error, unit) step" where
  "write_heartbeat env patrol =
     checked_step (validate_file_component ''patrol_id'' patrol)
       (\<lambda>q. (Inr (), q\<lparr>q_heartbeat := AList.update patrol (me_now env) (q_heartbeat q)\<rparr>))"

text \<open>The first half of a claim: heartbeat, lock, and the least pending name.\<close>

definition claim_scan :: "mayor_env \<Rightarrow> string \<Rightarrow> (queue, mayor_error, string) step" where
  "claim_scan env patrol =
     st_bind (write_heartbeat env patrol) (\<lambda>_ q.
       if \<not> me_mayor_lock env then (Inl LockTimeout, q)
       else (case sorted_json_filenames (map fst (q_pending q)) of
           [] \<Rightarrow> (Inl QueueEmpty, q) | n # _ \<Rightarrow> (Inr n, q)))"

text \<open>The second half: the rename, and what the claimed file must be.\<close>

definition claim_check :: "string \<Rightarrow> file_content \<Rightarrow> mayor_error + queue_task" where
  "claim_check n c =
     res_bind (read_task c) (\<lambda>t.
     res_bind (validate_file_component ''task_id'' (qt_task_id t)) (\<lambda>_.
       if qt_task_id t \<noteq> trim_json n
       then Inl (ClaimFailed (''pending filename `'' @ trim_json n @ ''` did not match payload task_id `'' @ qt_task_id t @ ''`''))
       else Inr t))"

definition claim_take :: "mayor_env \<Rightarrow> string \<Rightarrow> string \<Rightarrow> (queue, mayor_error, queue_task) step" where
  "claim_take env patrol n q =
     (case map_of (q_pending q) n of
        None \<Rightarrow> (Inl (ClaimFailed (''lost race for `'' @ n @ ''`'')), q)
      | Some c \<Rightarrow>
          (let q1 = q\<lparr>q_pending := AList.delete n (q_pending q), q_claimed := AList.update (patrol, n) c (q_claimed q)\<rparr>
           in case claim_check n c of
                Inl e \<Rightarrow> (Inl e, q1)
              | Inr t \<Rightarrow>
                  (Inr t, emit env ''patrol.claimed''
                     (JObj [(''patrol_id'', JStr patrol), (''task_id'', JStr (qt_task_id t))])
                     (best_effort (record_claimed env (qt_task_id t) patrol) q1))))"

definition claim :: "mayor_env \<Rightarrow> string \<Rightarrow> (queue, mayor_error, queue_task) step" where
  "claim env patrol = st_bind (claim_scan env patrol) (claim_take env patrol)"

text \<open>The result that is recorded for what the dispatch closure returned.\<close>

definition settle :: "timestamp \<Rightarrow> string \<Rightarrow> queue_task \<Rightarrow> mayor_error + queue_result \<Rightarrow> queue_result" where
  "settle now patrol t outcome =
     (let r = (case outcome of
            Inr r \<Rightarrow>
              if qr_cost r > qt_budget t
              then r\<lparr>qr_verdict := PatrolFailed,
                     qr_error := Some (''cost '' @ show_nat (unat (qr_cost r)) @ '' exceeded ceiling '' @ show_nat (unat (qt_budget t)))\<rparr>
              else r
          | Inl e \<Rightarrow> result_failed now (qt_task_id t) patrol 0 (mayor_error_text e))
      in r\<lparr>qr_finished_at := (if qr_finished_at r = None then Some now else qr_finished_at r),
           qr_task_id := qt_task_id t, qr_patrol_id := patrol\<rparr>)"

fun verdict_label :: "patrol_verdict \<Rightarrow> string" where
  "verdict_label PatrolSuccess = ''success''"
| "verdict_label PatrolFailed = ''failed''"
| "verdict_label PatrolSkipped = ''skipped''"

text \<open>The move out of the claimed directory; a file that recovery has swept is no error.\<close>

definition move_finished :: "string \<Rightarrow> string \<Rightarrow> patrol_verdict \<Rightarrow> queue \<Rightarrow> queue" where
  "move_finished patrol i v q =
     (case map_of (q_claimed q) (patrol, json_name i) of
        None \<Rightarrow> q
      | Some c \<Rightarrow>
          (let q1 = q\<lparr>q_claimed := AList.delete (patrol, json_name i) (q_claimed q)\<rparr> in
           case v of
             PatrolFailed \<Rightarrow> q1\<lparr>q_failed := AList.update (json_name i) c (q_failed q)\<rparr>
           | _ \<Rightarrow> q1\<lparr>q_done := AList.update (json_name i) c (q_done q)\<rparr>))"

definition finish_task ::
  "mayor_env \<Rightarrow> string \<Rightarrow> queue_task \<Rightarrow> mayor_error + queue_result \<Rightarrow> (queue, mayor_error, queue_result) step" where
  "finish_task env patrol t outcome q =
     (case validate_file_component ''task_id'' (qt_task_id t) of
        Inl e \<Rightarrow> (Inl e, q)
      | Inr _ \<Rightarrow>
          (let i = qt_task_id t; r = settle (me_now env) patrol t outcome;
               q1 = q\<lparr>q_results := AList.update (json_name i) (ResultFile r) (q_results q)\<rparr>;
               q2 = best_effort (record_finished env i (qr_verdict r) (qr_cost r)) q1;
               q3 = move_finished patrol i (qr_verdict r) q2
           in st_bind (write_heartbeat env patrol) (\<lambda>_ q4.
                (Inr r, emit env ''patrol.finished''
                   (JObj [(''patrol_id'', JStr patrol), (''task_id'', JStr (qr_task_id r)),
                          (''verdict'', JStr (verdict_label (qr_verdict r))),
                          (''cost_microusd'', jnat (unat (qr_cost r)))]) q4)) q3))"

text \<open>The environment of the claim and that of the end of the work differ in their clock.\<close>

definition run_one ::
  "mayor_env \<Rightarrow> mayor_env \<Rightarrow> string \<Rightarrow> (queue_task \<Rightarrow> mayor_error + queue_result) \<Rightarrow> (queue, mayor_error, queue_result) step" where
  "run_one env env' patrol dispatch =
     st_bind (claim env patrol) (\<lambda>t. finish_task env' patrol t (dispatch t))"

datatype loop_turn = LoopStops "mayor_error + unit" | LoopGoesOn

text \<open>One turn of \<^verbatim>\<open>run_loop\<close>: on an empty queue it waits, and on waking without a shutdown it writes a
  heartbeat.\<close>

definition patrol_turn ::
  "mayor_env \<Rightarrow> mayor_env \<Rightarrow> bool \<Rightarrow> bool \<Rightarrow> string \<Rightarrow> (queue_task \<Rightarrow> mayor_error + queue_result) \<Rightarrow> queue \<Rightarrow> loop_turn \<times> queue" where
  "patrol_turn env env' shutdown woken_by_shutdown patrol dispatch q =
     (if shutdown then (LoopStops (Inr ()), q)
      else (case claim env patrol q of
          (Inr t, q1) \<Rightarrow>
            (case finish_task env' patrol t (dispatch t) q1 of
               (Inl e, q2) \<Rightarrow> (LoopStops (Inl e), q2) | (Inr _, q2) \<Rightarrow> (LoopGoesOn, q2))
        | (Inl QueueEmpty, q1) \<Rightarrow>
            if woken_by_shutdown then (LoopStops (Inr ()), q1)
            else (case write_heartbeat env' patrol q1 of
                (Inl e, q2) \<Rightarrow> (LoopStops (Inl e), q2)
              | (Inr _, q2) \<Rightarrow>
                  (LoopGoesOn, emit env' ''patrol.heartbeat'' (JObj [(''patrol_id'', JStr patrol)]) q2))
        | (Inl e, q1) \<Rightarrow> (LoopStops (Inl e), q1)))"

end
