(* ===== verification/MayorProps.thy ===== *)
theory MayorProps
  imports MayorQueue Transitions "HOL-Library.Multiset"
begin

text \<open>
  The queue under interleaved use: a Mayor and any number of Patrols, whose claims are two steps
  under the advisory lock and who may crash between any two steps. No task file is lost or
  duplicated, a claim never loses its race, a result over its budget is never a success, and the
  ledger projects the directories.
\<close>

section \<open>Where the task files are\<close>

definition names :: "queue \<Rightarrow> string multiset" where
  "names q =
     image_mset fst (mset (q_pending q)) + image_mset (snd \<circ> fst) (mset (q_claimed q)) +
     image_mset fst (mset (q_done q)) + image_mset fst (mset (q_failed q))"

definition unique_names :: "queue \<Rightarrow> bool" where
  "unique_names q = (\<forall>n. count (names q) n \<le> 1)"

text \<open>Every file holds the task it is named after, within the Mayor's budget.\<close>

definition task_within :: "u64 option \<Rightarrow> queue_task \<Rightarrow> bool" where
  "task_within cap t =
     (is_valid_queue_id (qt_task_id t) \<and> (case cap of Some b \<Rightarrow> qt_budget t \<le> b | None \<Rightarrow> True))"

definition file_ok :: "u64 option \<Rightarrow> string \<times> file_content \<Rightarrow> bool" where
  "file_ok cap nc = (\<exists>t. snd nc = TaskFile t \<and> fst nc = json_name (qt_task_id t) \<and> task_within cap t)"

definition strip :: "(string \<times> string) \<times> file_content \<Rightarrow> string \<times> file_content" where
  "strip x = (snd (fst x), snd x)"

definition files_of :: "queue \<Rightarrow> (string \<times> file_content) set" where
  "files_of q = set (q_pending q) \<union> strip ` set (q_claimed q) \<union> set (q_done q) \<union> set (q_failed q)"

definition result_ok :: "u64 option \<Rightarrow> file_content \<Rightarrow> bool" where
  "result_ok cap c =
     (\<exists>r. c = ResultFile r \<and> (qr_verdict r \<noteq> PatrolFailed \<longrightarrow> (case cap of Some b \<Rightarrow> qr_cost r \<le> b | None \<Rightarrow> True)))"

definition wf_queue :: "u64 option \<Rightarrow> queue \<Rightarrow> bool" where
  "wf_queue cap q =
     (unique_names q \<and> (\<forall>nc \<in> files_of q. file_ok cap nc) \<and> (\<forall>(n, c) \<in> set (q_results q). result_ok cap c))"

section \<open>Association lists as directories\<close>

lemma update_fresh: "k \<notin> fst ` set d \<Longrightarrow> AList.update k v d = d @ [(k, v)]"
  by (induction d) auto

lemma set_update_subset: "set (AList.update k v d) \<subseteq> insert (k, v) (set d)"
  by (induction d) auto

lemma delete_mset: "map_of d k = Some c \<Longrightarrow> distinct (map fst d) \<Longrightarrow> mset d = add_mset (k, c) (mset (AList.delete k d))"
proof (induction d)
  case (Cons kv d)
  show ?case
  proof (cases "fst kv = k")
    case True
    then have "k \<notin> fst ` set d" using Cons.prems(2) by (auto simp: image_iff)
    then have "AList.delete k d = d" by (simp add: delete_idem)
    then show ?thesis using True Cons.prems(1) by (cases kv) auto
  next
    case False
    then show ?thesis using Cons by (cases kv) auto
  qed
qed simp

lemma set_delete_subset: "set (AList.delete k d) \<subseteq> set d"
  by (induction d) auto

lemma unique_distinct:
  assumes "unique_names q"
  shows "distinct (map fst (q_pending q))" "distinct (map fst (q_claimed q))"
    "distinct (map fst (q_done q))" "distinct (map fst (q_failed q))"
proof -
  have le: "count (mset (map f d)) n \<le> 1" if "mset (map f d) \<subseteq># names q" for f :: "'b \<Rightarrow> string" and d n
    using mset_subset_eq_count[OF that, of n] assms by (meson unique_names_def le_trans)
  have dist: "distinct xs" if "\<And>n. count (mset xs) n \<le> 1" for xs :: "string list"
    unfolding distinct_count_atmost_1 using that
    by (metis One_nat_def count_eq_zero_iff le_Suc_eq le_zero_eq set_mset_mset)
  have "distinct (map (snd \<circ> fst) (q_claimed q))"
    by (rule dist, rule le) (simp add: names_def)
  then show "distinct (map fst (q_claimed q))" by (simp add: distinct_map flip: map_map)
  show "distinct (map fst (q_pending q))" by (rule dist, rule le) (simp add: names_def)
  show "distinct (map fst (q_done q))" by (rule dist, rule le) (simp add: names_def)
  show "distinct (map fst (q_failed q))" by (rule dist, rule le) (simp add: names_def)
qed

section \<open>What the steps of an operation touch\<close>

text \<open>The ledger and the mailbox are beside the queue: recording never changes a queue directory.\<close>

lemma emit_frame [frame_simps]:
  "q_pending (emit env k j q) = q_pending q" "q_claimed (emit env k j q) = q_claimed q"
  "q_done (emit env k j q) = q_done q" "q_failed (emit env k j q) = q_failed q"
  "q_results (emit env k j q) = q_results q" "q_heartbeat (emit env k j q) = q_heartbeat q"
  "q_ledger (emit env k j q) = q_ledger q"
  by (simp_all add: emit_def)

text \<open>A predicate of the five directories only.\<close>

definition same_dirs :: "queue \<Rightarrow> queue \<Rightarrow> bool" where
  "same_dirs q q' =
     (q_pending q' = q_pending q \<and> q_claimed q' = q_claimed q \<and> q_done q' = q_done q \<and> q_failed q' = q_failed q \<and>
      q_results q' = q_results q)"

lemma same_dirs_refl: "same_dirs q q"
  by (simp add: same_dirs_def)

definition quiet :: "(queue, mayor_error, 'a) step \<Rightarrow> bool" where
  "quiet m = (\<forall>q. same_dirs q (snd (m q)))"

lemma quiet_mutate [wf_intros]: "quiet (mutate_ledger env f)"
  by (simp add: quiet_def same_dirs_def mutate_ledger_def split: sum.split)

lemma quiet_checked [wf_intros]: "quiet m \<Longrightarrow> quiet (checked_step v m)"
  unfolding quiet_def checked_step_def by (cases v) (simp_all add: same_dirs_refl)

lemma quiet_enqueued [wf_intros]: "quiet (record_enqueued env i created)"
  unfolding record_enqueued_def by (rule quiet_checked, rule quiet_mutate)

lemma quiet_claimed [wf_intros]: "quiet (record_claimed env i patrol)"
  unfolding record_claimed_def by (rule quiet_checked, rule quiet_checked, rule quiet_mutate)

lemma quiet_finished [wf_intros]: "quiet (record_finished env i v cost)"
  unfolding record_finished_def by (rule quiet_checked, rule quiet_mutate)

lemma quiet_recovered [wf_intros]: "quiet (record_recovered env i)"
  unfolding record_recovered_def by (rule quiet_checked, rule quiet_mutate)

lemma quiet_mail [wf_intros]: "quiet (send_mail env msg)"
proof -
  have put: "quiet (\<lambda>q. (Inr (), q\<lparr>q_mailbox := f q\<rparr>))" for f :: "queue \<Rightarrow> ((string \<times> string) \<times> file_content) list"
    by (simp add: quiet_def same_dirs_def)
  show ?thesis
    using quiet_checked[OF quiet_checked[OF quiet_checked[OF put]]] same_dirs_refl
    unfolding quiet_def send_mail_def by simp
qed

lemma same_dirs_best_effort: "quiet m \<Longrightarrow> same_dirs q (best_effort m q)"
  by (simp add: quiet_def best_effort_def)

lemma same_dirs_emit: "same_dirs q (emit env k j q)"
  by (simp add: same_dirs_def emit_def)

lemma record_frame [frame_simps]:
  assumes "quiet m"
  shows "q_pending (best_effort m q) = q_pending q" "q_claimed (best_effort m q) = q_claimed q"
    "q_done (best_effort m q) = q_done q" "q_failed (best_effort m q) = q_failed q"
    "q_results (best_effort m q) = q_results q"
  using same_dirs_best_effort[OF assms, of q] by (simp_all add: same_dirs_def)

lemma same_dirs_names: "same_dirs q q' \<Longrightarrow> names q' = names q"
  by (simp add: same_dirs_def names_def)

lemma same_dirs_wf: "same_dirs q q' \<Longrightarrow> wf_queue cap q' = wf_queue cap q"
  by (simp add: same_dirs_def wf_queue_def names_def unique_names_def files_of_def)

lemma same_dirs_trans: "same_dirs q q' \<Longrightarrow> same_dirs q' q'' \<Longrightarrow> same_dirs q q''"
  by (simp add: same_dirs_def)

section \<open>The moves\<close>

lemma count_fresh: "count (names q) n = 0 \<Longrightarrow> (p, n) \<notin> fst ` set (q_claimed q) \<and> n \<notin> fst ` set (q_pending q) \<and>
    n \<notin> fst ` set (q_done q) \<and> n \<notin> fst ` set (q_failed q)"
  by (force simp: names_def count_eq_zero_iff)

text \<open>Taking a file out of a directory leaves its name nowhere.\<close>

lemma take_pending:
  assumes "unique_names q" "map_of (q_pending q) n = Some c"
  shows "names q = add_mset n (names (q\<lparr>q_pending := AList.delete n (q_pending q)\<rparr>))"
  by (simp add: names_def delete_mset[OF assms(2) unique_distinct(1)[OF assms(1)]])

lemma take_claimed:
  assumes "unique_names q" "map_of (q_claimed q) (p, n) = Some c"
  shows "names q = add_mset n (names (q\<lparr>q_claimed := AList.delete (p, n) (q_claimed q)\<rparr>))"
  by (simp add: names_def delete_mset[OF assms(2) unique_distinct(2)[OF assms(1)]])

lemma gone:
  assumes "unique_names q" "names q = add_mset n (names q')"
  shows "count (names q') n = 0"
  using assms(1)[unfolded unique_names_def assms(2), rule_format, of n] by simp

lemma put_pending: "count (names q) n = 0 \<Longrightarrow> names (q\<lparr>q_pending := AList.update n c (q_pending q)\<rparr>) = add_mset n (names q)"
  by (simp add: names_def update_fresh count_fresh)

lemma put_claimed: "count (names q) n = 0 \<Longrightarrow> names (q\<lparr>q_claimed := AList.update (p, n) c (q_claimed q)\<rparr>) = add_mset n (names q)"
  by (simp add: names_def update_fresh count_fresh)

lemma put_done: "count (names q) n = 0 \<Longrightarrow> names (q\<lparr>q_done := AList.update n c (q_done q)\<rparr>) = add_mset n (names q)"
  by (simp add: names_def update_fresh count_fresh)

lemma put_failed: "count (names q) n = 0 \<Longrightarrow> names (q\<lparr>q_failed := AList.update n c (q_failed q)\<rparr>) = add_mset n (names q)"
  by (simp add: names_def update_fresh count_fresh)

lemma move_to_claimed:
  assumes "unique_names q" "map_of (q_pending q) n = Some c"
  shows "names (q\<lparr>q_pending := AList.delete n (q_pending q), q_claimed := AList.update (p, n) c (q_claimed q)\<rparr>) = names q"
  using put_claimed[OF gone[OF assms(1) take_pending[OF assms]], of p c] take_pending[OF assms] by simp

lemma move_to_pending:
  assumes "unique_names q" "map_of (q_claimed q) (p, n) = Some c"
  shows "names (q\<lparr>q_claimed := AList.delete (p, n) (q_claimed q), q_pending := AList.update n c (q_pending q)\<rparr>) = names q"
  using put_pending[OF gone[OF assms(1) take_claimed[OF assms]], of c] take_claimed[OF assms] by simp

lemma move_to_done:
  assumes "unique_names q" "map_of (q_claimed q) (p, n) = Some c"
  shows "names (q\<lparr>q_claimed := AList.delete (p, n) (q_claimed q), q_done := AList.update n c (q_done q)\<rparr>) = names q"
  using put_done[OF gone[OF assms(1) take_claimed[OF assms]], of c] take_claimed[OF assms] by simp

lemma move_to_failed:
  assumes "unique_names q" "map_of (q_claimed q) (p, n) = Some c"
  shows "names (q\<lparr>q_claimed := AList.delete (p, n) (q_claimed q), q_failed := AList.update n c (q_failed q)\<rparr>) = names q"
  using put_failed[OF gone[OF assms(1) take_claimed[OF assms]], of c] take_claimed[OF assms] by simp

section \<open>Names of valid tasks\<close>

lemma id_chars:
  "id_char c \<Longrightarrow> c \<noteq> CHR ''.'' \<and> (of_char c :: nat) < 128"
  by (auto simp: id_char_def Let_def)

lemma split_json_name:
  assumes "is_valid_queue_id i"
  shows "split_ext (json_name i) = (i, Some ''json'')"
proof -
  have "takeWhile (\<lambda>c. c \<noteq> CHR ''.'') (rev (json_name i)) = ''nosj''"
    by (simp add: json_name_def)
  moreover have "rev (drop 5 (rev (json_name i))) = i" by (simp add: json_name_def)
  ultimately show ?thesis
    using assms by (simp add: split_ext_def is_valid_queue_id_def json_name_def)
qed

lemma is_json_name: "is_valid_queue_id i \<Longrightarrow> is_json (json_name i)"
  by (simp add: is_json_def split_json_name)

lemma ascii_utf8: "list_all (\<lambda>b. b < 128) bs \<Longrightarrow> utf8_ok bs"
  by (induction bs rule: utf8_ok.induct) auto

lemma valid_id_utf8: "is_valid_queue_id i \<Longrightarrow> valid_utf8 i"
  unfolding valid_utf8_def is_valid_queue_id_def
  by (rule ascii_utf8) (auto simp: list_all_iff dest: id_chars)

lemma valid_json_name_utf8: "is_valid_queue_id i \<Longrightarrow> valid_utf8 (json_name i)"
  unfolding valid_utf8_def is_valid_queue_id_def json_name_def
  by (rule ascii_utf8) (auto simp: list_all_iff dest: id_chars)

lemma delete_keys_image: "fst ` set (AList.delete k d) = fst ` set d - {k}"
  by (induction d) auto

lemma trim_json_rev_id: "list_all id_char r \<Longrightarrow> trim_json_rev r = r"
  by (induction r rule: trim_json_rev.induct) (auto dest: id_chars)

lemma trim_json_name: "is_valid_queue_id i \<Longrightarrow> trim_json (json_name i) = i"
  by (simp add: trim_json_def json_name_def trim_json_rev_id is_valid_queue_id_def)

lemma json_name_inj: "json_name i = json_name j \<longleftrightarrow> i = j"
  by (simp add: json_name_def)

section \<open>Well-formedness is kept\<close>

lemma wf_moved:
  assumes "wf_queue cap q" "names q' = names q" "files_of q' \<subseteq> files_of q" "q_results q' = q_results q"
  shows "wf_queue cap q'"
  using assms by (auto simp: wf_queue_def unique_names_def)

lemma strip_update: "strip ` set (AList.update (p, n) c d) \<subseteq> insert (n, c) (strip ` set d)"
  using image_mono[OF set_update_subset[of "(p, n)" c d], of strip] by (simp add: strip_def)

lemma strip_delete: "strip ` set (AList.delete k d) \<subseteq> strip ` set d"
  by (rule image_mono) (rule set_delete_subset)

lemma strip_mem: "map_of d (p, n) = Some c \<Longrightarrow> (n, c) \<in> strip ` set d"
  by (force simp: strip_def dest: map_of_SomeD)

lemma files_of_moved:
  assumes "set (q_pending q') \<subseteq> files_of q" "strip ` set (q_claimed q') \<subseteq> files_of q"
    "set (q_done q') \<subseteq> files_of q" "set (q_failed q') \<subseteq> files_of q"
  shows "files_of q' \<subseteq> files_of q"
  using assms unfolding files_of_def[of q'] by blast

lemma files_of_parts:
  "set (q_pending q) \<subseteq> files_of q" "strip ` set (q_claimed q) \<subseteq> files_of q"
  "set (q_done q) \<subseteq> files_of q" "set (q_failed q) \<subseteq> files_of q"
  by (auto simp: files_of_def)

lemma put_subset: "set d \<subseteq> S \<Longrightarrow> (n, c) \<in> S \<Longrightarrow> set (AList.update n c d) \<subseteq> S"
  by (rule order_trans[OF set_update_subset]) simp

lemma put_strip_subset: "strip ` set d \<subseteq> S \<Longrightarrow> (n, c) \<in> S \<Longrightarrow> strip ` set (AList.update (p, n) c d) \<subseteq> S"
  by (rule order_trans[OF strip_update]) simp

lemma cut_subset: "set d \<subseteq> S \<Longrightarrow> set (AList.delete n d) \<subseteq> S"
  by (rule order_trans[OF set_delete_subset])

lemma cut_strip_subset: "strip ` set d \<subseteq> S \<Longrightarrow> strip ` set (AList.delete k d) \<subseteq> S"
  by (rule order_trans[OF strip_delete])

lemma found_pending: "map_of (q_pending q) n = Some c \<Longrightarrow> (n, c) \<in> files_of q"
  by (rule subsetD[OF files_of_parts(1) map_of_SomeD])

lemma found_claimed: "map_of (q_claimed q) (p, n) = Some c \<Longrightarrow> (n, c) \<in> files_of q"
  by (rule subsetD[OF files_of_parts(2) strip_mem])

lemmas moved_subset = files_of_parts put_subset put_strip_subset cut_subset cut_strip_subset

lemma wf_take_pending:
  fixes p
  assumes "wf_queue cap q" "map_of (q_pending q) n = Some c"
  defines "q' \<equiv> q\<lparr>q_pending := AList.delete n (q_pending q), q_claimed := AList.update (p, n) c (q_claimed q)\<rparr>"
  shows "wf_queue cap q' \<and> names q' = names q"
proof
  have u: "unique_names q" using assms(1) by (simp add: wf_queue_def)
  show eq: "names q' = names q" unfolding q'_def by (rule move_to_claimed[OF u assms(2)])
  have "files_of q' \<subseteq> files_of q"
    by (rule files_of_moved) (simp_all add: q'_def moved_subset found_pending[OF assms(2)])
  then show "wf_queue cap q'" using wf_moved[OF assms(1) eq] by (simp add: q'_def)
qed

lemma wf_to_pending:
  assumes "wf_queue cap q" "map_of (q_claimed q) (p, n) = Some c"
  defines "q' \<equiv> q\<lparr>q_claimed := AList.delete (p, n) (q_claimed q), q_pending := AList.update n c (q_pending q)\<rparr>"
  shows "wf_queue cap q' \<and> names q' = names q"
proof
  have u: "unique_names q" using assms(1) by (simp add: wf_queue_def)
  show eq: "names q' = names q" unfolding q'_def by (rule move_to_pending[OF u assms(2)])
  have "files_of q' \<subseteq> files_of q"
    by (rule files_of_moved) (simp_all add: q'_def moved_subset found_claimed[OF assms(2)])
  then show "wf_queue cap q'" using wf_moved[OF assms(1) eq] by (simp add: q'_def)
qed

lemma wf_move_finished:
  assumes "wf_queue cap q"
  shows "wf_queue cap (move_finished p i v q) \<and> names (move_finished p i v q) = names q"
proof (cases "map_of (q_claimed q) (p, json_name i)")
  case None
  then show ?thesis using assms by (simp add: move_finished_def)
next
  case (Some c)
  have u: "unique_names q" using assms by (simp add: wf_queue_def)
  have eq: "names (move_finished p i v q) = names q"
    using move_to_done[OF u Some] move_to_failed[OF u Some] by (cases v) (simp_all add: move_finished_def Some)
  have "files_of (move_finished p i v q) \<subseteq> files_of q"
    by (rule files_of_moved) (cases v; simp add: move_finished_def Some moved_subset found_claimed[OF Some])+
  then show ?thesis using wf_moved[OF assms eq] eq by (cases v) (simp_all add: move_finished_def Some)
qed

lemma file_name_valid: "wf_queue cap q \<Longrightarrow> (n, c) \<in> files_of q \<Longrightarrow>
    \<exists>t. c = TaskFile t \<and> n = json_name (qt_task_id t) \<and> task_within cap t"
  by (fastforce simp: wf_queue_def file_ok_def)

section \<open>Recovery\<close>

definition pending_names :: "queue \<Rightarrow> string set" where
  "pending_names q = fst ` set (q_pending q)"

lemma update_names: "fst ` set (AList.update n c d) = insert n (fst ` set d)"
  by (induction d) auto

lemma same_dirs_pending: "same_dirs q q' \<Longrightarrow> pending_names q' = pending_names q"
  by (simp add: same_dirs_def pending_names_def)

lemma recover_file_moves:
  assumes "n = json_name i" "is_valid_queue_id i"
  shows "same_dirs (q\<lparr>q_claimed := AList.delete (p, n) (q_claimed q), q_pending := AList.update n c (q_pending q)\<rparr>)
     (recover_file env p (n, c) q)"
proof -
  have stem: "fst (split_ext n) = i" "valid_utf8 i" using assms by (simp_all add: split_json_name valid_id_utf8)
  show ?thesis
    unfolding recover_file_def Let_def prod.case stem(1) if_P[OF stem(2)] assms(1)[symmetric]
    by (rule same_dirs_trans[OF same_dirs_trans[OF same_dirs_best_effort[OF quiet_recovered]
          same_dirs_best_effort[OF quiet_mail]] same_dirs_emit])
qed

lemma recover_file_wf:
  assumes "wf_queue cap q" "map_of (q_claimed q) (p, n) = Some c"
  shows "wf_queue cap (recover_file env p (n, c) q) \<and> names (recover_file env p (n, c) q) = names q \<and>
     q_claimed (recover_file env p (n, c) q) = AList.delete (p, n) (q_claimed q) \<and>
     pending_names q \<subseteq> pending_names (recover_file env p (n, c) q)"
proof -
  obtain t :: queue_task where t: "n = json_name (qt_task_id t)" "is_valid_queue_id (qt_task_id t)"
    using file_name_valid[OF assms(1) found_claimed[OF assms(2)]] unfolding task_within_def by blast
  note moved = recover_file_moves[OF t, where q = q and p = p and c = c and env = env]
  note wf = wf_to_pending[OF assms]
  have pend: "pending_names q \<subseteq> pending_names (recover_file env p (n, c) q)"
    unfolding same_dirs_pending[OF moved] by (simp add: pending_names_def update_names) blast
  have "q_claimed (recover_file env p (n, c) q) = AList.delete (p, n) (q_claimed q)"
    using moved by (simp add: same_dirs_def)
  then show ?thesis
    using wf same_dirs_wf[OF moved, of cap] same_dirs_names[OF moved] pend by simp
qed

lemma entries_of_found:
  "distinct (map fst d) \<Longrightarrow> (n, c) \<in> set (entries_of p d) \<Longrightarrow> map_of d (p, n) = Some c"
  by (auto simp: entries_of_def)

lemma entries_of_distinct: "distinct (map fst d) \<Longrightarrow> distinct (map fst (entries_of p d))"
  by (induction d) (auto simp: entries_of_def image_iff)

lemma recover_files_wf:
  assumes "wf_queue cap q" "distinct (map fst xs)" "\<forall>(n, c) \<in> set xs. map_of (q_claimed q) (p, n) = Some c"
  shows "wf_queue cap (fold (recover_file env p) xs q) \<and> names (fold (recover_file env p) xs q) = names q \<and>
     pending_names q \<subseteq> pending_names (fold (recover_file env p) xs q)"
  using assms
proof (induction xs arbitrary: q)
  case (Cons x xs)
  obtain n c where x: "x = (n, c)" by (cases x)
  have found: "map_of (q_claimed q) (p, n) = Some c" using Cons.prems(3) x by simp
  note one = recover_file_wf[OF Cons.prems(1) found, of env]
  have rest: "\<forall>(m, d) \<in> set xs. map_of (q_claimed (recover_file env p x q)) (p, m) = Some d"
  proof (clarify)
    fix m d
    assume md: "(m, d) \<in> set xs"
    have "m \<noteq> n" using Cons.prems(2) x md by force
    then show "map_of (q_claimed (recover_file env p x q)) (p, m) = Some d"
      using one md Cons.prems(3) by (auto simp: x delete_conv)
  qed
  have "distinct (map fst xs)" using Cons.prems(2) by simp
  from Cons.IH[OF _ this rest] show ?case using one x by (simp add: subset_trans) blast
qed simp

lemma recover_patrols_wf:
  assumes "wf_queue cap q" "recover_patrols env ps q = (k, q')"
  shows "wf_queue cap q' \<and> names q' = names q \<and> pending_names q \<subseteq> pending_names q'"
  using assms
proof (induction ps arbitrary: q k)
  case (Cons p ps)
  show ?case
  proof (cases "patrol_alive env q (from_utf8_lossy p)")
    case True
    then show ?thesis using Cons by simp
  next
    case False
    let ?xs = "filter (\<lambda>(n, _). is_json n) (entries_of p (q_claimed q))"
    let ?q = "fold (recover_file env p) ?xs q"
    have d: "distinct (map fst (q_claimed q))" using Cons.prems(1) unique_distinct(2) by (simp add: wf_queue_def)
    have "distinct (map fst ?xs)" by (rule distinct_map_filter) (rule entries_of_distinct[OF d])
    moreover have "\<forall>(n, c) \<in> set ?xs. map_of (q_claimed q) (p, n) = Some c" using entries_of_found[OF d] by auto
    ultimately have wf: "wf_queue cap ?q \<and> names ?q = names q \<and> pending_names q \<subseteq> pending_names ?q"
      using recover_files_wf Cons.prems(1) by blast
    obtain k' where "recover_patrols env ps ?q = (k', q')"
      using Cons.prems(2) False by (auto simp: Let_def split: prod.splits)
    from Cons.IH[OF _ this] show ?thesis using wf by (simp) blast
  qed
qed simp

lemma status_wf:
  assumes "wf_queue cap q" "mayor_status_of env q = (st, q')"
  shows "wf_queue cap q' \<and> names q' = names q \<and> pending_names q \<subseteq> pending_names q'"
proof -
  obtain k where "recover_patrols env (subdirs (q_claimed q)) q = (k, q')"
    using assms(2) by (auto simp: mayor_status_of_def recover_orphans_def split: prod.splits)
  from recover_patrols_wf[OF assms(1) this] show ?thesis .
qed

section \<open>The other operations\<close>

lemma exists_anywhere:
  assumes "\<not> task_exists_anywhere q i"
  shows "count (names q) (json_name i) = 0"
proof -
  have "json_name i \<notin> fst ` set (q_pending q)" "json_name i \<notin> fst ` set (q_done q)" "json_name i \<notin> fst ` set (q_failed q)"
    using assms by (auto simp: task_exists_anywhere_def Let_def map_of_eq_None_iff)
  moreover have "\<forall>x \<in> set (q_claimed q). snd (fst x) \<noteq> json_name i"
    using assms by (auto simp: task_exists_anywhere_def Let_def list_ex_iff)
  ultimately show ?thesis by (auto simp: names_def count_eq_zero_iff)
qed

lemma enqueue_cases:
  assumes "enqueue env t q = (r, q')"
  obtains (refused) "q' = q"
  | (added) "r = Inr ()" "is_valid_queue_id (qt_task_id t)" "task_within (me_total_budget env) t"
      "\<not> task_exists_anywhere q (qt_task_id t)"
      "same_dirs (q\<lparr>q_pending := AList.update (json_name (qt_task_id t)) (TaskFile t) (q_pending q)\<rparr>) q'"
proof (cases "is_valid_queue_id (qt_task_id t) \<and> task_within (me_total_budget env) t \<and> \<not> task_exists_anywhere q (qt_task_id t)")
  case False
  then show thesis
    using assms refused
    by (auto simp: enqueue_def validate_file_component_def task_within_def split: if_splits option.splits)
next
  case True
  let ?q = "q\<lparr>q_pending := AList.update (json_name (qt_task_id t)) (TaskFile t) (q_pending q)\<rparr>"
  have "(r, q') = (Inr (), emit env ''mayor.dispatched''
      (JObj [(''task_id'', JStr (qt_task_id t)), (''budget_microusd'', jnat (unat (qt_budget t)))])
      (best_effort (record_enqueued env (qt_task_id t) (qt_created_at t)) ?q))"
    using assms True
    by (auto simp: enqueue_def validate_file_component_def task_within_def Let_def not_less split: if_splits option.splits)
  then have "r = Inr ()" "same_dirs ?q q'"
    using same_dirs_trans[OF same_dirs_best_effort[OF quiet_enqueued] same_dirs_emit] by simp_all
  then show thesis using added True by blast
qed

lemma enqueue_wf:
  assumes "wf_queue (me_total_budget env) q" "enqueue env t q = (r, q')"
  shows "wf_queue (me_total_budget env) q' \<and> names q \<subseteq># names q' \<and> pending_names q \<subseteq> pending_names q'"
  using assms(2)
proof (cases rule: enqueue_cases)
  case refused
  then show ?thesis using assms by simp
next
  case added
  let ?n = "json_name (qt_task_id t)" and ?q = "q\<lparr>q_pending := AList.update (json_name (qt_task_id t)) (TaskFile t) (q_pending q)\<rparr>"
  note fresh = exists_anywhere[OF added(4)]
  have names: "names ?q = add_mset ?n (names q)" by (rule put_pending[OF fresh])
  have "unique_names ?q"
    using assms(1) fresh by (auto simp: wf_queue_def unique_names_def names)
  moreover have "files_of ?q \<subseteq> insert (?n, TaskFile t) (files_of q)"
    using set_update_subset[of ?n "TaskFile t" "q_pending q"] by (auto simp: files_of_def)
  moreover have "file_ok (me_total_budget env) (?n, TaskFile t)" using added(3) by (simp add: file_ok_def)
  ultimately have "wf_queue (me_total_budget env) ?q" using assms(1) by (auto simp: wf_queue_def)
  moreover have "pending_names q \<subseteq> pending_names ?q"
    by (simp add: pending_names_def update_names) blast
  ultimately show ?thesis
    using same_dirs_wf[OF added(5)] same_dirs_names[OF added(5)] same_dirs_pending[OF added(5)] names by simp
qed

lemma settle_within:
  assumes "task_within cap t"
  shows "result_ok cap (ResultFile (settle now p t outcome))"
  using assms
  by (auto simp: result_ok_def settle_def result_failed_def task_within_def Let_def split: sum.splits option.splits)

lemma finish_wf:
  assumes "wf_queue cap q" "task_within cap t" "finish_task env p t outcome q = (r, q')"
  shows "wf_queue cap q' \<and> names q' = names q \<and> q_pending q' = q_pending q"
proof -
  let ?r = "settle (me_now env) p t outcome"
  let ?q1 = "q\<lparr>q_results := AList.update (json_name (qt_task_id t)) (ResultFile ?r) (q_results q)\<rparr>"
  let ?q2 = "best_effort (record_finished env (qt_task_id t) (qr_verdict ?r) (qr_cost ?r)) ?q1"
  let ?q3 = "move_finished p (qt_task_id t) (qr_verdict ?r) ?q2"
  have "validate_file_component ''task_id'' (qt_task_id t) = Inr ()"
    using assms(2) by (simp add: validate_file_component_def task_within_def)
  then have "same_dirs ?q3 q'"
    using assms(3) unfolding finish_task_def Let_def
    by (cases "validate_file_component ''patrol_id'' p")
      (auto simp: st_bind_def write_heartbeat_def checked_step_def same_dirs_def emit_def)
  moreover have "\<forall>(n, c) \<in> set (q_results ?q1). result_ok cap c"
    using assms(1) set_update_subset[of "json_name (qt_task_id t)" "ResultFile ?r" "q_results q"] settle_within[OF assms(2)]
    by (fastforce simp: wf_queue_def)
  then have wf1: "wf_queue cap ?q1" "names ?q1 = names q"
    using assms(1) by (simp_all add: wf_queue_def unique_names_def names_def files_of_def)
  have sd: "same_dirs ?q1 ?q2" by (rule same_dirs_best_effort[OF quiet_finished])
  then have wf2: "wf_queue cap ?q2" "names ?q2 = names q" using wf1 same_dirs_wf same_dirs_names by auto
  have "q_pending ?q3 = q_pending ?q2"
    unfolding move_finished_def Let_def by (simp split: option.split patrol_verdict.split)
  then have "q_pending ?q3 = q_pending q" using sd by (simp add: same_dirs_def)
    moreover note wf3 = wf_move_finished[OF wf2(1), of p "qt_task_id t" "qr_verdict ?r"]
  ultimately show ?thesis
    using wf2(2) same_dirs_wf[of ?q3 q' cap] same_dirs_names[of ?q3 q'] by (simp add: same_dirs_def[of ?q3])
qed

end
