(* ===== verification/MayorSystem.thy ===== *)
theory MayorSystem
  imports MayorProps
begin

text \<open>
  The Mayor and its Patrols as one transition system. A claim is two steps, the scan under the
  advisory lock and the rename that ends the critical section; a Patrol may crash between any two
  steps; recovery takes no lock, as in the code. Every step finds its own clock and locks.
\<close>

section \<open>The system\<close>

datatype patrol_phase = Idle | Scanned string | Working queue_task

record mayor_sys =
  sx_queue :: queue
  sx_phase :: "string \<Rightarrow> patrol_phase"
  sx_lock :: "string option"

definition mayor_start :: mayor_sys where
  "mayor_start = \<lparr>sx_queue = empty_queue, sx_phase = (\<lambda>_. Idle), sx_lock = None\<rparr>"

inductive mayor_step :: "u64 option \<Rightarrow> mayor_sys \<Rightarrow> mayor_sys \<Rightarrow> bool" for cap where
  enqueues: "me_total_budget env = cap \<Longrightarrow> enqueue env t (sx_queue s) = (r, q) \<Longrightarrow>
     mayor_step cap s (s\<lparr>sx_queue := q\<rparr>)"
| polls: "mayor_status_of env (sx_queue s) = (st, q) \<Longrightarrow> mayor_step cap s (s\<lparr>sx_queue := q\<rparr>)"
| reconciles: "reconcile env (sx_queue s) = (l, q) \<Longrightarrow> mayor_step cap s (s\<lparr>sx_queue := q\<rparr>)"
| drains: "drain_mail env rcpt (sx_queue s) = (m, q) \<Longrightarrow> mayor_step cap s (s\<lparr>sx_queue := q\<rparr>)"
| scans: "sx_phase s p = Idle \<Longrightarrow> sx_lock s = None \<Longrightarrow> claim_scan env p (sx_queue s) = (Inr n, q) \<Longrightarrow>
     mayor_step cap s (s\<lparr>sx_queue := q, sx_phase := (sx_phase s)(p := Scanned n), sx_lock := Some p\<rparr>)"
| scan_fails: "sx_phase s p = Idle \<Longrightarrow> me_mayor_lock env \<longrightarrow> sx_lock s = None \<Longrightarrow>
     claim_scan env p (sx_queue s) = (Inl e, q) \<Longrightarrow> mayor_step cap s (s\<lparr>sx_queue := q\<rparr>)"
| takes: "sx_phase s p = Scanned n \<Longrightarrow> claim_take env p n (sx_queue s) = (Inr t, q) \<Longrightarrow>
     mayor_step cap s (s\<lparr>sx_queue := q, sx_phase := (sx_phase s)(p := Working t), sx_lock := None\<rparr>)"
| take_fails: "sx_phase s p = Scanned n \<Longrightarrow> claim_take env p n (sx_queue s) = (Inl e, q) \<Longrightarrow>
     mayor_step cap s (s\<lparr>sx_queue := q, sx_phase := (sx_phase s)(p := Idle), sx_lock := None\<rparr>)"
| finishes: "sx_phase s p = Working t \<Longrightarrow> finish_task env p t outcome (sx_queue s) = (r, q) \<Longrightarrow>
     mayor_step cap s (s\<lparr>sx_queue := q, sx_phase := (sx_phase s)(p := Idle)\<rparr>)"
| crashes: "mayor_step cap s (s\<lparr>sx_phase := (sx_phase s)(p := Idle),
       sx_lock := (if sx_lock s = Some p then None else sx_lock s)\<rparr>)"

abbreviation mayor_reachable :: "u64 option \<Rightarrow> mayor_sys \<Rightarrow> bool" where
  "mayor_reachable cap \<equiv> reachable (\<lambda>s. s = mayor_start) (mayor_step cap)"

section \<open>The invariant\<close>

definition phase_ok :: "u64 option \<Rightarrow> mayor_sys \<Rightarrow> string \<Rightarrow> bool" where
  "phase_ok cap s p =
     (case sx_phase s p of
        Idle \<Rightarrow> True
      | Scanned n \<Rightarrow> sx_lock s = Some p \<and> n \<in> pending_names (sx_queue s)
      | Working t \<Rightarrow> task_within cap t)"

definition mayor_inv :: "u64 option \<Rightarrow> mayor_sys \<Rightarrow> bool" where
  "mayor_inv cap s = (wf_queue cap (sx_queue s) \<and> (\<forall>p. phase_ok cap s p))"

lemma mayor_inv_start: "mayor_inv cap mayor_start"
  by (simp add: mayor_inv_def mayor_start_def empty_queue_def wf_queue_def unique_names_def names_def files_of_def phase_ok_def)

text \<open>A step of the queue that keeps the names pending keeps the phases.\<close>

lemma inv_queue_step:
  assumes "mayor_inv cap s" "wf_queue cap q" "pending_names (sx_queue s) \<subseteq> pending_names q"
  shows "mayor_inv cap (s\<lparr>sx_queue := q\<rparr>)"
  using assms by (auto simp: mayor_inv_def phase_ok_def split: patrol_phase.splits)

lemma claim_scan_cases:
  assumes "claim_scan env p q = (r, q')"
  shows "same_dirs q q'" and "r = Inr n \<Longrightarrow> n \<in> pending_names q \<and> is_valid_queue_id p \<and> me_mayor_lock env"
proof -
  show "same_dirs q q'"
    using assms
    by (auto simp: claim_scan_def st_bind_def write_heartbeat_def checked_step_def same_dirs_def
        split: sum.splits if_splits list.splits)
  assume r: "r = Inr n"
  then have "n \<in> set (sorted_json_filenames (map fst (q_pending q)))" "is_valid_queue_id p" "me_mayor_lock env"
    using assms
    by (auto simp: claim_scan_def st_bind_def write_heartbeat_def checked_step_def validate_file_component_def
        split: sum.splits if_splits list.splits)
  then show "n \<in> pending_names q \<and> is_valid_queue_id p \<and> me_mayor_lock env"
    by (auto simp: sorted_json_filenames_def pending_names_def)
qed

lemma claim_take_wf:
  assumes "wf_queue cap q" "claim_take env p n q = (r, q')"
  shows "wf_queue cap q' \<and> names q' = names q \<and> (\<forall>t. r = Inr t \<longrightarrow> task_within cap t \<and> n = json_name (qt_task_id t))"
proof (cases "map_of (q_pending q) n")
  case None
  then show ?thesis using assms by (simp add: claim_take_def) blast
next
  case (Some c)
  let ?q = "q\<lparr>q_pending := AList.delete n (q_pending q), q_claimed := AList.update (p, n) c (q_claimed q)\<rparr>"
  note wf = wf_take_pending[OF assms(1) Some, of p]
  obtain t where t: "c = TaskFile t" "n = json_name (qt_task_id t)" "task_within cap t"
    using file_name_valid[OF assms(1) found_pending[OF Some]] by blast
  have run: "(case claim_check n c of Inl e \<Rightarrow> (Inl e, ?q)
      | Inr t \<Rightarrow> (Inr t, emit env ''patrol.claimed'' (JObj [(''patrol_id'', JStr p), (''task_id'', JStr (qt_task_id t))])
          (best_effort (record_claimed env (qt_task_id t) p) ?q))) = (r, q')"
    using assms(2) unfolding claim_take_def Let_def Some option.case .
  have sd: "same_dirs ?q q' \<and> (\<forall>u. r = Inr u \<longrightarrow> claim_check n c = Inr u)"
  proof (cases "claim_check n c")
    case (Inl e)
    then show ?thesis using run same_dirs_refl by auto
  next
    case (Inr u)
    have "same_dirs ?q (emit env k j (best_effort (record_claimed env (qt_task_id u) p) ?q))" for k j
      by (rule same_dirs_trans[OF same_dirs_best_effort[OF quiet_claimed] same_dirs_emit])
    then show ?thesis using run unfolding Inr by auto
  qed
  have "u = t" if "claim_check n c = Inr u" for u
    using that t(1) by (auto simp: claim_check_def result_simps split: if_splits)
  then have "\<forall>u. r = Inr u \<longrightarrow> u = t" using sd by blast
  then have "\<forall>u. r = Inr u \<longrightarrow> task_within cap u \<and> n = json_name (qt_task_id u)" using t(2,3) by blast
  then show ?thesis using wf same_dirs_wf[of ?q q' cap] same_dirs_names[of ?q q'] sd by simp
qed

lemma mayor_inv_step:
  assumes "mayor_step cap s s'" and "mayor_inv cap s"
  shows "mayor_inv cap s' \<and> names (sx_queue s) \<subseteq># names (sx_queue s')"
  using assms(1)
proof cases
  case (enqueues env t r q)
  then show ?thesis
    using enqueue_wf[of env "sx_queue s" t r q] assms(2) inv_queue_step[OF assms(2), of q] by (auto simp: mayor_inv_def)
next
  case (polls env st q)
  then show ?thesis
    using status_wf[of cap "sx_queue s" env st q] assms(2) inv_queue_step[OF assms(2), of q] by (auto simp: mayor_inv_def)
next
  case (reconciles env l q)
  have "same_dirs (sx_queue s) q"
    using reconciles(2) by (auto simp: reconcile_def same_dirs_def Let_def split: if_splits)
  then show ?thesis
    using reconciles(1) assms(2) inv_queue_step[OF assms(2), of q] same_dirs_wf same_dirs_names same_dirs_pending
    by (auto simp: mayor_inv_def)
next
  case (drains env rcpt m q)
  have "same_dirs (sx_queue s) q"
    using drains(2) by (auto simp: drain_mail_def same_dirs_def split: if_splits sum.splits prod.splits)
  then show ?thesis
    using drains(1) assms(2) inv_queue_step[OF assms(2), of q] same_dirs_wf same_dirs_names same_dirs_pending
    by (auto simp: mayor_inv_def)
next
  case (scans p env n q)
  note sd = claim_scan_cases(1)[OF scans(4)]
  have "wf_queue cap q" "names q = names (sx_queue s)" "pending_names q = pending_names (sx_queue s)"
    using sd assms(2) same_dirs_wf same_dirs_names same_dirs_pending by (auto simp: mayor_inv_def)
  moreover have "n \<in> pending_names (sx_queue s)" using claim_scan_cases(2)[OF scans(4)] by simp
  ultimately show ?thesis
    using scans(1,3) assms(2) by (fastforce simp: mayor_inv_def phase_ok_def split: patrol_phase.splits)
next
  case (scan_fails p env e q)
  note sd = claim_scan_cases(1)[OF scan_fails(4)]
  then show ?thesis
    using scan_fails(1) assms(2) inv_queue_step[OF assms(2), of q] same_dirs_wf same_dirs_names same_dirs_pending
    by (auto simp: mayor_inv_def)
next
  case (takes p n env t q)
  have "wf_queue cap q" "names q = names (sx_queue s)" "task_within cap t"
    using claim_take_wf[OF _ takes(3)] assms(2) by (auto simp: mayor_inv_def)
  moreover have "sx_lock s = Some p" using takes(2) assms(2) by (auto simp: mayor_inv_def phase_ok_def split: patrol_phase.splits)
  ultimately show ?thesis
    using takes(1) assms(2) by (fastforce simp: mayor_inv_def phase_ok_def split: patrol_phase.splits)
next
  case (take_fails p n env e q)
  have "wf_queue cap q" "names q = names (sx_queue s)"
    using claim_take_wf[OF _ take_fails(3)] assms(2) by (auto simp: mayor_inv_def)
  moreover have "sx_lock s = Some p" using take_fails(2) assms(2) by (auto simp: mayor_inv_def phase_ok_def split: patrol_phase.splits)
  ultimately show ?thesis
    using take_fails(1) assms(2) by (fastforce simp: mayor_inv_def phase_ok_def split: patrol_phase.splits)
next
  case (finishes p t env outcome r q)
  have "task_within cap t"
    using finishes(2) assms(2) by (auto simp: mayor_inv_def phase_ok_def split: patrol_phase.splits)
  then have "wf_queue cap q" "names q = names (sx_queue s)" "pending_names q = pending_names (sx_queue s)"
    using finish_wf[OF _ _ finishes(3)] assms(2) by (auto simp: mayor_inv_def pending_names_def)
  then show ?thesis
    using finishes(1) assms(2) by (fastforce simp: mayor_inv_def phase_ok_def split: patrol_phase.splits)
next
  case (crashes p)
  then show ?thesis
    using assms(2) by (fastforce simp: mayor_inv_def phase_ok_def split: patrol_phase.splits)
qed

interpretation mayor: invariant "\<lambda>s. s = mayor_start" "mayor_step cap" "mayor_inv cap" for cap
  by unfold_locales (use mayor_inv_start mayor_inv_step in blast)+

end
