(* ===== verification/MayorTheorems.thy ===== *)
theory MayorTheorems
  imports MayorSystem
begin

text \<open>
  What the invariant of the Mayor's system gives: conservation of tasks, claims that cannot fail
  after the scan and take the least name, and budgets; with a demonstration run, which also shows
  how a slow task is worked on twice.
\<close>

section \<open>A demonstration run\<close>

definition demo_mayor_env :: "timestamp \<Rightarrow> mayor_env" where
  "demo_mayor_env now =
     \<lparr>me_config = mayor_patrol_default, me_total_budget = Some 100, me_now = now, me_mayor_lock = True,
      me_ledger_lock = True, me_rpc = True\<rparr>"

definition demo_queue_task :: queue_task where
  "demo_queue_task = \<lparr>qt_task_id = ''fix-1'', qt_prompt = ''fix it'', qt_budget = 50, qt_mcp_servers = [], qt_created_at = Some 1\<rparr>"

definition demo_q1 :: queue where "demo_q1 = snd (enqueue (demo_mayor_env 1) demo_queue_task empty_queue)"
definition demo_q2 :: queue where "demo_q2 = snd (claim_scan (demo_mayor_env 2) ''p1'' demo_q1)"
definition demo_q3 :: queue where "demo_q3 = snd (claim_take (demo_mayor_env 2) ''p1'' ''fix-1.json'' demo_q2)"
definition demo_q4 :: queue where "demo_q4 = snd (mayor_status_of (demo_mayor_env 1000) demo_q3)"
definition demo_q5 :: queue where "demo_q5 = snd (claim_scan (demo_mayor_env 1001) ''p2'' demo_q4)"
definition demo_q6 :: queue where "demo_q6 = snd (claim_take (demo_mayor_env 1001) ''p2'' ''fix-1.json'' demo_q5)"

text \<open>A result that claims success at a cost above the task's ceiling.\<close>

definition dear_result :: "mayor_error + queue_result" where
  "dear_result = Inr \<lparr>qr_task_id = [], qr_patrol_id = [], qr_verdict = PatrolSuccess, qr_cost = 51,
     qr_patch_sha = None, qr_error = None, qr_finished_at = None\<rparr>"

definition demo_q7 :: queue where "demo_q7 = snd (finish_task (demo_mayor_env 9) ''p1'' demo_queue_task dear_result demo_q3)"

definition fair_result :: queue_result where
  "fair_result = \<lparr>qr_task_id = [], qr_patrol_id = [], qr_verdict = PatrolSuccess, qr_cost = 40,
     qr_patch_sha = None, qr_error = None, qr_finished_at = None\<rparr>"

definition demo_q8 :: queue where
  "demo_q8 = snd (finish_task (demo_mayor_env 9) ''p1'' demo_queue_task (Inr fair_result) demo_q3)"

lemmas demo_q_defs = demo_q1_def demo_q2_def demo_q3_def demo_q4_def demo_q5_def demo_q6_def demo_q7_def demo_q8_def

lemma demo_results:
  "fst (claim_scan (demo_mayor_env 2) ''p1'' demo_q1) = Inr ''fix-1.json''"
  "fst (claim_take (demo_mayor_env 2) ''p1'' ''fix-1.json'' demo_q2) = Inr demo_queue_task"
  "fst (claim_scan (demo_mayor_env 1001) ''p2'' demo_q4) = Inr ''fix-1.json''"
  "fst (claim_take (demo_mayor_env 1001) ''p2'' ''fix-1.json'' demo_q5) = Inr demo_queue_task"
  unfolding demo_q_defs by code_simp+

lemma step_eqs:
  "enqueue (demo_mayor_env 1) demo_queue_task empty_queue = (fst (enqueue (demo_mayor_env 1) demo_queue_task empty_queue), demo_q1)"
  "claim_scan (demo_mayor_env 2) ''p1'' demo_q1 = (Inr ''fix-1.json'', demo_q2)"
  "claim_take (demo_mayor_env 2) ''p1'' ''fix-1.json'' demo_q2 = (Inr demo_queue_task, demo_q3)"
  "mayor_status_of (demo_mayor_env 1000) demo_q3 = (fst (mayor_status_of (demo_mayor_env 1000) demo_q3), demo_q4)"
  "claim_scan (demo_mayor_env 1001) ''p2'' demo_q4 = (Inr ''fix-1.json'', demo_q5)"
  "claim_take (demo_mayor_env 1001) ''p2'' ''fix-1.json'' demo_q5 = (Inr demo_queue_task, demo_q6)"
  "finish_task (demo_mayor_env 9) ''p1'' demo_queue_task dear_result demo_q3 =
     (fst (finish_task (demo_mayor_env 9) ''p1'' demo_queue_task dear_result demo_q3), demo_q7)"
  "finish_task (demo_mayor_env 9) ''p1'' demo_queue_task (Inr fair_result) demo_q3 =
     (fst (finish_task (demo_mayor_env 9) ''p1'' demo_queue_task (Inr fair_result) demo_q3), demo_q8)"
  using demo_results by (simp_all add: demo_q_defs prod_eq_iff)

definition demo_sys :: "queue \<Rightarrow> (string \<Rightarrow> patrol_phase) \<Rightarrow> string option \<Rightarrow> mayor_sys" where
  "demo_sys q ph l = \<lparr>sx_queue = q, sx_phase = ph, sx_lock = l\<rparr>"

abbreviation idle :: "string \<Rightarrow> patrol_phase" where "idle \<equiv> (\<lambda>_. Idle)"

lemma demo_sys_sel [simp]:
  "sx_queue (demo_sys q ph l) = q" "sx_phase (demo_sys q ph l) = ph" "sx_lock (demo_sys q ph l) = l"
  "demo_sys q ph l\<lparr>sx_queue := q'\<rparr> = demo_sys q' ph l"
  "demo_sys q ph l\<lparr>sx_phase := ph'\<rparr> = demo_sys q ph' l" "demo_sys q ph l\<lparr>sx_lock := l'\<rparr> = demo_sys q ph l'"
  by (simp_all add: demo_sys_def)

lemmas sys_steps =
  mayor_step.enqueues[where s = "demo_sys q ph l" for q ph l, unfolded demo_sys_sel]
  mayor_step.polls[where s = "demo_sys q ph l" for q ph l, unfolded demo_sys_sel]
  mayor_step.scans[where s = "demo_sys q ph l" for q ph l, unfolded demo_sys_sel]
  mayor_step.takes[where s = "demo_sys q ph l" for q ph l, unfolded demo_sys_sel]
  mayor_step.finishes[where s = "demo_sys q ph l" for q ph l, unfolded demo_sys_sel]

lemma mayor_next: "mayor_reachable cap s \<Longrightarrow> mayor_step cap s s' \<Longrightarrow> mayor_reachable cap s'"
  by (rule reachable.reachable_step)

lemma demo_reachable:
  "mayor_reachable (Some 100) (demo_sys demo_q1 idle None)"
  "mayor_reachable (Some 100) (demo_sys demo_q2 (idle(''p1'' := Scanned ''fix-1.json'')) (Some ''p1''))"
  "mayor_reachable (Some 100) (demo_sys demo_q3 (idle(''p1'' := Working demo_queue_task)) None)"
  "mayor_reachable (Some 100) (demo_sys demo_q8 idle None)"
  "mayor_reachable (Some 100) (demo_sys demo_q6 (idle(''p1'' := Working demo_queue_task, ''p2'' := Working demo_queue_task)) None)"
proof -
  have start: "mayor_reachable (Some 100) (demo_sys empty_queue idle None)"
    by (rule reachable_init) (simp add: demo_sys_def mayor_start_def)
  have cap: "me_total_budget (demo_mayor_env 1) = Some 100" by (simp add: demo_mayor_env_def)
  show r1: "mayor_reachable (Some 100) (demo_sys demo_q1 idle None)"
    by (rule mayor_next[OF start sys_steps(1)[OF cap step_eqs(1)]])
  show r2: "mayor_reachable (Some 100) (demo_sys demo_q2 (idle(''p1'' := Scanned ''fix-1.json'')) (Some ''p1''))"
    by (rule mayor_next[OF r1 sys_steps(3)[OF _ _ step_eqs(2)]]) simp_all
  have r3': "mayor_reachable (Some 100)
      (demo_sys demo_q3 (idle(''p1'' := Scanned ''fix-1.json'', ''p1'' := Working demo_queue_task)) None)"
    by (rule mayor_next[OF r2 sys_steps(4)[OF _ step_eqs(3)]]) simp
  then show r3: "mayor_reachable (Some 100) (demo_sys demo_q3 (idle(''p1'' := Working demo_queue_task)) None)" by simp
  have "mayor_reachable (Some 100) (demo_sys demo_q8 (idle(''p1'' := Working demo_queue_task, ''p1'' := Idle)) None)"
    by (rule mayor_next[OF r3 sys_steps(5)[OF _ step_eqs(8)]]) simp
  moreover have "idle(''p1'' := Working demo_queue_task, ''p1'' := Idle) = idle" by (simp add: fun_eq_iff)
  ultimately show "mayor_reachable (Some 100) (demo_sys demo_q8 idle None)" by simp
  have r5: "mayor_reachable (Some 100) (demo_sys demo_q5 (idle(''p1'' := Working demo_queue_task, ''p2'' := Scanned ''fix-1.json'')) (Some ''p2''))"
    by (rule mayor_next[OF mayor_next[OF r3 sys_steps(2)[OF step_eqs(4)]] sys_steps(3)[OF _ _ step_eqs(5)]]) simp_all
  have "mayor_reachable (Some 100)
      (demo_sys demo_q6 (idle(''p1'' := Working demo_queue_task, ''p2'' := Scanned ''fix-1.json'', ''p2'' := Working demo_queue_task)) None)"
    by (rule mayor_next[OF r5 sys_steps(4)[OF _ step_eqs(6)]]) simp
  then show "mayor_reachable (Some 100) (demo_sys demo_q6 (idle(''p1'' := Working demo_queue_task, ''p2'' := Working demo_queue_task)) None)"
    by simp
qed

text \<open>No heartbeat is written while a task is being worked on, so a task that takes longer than the
  claim's time to live is handed out again although its patrol is alive.\<close>

lemma worked_on_twice:
  "\<exists>s t. mayor_reachable (Some 100) s \<and> sx_phase s ''p1'' = Working t \<and> sx_phase s ''p2'' = Working t"
    by (rule exI, rule exI, rule conjI[OF demo_reachable(5)]) (simp add: demo_sys_def)

section \<open>Theorems\<close>



text \<open>C26. A Patrol that has scanned under the lock gets the task it has seen: the race that the code guards
  against cannot happen, and the file is what its name says.\<close>

theorem mayor_claim_succeeds:
  assumes "mayor_reachable cap s" "sx_phase s p = Scanned n"
  shows "\<exists>t q. claim_take env p n (sx_queue s) = (Inr t, q) \<and> n = json_name (qt_task_id t) \<and>
     map_of (q_claimed q) (p, n) = Some (TaskFile t) \<and> task_within cap t"
proof -
  have "mayor_inv cap s" by (rule mayor.always[OF assms(1)])
  then have wf: "wf_queue cap (sx_queue s)" and "n \<in> pending_names (sx_queue s)"
    using assms(2) by (auto simp: mayor_inv_def phase_ok_def split: patrol_phase.splits)
  then obtain c where c: "map_of (q_pending (sx_queue s)) n = Some c"
    by (auto simp: pending_names_def) (metis map_of_eq_None_iff not_None_eq fst_conv image_eqI)
  obtain t where t: "c = TaskFile t" "n = json_name (qt_task_id t)" "task_within cap t"
    using file_name_valid[OF wf found_pending[OF c]] by blast
  have trim: "trim_json n = qt_task_id t"
    using t(3) unfolding t(2) task_within_def by (intro trim_json_name) simp
  have check: "claim_check n c = Inr t"
    using t(3) trim by (simp add: claim_check_def t(1) validate_file_component_def task_within_def)
  let ?q = "sx_queue s\<lparr>q_pending := AList.delete n (q_pending (sx_queue s)),
      q_claimed := AList.update (p, n) c (q_claimed (sx_queue s))\<rparr>"
  have "q_claimed (emit env k j (best_effort (record_claimed env (qt_task_id t) p) ?q)) =
      AList.update (p, n) c (q_claimed (sx_queue s))" for k j
    using same_dirs_trans[OF same_dirs_best_effort[OF quiet_claimed] same_dirs_emit] by (simp add: same_dirs_def)
  then have "map_of (q_claimed (emit env k j (best_effort (record_claimed env (qt_task_id t) p) ?q))) (p, n) = Some (TaskFile t)" for k j
    by (simp add: update_conv t(1))
  moreover have "\<exists>k j. claim_take env p n (sx_queue s) = (Inr t, emit env k j (best_effort (record_claimed env (qt_task_id t) p) ?q))"
    unfolding claim_take_def Let_def c option.case check sum.case by blast
  ultimately show ?thesis using t(2,3) by metis
qed

theorem mayor_claim_succeeds_witness:
  "\<exists>t q. claim_take (demo_mayor_env 2) ''p1'' ''fix-1.json'' demo_q2 = (Inr t, q) \<and> ''fix-1.json'' = json_name (qt_task_id t) \<and>
     map_of (q_claimed q) (''p1'', ''fix-1.json'') = Some (TaskFile t) \<and> task_within (Some 100) t"
  using mayor_claim_succeeds[OF demo_reachable(2), of "''p1''" "''fix-1.json''" "demo_mayor_env 2"] by simp

text \<open>C27. With a total budget, no recorded result that is not a failure has cost more than it.\<close>

theorem mayor_results_within_budget:
  assumes "mayor_reachable (Some b) s" "(n, ResultFile r) \<in> set (q_results (sx_queue s))" "qr_verdict r \<noteq> PatrolFailed"
  shows "qr_cost r \<le> b"
proof -
  have "mayor_inv (Some b) s" by (rule mayor.always[OF assms(1)])
  then have "result_ok (Some b) (ResultFile r)" using assms(2) by (auto simp: mayor_inv_def wf_queue_def)
  then show ?thesis using assms(3) by (auto simp: result_ok_def)
qed

theorem mayor_results_within_budget_witness:
  "\<exists>r. (''fix-1.json'', ResultFile r) \<in> set (q_results demo_q8) \<and> qr_verdict r = PatrolSuccess \<and> qr_cost r \<le> 100"
proof -
  let ?r = "settle 9 ''p1'' demo_queue_task (Inr fair_result)"
  have "map (\<lambda>(n, c). (n, read_result_file c)) (q_results demo_q8) = [(''fix-1.json'', Some ?r)]"
    unfolding demo_q_defs by code_simp
  then obtain c where c: "(''fix-1.json'', c) \<in> set (q_results demo_q8)" "read_result_file c = Some ?r" by auto
  then have mem: "(''fix-1.json'', ResultFile ?r) \<in> set (q_results demo_q8)" by (cases c) simp_all
  have ok: "qr_verdict ?r = PatrolSuccess" by code_simp
  from mayor_results_within_budget[OF demo_reachable(4), of "''fix-1.json''" ?r] mem ok show ?thesis by auto
qed

text \<open>C28. Finishing a claimed task records its result under the task's and the patrol's name and moves its file
  to the directory of its verdict; an error of the dispatch or a cost above the task's ceiling is a
  failure, whatever the dispatch claims.\<close>

theorem finish_records_result:
  assumes "finish_task env p t outcome q = (Inr r, q')"
    and "map_of (q_claimed q) (p, json_name (qt_task_id t)) = Some c"
  shows "map_of (q_results q') (json_name (qt_task_id t)) = Some (ResultFile r) \<and>
     qr_task_id r = qt_task_id t \<and> qr_patrol_id r = p \<and> qr_finished_at r \<noteq> None \<and>
     (if qr_verdict r = PatrolFailed
      then map_of (q_failed q') (json_name (qt_task_id t)) = Some c \<and> q_done q' = q_done q
      else map_of (q_done q') (json_name (qt_task_id t)) = Some c \<and> q_failed q' = q_failed q) \<and>
     (case outcome of Inr r' \<Rightarrow> qr_cost r = qr_cost r' \<and>
          qr_verdict r = (if qt_budget t < qr_cost r' then PatrolFailed else qr_verdict r')
      | Inl e \<Rightarrow> qr_verdict r = PatrolFailed \<and> qr_cost r = 0 \<and> qr_error r = Some (mayor_error_text e))"
proof -
  let ?i = "qt_task_id t" and ?r = "settle (me_now env) p t outcome"
  let ?q1 = "q\<lparr>q_results := AList.update (json_name ?i) (ResultFile ?r) (q_results q)\<rparr>"
  let ?q2 = "best_effort (record_finished env ?i (qr_verdict ?r) (qr_cost ?r)) ?q1"
  let ?q3 = "move_finished p ?i (qr_verdict ?r) ?q2"
  have run: "r = ?r \<and> same_dirs ?q3 q'"
    using assms(1) unfolding finish_task_def Let_def
    by (cases "validate_file_component ''task_id'' ?i"; cases "validate_file_component ''patrol_id'' p")
      (auto simp: st_bind_def write_heartbeat_def checked_step_def same_dirs_def emit_def)
  have sd: "same_dirs ?q1 ?q2" by (rule same_dirs_best_effort[OF quiet_finished])
  have "map_of (q_claimed ?q2) (p, json_name ?i) = Some c" using sd assms(2) by (simp add: same_dirs_def)
  then have "q_results ?q3 = q_results ?q2" "qr_verdict ?r = PatrolFailed \<Longrightarrow> q_failed ?q3 = AList.update (json_name ?i) c (q_failed ?q2)"
      "qr_verdict ?r = PatrolFailed \<Longrightarrow> q_done ?q3 = q_done ?q2"
      "qr_verdict ?r \<noteq> PatrolFailed \<Longrightarrow> q_done ?q3 = AList.update (json_name ?i) c (q_done ?q2)"
      "qr_verdict ?r \<noteq> PatrolFailed \<Longrightarrow> q_failed ?q3 = q_failed ?q2"
    unfolding move_finished_def Let_def by (simp_all split: patrol_verdict.split)
  then have dirs: "map_of (q_results q') (json_name ?i) = Some (ResultFile ?r)"
      "if qr_verdict ?r = PatrolFailed then map_of (q_failed q') (json_name ?i) = Some c \<and> q_done q' = q_done q
       else map_of (q_done q') (json_name ?i) = Some c \<and> q_failed q' = q_failed q"
    using run sd by (auto simp: same_dirs_def update_conv)
  show ?thesis
    using run dirs by (auto simp: settle_def Let_def result_failed_def split: sum.splits)
qed

theorem finish_records_result_witness:
  "\<exists>r q. finish_task (demo_mayor_env 9) ''p1'' demo_queue_task dear_result demo_q3 = (Inr r, q) \<and>
     qr_verdict r = PatrolFailed \<and> qr_cost r = 51 \<and> map_of (q_failed q) ''fix-1.json'' \<noteq> None"
proof -
  have "map fst (q_claimed demo_q3) = [(''p1'', ''fix-1.json'')]" unfolding demo_q_defs by code_simp
  then have "(''p1'', ''fix-1.json'') \<in> fst ` set (q_claimed demo_q3)" by (simp flip: set_map)
  then obtain c where c: "map_of (q_claimed demo_q3) (''p1'', ''fix-1.json'') = Some c"
    using map_of_eq_None_iff[of "q_claimed demo_q3"] by (cases "map_of (q_claimed demo_q3) (''p1'', ''fix-1.json'')") auto
  have "case fst (finish_task (demo_mayor_env 9) ''p1'' demo_queue_task dear_result demo_q3) of Inr _ \<Rightarrow> True | Inl _ \<Rightarrow> False"
    unfolding demo_q_defs by code_simp
  then obtain r q where run: "finish_task (demo_mayor_env 9) ''p1'' demo_queue_task dear_result demo_q3 = (Inr r, q)"
    by (cases "finish_task (demo_mayor_env 9) ''p1'' demo_queue_task dear_result demo_q3") (auto split: sum.splits)
  have name: "json_name (qt_task_id demo_queue_task) = ''fix-1.json''" by code_simp
  from finish_records_result[OF run] c name run show ?thesis
    by (auto simp: dear_result_def demo_queue_task_def split: if_splits)
qed

text \<open>A claim takes the pending task whose name is the least, and moves it to the patrol.\<close>

theorem claim_takes_least:
  assumes "claim env p q = (Inr t, q')" "wf_queue cap q"
  shows "json_name (qt_task_id t) \<in> pending_names q \<and> (\<forall>n \<in> pending_names q. json_name (qt_task_id t) \<le> n) \<and>
     pending_names q' = pending_names q - {json_name (qt_task_id t)} \<and> names q' = names q"
proof -
  obtain n q1 where scan: "claim_scan env p q = (Inr n, q1)" and take: "claim_take env p n q1 = (Inr t, q')"
    using assms(1) by (auto simp: claim_def result_simps)
  note sd = claim_scan_cases(1)[OF scan]
  have wf: "wf_queue cap q1" using sd assms(2) same_dirs_wf by blast
  have n: "n = json_name (qt_task_id t)" "names q' = names q1" using claim_take_wf[OF wf take] by auto
  obtain ns where ns: "sorted_json_filenames (map fst (q_pending q1)) = n # ns"
    using scan by (auto simp: claim_scan_def result_simps same_dirs_def split: if_splits list.splits)
  have all: "set (sorted_json_filenames (map fst (q_pending q1))) = pending_names q1"
  proof -
    have "is_json m \<and> valid_utf8 m" if m: "m \<in> pending_names q1" for m
    proof -
      obtain c where "(m, c) \<in> set (q_pending q1)" using m by (auto simp: pending_names_def)
      then have "(m, c) \<in> files_of q1" by (simp add: files_of_def)
      then obtain u where "m = json_name (qt_task_id u)" "is_valid_queue_id (qt_task_id (u :: queue_task))"
        using file_name_valid[OF wf] unfolding task_within_def by blast
      then show ?thesis by (simp add: is_json_name valid_json_name_utf8)
    qed
    then show ?thesis by (auto simp: sorted_json_filenames_def pending_names_def)
  qed
  have "sorted (n # ns)" using ns[symmetric] by (simp add: sorted_json_filenames_def)
  then have least: "n \<in> pending_names q1" "\<forall>m \<in> pending_names q1. n \<le> m" using all unfolding ns by auto
  obtain c where c: "map_of (q_pending q1) n = Some c"
    using least(1) by (auto simp: pending_names_def) (metis map_of_eq_None_iff not_None_eq fst_conv image_eqI)
  have "q_pending q' = AList.delete n (q_pending q1)"
    using take unfolding claim_take_def Let_def c option.case
    by (auto simp: frame_simps quiet_claimed split: sum.splits)
  then have "pending_names q' = pending_names q1 - {n}" by (simp add: pending_names_def delete_keys_image)
  then show ?thesis using least n sd same_dirs_names same_dirs_pending by auto
qed

theorem claim_takes_least_witness:
  "\<exists>t q. claim (demo_mayor_env 2) ''p1'' demo_q1 = (Inr t, q) \<and>
     pending_names q = pending_names demo_q1 - {json_name (qt_task_id t)} \<and> names q = names demo_q1"
proof -
  have run: "claim (demo_mayor_env 2) ''p1'' demo_q1 = (Inr demo_queue_task, demo_q3)"
    by (simp add: claim_def st_bind_def step_eqs(2,3))
  have "mayor_inv (Some 100) (demo_sys demo_q1 idle None)" by (rule mayor.always[OF demo_reachable(1)])
  then have "wf_queue (Some 100) demo_q1" by (simp add: mayor_inv_def)
  from claim_takes_least[OF run this] run show ?thesis by blast
qed

end
