(* ===== verification/MayorLedger.thy ===== *)
theory MayorLedger
  imports MayorTheorems
begin

text \<open>
  The coordination ledger as a refinement: the abstract state says for every task in which
  directory it is, each operation of the queue is one update of it, and the recorded ledger makes
  the same update, so that it goes on projecting the directories. Rebuilding it from the
  directories gives the projection whatever was recorded before.
\<close>

section \<open>The abstract state\<close>

definition claimed_names :: "queue \<Rightarrow> string set" where
  "claimed_names q = (\<lambda>x. snd (fst x)) ` set (q_claimed q)"

definition view_of :: "string set \<Rightarrow> string set \<Rightarrow> string set \<Rightarrow> string set \<Rightarrow> string \<rightharpoonup> ledger_phase" where
  "view_of P C D F i =
     (if json_name i \<in> F then Some LedgerFailed
      else if json_name i \<in> D then Some LedgerDone
      else if json_name i \<in> C then Some LedgerClaimed
      else if json_name i \<in> P then Some LedgerPending else None)"

definition dir_view :: "queue \<Rightarrow> string \<rightharpoonup> ledger_phase" where
  "dir_view q = view_of (pending_names q) (claimed_names q) (fst ` set (q_done q)) (fst ` set (q_failed q))"

definition phases :: "ledger \<Rightarrow> string \<rightharpoonup> ledger_phase" where
  "phases l i = map_option le_state (lg_entries l i)"

definition projects :: "queue \<Rightarrow> bool" where
  "projects q = (\<exists>l. coord_ledger q = Inr l \<and> phases l = dir_view q)"

text \<open>Coordination is on and its lock can be had.\<close>

definition connected :: "mayor_env \<Rightarrow> bool" where
  "connected env = (mp_coordination_enabled (me_config env) \<and> me_ledger_lock env)"

section \<open>What the queue's moves do to the view\<close>

lemma same_dirs_view: "same_dirs q q' \<Longrightarrow> dir_view q' = dir_view q"
  by (simp add: same_dirs_def dir_view_def claimed_names_def pending_names_def)










section \<open>What recording does to the ledger\<close>



section \<open>The ledger follows the queue\<close>

lemma projects_frame: "same_dirs q q' \<Longrightarrow> q_ledger q' = q_ledger q \<Longrightarrow> projects q' = projects q"
  by (simp add: projects_def same_dirs_view coord_ledger_def)

lemma projects_emit [simp]: "projects (emit env k j q) = projects q"
  by (rule projects_frame) (simp_all add: same_dirs_emit frame_simps)











section \<open>Rebuilding the ledger\<close>

definition named :: "(string \<times> 'a) list \<Rightarrow> bool" where
  "named d = (\<forall>n \<in> fst ` set d. \<exists>i. is_valid_queue_id i \<and> n = json_name i)"

lemma read_task_ids_keys:
  assumes "named d"
  shows "i \<in> fst ` set (read_task_ids d) \<longleftrightarrow> json_name i \<in> fst ` set d"
proof -
  have one: "is_json n \<and> is_valid_queue_id (fst (split_ext n)) \<and> json_name (fst (split_ext n)) = n" if "n \<in> fst ` set d" for n
    using that assms by (auto simp: named_def is_json_name split_json_name)
  have stem: "fst (split_ext (json_name i)) = i" if "json_name i \<in> fst ` set d"
    using one[OF that] by (simp add: json_name_inj)
  have "fst ` set (read_task_ids d) = (\<lambda>n. fst (split_ext n)) ` {n \<in> fst ` set d. is_json n \<and> is_valid_queue_id (fst (split_ext n))}"
    unfolding read_task_ids_def by (auto simp: image_iff) force+
  then show ?thesis using one stem by (auto simp: image_iff) (metis fst_conv)+
qed

lemma states_of:
  assumes "\<forall>(k, e) \<in> set xs. le_state e = ph"
  shows "map_option le_state (map_of xs i) = (if i \<in> fst ` set xs then Some ph else None)"
proof (cases "map_of xs i")
  case None
  then show ?thesis by (simp add: map_of_eq_None_iff)
next
  case (Some e)
  then have "(i, e) \<in> set xs" by (rule map_of_SomeD)
  then show ?thesis using assms Some by force
qed

lemma scan_live_states:
  "fst ` set (scan_live ph owner d) = fst ` set (read_task_ids d)" "\<forall>(k, e) \<in> set (scan_live ph owner d). le_state e = ph"
  by (simp add: scan_live_def image_image case_prod_beta) (auto simp: scan_live_def)

lemma scan_terminal_states:
  "fst ` set (scan_terminal q ph d) = fst ` set (read_task_ids d)" "\<forall>(k, e) \<in> set (scan_terminal q ph d). le_state e = ph"
  by (simp add: scan_terminal_def image_image case_prod_beta Let_def) (auto simp: scan_terminal_def Let_def)

lemma claimed_entries: "(\<exists>p \<in> set (subdirs d). n \<in> fst ` set (entries_of p d)) \<longleftrightarrow> n \<in> (\<lambda>x. snd (fst x)) ` set d"
  by (auto simp: subdirs_def entries_of_def image_iff) force+

lemma wf_named:
  assumes "wf_queue cap q"
  shows "named (q_pending q)" "named (entries_of p (q_claimed q))" "named (q_done q)" "named (q_failed q)"
proof -
  have ok: "\<exists>i. is_valid_queue_id i \<and> n = json_name i" if "(n, c) \<in> files_of q" for n c
    using file_name_valid[OF assms that] unfolding task_within_def by blast
  have "(n, c) \<in> files_of q" if "(n, c) \<in> set (entries_of p (q_claimed q))" for n c
    using that by (force simp: entries_of_def files_of_def strip_def)
  then show "named (entries_of p (q_claimed q))" using ok by (force simp: named_def)
  show "named (q_pending q)" "named (q_done q)" "named (q_failed q)" using ok by (force simp: named_def files_of_def)+
qed

lemma scan_phases:
  assumes "wf_queue cap q"
  shows "phases (scan_queue_dirs q) = dir_view q"
proof
  fix i
  note nm = wf_named[OF assms]
  let ?C = "concat (map (\<lambda>p. scan_live LedgerClaimed (Some (from_utf8_lossy p)) (entries_of p (q_claimed q))) (subdirs (q_claimed q)))"
  have keysC: "i \<in> fst ` set ?C \<longleftrightarrow> json_name i \<in> claimed_names q"
  proof -
    have "fst ` set ?C = (\<Union>p \<in> set (subdirs (q_claimed q)). fst ` set (read_task_ids (entries_of p (q_claimed q))))"
      by (simp add: image_UN scan_live_states(1))
    then show ?thesis using read_task_ids_keys[OF nm(2)] claimed_entries by (simp add: claimed_names_def)
  qed
  have stC: "\<forall>(k, e) \<in> set ?C. le_state e = LedgerClaimed" using scan_live_states(2) by auto
  have part: "map_option le_state (map_of (rev xs) i) = (if i \<in> fst ` set xs then Some ph else None)"
    if "\<forall>(k, e) \<in> set xs. le_state e = ph" for xs ph
    using states_of[of "rev xs" ph i] that by simp
  note parts = part[OF scan_live_states(2)] part[OF stC]
    part[OF scan_terminal_states(2)] part[OF scan_terminal_states(2)]
  have over: "map_option le_state ((f ++ g) i) = (case map_option le_state (g i) of None \<Rightarrow> map_option le_state (f i) | x \<Rightarrow> x)" for f g
    by (simp add: map_add_def split: option.split)
  show "phases (scan_queue_dirs q) i = dir_view q i"
    unfolding phases_def scan_queue_dirs_def ledger.select_convs rev_append map_of_append over parts
      scan_live_states(1) scan_terminal_states(1) scan_terminal_states(1) keysC
      read_task_ids_keys[OF nm(1)] read_task_ids_keys[OF nm(3)] read_task_ids_keys[OF nm(4)]
    by (simp add: dir_view_def view_of_def pending_names_def)
qed

section \<open>Theorems\<close>


lemma demo_projects:
  "connected (demo_mayor_env now)" "wf_queue (Some 100) empty_queue" "projects empty_queue"
  by (simp_all add: connected_def demo_mayor_env_def mayor_patrol_default_def empty_queue_def wf_queue_def unique_names_def
      names_def files_of_def projects_def coord_ledger_def phases_def dir_view_def view_of_def pending_names_def
      claimed_names_def fun_eq_iff)


text \<open>C30. Rebuilding gives a ledger that projects the directories whatever the recorded one was, also when it
  could not be read, changes no queue directory, and does nothing more when run again.\<close>

theorem reconcile_restores:
  assumes "connected env" "wf_queue cap q"
  shows "\<exists>l q'. reconcile env q = (Inr l, q') \<and> phases l = dir_view q \<and> projects q' \<and> same_dirs q q' \<and>
     reconcile env q' = (Inr l, q')"
proof -
  let ?l = "scan_queue_dirs q" and ?q = "q\<lparr>q_ledger := Some (LedgerFile (scan_queue_dirs q))\<rparr>"
  have sd: "same_dirs q ?q" by (simp add: same_dirs_def)
  have again: "scan_queue_dirs ?q = ?l"
    by (simp add: scan_queue_dirs_def scan_terminal_def read_result_def)
  have "reconcile env q = (Inr ?l, ?q)" "reconcile env ?q = (Inr ?l, ?q)"
    using assms(1) by (simp_all add: reconcile_def connected_def Let_def again)
  moreover have "projects ?q"
    using scan_phases[OF assms(2)] same_dirs_view[OF sd] by (simp add: projects_def coord_ledger_def)
  ultimately show ?thesis using scan_phases[OF assms(2)] sd by blast
qed

theorem reconcile_restores_witness:
  "\<exists>l q'. reconcile (demo_mayor_env 5) (demo_q1\<lparr>q_ledger := Some (RawFile ''damaged'')\<rparr>) = (Inr l, q') \<and> projects q'"
proof -
  have "mayor_inv (Some 100) (demo_sys demo_q1 idle None)" by (rule mayor.always[OF demo_reachable(1)])
  then have "wf_queue (Some 100) demo_q1" by (simp add: mayor_inv_def)
  then have "wf_queue (Some 100) (demo_q1\<lparr>q_ledger := Some (RawFile ''damaged'')\<rparr>)"
    by (subst same_dirs_wf[where q = demo_q1]) (simp_all add: same_dirs_def)
  from reconcile_restores[OF demo_projects(1) this, of 5] show ?thesis by blast
qed

end
