(* ===== verification/BudgetAudit.thy ===== *)
theory BudgetAudit
  imports NerveTypes GoalCheck
begin

text \<open>
  The tamper-evident log of budget changes, \<^verbatim>\<open>crates/nerve-core/src/budget_audit.rs\<close>: entries linked by
  hashes, keyed when the operator has set a key, and the key's resolution from the environment. The
  hash functions, the JSON library and the key files are parameters; the log file is its text, and
  one flag says whether its directory, its lock and its replacement can be had.
\<close>

section \<open>Data\<close>

record budget_snapshot =
  bs_max_total_tokens :: "u64 option"
  bs_max_cost :: "u64 option"

record budget_audit_entry =
  ba_ts :: timestamp
  ba_prev :: budget_snapshot
  ba_next :: budget_snapshot
  ba_source :: string
  ba_user_confirmed :: bool
  ba_prev_hash :: "string option"
  ba_entry_mac :: "string option"

datatype audit_error =
  AuditRead string
| AuditInvalidJson string
| ChainBroken nat string "string option"
| KeyOverUnkeyedLog string nat string
| KeyMisconfigured string string
| AuditIo string

datatype chain_status = ChainEmpty | ChainIntact nat string | ChainIsBroken nat string "string option"

record audit_chain_state =
  cs_last_hash :: "string option"
  cs_entries :: nat

definition audit_key_env :: string where "audit_key_env = ''NERVE_BUDGET_AUDIT_KEY''"
definition audit_key_file_env :: string where "audit_key_file_env = ''NERVE_BUDGET_AUDIT_KEY_FILE''"

text \<open>SHA-256, HMAC-SHA-256 under a key, and the JSON of one entry and of a log.\<close>

record audit_lib =
  al_sha :: "string \<Rightarrow> u8 list"
  al_hmac :: "string \<Rightarrow> string \<Rightarrow> u8 list"
  al_entry_json :: "budget_audit_entry \<Rightarrow> string"
  al_log_json :: "budget_audit_entry list \<Rightarrow> string"
  al_parse_log :: "string \<Rightarrow> budget_audit_entry list option"

record audit_disk =
  ad_log :: "string option"
  ad_writable :: bool

section \<open>Hashes and links\<close>

definition hex_digit :: "nat \<Rightarrow> char" where
  "hex_digit n = (if n < 10 then char_of (48 + n) else char_of (87 + n))"

definition to_hex :: "u8 list \<Rightarrow> string" where
  "to_hex bs = concat (map (\<lambda>b. [hex_digit (unat b div 16), hex_digit (unat b mod 16)]) bs)"

definition bare :: "budget_audit_entry \<Rightarrow> budget_audit_entry" where
  "bare e = e\<lparr>ba_entry_mac := None\<rparr>"

definition hash_entry :: "audit_lib \<Rightarrow> string option \<Rightarrow> budget_audit_entry \<Rightarrow> string" where
  "hash_entry lib key e =
     (let raw = al_entry_json lib (bare e)
      in to_hex (case key of Some k \<Rightarrow> al_hmac lib k raw | None \<Rightarrow> al_sha lib raw))"

text \<open>The loop over the entries: the index, the hash of the entry before, and whether a link was seen.\<close>

fun verify_links ::
  "audit_lib \<Rightarrow> string option \<Rightarrow> nat \<Rightarrow> string option \<Rightarrow> bool \<Rightarrow> budget_audit_entry list \<Rightarrow> audit_error + string option" where
  "verify_links lib key i before seen [] = Inr before"
| "verify_links lib key i before seen (e # es) =
     (if i = 0 then verify_links lib key (Suc i) (Some (hash_entry lib key e)) seen es
      else (case (ba_prev_hash e, before) of
          (Some claimed, Some expected) \<Rightarrow>
            if claimed = expected then verify_links lib key (Suc i) (Some (hash_entry lib key e)) True es
            else Inl (ChainBroken i expected (Some claimed))
        | (None, Some expected) \<Rightarrow>
            if key = None \<and> \<not> seen then verify_links lib key (Suc i) (Some (hash_entry lib key e)) seen es
            else Inl (ChainBroken i expected None)
        | (claimed, None) \<Rightarrow> Inl (ChainBroken i [] claimed)))"

definition verify_tail :: "string option \<Rightarrow> budget_audit_entry list \<Rightarrow> string option \<Rightarrow> audit_error + unit" where
  "verify_tail key es head =
     (case (es, head) of
        (_ # _, Some expected) \<Rightarrow>
          if key = None \<or> ba_entry_mac (last es) = Some expected then Inr ()
          else Inl (ChainBroken (length es - 1) expected (ba_entry_mac (last es)))
      | _ \<Rightarrow> Inr ())"

definition verify_chain ::
  "audit_lib \<Rightarrow> string option \<Rightarrow> budget_audit_entry list \<Rightarrow> audit_error + string option \<times> nat" where
  "verify_chain lib key es =
     res_bind (verify_links lib key 0 None False es) (\<lambda>head.
     res_bind (verify_tail key es head) (\<lambda>_. Inr (head, length es)))"

definition diagnose_keyed_load ::
  "audit_lib \<Rightarrow> audit_error \<Rightarrow> budget_audit_entry list \<Rightarrow> string option \<Rightarrow> string \<Rightarrow> audit_error" where
  "diagnose_keyed_load lib err es key path =
     (case err of
        ChainBroken _ _ _ \<Rightarrow>
          (case (key, verify_chain lib None es) of
             (Some _, Inr _) \<Rightarrow> KeyOverUnkeyedLog path (length es) audit_key_env
           | _ \<Rightarrow> err)
      | _ \<Rightarrow> err)"

section \<open>The log file\<close>

definition read_audit_log_raw :: "audit_lib \<Rightarrow> string \<Rightarrow> audit_disk \<Rightarrow> audit_error + budget_audit_entry list" where
  "read_audit_log_raw lib path d =
     (case ad_log d of
        None \<Rightarrow> Inr []
      | Some raw \<Rightarrow>
          if \<not> valid_utf8 raw then Inl (AuditRead path)
          else if trim_ws raw = [] then Inr []
          else (case al_parse_log lib raw of Some es \<Rightarrow> Inr es | None \<Rightarrow> Inl (AuditInvalidJson path)))"

definition write_audit_log_atomic ::
  "audit_lib \<Rightarrow> budget_audit_entry list \<Rightarrow> (audit_disk, audit_error, unit) step" where
  "write_audit_log_atomic lib es d =
     (if ad_writable d then (Inr (), d\<lparr>ad_log := Some (al_log_json lib es)\<rparr>) else (Inl (AuditIo ''persist''), d))"

definition checked_head ::
  "audit_lib \<Rightarrow> string \<Rightarrow> string option \<Rightarrow> budget_audit_entry list \<Rightarrow> audit_error + string option \<times> nat" where
  "checked_head lib path key es =
     (case verify_chain lib key es of Inl e \<Rightarrow> Inl (diagnose_keyed_load lib e es key path) | Inr r \<Rightarrow> Inr r)"

definition load_with_key :: "audit_lib \<Rightarrow> string \<Rightarrow> string option \<Rightarrow> audit_disk \<Rightarrow> audit_error + audit_chain_state" where
  "load_with_key lib path key d =
     res_bind (read_audit_log_raw lib path d) (\<lambda>es.
     res_bind (checked_head lib path key es) (\<lambda>(head, n). Inr \<lparr>cs_last_hash = head, cs_entries = n\<rparr>))"

definition linked_entry :: "audit_lib \<Rightarrow> string option \<Rightarrow> string option \<Rightarrow> budget_audit_entry \<Rightarrow> budget_audit_entry" where
  "linked_entry lib key head e =
     (let e1 = e\<lparr>ba_prev_hash := head\<rparr>
      in if key = None then e1 else e1\<lparr>ba_entry_mac := Some (hash_entry lib key e1)\<rparr>)"

text \<open>The state of the caller is replaced only by a completed append.\<close>

definition append_with_key ::
  "audit_lib \<Rightarrow> string \<Rightarrow> string option \<Rightarrow> budget_audit_entry \<Rightarrow> (audit_disk, audit_error, audit_chain_state) step" where
  "append_with_key lib path key e d =
     (if \<not> ad_writable d then (Inl (AuditIo ''lock''), d)
      else (case res_bind (read_audit_log_raw lib path d) (\<lambda>es.
                 res_bind (checked_head lib path key es) (\<lambda>(head, _). Inr (es, head))) of
          Inl err \<Rightarrow> (Inl err, d)
        | Inr (es, head) \<Rightarrow>
            (let e' = linked_entry lib key head e in
             st_bind (write_audit_log_atomic lib (es @ [e'])) (\<lambda>_ d'.
               (Inr \<lparr>cs_last_hash = Some (hash_entry lib key e'), cs_entries = length (es @ [e'])\<rparr>, d')) d)))"

definition append_budget_audit_entry_with_key ::
  "audit_lib \<Rightarrow> string \<Rightarrow> string option \<Rightarrow> budget_audit_entry \<Rightarrow> (audit_disk, audit_error, audit_chain_state) step" where
  "append_budget_audit_entry_with_key lib path key e d =
     (case load_with_key lib path key d of Inl err \<Rightarrow> (Inl err, d) | Inr _ \<Rightarrow> append_with_key lib path key e d)"

definition verify_with_key :: "audit_lib \<Rightarrow> string \<Rightarrow> string option \<Rightarrow> audit_disk \<Rightarrow> audit_error + chain_status" where
  "verify_with_key lib path key d =
     res_bind (read_audit_log_raw lib path d) (\<lambda>es.
       if es = [] then Inr ChainEmpty
       else (case verify_chain lib key es of
           Inr (Some h, n) \<Rightarrow> Inr (ChainIntact n h)
         | Inr (None, _) \<Rightarrow> Inr ChainEmpty
         | Inl (ChainBroken i expected actual) \<Rightarrow> Inr (ChainIsBroken i expected actual)
         | Inl err \<Rightarrow> Inl err))"

definition em_dash :: string where "em_dash = [CHR 0xE2, CHR 0x80, CHR 0x94]"

definition format_chain_broken :: "chain_status \<Rightarrow> string option" where
  "format_chain_broken st =
     (case st of
        ChainIsBroken i expected actual \<Rightarrow>
          Some (''RED: budget audit hash chain broken at entry #'' @ show_nat i @ '' (expected prev_hash `'' @ expected @
            ''`, found `'' @ (case actual of Some h \<Rightarrow> h | None \<Rightarrow> ''<missing>'') @
            ''`): the log no longer verifies '' @ em_dash @ '' it was modified after it was written, OR (if you recently set `'' @
            audit_key_env @ ''`) it predates the key (a pre-key log is not retroactively protected; archive or re-key it). '' @
            ''Note: an intact chain is NOT proof of authenticity '' @ em_dash @ '' without `'' @ audit_key_env @
            ''` anyone who can write the file can forge a valid chain, and even keyed, a writer can roll the log back. '' @
            ''Keep the key off the defended host.'')
      | _ \<Rightarrow> None)"

section \<open>The operator's key\<close>

datatype env_value = NotPresent | NotUnicode | EnvValue string

fun classify_key_var :: "string \<Rightarrow> env_value \<Rightarrow> audit_error + string option" where
  "classify_key_var env (EnvValue v) = Inr (Some v)"
| "classify_key_var env NotPresent = Inr None"
| "classify_key_var env NotUnicode =
     Inl (KeyMisconfigured env ''the environment variable is set but its value is not valid UTF-8'')"

definition key_from_file :: "(string \<Rightarrow> string + string) \<Rightarrow> string \<Rightarrow> audit_error + string option" where
  "key_from_file files path =
     (if \<not> starts_with ''/'' path
      then Inl (KeyMisconfigured audit_key_file_env (''`'' @ path @
        ''` is not an absolute path (a relative path would resolve inside the repository working directory)''))
      else (case files path of
          Inl e \<Rightarrow> Inl (KeyMisconfigured audit_key_file_env (''could not read key file `'' @ path @ ''`: '' @ e))
        | Inr contents \<Rightarrow>
            if trim_ws contents = [] then Inl (KeyMisconfigured audit_key_file_env (''key file `'' @ path @ ''` is empty''))
            else Inr (Some (trim_ws contents))))"

definition audit_key_from ::
  "(string \<Rightarrow> string + string) \<Rightarrow> string option \<Rightarrow> string option \<Rightarrow> audit_error + string option" where
  "audit_key_from files raw key_file =
     (case raw of
        Some r \<Rightarrow>
          if trim_ws r \<noteq> [] then Inr (Some (trim_ws r))
          else (case key_file of
              Some p \<Rightarrow> if trim_ws p \<noteq> [] then key_from_file files (trim_ws p) else Inr None | None \<Rightarrow> Inr None)
      | None \<Rightarrow>
          (case key_file of
              Some p \<Rightarrow> if trim_ws p \<noteq> [] then key_from_file files (trim_ws p) else Inr None | None \<Rightarrow> Inr None))"

definition resolve_audit_key ::
  "(string \<Rightarrow> string + string) \<Rightarrow> env_value \<Rightarrow> env_value \<Rightarrow> audit_error + string option" where
  "resolve_audit_key files raw_var file_var =
     res_bind (classify_key_var audit_key_env raw_var) (\<lambda>raw.
     res_bind (case raw of
         Some r \<Rightarrow> if trim_ws r \<noteq> [] then Inr None else classify_key_var audit_key_file_env file_var
       | None \<Rightarrow> classify_key_var audit_key_file_env file_var) (\<lambda>key_file.
     audit_key_from files raw key_file))"

text \<open>The entry points with the key of the environment.\<close>

definition audit_verify ::
  "audit_lib \<Rightarrow> string \<Rightarrow> (string \<Rightarrow> string + string) \<Rightarrow> env_value \<Rightarrow> env_value \<Rightarrow> audit_disk \<Rightarrow> audit_error + chain_status" where
  "audit_verify lib path files raw_var file_var d =
     res_bind (resolve_audit_key files raw_var file_var) (\<lambda>key. verify_with_key lib path key d)"

definition append_budget_audit_entry ::
  "audit_lib \<Rightarrow> string \<Rightarrow> (string \<Rightarrow> string + string) \<Rightarrow> env_value \<Rightarrow> env_value \<Rightarrow> budget_audit_entry \<Rightarrow>
   (audit_disk, audit_error, audit_chain_state) step" where
  "append_budget_audit_entry lib path files raw_var file_var e d =
     (case resolve_audit_key files raw_var file_var of
        Inl err \<Rightarrow> (Inl err, d)
      | Inr key \<Rightarrow> append_budget_audit_entry_with_key lib path key e d)"

section \<open>Linked chains\<close>

text \<open>What a keyed verification establishes: each entry carries the hash of the one before, the last its own.\<close>

fun linked :: "(budget_audit_entry \<Rightarrow> string) \<Rightarrow> budget_audit_entry list \<Rightarrow> bool" where
  "linked h (e # f # es) = (ba_prev_hash f = Some (h e) \<and> linked h (f # es))"
| "linked h es = True"

lemma hash_bare [simp]: "hash_entry lib key (bare e) = hash_entry lib key e"
  by (simp add: hash_entry_def bare_def)

lemma bare_prev_hash [simp]: "ba_prev_hash (bare e) = ba_prev_hash e"
  by (simp add: bare_def)

lemma hash_mac [simp]: "hash_entry lib key (e\<lparr>ba_entry_mac := m\<rparr>) = hash_entry lib key e"
  by (simp add: hash_entry_def bare_def)

lemma linked_bare [simp]: "linked (hash_entry lib key) (map bare es) = linked (hash_entry lib key) es"
proof (induction es)
  case (Cons e es)
  then show ?case by (cases es) simp_all
qed simp

lemma verify_links_keyed:
  "verify_links lib (Some k) (Suc i) (Some (hash_entry lib (Some k) e)) seen es = Inr h \<longleftrightarrow>
     linked (hash_entry lib (Some k)) (e # es) \<and> h = Some (hash_entry lib (Some k) (last (e # es)))"
  by (induction es arbitrary: i e seen) (auto split: option.splits)

lemma verify_chain_keyed:
  "verify_chain lib (Some k) es = Inr r \<longleftrightarrow>
     linked (hash_entry lib (Some k)) es \<and>
     (es \<noteq> [] \<longrightarrow> ba_entry_mac (last es) = Some (hash_entry lib (Some k) (last es))) \<and>
     r = (if es = [] then None else Some (hash_entry lib (Some k) (last es)), length es)"
proof (cases es)
  case (Cons e es')
  then show ?thesis
    by (auto simp: verify_chain_def result_simps verify_links_keyed[of lib k 0, simplified] verify_tail_def split: if_splits)
qed (auto simp: verify_chain_def result_simps verify_tail_def)

end
