(* ===== verification/AuditProps.thy ===== *)
theory AuditProps
  imports BudgetAudit
begin

text \<open>
  What the budget log's chain gives: an append extends a verified log by one linked entry and
  leaves it verified; whoever does not hold the key can only cut a keyed log at its ends; a
  requested key is never silently dropped.
\<close>

section \<open>A demonstration library\<close>

text \<open>Hashes that are the text itself, and a JSON library that knows two logs.\<close>

definition demo_change :: "u64 \<Rightarrow> budget_audit_entry" where
  "demo_change n =
     \<lparr>ba_ts = 1, ba_prev = \<lparr>bs_max_total_tokens = Some n, bs_max_cost = None\<rparr>,
      ba_next = \<lparr>bs_max_total_tokens = Some (n + 1), bs_max_cost = None\<rparr>, ba_source = ''slash'',
      ba_user_confirmed = True, ba_prev_hash = None, ba_entry_mac = None\<rparr>"

definition demo_entry_json :: "budget_audit_entry \<Rightarrow> string" where
  "demo_entry_json e =
     (case bs_max_total_tokens (ba_prev e) of Some n \<Rightarrow> show_nat (unat n) | None \<Rightarrow> ''none'')"

definition demo_lib0 :: audit_lib where
  "demo_lib0 =
     \<lparr>al_sha = map (\<lambda>c. of_nat (of_char c)), al_hmac = (\<lambda>k s. map (\<lambda>c. of_nat (of_char c)) (k @ s)),
      al_entry_json = demo_entry_json, al_log_json = (\<lambda>_. ''[log]''), al_parse_log = (\<lambda>_. None)\<rparr>"

definition demo_e1 :: budget_audit_entry where "demo_e1 = linked_entry demo_lib0 (Some ''key'') None (demo_change 1)"
definition demo_e2 :: budget_audit_entry where
  "demo_e2 = linked_entry demo_lib0 (Some ''key'') (Some (hash_entry demo_lib0 (Some ''key'') demo_e1)) (demo_change 2)"
definition demo_e3 :: budget_audit_entry where
  "demo_e3 = linked_entry demo_lib0 (Some ''key'') (Some (hash_entry demo_lib0 (Some ''key'') demo_e2)) (demo_change 3)"

text \<open>The library whose two rendered logs are the one before and the one after the second append.\<close>

definition demo_lib :: audit_lib where
  "demo_lib = demo_lib0\<lparr>
     al_log_json := (\<lambda>es. if length es = 1 then ''[1]'' else ''[2]''),
     al_parse_log := (\<lambda>t. if t = ''[1]'' then Some [demo_e1] else if t = ''[2]'' then Some [demo_e1, demo_e2] else None)\<rparr>"

definition demo_disk :: audit_disk where "demo_disk = \<lparr>ad_log = Some ''[1]'', ad_writable = True\<rparr>"

lemma demo_text: "valid_utf8 ''[1]''" "trim_ws ''[1]'' \<noteq> []" "valid_utf8 ''[2]''" "trim_ws ''[2]'' \<noteq> []"
  by code_simp+

lemma demo_lib_hash [simp]: "hash_entry demo_lib key e = hash_entry demo_lib0 key e"
  by (cases key) (simp_all add: demo_lib_def demo_lib0_def hash_entry_def)

section \<open>Appending\<close>

lemma verify_links_snoc:
  "verify_links lib key i before seen es = Inr h \<Longrightarrow> i + length es \<noteq> 0 \<longrightarrow> ba_prev_hash e = h \<and> h \<noteq> None \<Longrightarrow>
   verify_links lib key i before seen (es @ [e]) = Inr (Some (hash_entry lib key e))"
proof (induction es arbitrary: i before seen)
  case (Cons x xs)
  then show ?case by (auto split: option.splits if_splits)
qed auto

lemma verify_links_head:
  "verify_links lib key i before seen es = Inr h \<Longrightarrow> h = (if es = [] then before else Some (hash_entry lib key (last es)))"
  by (induction es arbitrary: i before seen) (auto split: option.splits if_splits)

lemma linked_entry_fields [simp]:
  "ba_prev_hash (linked_entry lib key head e) = head"
  "key \<noteq> None \<Longrightarrow> ba_entry_mac (linked_entry lib key head e) = Some (hash_entry lib key (linked_entry lib key head e))"
  by (auto simp: linked_entry_def Let_def)

lemma verify_tail_snoc:
  "verify_tail key (es @ [e]) (Some h) =
     (if key = None \<or> ba_entry_mac e = Some h then Inr () else Inl (ChainBroken (length es) h (ba_entry_mac e)))"
  by (cases es) (simp_all add: verify_tail_def)

lemma verify_chain_append:
  assumes "verify_chain lib key es = Inr (head, n)"
  shows "verify_chain lib key (es @ [linked_entry lib key head e]) =
     Inr (Some (hash_entry lib key (linked_entry lib key head e)), Suc n)"
proof -
  have links: "verify_links lib key 0 None False es = Inr head" and n: "n = length es"
    using assms by (auto simp: verify_chain_def result_simps)
  have "verify_links lib key 0 None False (es @ [linked_entry lib key head e]) =
      Inr (Some (hash_entry lib key (linked_entry lib key head e)))"
    by (rule verify_links_snoc[OF links]) (use verify_links_head[OF links] in auto)
  moreover have "verify_tail key (es @ [linked_entry lib key head e]) (Some (hash_entry lib key (linked_entry lib key head e))) = Inr ()"
    using linked_entry_fields(2)[of key lib head e] by (cases key) (simp_all add: verify_tail_snoc)
  ultimately show ?thesis by (simp add: verify_chain_def n)
qed

text \<open>C32. A completed append leaves the log as it was followed by the new entry, linked to the verified head,
  and the longer log verifies; the state returned is its head. A log that does not verify is never
  extended.\<close>

theorem audit_append_extends:
  assumes "append_budget_audit_entry_with_key lib path key e d = (Inr st, d')"
    and "read_audit_log_raw lib path d = Inr log" "verify_chain lib key log = Inr (head, n)"
    and "log' = log @ [linked_entry lib key head e]"
    and "al_parse_log lib (al_log_json lib log') = Some log'"
    and "valid_utf8 (al_log_json lib log')" "trim_ws (al_log_json lib log') \<noteq> []"
  shows "read_audit_log_raw lib path d' = Inr log' \<and>
     verify_with_key lib path key d' = Inr (ChainIntact (Suc n) (hash_entry lib key (last log'))) \<and>
     st = \<lparr>cs_last_hash = Some (hash_entry lib key (last log')), cs_entries = Suc n\<rparr>"
proof -
  let ?e = "linked_entry lib key head e"
  have run: "append_with_key lib path key e d = (Inr st, d')"
    using assms(1) by (auto simp: append_budget_audit_entry_with_key_def split: sum.splits)
  have head: "checked_head lib path key log = Inr (head, n)" by (simp add: checked_head_def assms(3))
  have n: "n = length log" using assms(3) by (auto simp: verify_chain_def result_simps)
  have d': "d' = d\<lparr>ad_log := Some (al_log_json lib log')\<rparr>"
    and st: "st = \<lparr>cs_last_hash = Some (hash_entry lib key ?e), cs_entries = Suc n\<rparr>"
    using run by (auto simp: append_with_key_def assms(2,4) head Let_def st_bind_def write_audit_log_atomic_def n split: if_splits)
  have read: "read_audit_log_raw lib path d' = Inr log'"
    using assms(5-7) by (simp add: d' read_audit_log_raw_def)
  have "verify_chain lib key log' = Inr (Some (hash_entry lib key ?e), Suc n)"
    unfolding assms(4) by (rule verify_chain_append[OF assms(3)])
  then show ?thesis using assms(4) by (simp add: verify_with_key_def read st)
qed

theorem audit_append_extends_witness:
  "\<exists>st d'. append_budget_audit_entry_with_key demo_lib ''log'' (Some ''key'') (demo_change 2) demo_disk = (Inr st, d') \<and>
     read_audit_log_raw demo_lib ''log'' d' = Inr [demo_e1, demo_e2] \<and> cs_entries st = 2"
proof -
  have log: "read_audit_log_raw demo_lib ''log'' demo_disk = Inr [demo_e1]"
    by (simp add: read_audit_log_raw_def demo_disk_def demo_lib_def demo_text)
  have ok: "verify_chain demo_lib (Some ''key'') [demo_e1] = Inr (Some (hash_entry demo_lib0 (Some ''key'') demo_e1), 1)"
    by (simp add: verify_chain_keyed demo_e1_def)
  have next': "[demo_e1, demo_e2] = [demo_e1] @ [linked_entry demo_lib (Some ''key'') (Some (hash_entry demo_lib0 (Some ''key'') demo_e1)) (demo_change 2)]"
    by (simp add: demo_e2_def linked_entry_def)
  obtain st d' where run: "append_budget_audit_entry_with_key demo_lib ''log'' (Some ''key'') (demo_change 2) demo_disk = (Inr st, d')"
  proof (rule that)
    have "ad_writable demo_disk" by (simp add: demo_disk_def)
    then show "append_budget_audit_entry_with_key demo_lib ''log'' (Some ''key'') (demo_change 2) demo_disk =
        (Inr \<lparr>cs_last_hash = Some (hash_entry demo_lib0 (Some ''key'') demo_e2), cs_entries = 2\<rparr>,
         demo_disk\<lparr>ad_log := Some (al_log_json demo_lib [demo_e1, demo_e2])\<rparr>)"
      using next' by (simp add: append_budget_audit_entry_with_key_def load_with_key_def append_with_key_def log checked_head_def ok
        Let_def st_bind_def write_audit_log_atomic_def)
  qed
  from audit_append_extends[OF run log ok next'] run show ?thesis by (simp add: demo_lib_def demo_text)
qed

section \<open>What a keyed chain protects\<close>

text \<open>The honest log is linked from a first entry without a link. Entries that link to each other and
  are each one of its entries, up to the tail's own authenticator, are a segment of it.\<close>

lemma linked_segment:
  assumes "linked h L" "ba_prev_hash (hd L) = None" "inj_on h (set L)"
    and "es \<noteq> []" "set es \<subseteq> set L" "linked h es"
  shows "\<exists>xs ys. L = xs @ es @ ys"
  using assms(4-)
proof (induction es)
  case (Cons e es)
  show ?case
  proof (cases es)
    case Nil
    then show ?thesis using Cons.prems(2) split_list[of e L] by auto
  next
    case (Cons f r)
    then obtain xs ys where L: "L = xs @ es @ ys" using Cons.IH Cons.prems by auto
    have f: "ba_prev_hash f = Some (h e)" using Cons.prems(3) Cons by simp
    have "xs \<noteq> []" using assms(2) f Cons L by (cases xs) auto
    then obtain xs' g where xs: "xs = xs' @ [g]" by (cases xs rule: rev_cases) auto
    have "linked h (g # f # r @ ys)" using assms(1) unfolding L xs Cons
      by (induction xs' rule: linked.induct) auto
    then have "h g = h e" using f by simp
    moreover have "g \<in> set L" "e \<in> set L" using L xs Cons.prems(2) by auto
    ultimately have "g = e" using assms(3) by (auto dest: inj_onD)
    then show ?thesis using L xs by (intro exI[of _ xs'] exI[of _ ys]) simp
  qed
qed simp

text \<open>C31. Under the key, a log that verifies is a segment of the honest one when every authenticator in it is
  the operator's (the writer without the key can only copy them), and no two honest entries have the
  same one: nothing can be edited, inserted, reordered or dropped inside, and only the ends can be cut.\<close>

theorem keyed_log_is_segment:
  assumes "verify_chain lib (Some k) L = Inr r" "ba_prev_hash (hd L) = None"
    and "inj_on (hash_entry lib (Some k)) (bare ` set L)"
    and "verify_chain lib (Some k) es = Inr r'"
    and "\<forall>e \<in> set es. Some (hash_entry lib (Some k) e) \<in> ba_prev_hash ` set es \<union> ba_entry_mac ` set es \<longrightarrow> bare e \<in> bare ` set L"
  shows "\<exists>xs ys. map bare L = xs @ map bare es @ ys"
proof (cases "es = []")
  case False
  let ?h = "hash_entry lib (Some k)"
  have lk: "linked ?h es" and tail: "ba_entry_mac (last es) = Some (?h (last es))"
    using assms(4) False by (auto simp: verify_chain_keyed)
  have used: "Some (?h e) \<in> ba_prev_hash ` set es \<union> ba_entry_mac ` set es" if "e \<in> set es" for e
    using that lk tail
  proof (induction es)
    case (Cons x xs)
    show ?case
    proof (cases "e \<in> set xs")
      case True
      then have "linked ?h xs" "ba_entry_mac (last xs) = Some (?h (last xs))" using Cons.prems by (cases xs; auto)+
      then show ?thesis using Cons.IH True by auto
    next
      case False
      then have "e = x" using Cons.prems(1) by simp
      then show ?thesis using Cons.prems by (cases xs) (auto intro: rev_image_eqI)
    qed
  qed simp
  then have sub: "set (map bare es) \<subseteq> set (map bare L)" using assms(5) by auto
  then have "L \<noteq> []" using False by auto
  show ?thesis
  proof (rule linked_segment[of ?h])
    show "linked ?h (map bare L)" using assms(1) by (simp add: verify_chain_keyed)
    show "ba_prev_hash (hd (map bare L)) = None" using assms(2) \<open>L \<noteq> []\<close> by (simp add: hd_map)
    show "inj_on ?h (set (map bare L))" using assms(3) by simp
  qed (use False sub lk in simp_all)
next
  case True
  then have "map bare L = [] @ map bare es @ map bare L" by simp
  then show ?thesis by blast
qed

theorem keyed_log_is_segment_witness:
  "\<exists>xs ys. map bare [demo_e1, demo_e2, demo_e3] = xs @ map bare [demo_e2] @ ys"
proof -
  let ?h = "hash_entry demo_lib0 (Some ''key'')"
  have ok: "verify_chain demo_lib0 (Some ''key'') [demo_e1, demo_e2, demo_e3] = Inr (Some (?h demo_e3), 3)"
    by (simp add: verify_chain_keyed demo_e1_def demo_e2_def demo_e3_def)
  have cut: "verify_chain demo_lib0 (Some ''key'') [demo_e2] = Inr (Some (?h demo_e2), 1)"
    by (simp add: verify_chain_keyed demo_e2_def)
  have "distinct (map ?h [bare demo_e1, bare demo_e2, bare demo_e3])" by code_simp
  then have inj: "inj_on ?h (bare ` set [demo_e1, demo_e2, demo_e3])" by (simp add: distinct_map) (auto simp: inj_on_def)
  show ?thesis
    by (rule keyed_log_is_segment[OF ok _ inj cut]) (simp_all add: demo_e1_def)
qed

text \<open>The verification does not ask that the first entry has no link, so the oldest entries can be cut off
  without the key as well as the newest.\<close>

lemma oldest_entries_cut:
  assumes "verify_chain lib (Some k) (xs @ e # es) = Inr r"
  shows "\<exists>r'. verify_chain lib (Some k) (e # es) = Inr r'"
proof -
  have "linked (hash_entry lib (Some k)) (xs @ e # es) \<Longrightarrow> linked (hash_entry lib (Some k)) (e # es)"
    by (induction xs rule: linked.induct) auto
  then show ?thesis using assms by (simp add: verify_chain_keyed)
qed

section \<open>The key\<close>

definition asks_nothing :: "env_value \<Rightarrow> bool" where
  "asks_nothing v = (v = NotPresent \<or> (\<exists>s. v = EnvValue s \<and> trim_ws s = []))"

text \<open>C33. A log is treated as unkeyed exactly when neither variable asks for a key; a key that is used is not
  blank and is the value of the first variable or the content of a file named by an absolute path;
  everything else is refused.\<close>

theorem resolve_audit_key_fail_closed:
  "(resolve_audit_key files raw_var file_var = Inr None \<longleftrightarrow> asks_nothing raw_var \<and> asks_nothing file_var) \<and>
   (resolve_audit_key files raw_var file_var = Inr (Some k) \<longleftrightarrow>
      k \<noteq> [] \<and>
      ((\<exists>r. raw_var = EnvValue r \<and> k = trim_ws r) \<or>
       asks_nothing raw_var \<and>
       (\<exists>p c. file_var = EnvValue p \<and> starts_with ''/'' (trim_ws p) \<and> files (trim_ws p) = Inr c \<and> k = trim_ws c)))"
proof -
  have from_file: "key_from_file files p = Inr x \<longleftrightarrow> (\<exists>c. starts_with ''/'' p \<and> files p = Inr c \<and> trim_ws c \<noteq> [] \<and> x = Some (trim_ws c))" for p x
    by (auto simp: key_from_file_def split: sum.splits)
  have abs: "starts_with ''/'' p \<Longrightarrow> p \<noteq> []" for p by (auto simp: starts_with_def)
  show ?thesis
    by (cases raw_var; cases file_var)
      (auto simp: resolve_audit_key_def audit_key_from_def asks_nothing_def from_file dest: abs)
qed

end
