(* ===== verification/McpGate.thy ===== *)
theory McpGate
  imports NerveConfig GoalCheck "HOL-Library.AList"
begin

text \<open>
  The client of Model Context Protocol servers, \<^verbatim>\<open>crates/nerve-adapter/src/mcp.rs\<close>: the handshake, the
  gates before a tool is called, the argument policy, the registry and its allowlist.

  A server is a parameter: for each request line it says what arrives on its standard output until
  the reply, the deadline or the end of the stream. One request is outstanding at a time; earlier ones
  that ran into their deadline stay pending, as in the code.
\<close>

section \<open>Data\<close>

datatype mcp_error =
  McpNotStarted string
| McpToolBlocked string
| McpToolNotAllowed string
| McpToolNotReadOnly string
| McpArgumentPolicy string string
| McpSpawn string
| McpHandshake string
| McpRpc int string
| McpTimeout nat

definition mcp_protocol_version :: string where "mcp_protocol_version = ''2024-11-05''"
definition mcp_call_timeout_secs :: nat where "mcp_call_timeout_secs = 30"
definition mcp_handshake_timeout_secs :: nat where "mcp_handshake_timeout_secs = 10"

record mcp_client =
  cl_name :: string
  cl_spec :: mcp_server_spec
  cl_running :: bool
  cl_next_id :: u64
  cl_pending :: "u64 set"
  cl_tools :: "mcp_tool_info list"
  cl_patterns :: "string list"
  cl_posture :: mcp_posture
  cl_policy :: mcp_argument_policy
  cl_root :: "string option"

datatype rpc_reply = ReplyOk json | ReplyErr int string

text \<open>What follows a request: the writer is gone, or JSON lines and then the end of the output or of the time.\<close>

datatype wire = WriterGone | Incoming "json list" bool

record 'w mcp_host =
  mh_spawn :: "string list \<Rightarrow> (string \<times> string) list \<Rightarrow> 'w \<Rightarrow> (string + unit) \<times> 'w"
  mh_exchange :: "string \<Rightarrow> json \<Rightarrow> 'w \<Rightarrow> wire \<times> 'w"
  mh_notify :: "string \<Rightarrow> json \<Rightarrow> 'w \<Rightarrow> bool \<times> 'w"
  mh_stop :: "string \<Rightarrow> 'w \<Rightarrow> 'w"
  mh_elapsed :: "'w \<Rightarrow> u64"
  mh_version :: string

type_synonym ('w, 'a) mcp_step = "(mcp_client \<times> 'w, mcp_error, 'a) step"

definition client_new :: "mcp_server_spec \<Rightarrow> string list \<Rightarrow> mcp_posture \<Rightarrow> mcp_client" where
  "client_new spec patterns posture =
     \<lparr>cl_name = ms_name spec, cl_spec = spec, cl_running = False, cl_next_id = 1, cl_pending = {}, cl_tools = [],
      cl_patterns = patterns, cl_posture = posture, cl_policy = [], cl_root = None\<rparr>"

definition with_argument_policy :: "mcp_argument_policy \<Rightarrow> string \<Rightarrow> mcp_client \<Rightarrow> mcp_client" where
  "with_argument_policy policy root cl = cl\<lparr>cl_policy := policy, cl_root := Some root\<rparr>"

section \<open>Reading JSON values\<close>

fun as_bool :: "json \<Rightarrow> bool option" where
  "as_bool (JBool b) = Some b"
| "as_bool _ = None"

fun as_str :: "json \<Rightarrow> string option" where
  "as_str (JStr s) = Some s"
| "as_str _ = None"

fun as_array :: "json \<Rightarrow> json list option" where
  "as_array (JArr js) = Some js"
| "as_array _ = None"

fun as_u64 :: "json \<Rightarrow> u64 option" where
  "as_u64 (JNum s) = map_option of_nat (parse_uint (2 ^ 64) s)"
| "as_u64 _ = None"

fun as_i64 :: "json \<Rightarrow> int option" where
  "as_i64 (JNum (c # s)) =
     (if c = CHR ''-''
      then (case parse_uint (2 ^ 63 + 1) s of Some n \<Rightarrow> if n = 0 then None else Some (- int n) | None \<Rightarrow> None)
      else map_option int (parse_uint (2 ^ 63) (c # s)))"
| "as_i64 _ = None"

definition get_str :: "string \<Rightarrow> json \<Rightarrow> string option" where
  "get_str k j = Option.bind (json_get k j) as_str"

definition get_bool :: "string \<Rightarrow> json \<Rightarrow> bool option" where
  "get_bool k j = Option.bind (json_get k j) as_bool"

section \<open>Requests and replies\<close>

text \<open>The reply in an incoming message: an error's code is truncated to 32 bits.\<close>

definition reply_of :: "json \<Rightarrow> rpc_reply" where
  "reply_of v =
     (case json_get ''error'' v of
        Some err \<Rightarrow>
          ReplyErr (sint (word_of_int (unwrap_or (Option.bind (json_get ''code'' err) as_i64) (- 32000)) :: 32 word))
            (unwrap_or (get_str ''message'' err) ''rpc error'')
      | None \<Rightarrow> ReplyOk (unwrap_or (json_get ''result'' v) JNull))"

definition dispatch_incoming :: "json \<Rightarrow> u64 set \<Rightarrow> (u64 \<times> rpc_reply) option \<times> u64 set" where
  "dispatch_incoming v pending =
     (case Option.bind (json_get ''id'' v) as_u64 of
        None \<Rightarrow> (None, pending)
      | Some i \<Rightarrow> if i \<in> pending then (Some (i, reply_of v), pending - {i}) else (None, pending))"

fun read_until :: "u64 \<Rightarrow> json list \<Rightarrow> u64 set \<Rightarrow> rpc_reply option \<times> u64 set" where
  "read_until i [] pending = (None, pending)"
| "read_until i (v # vs) pending =
     (case dispatch_incoming v pending of
        (Some (j, r), pending') \<Rightarrow> if j = i then (Some r, pending') else read_until i vs pending'
      | (None, pending') \<Rightarrow> read_until i vs pending')"

definition rpc_request :: "u64 \<Rightarrow> string \<Rightarrow> json \<Rightarrow> json" where
  "rpc_request i meth params =
     JObj [(''jsonrpc'', JStr ''2.0''), (''id'', JNum (show_nat (unat i))), (''method'', JStr meth), (''params'', params)]"

definition send_request :: "'w mcp_host \<Rightarrow> nat \<Rightarrow> string \<Rightarrow> json \<Rightarrow> ('w, json) mcp_step" where
  "send_request host deadline meth params s =
     (let (cl, w) = s; i = cl_next_id cl;
          cl1 = cl\<lparr>cl_next_id := i + 1, cl_pending := insert i (cl_pending cl)\<rparr>
      in if \<not> cl_running cl then (Inl (McpNotStarted (cl_name cl)), cl1\<lparr>cl_pending := cl_pending cl1 - {i}\<rparr>, w)
         else (case mh_exchange host (cl_name cl) (rpc_request i meth params) w of
             (WriterGone, w') \<Rightarrow>
               (Inl (McpHandshake (''`'' @ cl_name cl @ ''`: writer task gone'')), cl1\<lparr>cl_pending := cl_pending cl1 - {i}\<rparr>, w')
           | (Incoming vs closed, w') \<Rightarrow>
               (case read_until i vs (cl_pending cl1) of
                  (Some (ReplyOk v), p) \<Rightarrow> (Inr v, cl1\<lparr>cl_pending := p\<rparr>, w')
                | (Some (ReplyErr c msg), p) \<Rightarrow> (Inl (McpRpc c msg), cl1\<lparr>cl_pending := p\<rparr>, w')
                | (None, p) \<Rightarrow>
                    if closed then (Inl (McpRpc (- 32000) ''server closed stdout''), cl1\<lparr>cl_pending := {}\<rparr>, w')
                    else (Inl (McpTimeout deadline), cl1\<lparr>cl_pending := p\<rparr>, w'))))"

definition write_line :: "'w mcp_host \<Rightarrow> json \<Rightarrow> ('w, unit) mcp_step" where
  "write_line host v s =
     (let (cl, w) = s in
      if \<not> cl_running cl then (Inl (McpNotStarted (cl_name cl)), cl, w)
      else (case mh_notify host (cl_name cl) v w of
          (True, w') \<Rightarrow> (Inr (), cl, w')
        | (False, w') \<Rightarrow> (Inl (McpHandshake (''`'' @ cl_name cl @ ''`: writer task gone'')), cl, w')))"

definition tool_info_of :: "string \<Rightarrow> json \<Rightarrow> mcp_error + mcp_tool_info" where
  "tool_info_of server tool =
     (case get_str ''name'' tool of
        None \<Rightarrow> Inl (McpHandshake (''`'' @ server @ ''`: tools/list entry missing `name`''))
      | Some n \<Rightarrow>
          (let notes = json_get ''annotations'' tool in
           Inr \<lparr>mt_server = server, mt_name = n, mt_description = get_str ''description'' tool,
                mt_input_schema = json_get ''inputSchema'' tool,
                mt_read_only_hint = Option.bind notes (get_bool ''readOnlyHint''),
                mt_destructive_hint = Option.bind notes (get_bool ''destructiveHint'')\<rparr>))"

definition parse_tools_list :: "string \<Rightarrow> json \<Rightarrow> mcp_error + mcp_tool_info list" where
  "parse_tools_list server v =
     (case Option.bind (json_get ''tools'' v) as_array of
        None \<Rightarrow> Inl (McpHandshake (''`'' @ server @ ''`: tools/list missing `tools` array''))
      | Some entries \<Rightarrow> res_map (tool_info_of server) entries)"

section \<open>The life of a client\<close>

definition handshake :: "'w mcp_host \<Rightarrow> ('w, unit) mcp_step" where
  "handshake host =
     st_bind (send_request host mcp_handshake_timeout_secs ''initialize''
       (JObj [(''protocolVersion'', JStr mcp_protocol_version), (''capabilities'', JObj []),
              (''clientInfo'', JObj [(''name'', JStr ''nerve''), (''version'', JStr (mh_version host))])])) (\<lambda>_.
     st_bind (write_line host (JObj [(''jsonrpc'', JStr ''2.0''), (''method'', JStr ''notifications/initialized''), (''params'', JObj [])])) (\<lambda>_.
     st_bind (send_request host mcp_handshake_timeout_secs ''tools/list'' (JObj [])) (\<lambda>v (cl, w).
       (case parse_tools_list (cl_name cl) v of
          Inl e \<Rightarrow> (Inl e, cl, w) | Inr ts \<Rightarrow> (Inr (), cl\<lparr>cl_tools := ts\<rparr>, w)))))"

definition client_shutdown :: "'w mcp_host \<Rightarrow> mcp_client \<times> 'w \<Rightarrow> mcp_client \<times> 'w" where
  "client_shutdown host s =
     (let (cl, w) = s in
      if cl_running cl then (cl\<lparr>cl_running := False, cl_pending := {}\<rparr>, mh_stop host (cl_name cl) w) else (cl, w))"

definition client_start :: "'w mcp_host \<Rightarrow> ('w, unit) mcp_step" where
  "client_start host s =
     (let (cl, w) = s in
      if cl_running cl then (Inl (McpSpawn (''mcp server `'' @ cl_name cl @ ''` already started'')), s)
      else if ms_command (cl_spec cl) = []
      then (Inl (McpSpawn (''mcp server `'' @ cl_name cl @ ''`: command argv is empty'')), s)
      else (case mh_spawn host (ms_command (cl_spec cl)) (ms_env (cl_spec cl)) w of
          (Inl e, w') \<Rightarrow> (Inl (McpSpawn (''`'' @ cl_name cl @ ''`: '' @ e)), cl, w')
        | (Inr _, w') \<Rightarrow>
            (case handshake host (cl\<lparr>cl_running := True\<rparr>, w') of
               (Inr u, s') \<Rightarrow> (Inr u, s')
             | (Inl e, s') \<Rightarrow> (Inl e, client_shutdown host s'))))"

definition list_tools :: "mcp_client \<Rightarrow> mcp_error + mcp_tool_info list" where
  "list_tools cl = (if cl_running cl then Inr (cl_tools cl) else Inl (McpNotStarted (cl_name cl)))"

section \<open>The gates before a call\<close>

definition tool_matches_write_pattern :: "string \<Rightarrow> string list \<Rightarrow> bool" where
  "tool_matches_write_pattern tool patterns =
     list_ex (\<lambda>p. p \<noteq> [] \<and> contains_sub (to_lower p) (to_lower tool)) patterns"

definition tool_has_read_only_evidence :: "mcp_tool_info \<Rightarrow> bool" where
  "tool_has_read_only_evidence t = (mt_read_only_hint t = Some True \<or> mt_destructive_hint t = Some False)"

fun read_only_admits :: "mcp_posture \<Rightarrow> bool \<Rightarrow> bool \<Rightarrow> bool" where
  "read_only_admits LegacyDenylist allowlisted evidence = True"
| "read_only_admits DenyByDefault allowlisted evidence = (allowlisted \<or> evidence)"

text \<open>The walk over the components of a candidate path, on a stack that starts at the root for a relative one.\<close>

fun walk_within :: "nat \<Rightarrow> path_component list \<Rightarrow> path_component list \<Rightarrow> path_component list option" where
  "walk_within depth stack [] = Some stack"
| "walk_within depth stack (CurDir # cs) = walk_within depth stack cs"
| "walk_within depth stack (ParentDir # cs) =
     (if length stack \<le> depth then None else walk_within depth (butlast stack) cs)"
| "walk_within depth stack (c # cs) = walk_within depth (stack @ [c]) cs"

definition path_is_within_root :: "string \<Rightarrow> string \<Rightarrow> bool" where
  "path_is_within_root candidate root =
     (let rc = path_components root; cs = path_components candidate;
          anchored = (case cs of RootDir # _ \<Rightarrow> True | _ \<Rightarrow> False)
      in case walk_within (length rc) (if anchored then [] else rc) cs of
           None \<Rightarrow> False | Some stack \<Rightarrow> take (length rc) stack = rc)"

definition check_path_arg :: "string \<Rightarrow> json \<Rightarrow> string option \<Rightarrow> string \<Rightarrow> string + unit" where
  "check_path_arg tool args root key =
     (case json_get key args of
        Some (JStr raw) \<Rightarrow>
          (case root of
             None \<Rightarrow> Inl (''path argument `'' @ key @ ''` is policy-confined for tool `'' @ tool @
                 ''` but no project root is configured to confine it to'')
           | Some r \<Rightarrow>
               if path_is_within_root raw r then Inr ()
               else Inl (''path argument `'' @ key @ ''` = `'' @ raw @ ''` escapes the project root `'' @ r @ ''`''))
      | _ \<Rightarrow> Inr ())"

definition check_needle :: "string \<Rightarrow> string \<Rightarrow> string \<Rightarrow> string + unit" where
  "check_needle key raw needle =
     (if needle \<noteq> [] \<and> contains_sub (to_lower needle) (to_lower raw)
      then Inl (''argument `'' @ key @ ''` contains denied substring `'' @ needle @ ''`'') else Inr ())"

definition check_denied :: "json \<Rightarrow> string \<times> string list \<Rightarrow> string + unit" where
  "check_denied args kn =
     (case json_get (fst kn) args of
        Some (JStr raw) \<Rightarrow> res_all (check_needle (fst kn) raw) (snd kn) | _ \<Rightarrow> Inr ())"

definition enforce_argument_policy :: "string \<Rightarrow> mcp_tool_arg_rules \<Rightarrow> json \<Rightarrow> string option \<Rightarrow> string + unit" where
  "enforce_argument_policy tool rules args root =
     res_bind (res_all (check_path_arg tool args root) (ta_path_args rules)) (\<lambda>_.
     res_all (check_denied args) (ta_deny_substrings rules))"

definition call_gate :: "mcp_client \<Rightarrow> mcp_tool_call \<Rightarrow> mcp_error + unit" where
  "call_gate cl call =
     (let tool = mc_tool call; allowed = ms_allowed_tools (cl_spec cl) in
      if \<not> cl_running cl then Inl (McpNotStarted (cl_name cl))
      else if allowed \<noteq> [] \<and> tool \<notin> set allowed then Inl (McpToolNotAllowed tool)
      else if ms_read_only (cl_spec cl) \<and>
          \<not> read_only_admits (cl_posture cl) (allowed \<noteq> [])
              (list_ex (\<lambda>t. mt_name t = tool \<and> tool_has_read_only_evidence t) (cl_tools cl))
      then Inl (McpToolNotReadOnly tool)
      else if ms_read_only (cl_spec cl) \<and> tool_matches_write_pattern tool (cl_patterns cl)
      then Inl (McpToolBlocked tool)
      else (case map_of (cl_policy cl) tool of
          None \<Rightarrow> Inr ()
        | Some rules \<Rightarrow>
            (case enforce_argument_policy tool rules (mc_arguments call) (cl_root cl) of
               Inl reason \<Rightarrow> Inl (McpArgumentPolicy tool reason) | Inr _ \<Rightarrow> Inr ())))"

definition call_tool :: "'w mcp_host \<Rightarrow> mcp_tool_call \<Rightarrow> ('w, mcp_tool_result) mcp_step" where
  "call_tool host call s =
     (case call_gate (fst s) call of
        Inl e \<Rightarrow> (Inl e, s)
      | Inr _ \<Rightarrow>
          st_bind (send_request host mcp_call_timeout_secs ''tools/call''
            (JObj [(''name'', JStr (mc_tool call)), (''arguments'', mc_arguments call)])) (\<lambda>v (cl, w).
            (Inr \<lparr>mr_server = cl_name cl, mr_tool = mc_tool call, mr_content = unwrap_or (json_get ''content'' v) (JArr []),
                 mr_is_error = unwrap_or (get_bool ''isError'' v) False, mr_duration_ms = mh_elapsed host w\<rparr>, cl, w)) s)"

section \<open>The registry\<close>

text \<open>The clients by server name, in the order in which the table gives them.\<close>

type_synonym mcp_registry = "(string \<times> mcp_client) list"

fun role_matches :: "mcp_role \<Rightarrow> mcp_role \<Rightarrow> bool" where
  "role_matches Both _ = True"
| "role_matches _ Both = True"
| "role_matches ReviewerOnly ReviewerOnly = True"
| "role_matches LeadOnly LeadOnly = True"
| "role_matches _ _ = False"

definition scope_mcp_spec_to_allowlist :: "mcp_server_spec \<Rightarrow> string list \<Rightarrow> mcp_server_spec" where
  "scope_mcp_spec_to_allowlist spec allow =
     (if allow = [] then spec
      else if ms_allowed_tools spec = [] then spec\<lparr>ms_allowed_tools := allow\<rparr>
      else spec\<lparr>ms_allowed_tools := filter (\<lambda>t. t \<in> set allow) (ms_allowed_tools spec)\<rparr>)"

fun shutdown_all :: "'w mcp_host \<Rightarrow> mcp_registry \<Rightarrow> 'w \<Rightarrow> mcp_registry \<times> 'w" where
  "shutdown_all host [] w = ([], w)"
| "shutdown_all host ((n, cl) # reg) w =
     (let (cl', w1) = client_shutdown host (cl, w); (reg', w2) = shutdown_all host reg w1 in ((n, cl') # reg', w2))"

definition registered_client ::
  "string list \<Rightarrow> string list \<Rightarrow> mcp_posture \<Rightarrow> mcp_argument_policy \<Rightarrow> string \<Rightarrow> mcp_server_spec \<Rightarrow> mcp_client" where
  "registered_client patterns allow posture policy root spec =
     with_argument_policy policy root
       (client_new (scope_mcp_spec_to_allowlist spec allow) (if patterns = [] then default_mcp_write_patterns else patterns) posture)"

fun register_all ::
  "'w mcp_host \<Rightarrow> (mcp_server_spec \<Rightarrow> mcp_client) \<Rightarrow> mcp_server_spec list \<Rightarrow> (mcp_registry \<times> 'w, mcp_error, unit) step" where
  "register_all host mk [] s = (Inr (), s)"
| "register_all host mk (spec # specs) s =
     (case client_start host (mk spec, snd s) of
        (Inl e, _, w') \<Rightarrow> (Inl e, shutdown_all host (fst s) w')
      | (Inr _, cl, w') \<Rightarrow> register_all host mk specs (AList.update (ms_name spec) cl (fst s), w'))"

definition visible_tools :: "mcp_role \<Rightarrow> mcp_client \<Rightarrow> mcp_tool_info list" where
  "visible_tools role cl =
     (if role_matches (ms_role (cl_spec cl)) role
      then (case list_tools cl of
          Inl _ \<Rightarrow> []
        | Inr ts \<Rightarrow> filter (\<lambda>t. ms_allowed_tools (cl_spec cl) = [] \<or> mt_name t \<in> set (ms_allowed_tools (cl_spec cl))) ts)
      else [])"

definition all_tools :: "mcp_role \<Rightarrow> mcp_registry \<Rightarrow> mcp_tool_info list" where
  "all_tools role reg = concat (map (visible_tools role \<circ> snd) reg)"

end
