(* ===== verification/McpProps.thy ===== *)
theory McpProps
  imports McpGate "HOL-Library.Sublist"
begin

text \<open>
  What the gates of the tool client promise: nothing reaches a server unless the allowlist, the
  read-only posture, the name veto and the argument policy admit it, and a path argument that is
  admitted stays below the project root; with the case in which scoping an allowlist opens it.
\<close>

section \<open>Calls\<close>

lemma check_path_arg_ok:
  "check_path_arg tool args root key = Inr u \<longleftrightarrow>
     (\<forall>raw. json_get key args = Some (JStr raw) \<longrightarrow> (\<exists>r. root = Some r \<and> path_is_within_root raw r))"
  by (auto simp: check_path_arg_def split: option.split json.split)

lemma check_denied_ok:
  "check_denied args kn = Inr u \<longleftrightarrow>
     (\<forall>raw needle. json_get (fst kn) args = Some (JStr raw) \<and> needle \<in> set (snd kn) \<and> needle \<noteq> [] \<longrightarrow>
        \<not> contains_sub (to_lower needle) (to_lower raw))"
  by (auto simp: check_denied_def check_needle_def result_simps split: option.split json.split)

definition args_respected :: "mcp_tool_arg_rules \<Rightarrow> json \<Rightarrow> string option \<Rightarrow> bool" where
  "args_respected rules args root =
     ((\<forall>key \<in> set (ta_path_args rules). \<forall>raw. json_get key args = Some (JStr raw) \<longrightarrow>
         (\<exists>r. root = Some r \<and> path_is_within_root raw r)) \<and>
      (\<forall>(key, needles) \<in> set (ta_deny_substrings rules). \<forall>raw. json_get key args = Some (JStr raw) \<longrightarrow>
         (\<forall>needle \<in> set needles. needle = [] \<or> \<not> contains_sub (to_lower needle) (to_lower raw))))"

lemma enforce_ok: "enforce_argument_policy tool rules args root = Inr u \<longleftrightarrow> args_respected rules args root"
  by (simp add: enforce_argument_policy_def result_simps check_path_arg_ok check_denied_ok args_respected_def case_prod_beta)
    (rule conj_cong[OF refl], rule ball_cong[OF refl], blast)

lemma call_gate_ok:
  assumes "call_gate cl call = Inr u"
  shows "cl_running cl" "ms_allowed_tools (cl_spec cl) = [] \<or> mc_tool call \<in> set (ms_allowed_tools (cl_spec cl))"
    "ms_read_only (cl_spec cl) \<Longrightarrow> \<not> tool_matches_write_pattern (mc_tool call) (cl_patterns cl)"
    "ms_read_only (cl_spec cl) \<Longrightarrow> cl_posture cl = DenyByDefault \<Longrightarrow> ms_allowed_tools (cl_spec cl) = [] \<Longrightarrow>
       \<exists>t \<in> set (cl_tools cl). mt_name t = mc_tool call \<and> tool_has_read_only_evidence t"
    "map_of (cl_policy cl) (mc_tool call) = Some rules \<Longrightarrow> args_respected rules (mc_arguments call) (cl_root cl)"
  using assms
  by (auto simp: call_gate_def Let_def list_ex_iff enforce_ok split: if_splits option.splits sum.splits)

text \<open>C34. A call is answered, or has any effect on the world, only if the client runs and the tool is on the
  server's allowlist when there is one; on a read-only server no write pattern is in its name and,
  under the default posture, the allowlist names it or the server has declared it read-only; and
  every argument is one that the tool's policy admits.\<close>

theorem mcp_call_gated:
  assumes "call_tool host call (cl, w) = (r, cl', w')" "w' \<noteq> w \<or> (\<exists>res. r = Inr res)"
  shows "cl_running cl \<and>
     (ms_allowed_tools (cl_spec cl) = [] \<or> mc_tool call \<in> set (ms_allowed_tools (cl_spec cl))) \<and>
     (ms_read_only (cl_spec cl) \<longrightarrow>
        \<not> tool_matches_write_pattern (mc_tool call) (cl_patterns cl) \<and>
        (cl_posture cl = DenyByDefault \<longrightarrow> mc_tool call \<in> set (ms_allowed_tools (cl_spec cl)) \<or>
           (\<exists>t \<in> set (cl_tools cl). mt_name t = mc_tool call \<and> (mt_read_only_hint t = Some True \<or> mt_destructive_hint t = Some False)))) \<and>
     (\<forall>rules. map_of (cl_policy cl) (mc_tool call) = Some rules \<longrightarrow> args_respected rules (mc_arguments call) (cl_root cl))"
proof -
  obtain u where "call_gate cl call = Inr u"
    using assms by (cases "call_gate cl call") (auto simp: call_tool_def)
  note ok = call_gate_ok[OF this]
  show ?thesis using ok by (auto simp: tool_has_read_only_evidence_def)
qed

definition demo_spec :: mcp_server_spec where
  "demo_spec = \<lparr>ms_name = ''files'', ms_command = [''srv''], ms_env = [], ms_transport = Stdio,
     ms_allowed_tools = [''read''], ms_role = Both, ms_read_only = True\<rparr>"

definition demo_mcp_host :: "nat mcp_host" where
  "demo_mcp_host = \<lparr>mh_spawn = (\<lambda>_ _ w. (Inr (), Suc w)),
     mh_exchange = (\<lambda>_ req w. (Incoming [JObj [(''id'', unwrap_or (json_get ''id'' req) JNull), (''result'', JObj [(''tools'', JArr [])])]] False, Suc w)),
     mh_notify = (\<lambda>_ _ w. (True, Suc w)), mh_stop = (\<lambda>_ w. w), mh_elapsed = (\<lambda>_. 5), mh_version = ''1''\<rparr>"

definition demo_client :: mcp_client where
  "demo_client = with_argument_policy [(''read'', \<lparr>ta_path_args = [''path''], ta_deny_substrings = [(''path'', [''.ssh''])]\<rparr>)] ''/w''
     ((client_new demo_spec default_mcp_write_patterns DenyByDefault)\<lparr>cl_running := True\<rparr>)"

definition demo_call :: mcp_tool_call where
  "demo_call = \<lparr>mc_server = ''files'', mc_tool = ''read'', mc_arguments = JObj [(''path'', JStr ''src/../a.rs'')]\<rparr>"

theorem mcp_call_gated_witness:
  "\<exists>r s. call_tool demo_mcp_host demo_call (demo_client, 0) = (Inr r, s) \<and>
     args_respected \<lparr>ta_path_args = [''path''], ta_deny_substrings = [(''path'', [''.ssh''])]\<rparr> (mc_arguments demo_call) (Some ''/w'')"
proof -
  have gate: "call_gate demo_client demo_call = Inr ()" by code_simp
  have fields: "cl_running demo_client" "cl_next_id demo_client = 1" "cl_pending demo_client = {}" "cl_name demo_client = ''files''"
    by (simp_all add: demo_client_def with_argument_policy_def client_new_def demo_spec_def)
  have one: "parse_uint 18446744073709551616 (show_nat (Suc 0)) = Some 1"
  proof -
    have "show_nat (Suc 0) = ''1''" by code_simp
    then show ?thesis by (simp add: parse_uint_def digit_val_def)
  qed
  have "case fst (call_tool demo_mcp_host demo_call (demo_client, 0)) of Inr _ \<Rightarrow> True | Inl _ \<Rightarrow> False"
    by (simp add: Let_def one call_tool_def gate st_bind_def send_request_def fields demo_mcp_host_def rpc_request_def
        dispatch_incoming_def json_get_def unwrap_or_def reply_of_def)
  then obtain r cl w where run: "call_tool demo_mcp_host demo_call (demo_client, 0) = (Inr r, cl, w)"
    by (cases "call_tool demo_mcp_host demo_call (demo_client, 0)") (auto split: sum.splits)
  have "map_of (cl_policy demo_client) (mc_tool demo_call) = Some \<lparr>ta_path_args = [''path''], ta_deny_substrings = [(''path'', [''.ssh''])]\<rparr>"
    "cl_root demo_client = Some ''/w''"
    by (simp_all add: demo_client_def with_argument_policy_def demo_call_def)
  then show ?thesis using mcp_call_gated[OF run] run by auto
qed

section \<open>Path arguments\<close>

text \<open>Where a path leads from a directory, read lexically.\<close>

fun resolve_from :: "name list \<Rightarrow> path_component list \<Rightarrow> name list" where
  "resolve_from d [] = d"
| "resolve_from d (RootDir # cs) = resolve_from [] cs"
| "resolve_from d (CurDir # cs) = resolve_from d cs"
| "resolve_from d (ParentDir # cs) = resolve_from (butlast d) cs"
| "resolve_from d (Normal n # cs) = resolve_from (d @ [n]) cs"

lemma path_components_shape:
  "\<exists>body. RootDir \<notin> set body \<and> CurDir \<notin> set body \<and>
     (path_components p = body \<or> path_components p = CurDir # body \<or> path_components p = RootDir # body) \<and>
     (starts_with ''/'' p \<longrightarrow> path_components p = RootDir # body)"
  by (intro exI[of _ "map component_of (filter (\<lambda>c. c \<noteq> [] \<and> c \<noteq> ''.'') (split_on CHR ''/'' p))"])
    (auto simp: path_components_def Let_def component_of_def)

lemma normal_names_id: "set cs \<subseteq> range Normal \<Longrightarrow> map Normal (normal_names cs) = cs"
  by (induction cs rule: normal_names.induct) auto

lemma walk_resolve:
  "walk_within depth (RootDir # map Normal d) cs = Some st \<Longrightarrow> RootDir \<notin> set cs \<Longrightarrow> 0 < depth \<Longrightarrow>
   st = RootDir # map Normal (resolve_from d cs)"
proof (induction cs arbitrary: d)
  case (Cons c cs)
  show ?case
  proof (cases c)
    case ParentDir
    then have "d \<noteq> []" "walk_within depth (butlast (RootDir # map Normal d)) cs = Some st"
      using Cons.prems by (auto split: if_splits)
    then show ?thesis using Cons ParentDir by (simp add: map_butlast)
  next
    case (Normal n)
    then show ?thesis using Cons.IH[of "d @ [n]"] Cons.prems by simp
  qed (use Cons in auto)
qed simp

text \<open>A walk that starts at the root succeeds exactly when it never leaves it.\<close>

lemma walk_stays:
  assumes "RootDir \<notin> set cs" "ns \<noteq> []"
  shows "(\<exists>st. walk_within (Suc (length ns)) (RootDir # map Normal (ns @ d)) cs = Some st) \<longleftrightarrow>
     (\<forall>p. prefix p cs \<longrightarrow> (\<exists>rest. resolve_from (ns @ d) p = ns @ rest))"
  using assms(1)
proof (induction cs arbitrary: d)
  case (Cons c cs)
  have split: "(\<forall>p. prefix p (c # cs) \<longrightarrow> Q p) \<longleftrightarrow> Q [] \<and> (\<forall>p. prefix p cs \<longrightarrow> Q (c # p))" for Q
    by (auto simp: prefix_Cons)
  show ?case
  proof (cases c)
    case ParentDir
    show ?thesis
    proof (cases "d = []")
      case True
      have "\<nexists>rest. butlast ns = ns @ rest"
      proof
        assume "\<exists>rest. butlast ns = ns @ rest"
        then obtain rest where "butlast ns = ns @ rest" by blast
        then have "length (butlast ns) = length (ns @ rest)" by (rule arg_cong)
        then show False using assms(2) by (simp only: length_butlast length_append) (cases ns; simp)
      qed
      moreover have "prefix [c] (c # cs)" by simp
      moreover have "resolve_from (ns @ d) [c] = butlast ns" by (simp add: ParentDir True)
      ultimately have "\<not> (\<forall>p. prefix p (c # cs) \<longrightarrow> (\<exists>rest. resolve_from (ns @ d) p = ns @ rest))" by metis
      then show ?thesis by (simp add: ParentDir True)
    next
      case False
      then have bl: "butlast (RootDir # map Normal (ns @ d)) = RootDir # map Normal (ns @ butlast d)"
        by (simp add: butlast_append map_butlast)
      have "butlast (ns @ d) = ns @ butlast d" using False by (simp add: butlast_append)
      then show ?thesis
        unfolding split using Cons.IH[of "butlast d"] Cons.prems bl False by (simp add: ParentDir)
    qed
  next
    case (Normal n)
    then show ?thesis unfolding split using Cons.IH[of "d @ [n]"] Cons.prems by simp
  qed (use Cons split in auto)
qed auto

text \<open>C35. A path argument that is admitted leads below the project root, from which a relative one starts, and
  a relative one is admitted exactly when no part of it ever leaves the root.\<close>

theorem path_is_within_root_confines:
  assumes "starts_with ''/'' root" "ParentDir \<notin> set (path_components root)" "ns = normal_names (path_components root)"
  shows "(path_is_within_root path root \<longrightarrow> (\<exists>rest. resolve_from ns (path_components path) = ns @ rest)) \<and>
     (ns \<noteq> [] \<and> RootDir \<notin> set (path_components path) \<longrightarrow>
        (path_is_within_root path root \<longleftrightarrow>
           (\<forall>p. prefix p (path_components path) \<longrightarrow> (\<exists>rest. resolve_from ns p = ns @ rest))))"
proof -
  let ?cs = "path_components path"
  obtain body where body: "path_components root = RootDir # body" "RootDir \<notin> set body" "CurDir \<notin> set body"
    using path_components_shape[of root] assms(1) by blast
  have "set body \<subseteq> range Normal"
  proof
    fix c assume "c \<in> set body"
    then have "c \<noteq> RootDir" "c \<noteq> CurDir" "c \<noteq> ParentDir" using body assms(2) by auto
    then show "c \<in> range Normal" by (metis path_component.exhaust rangeI)
  qed
  then have rc: "path_components root = RootDir # map Normal ns"
    using body(1) assms(3) normal_names_id by simp
  have pre: "take (length ns) (map Normal xs) = map Normal ns \<Longrightarrow> \<exists>rest. xs = ns @ rest" for xs :: "name list"
    by (metis append_take_drop_id inj_map_eq_map injI path_component.inject take_map)
  show ?thesis
  proof (cases "\<exists>rest. ?cs = RootDir # rest")
    case True
    then obtain cs where cs: "?cs = RootDir # cs" by blast
    then have nr: "RootDir \<notin> set cs" using path_components_shape[of path] by auto
    have "\<exists>rest. resolve_from ns ?cs = ns @ rest" if inside: "path_is_within_root path root"
    proof -
      obtain st where st: "walk_within (Suc (length ns)) (RootDir # map Normal []) cs = Some st"
          "take (Suc (length ns)) st = RootDir # map Normal ns"
        using inside by (auto simp: path_is_within_root_def rc cs split: option.splits)
      then show ?thesis using walk_resolve[OF st(1) nr] pre by (auto simp: cs)
    qed
    then show ?thesis using cs by auto
  next
    case False
    then have nr: "RootDir \<notin> set ?cs" using path_components_shape[of path] by auto
    have unanchored: "(case ?cs of RootDir # _ \<Rightarrow> True | _ \<Rightarrow> False) = False"
      using False by (auto split: list.split path_component.split)
    have walk: "path_is_within_root path root \<longleftrightarrow>
        (\<exists>st. walk_within (Suc (length ns)) (RootDir # map Normal ns) ?cs = Some st \<and> take (Suc (length ns)) st = RootDir # map Normal ns)"
      unfolding path_is_within_root_def Let_def rc unanchored by (auto split: option.split)
    have res: "take (Suc (length ns)) st = RootDir # map Normal ns \<longleftrightarrow> (\<exists>rest. resolve_from ns ?cs = ns @ rest)"
      if "walk_within (Suc (length ns)) (RootDir # map Normal ns) ?cs = Some st" for st
      using walk_resolve[OF that nr] pre by auto
    have "path_is_within_root path root \<longleftrightarrow> (\<forall>p. prefix p ?cs \<longrightarrow> (\<exists>rest. resolve_from ns p = ns @ rest))" if "ns \<noteq> []"
      using walk_stays[OF nr that, of "[]"] walk res by auto
    then show ?thesis using walk res by blast
  qed
qed

theorem path_is_within_root_confines_witness:
  "\<exists>rest. resolve_from [''w''] (path_components ''src/../a.rs'') = [''w''] @ rest"
proof -
  have "starts_with ''/'' ''/w''" "ParentDir \<notin> set (path_components ''/w'')" "[''w''] = normal_names (path_components ''/w'')"
    "path_is_within_root ''src/../a.rs'' ''/w''"
    by code_simp+
  then show ?thesis using path_is_within_root_confines[of "''/w''" "[''w'']" "''src/../a.rs''"] by blast
qed

section \<open>Scoping\<close>

text \<open>A server's allowlist that shares no tool with the global one becomes empty, which the gate reads as no
  allowlist: on a server that is not read-only every tool can then be called.\<close>

lemma disjoint_allowlists_open_the_gate:
  "ms_allowed_tools (scope_mcp_spec_to_allowlist (demo_spec\<lparr>ms_read_only := False\<rparr>) [''search'']) = [] \<and>
   call_gate ((client_new (scope_mcp_spec_to_allowlist (demo_spec\<lparr>ms_read_only := False\<rparr>) [''search'']) [] DenyByDefault)\<lparr>cl_running := True\<rparr>)
     \<lparr>mc_server = ''files'', mc_tool = ''delete_all'', mc_arguments = JNull\<rparr> = Inr ()"
  by code_simp

text \<open>When they share one, the scoped server admits exactly the shared tools.\<close>

lemma scope_intersects:
  "allow \<noteq> [] \<Longrightarrow> ms_allowed_tools spec \<noteq> [] \<Longrightarrow>
   set (ms_allowed_tools (scope_mcp_spec_to_allowlist spec allow)) = set (ms_allowed_tools spec) \<inter> set allow"
  by (auto simp: scope_mcp_spec_to_allowlist_def)

end
