(* ===== verification/VerdictParse.thy ===== *)
theory VerdictParse
  imports McpGate DiffModel "HOL-Library.Char_ord" "HOL-Library.List_Lexorder"
begin

text \<open>
  How a reviewer's output becomes a verdict and an agent's output becomes a patch and a cost, from
  \<^verbatim>\<open>crates/nerve-adapter/src/lib.rs\<close>: the free-text verdict of the first line, every JSON object in the
  text, the rule by which the most severe one wins, and the messages and usage in JSON lines.

  The JSON library is a parameter. It reads a value at the start of a text and says how many bytes it
  took, and it reads a whole line; both give the value as it is written, with every key of an object,
  also one that is there twice. \<open>json_value\<close> is what \<^verbatim>\<open>serde_json::Value\<close> keeps of it.
\<close>

section \<open>Values\<close>

record json_lib =
  jl_prefix :: "string \<Rightarrow> (json \<times> nat) option"
  jl_line :: "string \<Rightarrow> json option"
  jl_float :: "string \<Rightarrow> u64 option"

text \<open>A map sorted by key, in which the last of several values for a key is kept.\<close>

fun put_key :: "string \<times> json \<Rightarrow> (string \<times> json) list \<Rightarrow> (string \<times> json) list" where
  "put_key kv [] = [kv]"
| "put_key kv (x # xs) =
     (if fst kv = fst x then kv # xs else if fst kv < fst x then kv # x # xs else x # put_key kv xs)"

fun json_value :: "json \<Rightarrow> json" where
  "json_value (JArr js) = JArr (map json_value js)"
| "json_value (JObj kvs) = JObj (fold put_key (map (\<lambda>(k, v). (k, json_value v)) kvs) [])"
| "json_value j = j"

fun has_duplicate_keys :: "json \<Rightarrow> bool" where
  "has_duplicate_keys (JArr js) = list_ex has_duplicate_keys js"
| "has_duplicate_keys (JObj kvs) =
     (\<not> distinct (map fst kvs) \<or> list_ex (\<lambda>(k, v). has_duplicate_keys v) kvs)"
| "has_duplicate_keys j = False"

fun collect_objects :: "json \<Rightarrow> json list" where
  "collect_objects (JObj kvs) = JObj kvs # concat (map (\<lambda>(k, v). collect_objects v) kvs)"
| "collect_objects (JArr js) = concat (map collect_objects js)"
| "collect_objects j = []"

record scanned_object =
  so_value :: json
  so_duplicate :: bool

definition scanned :: "json \<Rightarrow> scanned_object list" where
  "scanned raw =
     (case raw of
        JObj _ \<Rightarrow> map (\<lambda>v. \<lparr>so_value = v, so_duplicate = has_duplicate_keys raw\<rparr>) (collect_objects (json_value raw))
      | _ \<Rightarrow> [])"

text \<open>A value that was read took at least one byte.\<close>

function all_json_objects :: "json_lib \<Rightarrow> string \<Rightarrow> scanned_object list" where
  "all_json_objects lib t =
     (case dropWhile (\<lambda>c. c \<noteq> CHR ''{'') t of
        [] \<Rightarrow> []
      | c # cs \<Rightarrow>
          (case jl_prefix lib (c # cs) of
             None \<Rightarrow> all_json_objects lib cs
           | Some (raw, n) \<Rightarrow> scanned raw @ all_json_objects lib (drop (n - 1) cs)))"
  by pat_completeness auto
termination
proof (relation "measure (\<lambda>(_, t). length t)")
  have shorter: "length cs < length t" if "dropWhile P t = c # cs" for P :: "char \<Rightarrow> bool" and c cs t
  proof -
    have "length (c # cs) \<le> length t" using that length_dropWhile_le[of P t] by metis
    then show ?thesis by simp
  qed
  show "((lib, cs), (lib, t)) \<in> measure (\<lambda>(_, t). length t)"
    if "dropWhile (\<lambda>c. c \<noteq> CHR ''{'') t = c # cs" for lib :: json_lib and t c cs
    using shorter[OF that] by simp
  show "((lib, drop (n - 1) cs), (lib, t)) \<in> measure (\<lambda>(_, t). length t)"
    if "dropWhile (\<lambda>c. c \<noteq> CHR ''{'') t = c # cs" for lib :: json_lib and t c cs n
    using shorter[OF that] by simp
qed simp

declare all_json_objects.simps [simp del]

section \<open>The free text\<close>

text \<open>The character before and the one after a word: none, or not part of a word.\<close>

definition word_boundary :: "char option \<Rightarrow> bool" where
  "word_boundary c =
     (case c of None \<Rightarrow> True
      | Some x \<Rightarrow> (let n = (of_char x :: nat) in
          \<not> (48 \<le> n \<and> n \<le> 57 \<or> 65 \<le> n \<and> n \<le> 90 \<or> 97 \<le> n \<and> n \<le> 122 \<or> n = 95)))"

fun first_char :: "string \<Rightarrow> char option" where
  "first_char [] = None"
| "first_char (c # _) = Some c"

fun word_from :: "char option \<Rightarrow> string \<Rightarrow> string \<Rightarrow> bool" where
  "word_from before w [] = False"
| "word_from before w (c # cs) =
     (starts_with w (c # cs) \<and> word_boundary before \<and> word_boundary (first_char (drop (length w) (c # cs))) \<or>
      word_from (Some c) w cs)"

definition contains_verdict_word :: "string \<Rightarrow> string \<Rightarrow> bool" where
  "contains_verdict_word t w = word_from None w t"

definition is_accept_terminator :: "char \<Rightarrow> bool" where
  "is_accept_terminator c = (is_ws c \<or> c \<in> {CHR ''.'', CHR '','', CHR '':'', CHR '';'', CHR ''!''})"

definition accept_tokens :: "(string \<times> verdict) list" where
  "accept_tokens = [(''ACCEPT_WITH_NITS'', AcceptWithNits), (''ACCEPT WITH NITS'', AcceptWithNits), (''LGTM'', Lgtm)]"

fun leading_accept_among :: "(string \<times> verdict) list \<Rightarrow> string \<Rightarrow> verdict option" where
  "leading_accept_among [] line = None"
| "leading_accept_among ((token, v) # ts) line =
     (case strip_prefix token line of
        Some [] \<Rightarrow> Some v
      | Some (c # _) \<Rightarrow> if is_accept_terminator c then Some v else None
      | None \<Rightarrow> leading_accept_among ts line)"

definition leading_accept_token :: "string \<Rightarrow> verdict option" where
  "leading_accept_token = leading_accept_among accept_tokens"

definition rejection_signal :: "string \<Rightarrow> verdict option" where
  "rejection_signal t =
     (if contains_verdict_word t ''BLOCK'' then Some Block
      else if contains_verdict_word t ''REQUEST_CHANGES'' \<or> contains_verdict_word t ''REQUEST CHANGES''
      then Some RequestChanges else None)"

definition first_text_line :: "string \<Rightarrow> string option" where
  "first_text_line t = find (\<lambda>l. trim_ws l \<noteq> []) (str_lines t)"

definition parse_verdict_token :: "string \<Rightarrow> verdict option" where
  "parse_verdict_token t =
     (case rejection_signal t of
        Some v \<Rightarrow> Some v
      | None \<Rightarrow> Option.bind (first_text_line t) (\<lambda>l. leading_accept_token (trim_start l)))"

text \<open>\<^verbatim>\<open>replace("\r\n", "\n").replace('\r', "\n")\<close>.\<close>

fun normalize_newlines :: "string \<Rightarrow> string" where
  "normalize_newlines [] = []"
| "normalize_newlines (c # cs) =
     (if c = CHR 0x0D
      then CHR 0x0A # normalize_newlines (if first_char cs = Some (CHR 0x0A) then tl cs else cs)
      else c # normalize_newlines cs)"

section \<open>Issues\<close>

fun severity_for_verdict :: "verdict \<Rightarrow> issue_severity option" where
  "severity_for_verdict Lgtm = None"
| "severity_for_verdict AcceptWithNits = Some Info"
| "severity_for_verdict RequestChanges = Some Warning"
| "severity_for_verdict Block = Some Blocking"

definition has_verdict_prefix :: "string \<Rightarrow> string \<Rightarrow> bool" where
  "has_verdict_prefix line p = (case strip_prefix p line of None \<Rightarrow> False | Some r \<Rightarrow> word_boundary (first_char r))"

definition verdict_prefixes :: "string list" where
  "verdict_prefixes =
     [''ACCEPT WITH NITS'', ''ACCEPT_WITH_NITS'', ''REQUEST_CHANGES'', ''REQUEST CHANGES'', ''BLOCK'', ''LGTM'']"

text \<open>Upper-casing is that of ASCII.\<close>

definition strip_verdict_prefix :: "string \<Rightarrow> string option" where
  "strip_verdict_prefix line =
     (let t = trim_start line in
      map_option (\<lambda>p. dropWhile (\<lambda>c. c \<in> {CHR '':'', CHR ''-'', CHR '' ''}) (drop (length p) t))
        (find (\<lambda>p. to_lower (take (length p) t) = to_lower p \<and> has_verdict_prefix (to_upper t) p) verdict_prefixes))"

fun summary_of_lines :: "bool \<Rightarrow> string list \<Rightarrow> string" where
  "summary_of_lines saw [] = ''review requested changes''"
| "summary_of_lines saw (l # ls) =
     (let t = trim_ws l in
      if t = [] then summary_of_lines saw ls
      else if \<not> saw then
        (case strip_verdict_prefix t of
           Some s \<Rightarrow> if s \<noteq> [] then s else summary_of_lines True ls
         | None \<Rightarrow> t)
      else t)"

definition issue_summary_from_text :: "string \<Rightarrow> string" where
  "issue_summary_from_text t = summary_of_lines False (str_lines t)"

definition issues_for_verdict :: "verdict \<Rightarrow> string \<Rightarrow> issue list" where
  "issues_for_verdict v t =
     (case severity_for_verdict v of
        None \<Rightarrow> [] | Some s \<Rightarrow> [\<lparr>is_severity = s, is_message = issue_summary_from_text t\<rparr>])"

definition ensure_issues_for_verdict :: "verdict \<Rightarrow> issue list \<Rightarrow> string option \<Rightarrow> string \<Rightarrow> issue list" where
  "ensure_issues_for_verdict v issues summary t =
     (if issues \<noteq> [] \<or> v = Lgtm then issues
      else (case severity_for_verdict v of
          None \<Rightarrow> issues
        | Some s \<Rightarrow>
            [\<lparr>is_severity = s,
              is_message = (case summary of
                  Some m \<Rightarrow> if trim_ws m \<noteq> [] then m else issue_summary_from_text t
                | None \<Rightarrow> issue_summary_from_text t)\<rparr>]))"

section \<open>Verdict objects\<close>

record structured_verdict =
  sv_verdict :: verdict
  sv_summary :: "string option"
  sv_issues :: "issue list"

definition parse_verdict_value :: "string \<Rightarrow> verdict option" where
  "parse_verdict_value s =
     (let t = to_lower (trim_ws s) in
      if t = ''lgtm'' then Some Lgtm
      else if t = ''accept_with_nits'' then Some AcceptWithNits
      else if t = ''request_changes'' then Some RequestChanges
      else if t = ''block'' then Some Block else None)"

text \<open>\<^verbatim>\<open>serde_json::from_value::<Issue>\<close>: an object with both fields, or the two in an array.\<close>

definition severity_of_name :: "string \<Rightarrow> issue_severity option" where
  "severity_of_name s =
     (if s = ''info'' then Some Info else if s = ''warning'' then Some Warning
      else if s = ''blocking'' then Some Blocking else None)"

fun severity_of_json :: "json \<Rightarrow> issue_severity option" where
  "severity_of_json (JStr s) = severity_of_name s"
| "severity_of_json (JObj [(s, JNull)]) = severity_of_name s"
| "severity_of_json _ = None"

definition issue_of_parts :: "json \<Rightarrow> json \<Rightarrow> issue option" where
  "issue_of_parts sev msg =
     Option.bind (severity_of_json sev) (\<lambda>s. map_option (\<lambda>t. \<lparr>is_severity = s, is_message = t\<rparr>) (as_str msg))"

fun issue_of_json :: "json \<Rightarrow> issue option" where
  "issue_of_json (JObj kvs) =
     Option.bind (map_of kvs ''severity'') (\<lambda>sev. Option.bind (map_of kvs ''message'') (issue_of_parts sev))"
| "issue_of_json (JArr [sev, msg]) = issue_of_parts sev msg"
| "issue_of_json _ = None"

definition is_blocking_item :: "json \<Rightarrow> bool" where
  "is_blocking_item item = (case get_str ''severity'' item of Some s \<Rightarrow> to_lower (trim_ws s) = ''blocking'' | None \<Rightarrow> False)"

definition structured_verdict_from_object :: "json \<Rightarrow> structured_verdict option" where
  "structured_verdict_from_object v =
     (let items = Option.bind (json_get ''issues'' v) as_array;
          blocking = (case items of Some js \<Rightarrow> list_ex is_blocking_item js | None \<Rightarrow> False);
          verdict = (case Option.bind (get_str ''verdict'' v) parse_verdict_value of
              Some p \<Rightarrow> if blocking \<and> p \<in> {Lgtm, AcceptWithNits} then Some Block else Some p
            | None \<Rightarrow> if blocking then Some Block else None)
      in map_option (\<lambda>p.
           \<lparr>sv_verdict = p, sv_summary = get_str ''summary'' v,
            sv_issues = (case items of Some js \<Rightarrow> List.map_filter issue_of_json js | None \<Rightarrow> [])\<rparr>) verdict)"

definition duplicate_key_issue :: issue where
  "duplicate_key_issue =
     \<lparr>is_severity = Blocking,
      is_message = ''reviewer verdict JSON contained duplicate keys; failing closed '' @
        ''(a duplicate key can silently erase a blocking issue or rejection verdict via last-wins collapse)''\<rparr>"

definition object_verdict :: "scanned_object \<Rightarrow> structured_verdict option" where
  "object_verdict so =
     (if so_duplicate so then Some \<lparr>sv_verdict = Block, sv_summary = None, sv_issues = [duplicate_key_issue]\<rparr>
      else structured_verdict_from_object (so_value so))"

fun block_severity_rank :: "verdict \<Rightarrow> nat" where
  "block_severity_rank Lgtm = 0"
| "block_severity_rank AcceptWithNits = 1"
| "block_severity_rank RequestChanges = 2"
| "block_severity_rank Block = 3"

text \<open>\<^verbatim>\<open>max_by_key\<close>: the last of the most severe ones.\<close>

fun last_most_severe :: "structured_verdict list \<Rightarrow> structured_verdict option" where
  "last_most_severe [] = None"
| "last_most_severe (x # xs) =
     (case last_most_severe xs of
        None \<Rightarrow> Some x
      | Some y \<Rightarrow> if block_severity_rank (sv_verdict y) < block_severity_rank (sv_verdict x) then Some x else Some y)"

definition max_verdict :: "verdict \<Rightarrow> verdict \<Rightarrow> verdict" where
  "max_verdict a b = (if block_severity_rank a < block_severity_rank b then b else a)"

definition honor_block_verdict :: "verdict \<Rightarrow> verdict option \<Rightarrow> bool" where
  "honor_block_verdict b free = (b \<in> {RequestChanges, Block} \<or> free \<in> {Some Lgtm, Some AcceptWithNits})"

section \<open>Usage\<close>

fun first_u64 :: "json_lib \<Rightarrow> (string \<times> json) list \<Rightarrow> string list \<Rightarrow> u64 option" where
  "first_u64 lib kvs [] = None"
| "first_u64 lib kvs (k # ks) =
     (case (case map_of kvs k of
              Some (JNum s) \<Rightarrow> (case as_u64 (JNum s) of Some n \<Rightarrow> Some n | None \<Rightarrow> jl_float lib s) | _ \<Rightarrow> None) of
        Some n \<Rightarrow> Some n | None \<Rightarrow> first_u64 lib kvs ks)"

definition parse_usage_object :: "json_lib \<Rightarrow> (string \<times> json) list \<Rightarrow> usage_stats option" where
  "parse_usage_object lib kvs =
     (let i = unwrap_or (first_u64 lib kvs [''input_tokens'', ''prompt_tokens'', ''total_input_tokens'', ''cached_input_tokens'']) 0;
          out = unwrap_or (first_u64 lib kvs [''output_tokens'', ''completion_tokens'', ''total_output_tokens'', ''response_tokens'']) 0;
          total = first_u64 lib kvs [''total_tokens''];
          cost = first_u64 lib kvs [''estimated_cost_microusd'', ''cost_microusd'', ''microusd'']
      in if i = 0 \<and> out = 0 \<and> total = None \<and> cost = None then None
         else if i = 0 \<and> out = 0 then Some \<lparr>us_input = unwrap_or total 0, us_output = 0, us_cost = cost\<rparr>
         else Some \<lparr>us_input = i, us_output = out, us_cost = cost\<rparr>)"

text \<open>The usage objects of a value in the order in which they are met; the last one counts.\<close>

fun usages_in :: "json_lib \<Rightarrow> json \<Rightarrow> usage_stats list" where
  "usages_in lib (JObj kvs) =
     (case parse_usage_object lib kvs of Some u \<Rightarrow> [u] | None \<Rightarrow> []) @ concat (map (\<lambda>(k, v). usages_in lib v) kvs)"
| "usages_in lib (JArr js) = concat (map (usages_in lib) js)"
| "usages_in lib _ = []"

fun last_opt :: "'a list \<Rightarrow> 'a option" where
  "last_opt [] = None"
| "last_opt (x # xs) = (case last_opt xs of Some y \<Rightarrow> Some y | None \<Rightarrow> Some x)"

definition json_lines :: "json_lib \<Rightarrow> string \<Rightarrow> json list" where
  "json_lines lib t = List.map_filter (\<lambda>l. map_option json_value (jl_line lib l)) (str_lines t)"

definition usage_from_raw_text :: "json_lib \<Rightarrow> string \<Rightarrow> usage_stats option" where
  "usage_from_raw_text lib t =
     (case last_opt (concat (map (usages_in lib) (json_lines lib t))) of
        Some u \<Rightarrow> if total_tokens u > 0 \<or> us_cost u \<noteq> None then Some u else None | None \<Rightarrow> None)"

section \<open>Feedback\<close>

definition feedback_verdict :: "json_lib \<Rightarrow> string \<Rightarrow> verdict \<times> issue list" where
  "feedback_verdict lib t =
     (let free = parse_verdict_token t;
          floor = unwrap_or free RequestChanges
      in case last_most_severe (List.map_filter object_verdict (all_json_objects lib t)) of
           Some sv \<Rightarrow>
             if honor_block_verdict (sv_verdict sv) free
             then (let v = max_verdict floor (sv_verdict sv)
                   in (v, ensure_issues_for_verdict v (sv_issues sv) (sv_summary sv) t))
             else (floor, issues_for_verdict floor t)
         | None \<Rightarrow> (floor, issues_for_verdict floor t))"

definition feedback_from_text :: "json_lib \<Rightarrow> string \<Rightarrow> string \<Rightarrow> reviewer_feedback" where
  "feedback_from_text lib reviewer raw =
     (case feedback_verdict lib (normalize_newlines raw) of
        (v, issues) \<Rightarrow>
          \<lparr>rf_reviewer_id = reviewer, rf_verdict = v, rf_issues = issues, rf_patch = None,
           rf_cost = usage_from_raw_text lib raw, rf_raw_text = raw\<rparr>)"

section \<open>Messages and patches\<close>

definition json_index :: "string \<Rightarrow> json \<Rightarrow> json" where
  "json_index k j = unwrap_or (json_get k j) JNull"

definition push_candidate_text :: "string \<Rightarrow> string \<Rightarrow> string" where
  "push_candidate_text t out = (if out = [] then t else out @ CHR 0x0A # t)"

definition push_text_item :: "json \<Rightarrow> string \<Rightarrow> string" where
  "push_text_item item out =
     (if get_str ''type'' item = Some ''text''
      then (case get_str ''text'' item of Some t \<Rightarrow> push_candidate_text t out | None \<Rightarrow> out) else out)"

fun collect_content_text :: "json \<Rightarrow> string \<Rightarrow> string" where
  "collect_content_text (JStr t) out = push_candidate_text t out"
| "collect_content_text (JArr items) out = fold push_text_item items out"
| "collect_content_text (JObj kvs) out = push_text_item (JObj kvs) out"
| "collect_content_text _ out = out"

definition push_opt :: "string option \<Rightarrow> string \<Rightarrow> string" where
  "push_opt m out = (case m of Some t \<Rightarrow> push_candidate_text t out | None \<Rightarrow> out)"

definition collect_item_text :: "json \<Rightarrow> string \<Rightarrow> string" where
  "collect_item_text item out = collect_content_text (json_index ''content'' item) (push_opt (get_str ''text'' item) out)"

definition collect_adapter_message_text :: "json \<Rightarrow> string \<Rightarrow> string" where
  "collect_adapter_message_text v out =
     (if get_str ''type'' v = Some ''assistant''
      then collect_content_text (json_index ''content'' (json_index ''message'' v)) out
      else if get_str ''type'' v = Some ''item.completed'' then collect_item_text (json_index ''item'' v) out
      else (let out1 = (if get_str ''role'' v = Some ''assistant'' then collect_item_text v out else out)
            in if get_str ''role'' (json_index ''item'' v) = Some ''assistant''
               then collect_item_text (json_index ''item'' v) out1 else out1))"

definition extract_patch_candidate_text :: "json_lib \<Rightarrow> string \<Rightarrow> string" where
  "extract_patch_candidate_text lib raw =
     (let out = fold collect_adapter_message_text (json_lines lib raw) [] in if out = [] then raw else out)"

text \<open>The patch in a text, if it reads as a diff that changes something.\<close>

definition patch_in ::
  "json_lib \<Rightarrow> (string \<Rightarrow> string) \<Rightarrow> string \<Rightarrow> loc \<Rightarrow> fs \<Rightarrow> string \<Rightarrow> diff_fail + nv_patch option" where
  "patch_in lib digest uuid cwd s raw =
     res_bind (from_unified_diff digest uuid cwd s (extract_patch_candidate_text lib raw)) (\<lambda>p.
       Inr (case p of Some x \<Rightarrow> if nv_is_empty x then None else Some x | None \<Rightarrow> None))"

definition feedback_from_raw_text ::
  "json_lib \<Rightarrow> (string \<Rightarrow> string) \<Rightarrow> string \<Rightarrow> string \<Rightarrow> loc \<Rightarrow> fs \<Rightarrow> string \<Rightarrow> diff_fail + reviewer_feedback" where
  "feedback_from_raw_text lib digest uuid reviewer cwd s raw =
     res_bind (patch_in lib digest uuid cwd s raw) (\<lambda>p. Inr ((feedback_from_text lib reviewer raw)\<lparr>rf_patch := p\<rparr>))"

definition output_from_raw_text ::
  "json_lib \<Rightarrow> (string \<Rightarrow> string) \<Rightarrow> string \<Rightarrow> string \<Rightarrow> loc \<Rightarrow> fs \<Rightarrow> string \<Rightarrow> diff_fail + agent_output" where
  "output_from_raw_text lib digest uuid agent cwd s raw =
     res_bind (patch_in lib digest uuid cwd s raw) (\<lambda>p.
       Inr ((case p of Some x \<Rightarrow> ao_with_patch agent raw x | None \<Rightarrow> ao_text agent raw)\<lparr>ao_cost := usage_from_raw_text lib raw\<rparr>))"

end
