(* ===== verification/VerdictProps.thy ===== *)
theory VerdictProps
  imports VerdictParse
begin

text \<open>
  The verdict of a review is the most severe of what its first line says and of every JSON object in
  it, so that an acceptance needs a clean first line and no sign of rejection anywhere.
\<close>

section \<open>The most severe verdict\<close>

lemma severity_inj: "block_severity_rank a = block_severity_rank b \<longleftrightarrow> a = b"
  by (cases a; cases b) simp_all

lemma accepting: "v \<in> {Lgtm, AcceptWithNits} \<longleftrightarrow> block_severity_rank v \<le> 1"
  by (cases v) simp_all

lemma last_most_severe_None: "last_most_severe xs = None \<longleftrightarrow> xs = []"
  by (cases xs) (auto split: option.split)

lemma last_most_severe_max:
  "last_most_severe xs = Some sv \<Longrightarrow>
   sv \<in> set xs \<and> (\<forall>x \<in> set xs. block_severity_rank (sv_verdict x) \<le> block_severity_rank (sv_verdict sv))"
  by (induction xs arbitrary: sv) (fastforce split: option.splits if_splits simp: last_most_severe_None)+

definition object_verdicts :: "json_lib \<Rightarrow> string \<Rightarrow> verdict list" where
  "object_verdicts lib t = map sv_verdict (List.map_filter object_verdict (all_json_objects lib t))"

definition floor_verdict :: "string \<Rightarrow> verdict" where
  "floor_verdict t = unwrap_or (parse_verdict_token t) RequestChanges"

lemma free_not_accepting:
  "parse_verdict_token t \<notin> {Some Lgtm, Some AcceptWithNits} \<Longrightarrow> 2 \<le> block_severity_rank (floor_verdict t)"
proof (cases "parse_verdict_token t")
  case (Some v)
  then show "parse_verdict_token t \<notin> {Some Lgtm, Some AcceptWithNits} \<Longrightarrow> 2 \<le> block_severity_rank (floor_verdict t)"
    by (cases v) (simp_all add: floor_verdict_def unwrap_or_def)
qed (simp add: floor_verdict_def unwrap_or_def)

lemma feedback_verdict_rank:
  "block_severity_rank (fst (feedback_verdict lib t)) =
     Max (block_severity_rank ` set (floor_verdict t # object_verdicts lib t))"
proof (cases "last_most_severe (List.map_filter object_verdict (all_json_objects lib t))")
  case None
  then show ?thesis
    by (simp add: feedback_verdict_def Let_def object_verdicts_def last_most_severe_None floor_verdict_def)
next
  case (Some sv)
  let ?ranks = "block_severity_rank ` set (object_verdicts lib t)"
  have top: "block_severity_rank (sv_verdict sv) = Max ?ranks" and ne: "?ranks \<noteq> {}"
    using last_most_severe_max[OF Some] unfolding object_verdicts_def
    by (auto intro!: Max_eqI[symmetric])
  show ?thesis
  proof (cases "honor_block_verdict (sv_verdict sv) (parse_verdict_token t)")
    case True
    then have "fst (feedback_verdict lib t) = max_verdict (floor_verdict t) (sv_verdict sv)"
      by (simp add: feedback_verdict_def Let_def Some floor_verdict_def)
    then show ?thesis using top ne by (simp add: max_verdict_def max_def)
  next
    case False
    then have "fst (feedback_verdict lib t) = floor_verdict t"
      by (simp add: feedback_verdict_def Let_def Some floor_verdict_def)
    moreover have "block_severity_rank (sv_verdict sv) \<le> 1" "2 \<le> block_severity_rank (floor_verdict t)"
      using False free_not_accepting by (cases "sv_verdict sv"; auto simp: honor_block_verdict_def)+
    moreover have "Max (insert f ?ranks) = max f (Max ?ranks)" for f using ne by (simp add: Max_insert)
    ultimately show ?thesis using top by (simp add: max_absorb1 del: Max_le_iff Max_less_iff)
  qed
qed

lemma feedback_verdict_issues: "fst (feedback_verdict lib t) = Lgtm \<or> 0 < length (snd (feedback_verdict lib t))"
proof -
  have some: "v = Lgtm \<or> 0 < length (ensure_issues_for_verdict v is m t)" "v = Lgtm \<or> 0 < length (issues_for_verdict v t)" for v "is" m
    by (cases v; simp add: ensure_issues_for_verdict_def issues_for_verdict_def)+
  show ?thesis
    unfolding feedback_verdict_def Let_def using some by (auto split: option.splits)
qed

lemma feedback_fields:
  "rf_verdict (feedback_from_text lib r raw) = fst (feedback_verdict lib (normalize_newlines raw))"
  "rf_issues (feedback_from_text lib r raw) = snd (feedback_verdict lib (normalize_newlines raw))"
  by (simp_all add: feedback_from_text_def case_prod_beta)

text \<open>C37. The verdict is the most severe of the first line's, which counts as a request for changes when it says
  nothing, and of all the verdict objects in the text; everything but an unqualified acceptance comes
  with an issue.\<close>

theorem feedback_is_most_severe:
  "block_severity_rank (rf_verdict (feedback_from_text lib r raw)) =
     Max (block_severity_rank ` set (floor_verdict (normalize_newlines raw) # object_verdicts lib (normalize_newlines raw))) \<and>
   (rf_verdict (feedback_from_text lib r raw) = Lgtm \<or> 0 < length (rf_issues (feedback_from_text lib r raw)))"
  unfolding feedback_fields using feedback_verdict_rank feedback_verdict_issues by blast

section \<open>What an acceptance needs\<close>

definition rejects :: "json \<Rightarrow> bool" where
  "rejects v =
     ((\<exists>s. json_get ''verdict'' v = Some (JStr s) \<and> parse_verdict_value s \<in> {Some RequestChanges, Some Block}) \<or>
      (\<exists>items. json_get ''issues'' v = Some (JArr items) \<and> list_ex is_blocking_item items))"

lemma as_str_Some: "as_str j = Some s \<longleftrightarrow> j = JStr s" by (cases j) auto
lemma as_array_Some: "as_array j = Some s \<longleftrightarrow> j = JArr s" by (cases j) auto

lemma rejecting_object:
  assumes "so_duplicate so \<or> rejects (so_value so)"
  shows "\<exists>sv. object_verdict so = Some sv \<and> 2 \<le> block_severity_rank (sv_verdict sv)"
proof (cases "so_duplicate so")
  case True
  then show ?thesis by (simp add: object_verdict_def)
next
  case False
  let ?v = "so_value so"
  from assms False have "rejects ?v" by simp
  then consider (verdict) s where "json_get ''verdict'' ?v = Some (JStr s)" "parse_verdict_value s \<in> {Some RequestChanges, Some Block}"
    | (items) js where "json_get ''issues'' ?v = Some (JArr js)" "list_ex is_blocking_item js"
    unfolding rejects_def by blast
  then show ?thesis
  proof cases
    case verdict
    then show ?thesis
      using False by (auto simp: object_verdict_def structured_verdict_from_object_def Let_def get_str_def)
  next
    case items
    let ?p = "Option.bind (get_str ''verdict'' ?v) parse_verdict_value"
    have "\<exists>sv. structured_verdict_from_object ?v = Some sv \<and> 2 \<le> block_severity_rank (sv_verdict sv)"
    proof (cases ?p)
      case None
      then show ?thesis using items by (simp add: structured_verdict_from_object_def Let_def)
    next
      case (Some q)
      then show ?thesis using items by (cases q) (simp_all add: structured_verdict_from_object_def Let_def)
    qed
    then show ?thesis using False by (simp add: object_verdict_def)
  qed
qed

lemma leading_accept_among_shape:
  "leading_accept_among ts l = Some v \<Longrightarrow>
   \<exists>token rest. (token, v) \<in> set ts \<and> l = token @ rest \<and> (\<forall>c. first_char rest = Some c \<longrightarrow> is_accept_terminator c)"
proof (induction ts)
  case (Cons t ts)
  obtain token u where t: "t = (token, u)" by (cases t)
  show ?case
  proof (cases "strip_prefix token l")
    case None
    then show ?thesis using Cons t by auto
  next
    case (Some rest)
    then have "u = v" "\<forall>c. first_char rest = Some c \<longrightarrow> is_accept_terminator c"
      using Cons.prems t by (auto split: list.splits if_splits)
    then show ?thesis using Some[unfolded strip_prefix_Some] t by (intro exI[of _ token] exI[of _ rest]) simp
  qed
qed simp

lemma accepted_first_line:
  assumes "block_severity_rank (fst (feedback_verdict lib t)) \<le> 1"
  shows "rejection_signal t = None" "\<exists>l v. first_text_line t = Some l \<and> leading_accept_token (trim_start l) = Some v"
proof -
  have "\<forall>v \<in> set (floor_verdict t # object_verdicts lib t). block_severity_rank v \<le> 1"
    using assms unfolding feedback_verdict_rank by simp
  then have tok: "\<exists>v. parse_verdict_token t = Some v \<and> block_severity_rank v \<le> 1"
    by (cases "parse_verdict_token t") (auto simp: floor_verdict_def unwrap_or_def)
  then show none: "rejection_signal t = None"
    by (auto simp: parse_verdict_token_def rejection_signal_def split: if_splits)
  then show "\<exists>l v. first_text_line t = Some l \<and> leading_accept_token (trim_start l) = Some v"
    using tok by (auto simp: parse_verdict_token_def bind_eq_Some_conv)
qed

text \<open>C36. A review that accepts has a first line that starts with an accept token standing alone, no rejection
  word as a word of its own anywhere, and no JSON object, however deep, that rejects, holds a blocking
  issue, or repeats a key.\<close>

theorem feedback_accepts_only_clean:
  assumes "rf_verdict (feedback_from_text lib r raw) \<in> {Lgtm, AcceptWithNits}" "t = normalize_newlines raw"
  shows "(\<forall>w \<in> {''BLOCK'', ''REQUEST_CHANGES'', ''REQUEST CHANGES''}. \<not> contains_verdict_word t w) \<and>
     (\<exists>l token v rest. first_text_line t = Some l \<and> (token, v) \<in> set accept_tokens \<and> trim_start l = token @ rest \<and>
        (\<forall>c. first_char rest = Some c \<longrightarrow> is_accept_terminator c)) \<and>
     (\<forall>so \<in> set (all_json_objects lib t). \<not> so_duplicate so \<and> \<not> rejects (so_value so))"
proof -
  have rank: "block_severity_rank (fst (feedback_verdict lib t)) \<le> 1"
    using assms accepting by (simp add: feedback_fields)
  then have le: "\<forall>v \<in> set (floor_verdict t # object_verdicts lib t). block_severity_rank v \<le> 1"
    unfolding feedback_verdict_rank by simp
  note line = accepted_first_line[OF rank]
  obtain v l where l: "first_text_line t = Some l" "leading_accept_token (trim_start l) = Some v" using line(2) by blast
  have "\<not> so_duplicate so \<and> \<not> rejects (so_value so)" if so: "so \<in> set (all_json_objects lib t)" for so
  proof (rule ccontr)
    assume "\<not> ?thesis"
    then obtain sv where sv: "object_verdict so = Some sv" "2 \<le> block_severity_rank (sv_verdict sv)"
      using rejecting_object by blast
    then have "sv_verdict sv \<in> set (object_verdicts lib t)"
      using so by (force simp: object_verdicts_def List.map_filter_def)
    then show False using le sv(2) by fastforce
  qed
  moreover have "\<forall>w \<in> {''BLOCK'', ''REQUEST_CHANGES'', ''REQUEST CHANGES''}. \<not> contains_verdict_word t w"
    using line(1) by (simp add: rejection_signal_def split: if_splits)
  ultimately show ?thesis using l(1) leading_accept_among_shape[OF l(2)[unfolded leading_accept_token_def]] by blast
qed

definition no_json :: json_lib where
  "no_json = \<lparr>jl_prefix = (\<lambda>_. None), jl_line = (\<lambda>_. None), jl_float = (\<lambda>_. None)\<rparr>"

theorem feedback_accepts_only_clean_witness:
  "rf_verdict (feedback_from_text no_json ''r'' ''LGTM. No BLOCKERs.'') = Lgtm \<and>
   \<not> contains_verdict_word (normalize_newlines ''LGTM. No BLOCKERs.'') ''BLOCK''"
proof -
  have "parse_verdict_token ''LGTM. No BLOCKERs.'' = Some Lgtm" "normalize_newlines ''LGTM. No BLOCKERs.'' = ''LGTM. No BLOCKERs.''"
    by code_simp+
  moreover have "dropWhile (\<lambda>c. c \<noteq> CHR ''{'') ''LGTM. No BLOCKERs.'' = []" by code_simp
  then have "all_json_objects no_json ''LGTM. No BLOCKERs.'' = []" by (subst all_json_objects.simps) simp
  ultimately have lgtm: "rf_verdict (feedback_from_text no_json ''r'' ''LGTM. No BLOCKERs.'') = Lgtm"
    by (simp add: feedback_fields feedback_verdict_def unwrap_or_def List.map_filter_def)
  then have "rf_verdict (feedback_from_text no_json ''r'' ''LGTM. No BLOCKERs.'') \<in> {Lgtm, AcceptWithNits}" by simp
  from feedback_accepts_only_clean[OF this refl] lgtm show ?thesis by blast
qed

text \<open>A review printed as JSON lines, as by an agent that is run with \<^verbatim>\<open>--json\<close>, has no first line that could
  accept: it is never an acceptance, whatever the reviewer says in its messages.\<close>

lemma json_lines_never_accept:
  assumes "first_text_line (normalize_newlines raw) = Some l" "first_char (trim_start l) = Some (CHR ''{'')"
  shows "rf_verdict (feedback_from_text lib r raw) \<notin> {Lgtm, AcceptWithNits}"
proof
  assume "rf_verdict (feedback_from_text lib r raw) \<in> {Lgtm, AcceptWithNits}"
  then have "block_severity_rank (fst (feedback_verdict lib (normalize_newlines raw))) \<le> 1"
    using accepting by (simp add: feedback_fields)
  from accepted_first_line(2)[OF this] assms(1) obtain v where "leading_accept_token (trim_start l) = Some v" by auto
  from leading_accept_among_shape[OF this[unfolded leading_accept_token_def]] assms(2) show False
    by (auto simp: accept_tokens_def)
qed

end
