(* ===== verification/ConfigProps.thy ===== *)
theory ConfigProps
  imports LoopDemo
begin

text \<open>
  The type of a loaded configuration: the checks of \<^verbatim>\<open>Config::validate\<close> as one predicate, what the source
  field says, and what every profile selection inherits from it.
\<close>

definition wf_mcp :: "mcp_config \<Rightarrow> bool" where
  "wf_mcp m =
     (distinct (map ms_name (mcp_servers m)) \<and>
      (\<forall>sv \<in> set (mcp_servers m). trim_ws (ms_name sv) \<noteq> [] \<and> ms_command sv \<noteq> [] \<and>
         (\<forall>arg \<in> set (ms_command sv). trim_ws arg \<noteq> [])))"

definition wf_mayor :: "mayor_patrol_config \<Rightarrow> bool" where
  "wf_mayor m =
     (0 < mp_max_patrols m \<and> mp_max_patrols m \<le> 64 \<and> 0 < mp_heartbeat_secs m \<and>
      min (2 * unat (mp_heartbeat_secs m)) (2 ^ 32 - 1) \<le> unat (mp_claim_ttl_secs m) \<and>
      mp_per_patrol_budget m \<noteq> Some 0)"

definition wf_verifier :: "builtin_verifier_config \<Rightarrow> bool" where
  "wf_verifier v =
     (bv_timeout_secs v \<noteq> 0 \<and>
      (bv_mode v = VerifierCommand \<longrightarrow>
         bv_command v \<noteq> [] \<and> hd (bv_command v) \<noteq> [] \<and> \<not> starts_with ''-'' (hd (bv_command v)) \<and>
         \<not> contains_sub ''/'' (hd (bv_command v))))"

definition wf_profile :: "profile \<Rightarrow> bool" where
  "wf_profile p =
     (trim_ws (pf_id p) \<noteq> [] \<and> trim_ws (pf_lead p) \<noteq> [] \<and> trim_ws (pf_reviewer p) \<noteq> [] \<and>
      (\<forall>n. pf_max_rounds p = Some n \<longrightarrow> n \<le> 5) \<and> (\<forall>m. pf_mcp p = Some m \<longrightarrow> wf_mcp m))"

definition wf_config :: "config \<Rightarrow> bool" where
  "wf_config c =
     (let o' = cf_orchestration c; r = cf_roles c in
      or_max_refinement_rounds o' \<le> 5 \<and> or_max_total_tokens o' \<noteq> Some 0 \<and> or_max_cost o' \<noteq> Some 0 \<and>
      or_adapter_timeout_secs o' \<noteq> Some 0 \<and> or_adapter_max_output_bytes o' \<noteq> Some 0 \<and>
      0 < tui_refresh_ms (cf_tui c) \<and> 0 < tui_log_height_pct (cf_tui c) \<and> tui_log_height_pct (cf_tui c) \<le> 100 \<and>
      (\<forall>m. or_mayor_patrol o' = Some m \<longrightarrow> wf_mayor m) \<and> wf_verifier (or_builtin_verifier o') \<and>
      trim_ws (ro_architect r) \<noteq> [] \<and> trim_ws (ro_reviewer r) \<noteq> [] \<and> (\<forall>m. ro_mcp r = Some m \<longrightarrow> wf_mcp m) \<and>
      (\<forall>p \<in> set (cf_profiles c). wf_profile p))"

section \<open>Each check\<close>







section \<open>Loading and selecting\<close>



lemma wf_source [simp]: "wf_config (c\<lparr>cf_source := src\<rparr>) = wf_config c"
  by (simp add: wf_config_def)




end
