(* ===== verification/Adapters.thy ===== *)
theory Adapters
  imports VerdictParse SynapticLoop
begin

text \<open>
  The agents behind the run, from \<^verbatim>\<open>crates/nerve-adapter/src/lib.rs\<close>: the subprocess adapter, with its
  retried spawn, its two output streams read under a cap and a deadline, its prompts and its limits, and
  the mock pair. \<open>subprocess_adapter\<close> and \<open>mock_adapter\<close> are values of the record of adapters that the
  run uses.

  The host is a parameter. Spawning a command gives the child's whole life: what arrives on its two
  pipes until the deadline, in arrival order, an empty read being the end of a stream, and its exit
  status; the world after it is the world after the child has ended or was killed.
\<close>

section \<open>Errors\<close>

datatype error_kind =
  WouldBlock | OutOfMemory | ExecutableFileBusy | ResourceBusy | Interrupted | NotFound | PermissionDenied | OtherKind

record io_error =
  ie_kind :: error_kind
  ie_text :: string

datatype adapter_error =
  Timeout u64
| OutputTooLarge u64
| OneshotNotSupported string
| OneshotFailed string string

text \<open>The error of a call: one of the adapter's own, or a message (the outermost context of an error).\<close>

datatype adapter_fail = AdapterFail adapter_error | AnyFail string

definition bq :: "string \<Rightarrow> string" where
  "bq s = ''`'' @ s @ ''`''"

fun adapter_error_text :: "adapter_error \<Rightarrow> string" where
  "adapter_error_text (Timeout secs) = ''adapter timed out after '' @ show_nat (unat secs) @ ''s''"
| "adapter_error_text (OutputTooLarge limit) =
     ''adapter output exceeded limit of '' @ show_nat (unat limit) @ '' bytes''"
| "adapter_error_text (OneshotNotSupported a) = ''adapter '' @ bq a @ '' does not support dispatch_oneshot''"
| "adapter_error_text (OneshotFailed a reason) = ''dispatch_oneshot for '' @ bq a @ '' failed: '' @ reason"

fun adapter_fail_text :: "adapter_fail \<Rightarrow> string" where
  "adapter_fail_text (AdapterFail e) = adapter_error_text e"
| "adapter_fail_text (AnyFail s) = s"

section \<open>Spawning\<close>

definition default_adapter_timeout_secs :: u64 where "default_adapter_timeout_secs = 300"
definition default_max_output_bytes :: u64 where "default_max_output_bytes = 16 * 1024 * 1024"
definition default_spawn_retries :: u32 where "default_spawn_retries = 2"
definition max_spawn_retries :: u32 where "max_spawn_retries = 10"

text \<open>Durations are in milliseconds.\<close>

definition spawn_retry_backoff_base :: nat where "spawn_retry_backoff_base = 50"
definition spawn_retry_backoff_max :: nat where "spawn_retry_backoff_max = 2000"
definition spawn_retry_shift_cap :: u32 where "spawn_retry_shift_cap = 16"

definition is_transient_spawn_error :: "io_error \<Rightarrow> bool" where
  "is_transient_spawn_error e =
     (ie_kind e \<in> {WouldBlock, OutOfMemory, ExecutableFileBusy, ResourceBusy, Interrupted})"

definition spawn_retry_backoff :: "u32 \<Rightarrow> nat \<Rightarrow> nat" where
  "spawn_retry_backoff attempt base =
     (if base = 0 then 0
      else (let shift = min attempt spawn_retry_shift_cap
            in min (base * unat (push_bit (unat shift) (1 :: u32))) spawn_retry_backoff_max))"

lemma unat_next_attempt: "attempt < retries \<Longrightarrow> unat (attempt + 1) = unat attempt + 1" for attempt retries :: u32
  using unsigned_less[of retries, where ?'a = nat] by (simp add: unat_word_ariths word_less_nat_alt)

lemma fewer_attempts_left:
  "attempt < retries \<Longrightarrow> unat retries - unat (attempt + 1) < unat retries - unat attempt" for attempt retries :: u32
  using unat_next_attempt[of attempt retries] by (simp add: word_less_nat_alt)

text \<open>The loop of \<^verbatim>\<open>spawn_with_retry\<close>, over any spawner and any way to sleep.\<close>

function spawn_attempts ::
  "('s, io_error, 'a) step \<Rightarrow> (nat \<Rightarrow> 's \<Rightarrow> 's) \<Rightarrow> u32 \<Rightarrow> nat \<Rightarrow> u32 \<Rightarrow> ('s, io_error, 'a) step" where
  "spawn_attempts spawn sleep retries base attempt s =
     (case spawn s of
        (Inr v, s') \<Rightarrow> (Inr v, s')
      | (Inl err, s') \<Rightarrow>
          if attempt < retries \<and> is_transient_spawn_error err
          then (let b = spawn_retry_backoff attempt base;
                    s'' = (if b = 0 then s' else sleep b s')
                in spawn_attempts spawn sleep retries base (attempt + 1) s'')
          else (Inl err, s'))"
  by pat_completeness auto
termination
  by (relation "measure (\<lambda>(_, _, retries, _, attempt, _). unat retries - unat attempt)")
    (auto intro: fewer_attempts_left)

declare spawn_attempts.simps [simp del]

definition spawn_with_retry ::
  "('s, io_error, 'a) step \<Rightarrow> (nat \<Rightarrow> 's \<Rightarrow> 's) \<Rightarrow> u32 \<Rightarrow> nat \<Rightarrow> ('s, io_error, 'a) step" where
  "spawn_with_retry spawn sleep retries base = spawn_attempts spawn sleep retries base 0"

section \<open>Streams\<close>

datatype stream_kind = Stdout_kind | Stderr_kind

fun stream_kind_debug :: "stream_kind \<Rightarrow> string" where
  "stream_kind_debug Stdout_kind = ''Stdout''"
| "stream_kind_debug Stderr_kind = ''Stderr''"

definition emit_stream_line :: "string \<Rightarrow> stream_kind \<Rightarrow> string \<Rightarrow> agent_event" where
  "emit_stream_line agent kind raw =
     (let line = from_utf8_lossy (if raw \<noteq> [] \<and> last raw = CHR 0x0D then butlast raw else raw)
      in case kind of Stdout_kind \<Rightarrow> Stdout agent line | Stderr_kind \<Rightarrow> Stderr agent line)"

text \<open>One stream: the bytes so far, the unfinished line, and whether the end was read.\<close>

record drain =
  dr_buffered :: string
  dr_pending :: string
  dr_eof :: bool

definition drain_new :: drain where
  "drain_new = \<lparr>dr_buffered = [], dr_pending = [], dr_eof = False\<rparr>"

fun drain_bytes :: "string \<Rightarrow> string \<Rightarrow> string list \<times> string" where
  "drain_bytes pending [] = ([], pending)"
| "drain_bytes pending (b # bs) =
     (if b = CHR 0x0A then (case drain_bytes [] bs of (ls, p) \<Rightarrow> (pending # ls, p))
      else drain_bytes (pending @ [b]) bs)"

definition drain_read ::
  "string \<Rightarrow> u64 \<Rightarrow> stream_kind \<Rightarrow> io_error + string \<Rightarrow> drain \<Rightarrow> (adapter_fail + drain) \<times> agent_event list" where
  "drain_read agent cap kind r d =
     (case r of
        Inl e \<Rightarrow> (Inl (AnyFail (''failed to read '' @ stream_kind_debug kind @ '' from '' @ bq agent @ '' adapter'')), [])
      | Inr [] \<Rightarrow>
          (Inr (d\<lparr>dr_eof := True\<rparr>), if dr_pending d \<noteq> [] then [emit_stream_line agent kind (dr_pending d)] else [])
      | Inr chunk \<Rightarrow>
          if length (dr_buffered d) + length chunk > unat cap then (Inl (AdapterFail (OutputTooLarge cap)), [])
          else (case drain_bytes (dr_pending d) chunk of
              (ls, p) \<Rightarrow> (Inr (d\<lparr>dr_buffered := dr_buffered d @ chunk, dr_pending := p\<rparr>),
                          map (emit_stream_line agent kind) ls)))"

text \<open>\<^verbatim>\<open>drain_stream\<close>: one stream by itself, over its reads.\<close>

fun drain_stream ::
  "string \<Rightarrow> u64 \<Rightarrow> stream_kind \<Rightarrow> (io_error + string) list \<Rightarrow> drain \<Rightarrow> (adapter_fail + drain) \<times> agent_event list" where
  "drain_stream agent cap kind [] d = (Inr d, [])"
| "drain_stream agent cap kind (r # rs) d =
     (if dr_eof d then (Inr d, [])
      else (case drain_read agent cap kind r d of
          (Inl e, evs) \<Rightarrow> (Inl e, evs)
        | (Inr d', evs) \<Rightarrow> (case drain_stream agent cap kind rs d' of (res, evs') \<Rightarrow> (res, evs @ evs'))))"

text \<open>Both streams, read as data arrives; the first error ends both, and so does the deadline.\<close>

fun drain_both ::
  "string \<Rightarrow> u64 \<Rightarrow> u64 \<Rightarrow> (stream_kind \<times> (io_error + string)) list \<Rightarrow> drain \<Rightarrow> drain \<Rightarrow>
   (adapter_fail + string \<times> string) \<times> agent_event list" where
  "drain_both agent cap secs rs out err =
     (if dr_eof out \<and> dr_eof err
      then (Inr (from_utf8_lossy (dr_buffered out), from_utf8_lossy (dr_buffered err)), [])
      else (case rs of
          [] \<Rightarrow> (Inl (AdapterFail (Timeout secs)), [])
        | (Stdout_kind, r) # rs' \<Rightarrow>
            (case drain_read agent cap Stdout_kind r out of
               (Inl e, evs) \<Rightarrow> (Inl e, evs)
             | (Inr out', evs) \<Rightarrow> (case drain_both agent cap secs rs' out' err of (res, evs') \<Rightarrow> (res, evs @ evs')))
        | (Stderr_kind, r) # rs' \<Rightarrow>
            (case drain_read agent cap Stderr_kind r err of
               (Inl e, evs) \<Rightarrow> (Inl e, evs)
             | (Inr err', evs) \<Rightarrow> (case drain_both agent cap secs rs' out err' of (res, evs') \<Rightarrow> (res, evs @ evs')))))"

declare drain_both.simps [simp del]

section \<open>The subprocess adapter\<close>

record child_run =
  ch_reads :: "(stream_kind \<times> (io_error + string)) list"
  ch_status :: "io_error + (bool \<times> string)"

record 'x adapter_host =
  ah_spawn :: "string \<Rightarrow> string list \<Rightarrow> loc \<Rightarrow> ('x world, io_error, child_run) step"
  ah_sleep :: "nat \<Rightarrow> 'x world \<Rightarrow> 'x world"
  ah_emit :: "agent_event list \<Rightarrow> 'x \<Rightarrow> 'x"
  ah_current_dir :: "loc option"
  ah_json :: json_lib
  ah_digest :: "string \<Rightarrow> string"
  ah_uuid :: "'x world \<Rightarrow> string"

record subprocess =
  sa_id :: string
  sa_command :: string
  sa_args :: "string list"
  sa_timeout_secs :: u64
  sa_max_output_bytes :: u64
  sa_spawn_retries :: u32

definition subprocess_new :: "string \<Rightarrow> string \<Rightarrow> string list \<Rightarrow> subprocess" where
  "subprocess_new i command args =
     \<lparr>sa_id = i, sa_command = command, sa_args = args, sa_timeout_secs = default_adapter_timeout_secs,
      sa_max_output_bytes = default_max_output_bytes, sa_spawn_retries = default_spawn_retries\<rparr>"

definition with_timeout_secs :: "u64 \<Rightarrow> subprocess \<Rightarrow> subprocess" where
  "with_timeout_secs secs a = a\<lparr>sa_timeout_secs := secs\<rparr>"

definition with_max_output_bytes :: "u64 \<Rightarrow> subprocess \<Rightarrow> subprocess" where
  "with_max_output_bytes bytes a = a\<lparr>sa_max_output_bytes := bytes\<rparr>"

definition with_spawn_retries :: "u32 \<Rightarrow> subprocess \<Rightarrow> subprocess" where
  "with_spawn_retries retries a = a\<lparr>sa_spawn_retries := min retries max_spawn_retries\<rparr>"

definition claude_code :: subprocess where
  "claude_code = subprocess_new ''claude-code'' ''claude''
     [''-p'', ''{prompt}'', ''--output-format'', ''stream-json'', ''--verbose'']"

definition codex :: subprocess where
  "codex = subprocess_new ''codex'' ''codex'' [''exec'', ''--skip-git-repo-check'', ''--json'', ''{prompt}'']"

text \<open>\<^verbatim>\<open>str::replace\<close>: the occurrences from the left; what is put in is not read again.\<close>

fun replace_skip :: "nat \<Rightarrow> string \<Rightarrow> string \<Rightarrow> string \<Rightarrow> string" where
  "replace_skip k pat new [] = []"
| "replace_skip (Suc k) pat new (c # cs) = replace_skip k pat new cs"
| "replace_skip 0 pat new (c # cs) =
     (if starts_with pat (c # cs) then new @ replace_skip (length pat - 1) pat new cs
      else c # replace_skip 0 pat new cs)"

definition replace_prompt :: "string \<Rightarrow> string \<Rightarrow> string" where
  "replace_prompt prompt arg = replace_skip 0 ''{prompt}'' prompt arg"

text \<open>The answer and the events that were sent on the way.\<close>

definition finish_prompt :: "subprocess \<Rightarrow> child_run \<Rightarrow> (adapter_fail + string) \<times> agent_event list" where
  "finish_prompt a ch =
     (case drain_both (sa_id a) (sa_max_output_bytes a) (sa_timeout_secs a) (ch_reads ch) drain_new drain_new of
        (Inl e, evs) \<Rightarrow> (Inl e, evs)
      | (Inr (out, err), evs) \<Rightarrow>
          (case ch_status ch of
             Inl e \<Rightarrow> (Inl (AnyFail (''failed to await '' @ bq (sa_id a) @ '' adapter exit status'')), evs)
           | Inr (success, status) \<Rightarrow>
               if \<not> success
               then (Inl (AnyFail (''adapter '' @ bq (sa_id a) @ '' exited with status '' @ status @ '': '' @ trim_ws err)), evs)
               else (Inr out, evs @ [Done (sa_id a)])))"

definition run_prompt ::
  "'x adapter_host \<Rightarrow> subprocess \<Rightarrow> string \<Rightarrow> loc \<Rightarrow> 'x world \<Rightarrow> ((adapter_fail + string) \<times> agent_event list) \<times> 'x world" where
  "run_prompt h a prompt cwd w =
     (let args = map (replace_prompt prompt) (sa_args a) in
      case spawn_with_retry (ah_spawn h (sa_command a) args cwd) (ah_sleep h) (sa_spawn_retries a)
             spawn_retry_backoff_base w of
        (Inl e, w') \<Rightarrow>
          ((Inl (AnyFail (''failed to spawn '' @ bq (sa_id a) @ '' adapter after '' @
                 show_nat (unat (sat_add (sa_spawn_retries a) 1)) @ '' attempt(s)'')), []), w')
      | (Inr ch, w') \<Rightarrow> (finish_prompt a ch, w'))"

text \<open>A call with a channel: its events are sent to whoever listens.\<close>

definition send_events :: "'x adapter_host \<Rightarrow> agent_event list \<Rightarrow> 'x world \<Rightarrow> 'x world" where
  "send_events h evs w = w\<lparr>w_ext := ah_emit h evs (w_ext w)\<rparr>"

definition run_prompt_tx :: "'x adapter_host \<Rightarrow> subprocess \<Rightarrow> string \<Rightarrow> loc \<Rightarrow> ('x world, adapter_fail, string) step" where
  "run_prompt_tx h a prompt cwd w =
     (case run_prompt h a prompt cwd w of ((res, evs), w') \<Rightarrow> (res, send_events h evs w'))"

section \<open>Prompts\<close>

definition implement_prompt :: "task \<Rightarrow> string" where
  "implement_prompt t =
     ''You are the Lead Agent for Nerve. Produce a concise implementation patch for this task. '' @
     ''Return a unified diff when possible.'' @ nl @ nl @ ''Task:'' @ nl @ task_prompt t"

definition verdict_fence_tag :: string where
  "verdict_fence_tag = ''nerve-verdict''"

text \<open>The dash of the prompt in UTF-8.\<close>

definition em_dash :: string where
  "em_dash = [CHR 0xE2, CHR 0x80, CHR 0x94]"

definition verdict_example :: string where
  "verdict_example =
     ''{'' @ quote @ ''verdict'' @ quote @ '': '' @ quote @ ''lgtm|accept_with_nits|request_changes|block'' @ quote @
     '', '' @ quote @ ''summary'' @ quote @ '': '' @ quote @ ''one sentence'' @ quote @
     '', '' @ quote @ ''issues'' @ quote @ '': [{'' @ quote @ ''severity'' @ quote @ '': '' @ quote @ ''info|warning|blocking'' @ quote @
     '', '' @ quote @ ''message'' @ quote @ '': '' @ quote @ ''...'' @ quote @ ''}]}''"

definition review_prompt :: "task \<Rightarrow> agent_output \<Rightarrow> string \<Rightarrow> string" where
  "review_prompt t lead strictness =
     ''You are the Reviewer Agent for Nerve. Review the Lead output with '' @ strictness @
     '' strictness. Start with LGTM, ACCEPT_WITH_NITS, REQUEST_CHANGES, or BLOCK. Use ACCEPT_WITH_NITS '' @
     ''only when remaining issues are cosmetic/low-severity and need no further changes.'' @ nl @ nl @
     ''End your reply with a machine-readable verdict block '' @ em_dash @ '' a fenced code block tagged '' @
     bq verdict_fence_tag @ '' containing JSON:'' @ nl @
     ''```'' @ verdict_fence_tag @ nl @ verdict_example @ nl @ ''```'' @ nl @
     ''Use an empty issues array for LGTM.'' @ nl @ nl @
     ''Task:'' @ nl @ task_prompt t @ nl @ nl @ ''Lead output:'' @ nl @ ao_raw_text lead"

definition refine_prompt :: "task \<Rightarrow> agent_output \<Rightarrow> reviewer_feedback \<Rightarrow> string" where
  "refine_prompt t previous fb =
     ''You are the Lead Agent for Nerve. Refine your previous implementation using the reviewer feedback. '' @
     ''Return the final unified diff when possible.'' @ nl @ nl @ ''Task:'' @ nl @ task_prompt t @ nl @ nl @
     ''Previous output:'' @ nl @ ao_raw_text previous @ nl @ nl @ ''Reviewer feedback:'' @ nl @ rf_raw_text fb"

definition build_oneshot_prompt :: "string \<Rightarrow> string \<Rightarrow> string" where
  "build_oneshot_prompt system user =
     ''SYSTEM:'' @ nl @ trim_ws system @ nl @ nl @ ''USER:'' @ nl @ trim_ws user @ nl @ nl @
     ''Respond with ONLY the requested JSON object. Do not wrap in prose.''"

section \<open>The operations of an adapter\<close>

text \<open>The directory of a call is the run's. A panic of the diff reader ends the run; here it is an error
  like the others, after which no step of the run follows either.\<close>

fun reader_error :: "diff_fail \<Rightarrow> run_error" where
  "reader_error (Fail e) = RunPatch e"
| "reader_error Panic = RunMsg ''panicked''"

definition fail_to_run_error :: "adapter_fail \<Rightarrow> run_error" where
  "fail_to_run_error f = RunMsg (adapter_fail_text f)"

definition ask ::
  "'x adapter_host \<Rightarrow> subprocess \<Rightarrow> string \<Rightarrow> loc \<Rightarrow> (string \<Rightarrow> 'x world \<Rightarrow> diff_fail + 'a) \<Rightarrow> ('x world, run_error, 'a) step" where
  "ask h a prompt cwd read =
     st_bind (st_map_err fail_to_run_error (run_prompt_tx h a prompt cwd)) (\<lambda>raw w.
       (case read raw w of Inl e \<Rightarrow> (Inl (reader_error e), w) | Inr v \<Rightarrow> (Inr v, w)))"

definition subprocess_implement :: "'x adapter_host \<Rightarrow> subprocess \<Rightarrow> loc \<Rightarrow> task \<Rightarrow> ('x world, run_error, agent_output) step" where
  "subprocess_implement h a cwd t =
     ask h a (implement_prompt t) cwd
       (\<lambda>raw w. output_from_raw_text (ah_json h) (ah_digest h) (ah_uuid h w) (sa_id a) cwd (w_fs w) raw)"

definition subprocess_review ::
  "'x adapter_host \<Rightarrow> subprocess \<Rightarrow> loc \<Rightarrow> task \<Rightarrow> agent_output \<Rightarrow> string \<Rightarrow> ('x world, run_error, reviewer_feedback) step" where
  "subprocess_review h a cwd t lead strictness =
     ask h a (review_prompt t lead strictness) cwd
       (\<lambda>raw w. feedback_from_raw_text (ah_json h) (ah_digest h) (ah_uuid h w) (sa_id a) cwd (w_fs w) raw)"

definition subprocess_refine ::
  "'x adapter_host \<Rightarrow> subprocess \<Rightarrow> loc \<Rightarrow> task \<Rightarrow> agent_output \<Rightarrow> reviewer_feedback \<Rightarrow> ('x world, run_error, agent_output) step" where
  "subprocess_refine h a cwd t previous fb =
     ask h a (refine_prompt t previous fb) cwd
       (\<lambda>raw w. output_from_raw_text (ah_json h) (ah_digest h) (ah_uuid h w) (sa_id a) cwd (w_fs w) raw)"

text \<open>The default \<^verbatim>\<open>crossfire\<close> of the trait is a review of the scratch text.\<close>

definition crossfire_by_review ::
  "(task \<Rightarrow> agent_output \<Rightarrow> string \<Rightarrow> ('x world, run_error, reviewer_feedback) step) \<Rightarrow>
   task \<Rightarrow> string \<Rightarrow> string \<Rightarrow> ('x world, run_error, reviewer_feedback) step" where
  "crossfire_by_review review t scratch strictness = review t (ao_text ''scratch'' scratch) strictness"

definition subprocess_adapter :: "'x adapter_host \<Rightarrow> loc \<Rightarrow> subprocess \<Rightarrow> 'x adapter" where
  "subprocess_adapter h cwd a =
     \<lparr>ad_id = sa_id a, ad_implement = subprocess_implement h a cwd, ad_review = subprocess_review h a cwd,
      ad_refine = subprocess_refine h a cwd, ad_crossfire = crossfire_by_review (subprocess_review h a cwd)\<rparr>"

text \<open>One question, one answer; the events are thrown away.\<close>

definition default_dispatch_oneshot :: "string \<Rightarrow> string \<Rightarrow> string \<Rightarrow> adapter_error + string" where
  "default_dispatch_oneshot i system user = Inl (OneshotNotSupported i)"

definition subprocess_oneshot :: "'x adapter_host \<Rightarrow> subprocess \<Rightarrow> string \<Rightarrow> string \<Rightarrow> ('x world, adapter_error, string) step" where
  "subprocess_oneshot h a system user w =
     (case run_prompt h a (build_oneshot_prompt system user) (unwrap_or (ah_current_dir h) [''.'']) w of
        ((Inr t, evs), w') \<Rightarrow> (Inr t, w')
      | ((Inl (AdapterFail e), evs), w') \<Rightarrow> (Inl e, w')
      | ((Inl (AnyFail reason), evs), w') \<Rightarrow> (Inl (OneshotFailed (sa_id a) reason), w'))"

section \<open>The mock\<close>

datatype mock_oneshot_response = Echo | Literal string | MockError string

record mock =
  mk_id :: string
  mk_oneshot_response :: "mock_oneshot_response option"

definition mock_new :: "string \<Rightarrow> mock" where
  "mock_new i = \<lparr>mk_id = i, mk_oneshot_response = None\<rparr>"

definition mock_lead :: mock where "mock_lead = mock_new ''claude-code''"
definition mock_reviewer :: mock where "mock_reviewer = mock_new ''codex''"

definition set_oneshot_response :: "string \<Rightarrow> mock \<Rightarrow> mock" where
  "set_oneshot_response payload k = k\<lparr>mk_oneshot_response := Some (Literal payload)\<rparr>"

definition set_oneshot_error :: "string \<Rightarrow> mock \<Rightarrow> mock" where
  "set_oneshot_error reason k = k\<lparr>mk_oneshot_response := Some (MockError reason)\<rparr>"

definition say :: "'x adapter_host \<Rightarrow> mock \<Rightarrow> string \<Rightarrow> 'x world \<Rightarrow> 'x world" where
  "say h k line = send_events h [Stdout (mk_id k) line]"

definition mock_patch :: "'x adapter_host \<Rightarrow> string \<Rightarrow> 'x world \<Rightarrow> nv_patch" where
  "mock_patch h text w = nv_new (ah_uuid h w) [fp_create (ah_digest h) ''mock-output.txt'' text]"

definition mock_implement :: "'x adapter_host \<Rightarrow> mock \<Rightarrow> task \<Rightarrow> ('x world, run_error, agent_output) step" where
  "mock_implement h k t w =
     (let w' = say h k ''mock lead produced initial patch'' w
      in (Inr (ao_with_patch (mk_id k) ''Initial mock implementation''
            (mock_patch h (''Task: '' @ task_prompt t @ nl @ ''Status: initial'' @ nl) w')), w'))"

definition mock_review ::
  "'x adapter_host \<Rightarrow> mock \<Rightarrow> task \<Rightarrow> agent_output \<Rightarrow> string \<Rightarrow> ('x world, run_error, reviewer_feedback) step" where
  "mock_review h k t lead strictness w =
     (let w' = say h k (''mock reviewer checked patch with '' @ strictness @ '' strictness'') w in
      if contains_sub ''Refined'' (ao_raw_text lead) then (Inr (rf_lgtm (mk_id k) ''LGTM''), w')
      else (Inr \<lparr>rf_reviewer_id = mk_id k, rf_verdict = RequestChanges,
                 rf_issues = [\<lparr>is_severity = Warning, is_message = ''Add refinement marker before accepting the patch''\<rparr>],
                 rf_patch = None, rf_cost = None, rf_raw_text = ''Request changes: add refinement marker''\<rparr>, w'))"

definition mock_refine ::
  "'x adapter_host \<Rightarrow> mock \<Rightarrow> task \<Rightarrow> agent_output \<Rightarrow> reviewer_feedback \<Rightarrow> ('x world, run_error, agent_output) step" where
  "mock_refine h k t previous fb w =
     (let w' = say h k ''mock lead refined patch'' w
      in (Inr (ao_with_patch (mk_id k) ''Refined mock implementation''
            (mock_patch h (''Task: '' @ task_prompt t @ nl @ ''Status: refined'' @ nl @ ''Reviewer: '' @ rf_raw_text fb @ nl) w')), w'))"

definition mock_plan :: "string \<Rightarrow> string" where
  "mock_plan user =
     ''## Objective'' @ nl @ user @ nl @ nl @ ''## Affected files'' @ nl @ ''- TBD'' @ nl @ nl @
     ''## Steps'' @ nl @ ''1. Inspect the relevant code paths'' @ nl @ ''2. Implement the requested change'' @ nl @
     ''3. Run targeted tests'' @ nl @ nl @ ''## Risks'' @ nl @ ''Mock plan output is approximate'' @ nl @ nl @
     ''## Estimated LOC'' @ nl @ ''~50 lines'' @ nl"

definition mock_oneshot :: "mock \<Rightarrow> string \<Rightarrow> string \<Rightarrow> adapter_error + string" where
  "mock_oneshot k system user =
     (case unwrap_or (mk_oneshot_response k) Echo of
        Echo \<Rightarrow>
          if contains_sub ''You are in PLAN mode'' system then Inr (mock_plan user)
          else if contains_sub ''reviewing a PLAN'' system
          then Inr (''Review: the plan is structured and includes objective, affected files, steps, risks, '' @
                    ''and estimated LOC.'')
          else Inr (''MOCK_ONESHOT system='' @ system @ '' user='' @ user)
      | Literal payload \<Rightarrow> Inr payload
      | MockError reason \<Rightarrow> Inl (OneshotFailed (mk_id k) reason))"

definition mock_adapter :: "'x adapter_host \<Rightarrow> mock \<Rightarrow> 'x adapter" where
  "mock_adapter h k =
     \<lparr>ad_id = mk_id k, ad_implement = mock_implement h k, ad_review = mock_review h k,
      ad_refine = mock_refine h k, ad_crossfire = crossfire_by_review (mock_review h k)\<rparr>"

section \<open>The default pair\<close>

record adapter_limits =
  al_timeout_secs :: "u64 option"
  al_max_output_bytes :: "u64 option"
  al_spawn_retries :: "u32 option"

definition no_limits :: adapter_limits where
  "no_limits = \<lparr>al_timeout_secs = None, al_max_output_bytes = None, al_spawn_retries = None\<rparr>"

definition apply_adapter_limits :: "subprocess \<Rightarrow> adapter_limits \<Rightarrow> subprocess" where
  "apply_adapter_limits a l =
     (let a1 = (case al_timeout_secs l of Some secs \<Rightarrow> with_timeout_secs secs a | None \<Rightarrow> a);
          a2 = (case al_max_output_bytes l of Some bytes \<Rightarrow> with_max_output_bytes bytes a1 | None \<Rightarrow> a1)
      in case al_spawn_retries l of Some retries \<Rightarrow> with_spawn_retries retries a2 | None \<Rightarrow> a2)"

definition default_adapters_with_limits :: "'x adapter_host \<Rightarrow> loc \<Rightarrow> bool \<Rightarrow> adapter_limits \<Rightarrow> 'x adapter list" where
  "default_adapters_with_limits h cwd mock limits =
     (if mock then [mock_adapter h mock_lead, mock_adapter h mock_reviewer]
      else [subprocess_adapter h cwd (apply_adapter_limits claude_code limits),
            subprocess_adapter h cwd (apply_adapter_limits codex limits)])"

definition default_adapters :: "'x adapter_host \<Rightarrow> loc \<Rightarrow> bool \<Rightarrow> 'x adapter list" where
  "default_adapters h cwd mock = default_adapters_with_limits h cwd mock no_limits"

end
