(* ===== verification/AdapterProps.thy ===== *)
theory AdapterProps
  imports Adapters
begin

text \<open>
  What the adapters promise the run: a spawn is tried again a bounded number of times and only after
  errors that may pass; the lines of a stream do not depend on how its bytes arrive; output above the
  cap is an error; an answer is the output of a child that ended well in time; the mock pair converges.
\<close>

section \<open>Spawning\<close>

lemma spawn_first: "spawn s = (Inr v, s') \<Longrightarrow> spawn_with_retry spawn sleep retries base s = (Inr v, s')"
  by (simp add: spawn_with_retry_def spawn_attempts.simps)

lemma spawn_permanent:
  "spawn s = (Inl e, s') \<Longrightarrow> \<not> is_transient_spawn_error e \<Longrightarrow> spawn_with_retry spawn sleep retries base s = (Inl e, s')"
  by (simp add: spawn_with_retry_def spawn_attempts.simps)

lemma no_retry_missing_binary:
  "ie_kind e \<in> {NotFound, PermissionDenied} \<Longrightarrow> \<not> is_transient_spawn_error e"
  by (auto simp: is_transient_spawn_error_def)





lemma backoff_positive: "0 < base \<Longrightarrow> spawn_retry_backoff attempt base \<noteq> 0"
proof -
  let ?k = "unat (min attempt spawn_retry_shift_cap)"
  have "?k \<le> 16"
    by (simp add: spawn_retry_shift_cap_def min_def word_le_nat_alt)
  then have "?k < LENGTH(32)" by simp
  then have "push_bit ?k (1 :: u32) \<noteq> 0" by (simp add: push_bit_eq_mult)
  then have "unat (push_bit ?k (1 :: u32)) \<noteq> 0" by (simp only: unsigned_eq_0_iff not_False_eq_True)
  then have "0 < base \<Longrightarrow> min (base * unat (push_bit ?k (1 :: u32))) spawn_retry_backoff_max \<noteq> 0"
    unfolding spawn_retry_backoff_max_def by (auto simp only: min_def mult_eq_0_iff split: if_splits)
  then show "0 < base \<Longrightarrow> ?thesis"
    unfolding spawn_retry_backoff_def Let_def by simp
qed

text \<open>When the error stays, the last one is returned, and each retry but none other was slept for.\<close>

lemma spawn_attempts_exhausted:
  assumes "is_transient_spawn_error e" "0 < base" "unat attempt \<le> unat retries"
  shows "spawn_attempts ((\<lambda>s. (Inl e, s)) :: (nat list, io_error, 'a) step) (\<lambda>b s. s @ [b]) retries base attempt log =
         (Inl e, log @ map (\<lambda>i. spawn_retry_backoff (of_nat i) base) [unat attempt..<unat retries])"
  using assms(3)
proof (induction "unat retries - unat attempt" arbitrary: attempt log)
  case 0
  then have "\<not> attempt < retries" by (simp add: word_less_nat_alt)
  with 0 show ?case by (simp add: spawn_attempts.simps)
next
  case (Suc k)
  then have lt: "attempt < retries" by (simp add: word_less_nat_alt)
  have next': "unat (attempt + 1) = unat attempt + 1" by (rule unat_next_attempt[OF lt])
  have pos: "spawn_retry_backoff attempt base \<noteq> 0" by (rule backoff_positive[OF assms(2)])
  have "unat attempt < unat retries" using lt by (simp add: word_less_nat_alt)
  then have split: "[unat attempt..<unat retries] = unat attempt # [unat (attempt + 1)..<unat retries]"
    using next' by (simp add: upt_conv_Cons)
  have ih: "spawn_attempts ((\<lambda>s. (Inl e, s)) :: (nat list, io_error, 'a) step) (\<lambda>b s. s @ [b]) retries base (attempt + 1) log' =
      (Inl e, log' @ map (\<lambda>i. spawn_retry_backoff (of_nat i) base) [unat (attempt + 1)..<unat retries])" for log'
    using Suc.hyps(2) next' lt by (intro Suc.hyps(1)) (auto simp: word_less_nat_alt)
  show ?case
    by (subst spawn_attempts.simps) (simp add: assms(1) lt pos ih split Let_def)
qed

lemma backoff_bounded: "spawn_retry_backoff attempt base \<le> spawn_retry_backoff_max"
  by (simp add: spawn_retry_backoff_def Let_def)

text \<open>The most that a configured adapter sleeps in all.\<close>

lemma backoff_total:
  "sum_list (map (\<lambda>i. spawn_retry_backoff (of_nat i) spawn_retry_backoff_base) [0..<unat max_spawn_retries]) = 11150"
  by code_simp

section \<open>Streams\<close>

lemma drain_bytes_append:
  "drain_bytes p (xs @ ys) =
     (case drain_bytes p xs of (ls, p') \<Rightarrow> (case drain_bytes p' ys of (ls', p'') \<Rightarrow> (ls @ ls', p'')))"
  by (induction p xs rule: drain_bytes.induct) (auto split: prod.splits)

lemma drain_bytes_split:
  "drain_bytes p s = (case split_on CHR 0x0A s of l # ls \<Rightarrow>
     (if ls = [] then ([], p @ l) else ((p @ l) # butlast ls, last ls)) | [] \<Rightarrow> ([], p))"
proof (induction p s rule: drain_bytes.induct)
  case (1 p)
  then show ?case by simp
next
  case (2 p b bs)
  then show ?case by (cases "split_on CHR 0x0A bs") (auto split: if_splits)
qed

text \<open>The lines of a text: what its line feeds end, and what is left if it is not empty.\<close>

definition stream_lines :: "string \<Rightarrow> string list" where
  "stream_lines s =
     (let ps = split_on CHR 0x0A s in if last ps = [] then butlast ps else ps)"

lemma drain_bytes_lines:
  "drain_bytes [] s = (butlast (split_on CHR 0x0A s), last (split_on CHR 0x0A s))"
  by (subst drain_bytes_split) (auto split: list.splits)

definition drain_lines :: "string \<Rightarrow> string \<Rightarrow> string list" where
  "drain_lines p s = (case drain_bytes p s of (ls, q) \<Rightarrow> if q = [] then ls else ls @ [q])"

lemma drain_lines_start: "drain_lines [] s = stream_lines s"
  by (simp add: drain_lines_def stream_lines_def drain_bytes_lines Let_def append_butlast_last_id)

lemma drain_lines_append: "drain_lines p (xs @ ys) = (case drain_bytes p xs of (ls, q) \<Rightarrow> ls @ drain_lines q ys)"
  by (auto simp: drain_lines_def drain_bytes_append split: prod.splits)

lemma drain_read_chunk:
  "chunk \<noteq> [] \<Longrightarrow> length (dr_buffered d) + length chunk \<le> unat cap \<Longrightarrow>
   drain_read agent cap kind (Inr chunk) d =
     (Inr (d\<lparr>dr_buffered := dr_buffered d @ chunk, dr_pending := snd (drain_bytes (dr_pending d) chunk)\<rparr>),
      map (emit_stream_line agent kind) (fst (drain_bytes (dr_pending d) chunk)))"
  by (cases chunk) (auto simp: drain_read_def split: prod.splits)

lemma drain_stream_chunks:
  assumes "\<forall>c \<in> set chunks. c \<noteq> []" "\<not> dr_eof d" "length (dr_buffered d) + length (concat chunks) \<le> unat cap"
  shows "\<exists>p. drain_stream agent cap kind (map Inr chunks @ [Inr []]) d =
     (Inr \<lparr>dr_buffered = dr_buffered d @ concat chunks, dr_pending = p, dr_eof = True\<rparr>,
      map (emit_stream_line agent kind) (drain_lines (dr_pending d) (concat chunks)))"
  using assms
proof (induction chunks arbitrary: d)
  case Nil
  then show ?case by (cases d) (simp add: drain_read_def drain_lines_def)
next
  case (Cons c cs)
  let ?d = "d\<lparr>dr_buffered := dr_buffered d @ c, dr_pending := snd (drain_bytes (dr_pending d) c)\<rparr>"
  have "drain_read agent cap kind (Inr c) d = (Inr ?d, map (emit_stream_line agent kind) (fst (drain_bytes (dr_pending d) c)))"
    using Cons.prems by (intro drain_read_chunk) auto
  moreover have "\<exists>p. drain_stream agent cap kind (map Inr cs @ [Inr []]) ?d =
     (Inr \<lparr>dr_buffered = dr_buffered ?d @ concat cs, dr_pending = p, dr_eof = True\<rparr>,
      map (emit_stream_line agent kind) (drain_lines (dr_pending ?d) (concat cs)))"
    using Cons.prems by (intro Cons.IH) auto
  ultimately show ?case using Cons.prems(2)
    by (auto simp: drain_lines_append split: prod.splits)
qed

text \<open>However a stream's bytes arrive in chunks, the events are the lines of the whole text, and the
  whole text is kept.\<close>

theorem drain_stream_lines:
  assumes "\<forall>c \<in> set chunks. c \<noteq> []" "length (concat chunks) \<le> unat cap"
  shows "\<exists>d. drain_stream agent cap kind (map Inr chunks @ [Inr []]) drain_new =
           (Inr d, map (emit_stream_line agent kind) (stream_lines (concat chunks))) \<and> dr_buffered d = concat chunks"
  using drain_stream_chunks[of chunks drain_new cap agent kind] assms
  by (auto simp: drain_new_def drain_lines_start)

theorem drain_stream_lines_witness:
  "\<exists>d. drain_stream ''codex'' 100 Stdout_kind (map Inr [''ab'', ''c'' @ [CHR 0x0A], ''d''] @ [Inr []]) drain_new =
       (Inr d, [Stdout ''codex'' ''abc'', Stdout ''codex'' ''d'']) \<and> dr_buffered d = ''abc'' @ CHR 0x0A # ''d''"
proof -
  have "map (emit_stream_line ''codex'' Stdout_kind) (stream_lines (concat [''ab'', ''c'' @ [CHR 0x0A], ''d''])) =
     [Stdout ''codex'' ''abc'', Stdout ''codex'' ''d'']" by code_simp
  then show ?thesis
    using drain_stream_lines[of "[''ab'', ''c'' @ [CHR 0x0A], ''d'']" 100 "''codex''" Stdout_kind] by simp
qed

lemma drain_stream_too_large:
  assumes "\<forall>c \<in> set chunks. c \<noteq> []" "\<not> dr_eof d" "length (dr_buffered d) \<le> unat cap"
    "unat cap < length (dr_buffered d) + length (concat chunks)"
  shows "fst (drain_stream agent cap kind (map Inr chunks @ rest) d) = Inl (AdapterFail (OutputTooLarge cap))"
  using assms
proof (induction chunks arbitrary: d)
  case Nil
  then show ?case by simp
next
  case (Cons c cs)
  show ?case
  proof (cases "length (dr_buffered d) + length c \<le> unat cap")
    case True
    let ?d = "d\<lparr>dr_buffered := dr_buffered d @ c, dr_pending := snd (drain_bytes (dr_pending d) c)\<rparr>"
    have "drain_read agent cap kind (Inr c) d = (Inr ?d, map (emit_stream_line agent kind) (fst (drain_bytes (dr_pending d) c)))"
      using Cons.prems True by (intro drain_read_chunk) auto
    moreover have "fst (drain_stream agent cap kind (map Inr cs @ rest) ?d) = Inl (AdapterFail (OutputTooLarge cap))"
      using Cons.prems True by (intro Cons.IH) auto
    ultimately show ?thesis using Cons.prems(2) by (auto split: prod.splits)
  next
    case False
    then have "drain_read agent cap kind (Inr c) d = (Inl (AdapterFail (OutputTooLarge cap)), [])"
      using Cons.prems by (cases c) (auto simp: drain_read_def)
    then show ?thesis using Cons.prems(2) by simp
  qed
qed

lemma drain_read_within:
  "drain_read agent cap kind r d = (Inr d', evs) \<Longrightarrow> length (dr_buffered d) \<le> unat cap \<Longrightarrow> length (dr_buffered d') \<le> unat cap"
  by (auto simp: drain_read_def split: sum.splits list.splits if_splits prod.splits)

section \<open>Answers\<close>

lemma finish_prompt_ok:
  "finish_prompt a ch = (Inr t, evs) \<Longrightarrow>
   (\<exists>status. ch_status ch = Inr (True, status)) \<and> last evs = Done (sa_id a) \<and>
   (\<exists>err evs'. drain_both (sa_id a) (sa_max_output_bytes a) (sa_timeout_secs a) (ch_reads ch) drain_new drain_new = (Inr (t, err), evs'))"
  by (auto simp: finish_prompt_def split: prod.splits sum.splits if_splits)

lemma run_prompt_ok:
  assumes "run_prompt h a prompt cwd w = ((Inr t, evs), w')"
  shows "\<exists>ch. spawn_with_retry (ah_spawn h (sa_command a) (map (replace_prompt prompt) (sa_args a)) cwd) (ah_sleep h)
      (sa_spawn_retries a) spawn_retry_backoff_base w = (Inr ch, w') \<and> finish_prompt a ch = (Inr t, evs)"
  using assms by (auto simp: run_prompt_def Let_def split: prod.splits sum.splits)

text \<open>The deadline: reads that end before both streams do.\<close>

lemma drain_both_deadline:
  "\<not> (dr_eof out \<and> dr_eof err) \<Longrightarrow> drain_both agent cap secs [] out err = (Inl (AdapterFail (Timeout secs)), [])"
  by (simp add: drain_both.simps)

lemma replace_prompt_whole [simp]: "replace_prompt prompt ''{prompt}'' = prompt"
proof -
  have "replace_skip 7 ''{prompt}'' prompt ''prompt}'' = []" by (simp add: numeral_eq_Suc)
  then show ?thesis by (simp add: replace_prompt_def starts_with_def)
qed

lemma replace_other: "find_sub ''{prompt}'' arg = None \<Longrightarrow> replace_prompt prompt arg = arg"
proof -
  have "find_sub pat arg = None \<Longrightarrow> pat \<noteq> [] \<Longrightarrow> replace_skip 0 pat prompt arg = arg" for pat
    by (induction pat arg rule: find_sub.induct) (auto simp: starts_with_def split: if_splits)
  from this[of "''{prompt}''"] show "find_sub ''{prompt}'' arg = None \<Longrightarrow> replace_prompt prompt arg = arg"
    by (simp add: replace_prompt_def)
qed

text \<open>The prompt reaches the command as one argument, whatever it holds.\<close>

lemma claude_args:
  "map (replace_prompt prompt) (sa_args claude_code) = [''-p'', prompt, ''--output-format'', ''stream-json'', ''--verbose'']"
  by (simp add: claude_code_def subprocess_new_def replace_other starts_with_def)

lemma codex_args:
  "map (replace_prompt prompt) (sa_args codex) = [''exec'', ''--skip-git-repo-check'', ''--json'', prompt]"
  by (simp add: codex_def subprocess_new_def replace_other starts_with_def)

lemma limits_retries:
  "unat (sa_spawn_retries a) \<le> 10 \<Longrightarrow> unat (sa_spawn_retries (apply_adapter_limits a l)) \<le> 10"
  by (auto simp: apply_adapter_limits_def with_spawn_retries_def with_timeout_secs_def with_max_output_bytes_def
      max_spawn_retries_def Let_def min_def word_le_nat_alt split: option.splits)

lemma oneshot_keeps_error:
  "run_prompt h a (build_oneshot_prompt system user) (unwrap_or (ah_current_dir h) [''.'']) w = ((Inl (AdapterFail e), evs), w') \<Longrightarrow>
   subprocess_oneshot h a system user w = (Inl e, w')"
  by (simp add: subprocess_oneshot_def)

section \<open>The mock pair\<close>

lemma mock_first_round:
  "mock_implement h k t w = (Inr out, w') \<Longrightarrow>
   \<exists>fb. mock_review h k' t out strictness w' = (Inr fb, say h k' (''mock reviewer checked patch with '' @ strictness @ '' strictness'') w')
        \<and> rf_verdict fb = RequestChanges"
proof -
  have "\<not> contains_sub ''Refined'' ''Initial mock implementation''" by code_simp
  then show "mock_implement h k t w = (Inr out, w') \<Longrightarrow> ?thesis"
    by (auto simp: mock_implement_def mock_review_def ao_with_patch_def ao_text_def Let_def)
qed

lemma mock_second_round:
  "mock_refine h k t previous fb w = (Inr out, w') \<Longrightarrow>
   fst (mock_review h k' t out strictness w') = Inr (rf_lgtm (mk_id k') ''LGTM'')"
proof -
  have "contains_sub ''Refined'' ''Refined mock implementation''" by code_simp
  then show "mock_refine h k t previous fb w = (Inr out, w') \<Longrightarrow> ?thesis"
    by (auto simp: mock_refine_def mock_review_def ao_with_patch_def ao_text_def Let_def)
qed

text \<open>An injected answer is given to every later question, not only to the next one.\<close>

lemma mock_answer_stays: "mock_oneshot (set_oneshot_response payload k) system user = Inr payload"
  by (simp add: mock_oneshot_def set_oneshot_response_def unwrap_or_def)

end
