(* ===== verification/PlanMode.thy ===== *)
theory PlanMode
  imports Adapters MayorQueue
begin

text \<open>
  Plan mode, \<^verbatim>\<open>crates/nerve-core/src/plan.rs\<close>: the question to the lead and the reviewer, the check of the
  answer, the reading of its sections, and the split of the steps into tasks for the Mayor's queue.
  \<^verbatim>\<open>dispatch_plan_steps\<close> of \<^verbatim>\<open>crates/nerve-cli/src/main.rs\<close>, which enqueues them, is here too.

  An adapter is here only what answers one question. Upper and lower case and white space are those of
  ASCII.
\<close>

section \<open>Data\<close>

record 'x oneshot =
  os_id :: string
  os_dispatch :: "string \<Rightarrow> string \<Rightarrow> ('x world, adapter_error, string) step"

definition oneshot_of_subprocess :: "'x adapter_host \<Rightarrow> subprocess \<Rightarrow> 'x oneshot" where
  "oneshot_of_subprocess h a = \<lparr>os_id = sa_id a, os_dispatch = subprocess_oneshot h a\<rparr>"

definition oneshot_of_mock :: "mock \<Rightarrow> 'x oneshot" where
  "oneshot_of_mock k = \<lparr>os_id = mk_id k, os_dispatch = (\<lambda>system user w. (mock_oneshot k system user, w))\<rparr>"

definition plan_only_system_prompt :: string where
  "plan_only_system_prompt =
     ''You are in PLAN mode. Produce a structured markdown plan with sections: '' @
     ''## Objective'' @ nl @ ''## Affected files'' @ nl @ ''## Steps'' @ nl @ ''## Risks'' @ nl @ ''## Estimated LOC'' @ nl @
     ''DO NOT produce any patch, NvPatch, diff, or code modification. Output markdown only.''"

definition plan_review_system_prompt :: string where
  "plan_review_system_prompt =
     ''You are reviewing a PLAN (read-only analysis). The user message contains a markdown plan '' @
     ''produced by another agent. Comment on completeness, missing risks, and feasibility. '' @
     ''DO NOT propose any patch, NvPatch, diff, or code modification. Output markdown only.''"

text \<open>The three uses of \<^verbatim>\<open>PlanError::Io\<close> are told apart.\<close>

datatype plan_io = NoProfile cfg_fail | NoPlanLead string | NoPlanReviewer string

datatype plan_error =
  PatchProducedDespitePlanMode
| EmptyPlan
| MissingSection string
| PlanAdapter adapter_error
| PlanIo plan_io

record plan_sections =
  pl_objective :: string
  pl_affected_files :: "string list"
  pl_steps :: string
  pl_risks :: "string option"
  pl_estimated_loc :: "u64 option"

record plan_step =
  pp_index :: nat
  pp_title :: string
  pp_detail :: string

record plan_report =
  pn_task_id :: string
  pn_plan_markdown :: string
  pn_reviewer_feedback :: string
  pn_estimated_loc :: "u64 option"
  pn_estimated_files :: "string list"
  pn_cost :: "usage_stats option"
  pn_finished_at :: timestamp

section \<open>Steps\<close>

definition marker_text :: "string \<Rightarrow> string option" where
  "marker_text rest =
     (case rest of
        [] \<Rightarrow> None
      | c # _ \<Rightarrow> if \<not> is_ws c then None else (let text = trim_ws rest in if text \<noteq> [] then Some text else None))"

definition is_digit :: "char \<Rightarrow> bool" where
  "is_digit c = (48 \<le> (of_char c :: nat) \<and> (of_char c :: nat) \<le> 57)"

definition strip_list_marker :: "string \<Rightarrow> string option" where
  "strip_list_marker line =
     (let t = trim_start line in
      case t of
        [] \<Rightarrow> None
      | c # rest \<Rightarrow>
          if c \<in> {CHR ''-'', CHR ''*'', CHR ''+''} then marker_text rest
          else if is_digit c then
            (case dropWhile is_digit t of
               [] \<Rightarrow> None
             | d # after \<Rightarrow> if d \<in> {CHR ''.'', CHR '')''} then marker_text after else None)
          else None)"

definition finish_step :: "nat \<Rightarrow> string \<Rightarrow> string list \<Rightarrow> plan_step" where
  "finish_step index title continuations =
     (let t = trim_ws title
      in \<lparr>pp_index = index, pp_title = t,
          pp_detail = (if continuations = [] then t else trim_ws (t @ concat (map (\<lambda>l. nl @ l) continuations)))\<rparr>)"

text \<open>The state of the loop over the lines.\<close>

record step_scan =
  sn_steps :: "plan_step list"
  sn_current :: "(string \<times> string list) option"
  sn_base_indent :: "nat option"

definition close_step :: "step_scan \<Rightarrow> plan_step list" where
  "close_step sn =
     (case sn_current sn of
        None \<Rightarrow> sn_steps sn
      | Some (t, cont) \<Rightarrow> sn_steps sn @ [finish_step (length (sn_steps sn) + 1) t cont])"

definition scan_step_line :: "string \<Rightarrow> step_scan \<Rightarrow> step_scan" where
  "scan_step_line raw sn =
     (let indent = length raw - length (trim_start raw);
          at_base = (case sn_base_indent sn of None \<Rightarrow> True | Some b \<Rightarrow> indent \<le> b);
          continued = (case sn_current sn of
              None \<Rightarrow> sn
            | Some (t, cont) \<Rightarrow>
                if trim_ws raw \<noteq> [] then sn\<lparr>sn_current := Some (t, cont @ [trim_ws raw])\<rparr> else sn)
      in case strip_list_marker raw of
           Some title \<Rightarrow>
             if at_base
             then \<lparr>sn_steps = close_step sn, sn_current = Some (title, []),
                   sn_base_indent = Some (unwrap_or (sn_base_indent sn) indent)\<rparr>
             else continued
         | None \<Rightarrow> continued)"

definition parse_plan_steps :: "string \<Rightarrow> plan_step list" where
  "parse_plan_steps md =
     close_step (fold scan_step_line (str_lines md) \<lparr>sn_steps = [], sn_current = None, sn_base_indent = None\<rparr>)"

section \<open>Sections\<close>

definition line_is_h2 :: "string \<Rightarrow> bool" where
  "line_is_h2 line = (let t = trim_start line in starts_with ''## '' t \<and> \<not> starts_with ''### '' t)"

text \<open>The label is taken from the line as it is: only a heading at the margin loses its marks.\<close>

definition heading_label :: "string \<Rightarrow> string" where
  "heading_label line = to_lower (trim_ws (dropWhile (\<lambda>c. c = CHR ''#'') line))"

fun section_body :: "string \<Rightarrow> string list \<Rightarrow> string list option" where
  "section_body target [] = None"
| "section_body target (l # ls) =
     (if line_is_h2 l \<and> heading_label l = target then Some (takeWhile (\<lambda>x. \<not> line_is_h2 x) ls)
      else section_body target ls)"

definition extract_section :: "string \<Rightarrow> string \<Rightarrow> string option" where
  "extract_section md heading = map_option (join_with nl) (section_body (to_lower heading) (str_lines md))"

definition parse_plan_steps_from_markdown :: "string \<Rightarrow> plan_step list" where
  "parse_plan_steps_from_markdown md =
     (case extract_section md ''Steps'' of Some body \<Rightarrow> parse_plan_steps body | None \<Rightarrow> [])"

definition trim_matches :: "char \<Rightarrow> string \<Rightarrow> string" where
  "trim_matches c s = rev (dropWhile (\<lambda>x. x = c) (rev (dropWhile (\<lambda>x. x = c) s)))"

definition clean_path :: "string \<Rightarrow> string" where
  "clean_path candidate =
     trim_ws (rev (dropWhile (\<lambda>x. x = CHR '','') (rev (trim_ws (trim_matches CHR 0x60 (trim_ws candidate))))))"

definition bullet_path :: "string \<Rightarrow> string option" where
  "bullet_path raw =
     (let line = trim_ws raw;
          candidate = (case strip_prefix ''- '' line of Some r \<Rightarrow> Some r | None \<Rightarrow> strip_prefix ''* '' line)
      in case candidate of
           None \<Rightarrow> None
         | Some c \<Rightarrow> if clean_path c = [] then None else Some (clean_path c))"

definition parse_bullet_paths :: "string \<Rightarrow> string list" where
  "parse_bullet_paths s = List.map_filter bullet_path (str_lines s)"

definition parse_first_integer :: "string \<Rightarrow> u64 option" where
  "parse_first_integer s =
     (let current = takeWhile is_digit (dropWhile (\<lambda>c. \<not> is_digit c) s)
      in if current = [] then None else map_option of_nat (parse_uint (2 ^ 64) current))"

definition required_section :: "string \<Rightarrow> string \<Rightarrow> plan_error + string" where
  "required_section md heading =
     (case extract_section md heading of Some s \<Rightarrow> Inr s | None \<Rightarrow> Inl (MissingSection heading))"

definition validate_plan_markdown :: "string \<Rightarrow> plan_error + plan_sections" where
  "validate_plan_markdown md =
     (if trim_ws md = [] then Inl EmptyPlan
      else
        res_bind (required_section md ''Objective'') (\<lambda>objective.
        res_bind (required_section md ''Affected files'') (\<lambda>affected.
        res_bind (required_section md ''Steps'') (\<lambda>steps.
        res_bind (ensure (trim_ws objective \<noteq> []) (MissingSection ''Objective'')) (\<lambda>_.
        res_bind (ensure (trim_ws steps \<noteq> []) (MissingSection ''Steps'')) (\<lambda>_.
        res_bind (ensure (parse_bullet_paths affected \<noteq> []) (MissingSection ''Affected files'')) (\<lambda>_.
        Inr \<lparr>pl_objective = trim_ws objective, pl_affected_files = parse_bullet_paths affected,
             pl_steps = trim_ws steps,
             pl_risks = (case map_option trim_ws (extract_section md ''Risks'') of
                 Some r \<Rightarrow> if r \<noteq> [] then Some r else None | None \<Rightarrow> None),
             pl_estimated_loc = Option.bind (extract_section md ''Estimated LOC'') parse_first_integer\<rparr>)))))))"

definition contains_patch_artifact :: "string \<Rightarrow> bool" where
  "contains_patch_artifact t =
     (contains_sub ''NvPatch'' t \<or> contains_sub ''<<NVPATCH>>'' t \<or> contains_sub ''BEGIN NVPATCH'' t \<or>
      contains_sub ''diff --git'' t \<or> contains_sub ''```diff'' (to_lower t) \<or> contains_sub ''```patch'' (to_lower t))"

section \<open>The run\<close>

definition find_oneshot :: "'x oneshot list \<Rightarrow> string \<Rightarrow> plan_io \<Rightarrow> plan_error + 'x oneshot" where
  "find_oneshot adapters i e = (case find (\<lambda>a. os_id a = i) adapters of Some a \<Rightarrow> Inr a | None \<Rightarrow> Inl (PlanIo e))"

definition review_plan :: "'x oneshot \<Rightarrow> task \<Rightarrow> string \<Rightarrow> ('x world, plan_error, string) step" where
  "review_plan reviewer t plan =
     st_bind (st_map_err PlanAdapter (os_dispatch reviewer plan_review_system_prompt
         (''Task: '' @ task_prompt t @ nl @ nl @ ''Plan markdown to review:'' @ nl @ nl @ plan)))
       (\<lambda>text w. if contains_patch_artifact text then (Inl PatchProducedDespitePlanMode, w) else (Inr (trim_ws text), w))"

definition checked_plan :: "string \<Rightarrow> plan_error + plan_sections" where
  "checked_plan plan =
     (if trim_ws plan = [] then Inl EmptyPlan
      else if contains_patch_artifact plan then Inl PatchProducedDespitePlanMode
      else validate_plan_markdown plan)"

definition after_answer ::
  "'x oneshot \<Rightarrow> bool \<Rightarrow> timestamp \<Rightarrow> task \<Rightarrow> string \<Rightarrow> ('x world, plan_error, plan_report) step" where
  "after_answer reviewer dual now t plan w =
     (case checked_plan plan of
        Inl e \<Rightarrow> (Inl e, w)
      | Inr sections \<Rightarrow>
          st_bind (\<lambda>w'. if dual then review_plan reviewer t plan w' else (Inr [], w')) (\<lambda>feedback w'.
            (Inr \<lparr>pn_task_id = task_id t, pn_plan_markdown = plan, pn_reviewer_feedback = feedback,
                  pn_estimated_loc = pl_estimated_loc sections, pn_estimated_files = pl_affected_files sections,
                  pn_cost = None, pn_finished_at = now\<rparr>, w')) w)"

definition run_plan_mode ::
  "glob_compiler \<Rightarrow> config \<Rightarrow> 'x oneshot list \<Rightarrow> plan_strategy \<Rightarrow> timestamp \<Rightarrow> task \<Rightarrow>
   ('x world, plan_error, plan_report) step" where
  "run_plan_mode glob cfg adapters strategy now t w =
     (case res_bind (res_map_err (\<lambda>e. PlanIo (NoProfile e)) (select_profile glob cfg t)) (\<lambda>sel.
           res_bind (find_oneshot adapters (ps_lead sel) (NoPlanLead (ps_lead sel))) (\<lambda>lead.
           res_bind (find_oneshot adapters (ps_reviewer sel) (NoPlanReviewer (ps_reviewer sel))) (\<lambda>reviewer.
           Inr (sel, lead, reviewer)))) of
        Inl e \<Rightarrow> (Inl e, w)
      | Inr (sel, lead, reviewer) \<Rightarrow>
          st_bind (st_map_err PlanAdapter
              (os_dispatch lead (unwrap_or (ps_plan_prompt sel) plan_only_system_prompt) (task_prompt t))) (\<lambda>plan w1.
            after_answer reviewer (strategy = DualReview \<or> ps_plan_strategy sel = DualReview) now t plan w1) w)"

section \<open>Tasks for the queue\<close>

definition plan_step_prompt :: "string \<Rightarrow> plan_step \<Rightarrow> string list \<Rightarrow> string" where
  "plan_step_prompt objective s files =
     (let o' = trim_ws objective in
      (if o' \<noteq> [] then ''Plan objective: '' @ o' @ nl @ nl else []) @
      ''Step '' @ show_nat (pp_index s) @ '': '' @ trim_ws (pp_detail s) @
      (if files \<noteq> [] then nl @ nl @ ''Affected files:'' @ concat (map (\<lambda>f. nl @ ''- '' @ f) files) else []))"

text \<open>\<^verbatim>\<open>{:02}\<close>.\<close>

definition pad2 :: "nat \<Rightarrow> string" where
  "pad2 n = (if n < 10 then CHR ''0'' # show_nat n else show_nat n)"

definition patrol_task_new :: "timestamp \<Rightarrow> string \<Rightarrow> string \<Rightarrow> u64 \<Rightarrow> queue_task" where
  "patrol_task_new now i prompt budget =
     \<lparr>qt_task_id = i, qt_prompt = prompt, qt_budget = budget, qt_mcp_servers = [], qt_created_at = Some now\<rparr>"

definition plan_step_id :: "string \<Rightarrow> nat \<Rightarrow> string" where
  "plan_step_id plan n = plan @ ''-step-'' @ pad2 n"

definition plan_step_to_patrol_task ::
  "timestamp \<Rightarrow> string \<Rightarrow> string \<Rightarrow> plan_step \<Rightarrow> string list \<Rightarrow> u64 \<Rightarrow> queue_task" where
  "plan_step_to_patrol_task now plan objective s files budget =
     patrol_task_new now (plan_step_id plan (pp_index s)) (plan_step_prompt objective s files) budget"

section \<open>Dispatch\<close>

datatype dispatch_error =
  PlanNotLoaded string
| NoParseableSteps string
| ZeroMaxSteps string
| TaskIdTooLong string string
| StepNotEnqueued string mayor_error

definition mayor_config_with_overrides ::
  "config \<Rightarrow> string option \<Rightarrow> string option \<Rightarrow> u32 option \<Rightarrow> u64 option \<Rightarrow> mayor_patrol_config" where
  "mayor_config_with_overrides cfg queue results patrols budget =
     (let c0 = unwrap_or (or_mayor_patrol (cf_orchestration cfg)) mayor_patrol_default;
          c1 = (case queue of Some d \<Rightarrow> c0\<lparr>mp_queue_dir := d\<rparr> | None \<Rightarrow> c0);
          c2 = (case results of Some d \<Rightarrow> c1\<lparr>mp_results_dir := d\<rparr> | None \<Rightarrow> c1);
          c3 = (case patrols of Some n \<Rightarrow> c2\<lparr>mp_max_patrols := n\<rparr> | None \<Rightarrow> c2)
      in case budget of Some b \<Rightarrow> c3\<lparr>mp_per_patrol_budget := Some b\<rparr> | None \<Rightarrow> c3)"

fun enqueue_all :: "mayor_env \<Rightarrow> queue_task list \<Rightarrow> (queue, dispatch_error, string list) step" where
  "enqueue_all env [] q = (Inr [], q)"
| "enqueue_all env (t # ts) q =
     st_bind (st_map_err (StepNotEnqueued (qt_task_id t)) (enqueue env t)) (\<lambda>_.
       st_bind (enqueue_all env ts) (\<lambda>ids q'. (Inr (qt_task_id t # ids), q'))) q"

definition default_step_budget :: "config \<Rightarrow> u64" where
  "default_step_budget cfg =
     (case Option.bind (or_mayor_patrol (cf_orchestration cfg)) mp_per_patrol_budget of
        Some b \<Rightarrow> b | None \<Rightarrow> unwrap_or (or_max_cost (cf_orchestration cfg)) 0)"

definition limit_steps :: "string \<Rightarrow> nat option \<Rightarrow> plan_step list \<Rightarrow> dispatch_error + plan_step list" where
  "limit_steps plan max_steps steps =
     (if steps = [] then Inl (NoParseableSteps plan)
      else (case max_steps of
          None \<Rightarrow> Inr steps
        | Some 0 \<Rightarrow> Inl (ZeroMaxSteps plan)
        | Some n \<Rightarrow> Inr (take n steps)))"

definition plan_tasks :: "timestamp \<Rightarrow> string \<Rightarrow> plan_report \<Rightarrow> u64 \<Rightarrow> plan_step list \<Rightarrow> queue_task list" where
  "plan_tasks now plan report budget steps =
     (let objective = (case validate_plan_markdown (pn_plan_markdown report) of Inr s \<Rightarrow> pl_objective s | Inl _ \<Rightarrow> [])
      in map (\<lambda>s. plan_step_to_patrol_task now plan objective s (pn_estimated_files report) budget) steps)"

text \<open>The report is what the store gave for the plan's name.\<close>

definition dispatch_plan_steps ::
  "mayor_env \<Rightarrow> config \<Rightarrow> string + plan_report \<Rightarrow> string \<Rightarrow> nat option \<Rightarrow> u64 option \<Rightarrow>
   (queue, dispatch_error, string list) step" where
  "dispatch_plan_steps env cfg loaded plan max_steps budget q =
     (let menv = env\<lparr>me_config := mayor_config_with_overrides cfg None None None None,
                     me_total_budget := or_max_cost (cf_orchestration cfg), me_rpc := False\<rparr>
      in case loaded of
           Inl e \<Rightarrow> (Inl (PlanNotLoaded plan), q)
         | Inr report \<Rightarrow>
             (case limit_steps plan max_steps (parse_plan_steps_from_markdown (pn_plan_markdown report)) of
                Inl e \<Rightarrow> (Inl e, q)
              | Inr steps \<Rightarrow>
                  (let tasks = plan_tasks (me_now env) plan report (unwrap_or budget (default_step_budget cfg)) steps
                   in case find (\<lambda>t. \<not> is_valid_queue_id (qt_task_id t)) tasks of
                        Some t \<Rightarrow> (Inl (TaskIdTooLong plan (qt_task_id t)), q)
                      | None \<Rightarrow> enqueue_all menv tasks q)))"

end
