(* ===== verification/PlanProps.thy ===== *)
theory PlanProps
  imports PlanMode MayorProps
begin

text \<open>
  Plan mode never lets a patch through and returns only plans with their sections; the steps are
  numbered densely and a printed list of steps is read back; dispatching either leaves the queue as it
  was or adds exactly the tasks of the plan, and never adds a task twice.
\<close>

section \<open>Parts of a text\<close>

lemma find_sub_some: "find_sub p s \<noteq> None \<Longrightarrow> \<exists>a b. s = a @ p @ b"
proof (induction p s rule: find_sub.induct)
  case (2 p c cs)
  show ?case
  proof (cases "starts_with p (c # cs)")
    case True
    then obtain r where "c # cs = p @ r" by (auto simp: starts_with_def strip_prefix_Some)
    then show ?thesis by (metis append_Nil)
  next
    case False
    then have "find_sub p cs \<noteq> None" using "2.prems" by (auto simp: starts_with_def split: if_splits)
    with 2 False obtain a b where "cs = a @ p @ b" by (auto simp: starts_with_def)
    then show ?thesis by (metis append_Cons)
  qed
qed (auto split: if_splits)

lemma contains_sub_iff: "contains_sub p s \<longleftrightarrow> (\<exists>a b. s = a @ p @ b)"
  unfolding contains_sub_def using find_sub_some find_sub_append by metis

lemma contains_sub_part: "contains_sub p m \<Longrightarrow> contains_sub p (a @ m @ b)"
  unfolding contains_sub_iff by (metis append.assoc)

lemma dropWhile_part: "\<exists>a. s = a @ dropWhile P s"
  by (metis takeWhile_dropWhile_id)

lemma trim_part: "\<exists>a b. s = a @ trim_ws s @ b"
proof -
  obtain a where a: "s = a @ trim_start s" using dropWhile_part trim_start_def by metis
  obtain b where "rev (trim_start s) = b @ dropWhile is_ws (rev (trim_start s))" using dropWhile_part by metis
  then have "trim_start s = trim_ws s @ rev b" unfolding trim_ws_def trim_end_def by (metis rev_append rev_rev_ident)
  with a show ?thesis by metis
qed

lemma trim_contains: "contains_sub p (trim_ws s) \<Longrightarrow> contains_sub p s"
  using trim_part[of s] contains_sub_part by metis

lemma trim_keeps_clean: "\<not> contains_patch_artifact t \<Longrightarrow> \<not> contains_patch_artifact (trim_ws t)"
proof -
  obtain a b where t: "t = a @ trim_ws t @ b" using trim_part by metis
  then have "to_lower t = to_lower a @ to_lower (trim_ws t) @ to_lower b"
    unfolding to_lower_def by (metis map_append)
  then have low: "contains_sub p (to_lower (trim_ws t)) \<Longrightarrow> contains_sub p (to_lower t)" for p
    using contains_sub_part by metis
  show "\<not> contains_patch_artifact t \<Longrightarrow> \<not> contains_patch_artifact (trim_ws t)"
    unfolding contains_patch_artifact_def using trim_contains low by blast
qed

lemma trim_start_head: "trim_start s = c # cs \<Longrightarrow> \<not> is_ws c"
  unfolding trim_start_def by (metis dropWhile_eq_Cons_conv)

lemma trim_ws_head: "trim_ws s = c # cs \<Longrightarrow> \<not> is_ws c"
proof -
  assume h: "trim_ws s = c # cs"
  obtain b where "rev (trim_start s) = b @ dropWhile is_ws (rev (trim_start s))" using dropWhile_part by metis
  then have "trim_start s = trim_ws s @ rev b" unfolding trim_ws_def trim_end_def by (metis rev_append rev_rev_ident)
  then show ?thesis using h trim_start_head by simp
qed

lemma trim_end_idem: "trim_end (trim_end s) = trim_end s"
  by (simp add: trim_end_def)

lemma trim_idem [simp]: "trim_ws (trim_ws s) = trim_ws s"
proof -
  have "trim_start (trim_ws s) = trim_ws s"
    using trim_ws_head[of s] by (cases "trim_ws s") (auto simp: trim_start_def)
  then have "trim_ws (trim_ws s) = trim_end (trim_ws s)" by (simp add: trim_ws_def)
  then show ?thesis by (simp add: trim_ws_def trim_end_idem)
qed

lemma trim_no_ws:
  assumes "\<And>c. c \<in> set t \<Longrightarrow> \<not> is_ws c"
  shows "trim_ws t = t"
proof -
  have keep: "dropWhile is_ws xs = xs" if "set xs \<subseteq> set t" for xs
    using that assms by (cases xs) auto
  show ?thesis by (simp add: trim_ws_def trim_start_def trim_end_def keep)
qed

section \<open>Reports\<close>

lemma required_section_ok [result_simps]: "required_section md h = Inr s \<longleftrightarrow> extract_section md h = Some s"
  by (auto simp: required_section_def split: option.splits)

lemma ensure_ok [result_simps]: "ensure b e = Inr u \<longleftrightarrow> b"
  by (auto simp: ensure_def)

lemma validate_plan_ok:
  assumes "validate_plan_markdown md = Inr s"
  shows "trim_ws md \<noteq> []" "extract_section md ''Objective'' \<noteq> None" "extract_section md ''Affected files'' \<noteq> None"
    "extract_section md ''Steps'' \<noteq> None" "pl_objective s \<noteq> []" "pl_steps s \<noteq> []" "pl_affected_files s \<noteq> []"
  using assms by (auto simp: validate_plan_markdown_def result_simps split: if_splits)

lemma checked_plan_ok:
  "checked_plan md = Inr s \<Longrightarrow> \<not> contains_patch_artifact md \<and> validate_plan_markdown md = Inr s"
  by (simp add: checked_plan_def split: if_splits)

lemma review_plan_ok:
  "review_plan r t plan w = (Inr text, w') \<Longrightarrow> \<not> contains_patch_artifact text"
  using trim_keeps_clean by (auto simp: review_plan_def result_simps split: if_splits)

lemma no_artifact_empty: "\<not> contains_patch_artifact []"
  by code_simp

lemma after_answer_ok:
  assumes "after_answer reviewer dual now t plan w = (Inr report, w')"
  obtains s feedback where "checked_plan plan = Inr s" "pn_plan_markdown report = plan" "pn_reviewer_feedback report = feedback"
    "pn_estimated_files report = pl_affected_files s" "pn_cost report = None"
    "if dual then review_plan reviewer t plan w = (Inr feedback, w') else feedback = []"
  using assms by (auto simp: after_answer_def result_simps split: sum.splits if_splits)

lemma run_plan_mode_ok:
  assumes "run_plan_mode glob cfg adapters strategy now t w = (Inr report, w')"
  obtains sel reviewer plan w1 where "select_profile glob cfg t = Inr sel"
    "after_answer reviewer (strategy = DualReview \<or> ps_plan_strategy sel = DualReview) now t plan w1 = (Inr report, w')"
  using assms by (auto simp: run_plan_mode_def result_simps split: sum.splits prod.splits)

text \<open>What a plan run returns, whatever its adapters answer, holds no patch in any of the forms looked
  for, neither in the plan nor in the review, has the three required sections, and names files.\<close>

theorem plan_report_clean:
  assumes "run_plan_mode glob cfg adapters strategy now t w = (Inr report, w')"
  shows "\<not> contains_patch_artifact (pn_plan_markdown report) \<and>
         \<not> contains_patch_artifact (pn_reviewer_feedback report) \<and>
         (\<exists>s. validate_plan_markdown (pn_plan_markdown report) = Inr s \<and> pl_objective s \<noteq> [] \<and> pl_steps s \<noteq> [] \<and>
              pl_affected_files s \<noteq> [] \<and> pn_estimated_files report = pl_affected_files s) \<and>
         pn_cost report = None"
proof -
  obtain reviewer dual plan w1 where "after_answer reviewer dual now t plan w1 = (Inr report, w')"
    using run_plan_mode_ok[OF assms] by metis
  then obtain s feedback where s: "checked_plan plan = Inr s" and r: "pn_plan_markdown report = plan"
      "pn_reviewer_feedback report = feedback" "pn_estimated_files report = pl_affected_files s" "pn_cost report = None"
      and f: "if dual then review_plan reviewer t plan w1 = (Inr feedback, w') else feedback = []"
    by (rule after_answer_ok)
  have "\<not> contains_patch_artifact feedback"
    using f review_plan_ok no_artifact_empty by (metis (full_types))
  then show ?thesis using r checked_plan_ok[OF s] validate_plan_ok[of plan s] by auto
qed

text \<open>The reviewer is not asked unless the caller or the profile wants it.\<close>

lemma plan_single_ignores_reviewer:
  assumes "select_profile glob cfg t = Inr sel" "ps_plan_strategy sel = Single" "strategy = Single"
    "run_plan_mode glob cfg adapters strategy now t w = (Inr report, w')"
  shows "pn_reviewer_feedback report = []"
proof -
  obtain sel' reviewer plan w1 where sel: "select_profile glob cfg t = Inr sel'"
    and a: "after_answer reviewer (strategy = DualReview \<or> ps_plan_strategy sel' = DualReview) now t plan w1 = (Inr report, w')"
    using run_plan_mode_ok[OF assms(4)] by metis
  have "sel' = sel" using sel assms(1) by simp
  then have "after_answer reviewer False now t plan w1 = (Inr report, w')" using a assms(2,3) by simp
  then show ?thesis by (rule after_answer_ok) simp
qed

section \<open>Steps\<close>

lemma marker_text_trimmed: "marker_text r = Some t \<Longrightarrow> t = trim_ws t \<and> t \<noteq> []"
  by (auto simp: marker_text_def Let_def split: list.splits if_splits)

lemma strip_list_marker_trimmed: "strip_list_marker l = Some t \<Longrightarrow> t = trim_ws t \<and> t \<noteq> []"
  using marker_text_trimmed by (auto simp: strip_list_marker_def Let_def split: list.splits if_splits)

definition steps_numbered :: "plan_step list \<Rightarrow> bool" where
  "steps_numbered ps = (map pp_index ps = [1..<length ps + 1] \<and> list_all (\<lambda>p. pp_title p \<noteq> []) ps)"

definition scan_ok :: "step_scan \<Rightarrow> bool" where
  "scan_ok sn = (steps_numbered (sn_steps sn) \<and>
     (case sn_current sn of Some (t, cont) \<Rightarrow> trim_ws t \<noteq> [] | None \<Rightarrow> True))"

lemma close_step_ok: "scan_ok sn \<Longrightarrow> steps_numbered (close_step sn)"
  by (auto simp: scan_ok_def close_step_def steps_numbered_def finish_step_def Let_def split: option.splits prod.splits)

lemma scan_step_ok: "scan_ok sn \<Longrightarrow> scan_ok (scan_step_line raw sn)"
  using strip_list_marker_trimmed[of raw] close_step_ok[of sn]
  by (auto simp: scan_step_line_def scan_ok_def Let_def split: option.splits prod.splits)

lemma parse_plan_steps_numbered: "steps_numbered (parse_plan_steps md)"
proof -
  have "scan_ok (fold scan_step_line ls sn)" if "scan_ok sn" for ls sn
    using that by (induction ls arbitrary: sn) (auto intro: scan_step_ok)
  then show ?thesis
    unfolding parse_plan_steps_def by (intro close_step_ok) (simp add: scan_ok_def steps_numbered_def)
qed

text \<open>A list of one-line steps, printed with numbers.\<close>

fun print_steps :: "nat \<Rightarrow> string list \<Rightarrow> string" where
  "print_steps n [] = []"
| "print_steps n (t # ts) = (show_nat n @ ''. '' @ t) @ CHR 0x0A # print_steps (n + 1) ts"

definition step_text :: "string \<Rightarrow> bool" where
  "step_text t = (t \<noteq> [] \<and> trim_ws t = t \<and> CHR 0x0A \<notin> set t)"

lemma is_digit_show: "c \<in> set (show_nat n) \<Longrightarrow> is_digit c"
  using show_nat_char by (auto simp: is_digit_def)

lemma digit_no_space: "is_digit c \<Longrightarrow> \<not> is_ws c"
  by (auto simp: is_digit_def is_ws_def)

lemma takeWhile_digits: "dropWhile is_digit (show_nat n @ CHR ''.'' # r) = CHR ''.'' # r"
proof -
  have "\<not> is_digit CHR ''.''" by code_simp
  then show ?thesis by (simp add: dropWhile_append2 is_digit_show)
qed

lemma trim_after_space: "trim_ws (CHR '' '' # t) = trim_ws t"
  by (simp add: trim_ws_def trim_start_def is_ws_def)

lemma marker_of_printed:
  assumes "step_text t"
  shows "strip_list_marker (show_nat n @ ''. '' @ t) = Some t" "trim_start (show_nat n @ ''. '' @ t) = show_nat n @ ''. '' @ t"
proof -
  obtain d ds where d: "show_nat n = d # ds" by (cases "show_nat n") auto
  then have digit: "is_digit d" using is_digit_show[of d n] by simp
  then show start: "trim_start (show_nat n @ ''. '' @ t) = show_nat n @ ''. '' @ t"
    by (simp add: d trim_start_def digit_no_space)
  have "d \<notin> {CHR ''-'', CHR ''*'', CHR ''+''}" using digit by (auto simp: is_digit_def)
  moreover have "dropWhile is_digit (d # ds @ ''. '' @ t) = CHR ''.'' # '' '' @ t"
    using takeWhile_digits[of n "'' '' @ t"] d by simp
  ultimately show "strip_list_marker (show_nat n @ ''. '' @ t) = Some t"
    using start assms digit unfolding d
    by (simp add: strip_list_marker_def marker_text_def trim_after_space step_text_def is_ws_def Let_def)
qed

lemma upt_from: "[k..<k + Suc m] = k # [Suc k..<Suc k + m]"
  using upt_conv_Cons[of k "k + Suc m"] by simp

lemma strip_newline_line: "l \<noteq> [] \<Longrightarrow> last l \<noteq> CHR 0x0D \<Longrightarrow> strip_newline (l @ [CHR 0x0A]) = l"
  by (simp add: strip_newline_def Let_def)

lemma printed_lines:
  assumes "\<forall>t \<in> set ts. step_text t"
  shows "str_lines (print_steps n ts) = map (\<lambda>(i, t). show_nat i @ ''. '' @ t) (zip [n..<n + length ts] ts)"
  using assms
proof (induction ts arbitrary: n)
  case Nil
  then show ?case by (simp add: str_lines_def)
next
  case (Cons t ts)
  let ?l = "show_nat n @ ''. '' @ t"
  have "CHR 0x0A \<notin> set (show_nat n)" using is_digit_show[of "CHR 0x0A" n] by (auto simp: is_digit_def)
  then have "CHR 0x0A \<notin> set ?l" using Cons.prems by (auto simp: step_text_def)
  then have split: "split_inclusive CHR 0x0A (?l @ CHR 0x0A # r) = (?l @ [CHR 0x0A]) # split_inclusive CHR 0x0A r" for r
    by (rule split_inclusive_line)
  have "last t \<noteq> CHR 0x0D"
  proof
    assume "last t = CHR 0x0D"
    moreover have "t \<noteq> []" "trim_ws t = t" using Cons.prems by (auto simp: step_text_def)
    moreover have "trim_ws t = [] \<or> \<not> is_ws (last (trim_ws t))"
      unfolding trim_ws_def trim_end_def by (metis hd_dropWhile last_rev rev_is_Nil_conv)
    ultimately show False by (simp add: is_ws_def)
  qed
  then have "strip_newline (?l @ [CHR 0x0A]) = ?l"
    using Cons.prems by (intro strip_newline_line) (auto simp: step_text_def)
  moreover have "str_lines (print_steps (n + 1) ts) = map (\<lambda>(i, t). show_nat i @ ''. '' @ t) (zip [n + 1..<n + 1 + length ts] ts)"
    using Cons by auto
  moreover have "[n..<n + length (t # ts)] = n # [n + 1..<n + 1 + length ts]" using upt_from[of n "length ts"] by simp
  ultimately show ?case using split[of "print_steps (n + 1) ts"] by (simp add: str_lines_def)
qed

definition one_line_step :: "nat \<Rightarrow> string \<Rightarrow> plan_step" where
  "one_line_step i t = \<lparr>pp_index = i, pp_title = t, pp_detail = t\<rparr>"

lemma scan_printed:
  assumes "step_text t" "sn_base_indent sn = None \<or> sn_base_indent sn = Some 0"
  shows "scan_step_line (show_nat n @ ''. '' @ t) sn = \<lparr>sn_steps = close_step sn, sn_current = Some (t, []), sn_base_indent = Some 0\<rparr>"
  using marker_of_printed[OF assms(1), of n] assms(2) by (auto simp: scan_step_line_def unwrap_or_def Let_def)

lemma close_printed:
  "step_text t \<Longrightarrow> close_step \<lparr>sn_steps = ps, sn_current = Some (t, []), sn_base_indent = b\<rparr> = ps @ [one_line_step (length ps + 1) t]"
  by (simp add: close_step_def finish_step_def one_line_step_def step_text_def Let_def)

lemma fold_printed:
  assumes "\<forall>t \<in> set ts. step_text t" "sn_base_indent sn = None \<or> sn_base_indent sn = Some 0"
  shows "close_step (fold scan_step_line (map (\<lambda>(i, t). show_nat i @ ''. '' @ t) (zip [n..<n + length ts] ts)) sn) =
     close_step sn @ map (\<lambda>(i, t). one_line_step i t) (zip [length (close_step sn) + 1..<length (close_step sn) + 1 + length ts] ts)"
  using assms
proof (induction ts arbitrary: n sn)
  case (Cons t ts)
  let ?sn = "\<lparr>sn_steps = close_step sn, sn_current = Some (t, []), sn_base_indent = Some 0\<rparr>"
  have upt: "[k..<k + length (t # ts)] = k # [k + 1..<k + 1 + length ts]" for k using upt_from[of k "length ts"] by simp
  have closed: "close_step ?sn = close_step sn @ [one_line_step (length (close_step sn) + 1) t]"
    using Cons.prems by (intro close_printed) auto
  have "close_step (fold scan_step_line (map (\<lambda>(i, t). show_nat i @ ''. '' @ t) (zip [n + 1..<n + 1 + length ts] ts)) ?sn) =
     close_step ?sn @ map (\<lambda>(i, t). one_line_step i t) (zip [length (close_step ?sn) + 1..<length (close_step ?sn) + 1 + length ts] ts)"
    using Cons.prems by (intro Cons.IH) auto
  then show ?case
    using scan_printed[of t sn n] Cons.prems closed unfolding upt by simp
qed simp

text \<open>A numbered list of steps is read back as these steps, numbered from 1 whatever numbers were printed.\<close>

theorem print_steps_roundtrip:
  assumes "\<forall>t \<in> set ts. step_text t"
  shows "parse_plan_steps (print_steps n ts) = map (\<lambda>(i, t). one_line_step i t) (zip [1..<length ts + 1] ts)"
  using fold_printed[OF assms, of "\<lparr>sn_steps = [], sn_current = None, sn_base_indent = None\<rparr>" n]
  by (simp add: parse_plan_steps_def printed_lines[OF assms] close_step_def)

end
