(* ===== verification/DispatchProps.thy ===== *)
theory DispatchProps
  imports PlanProps MayorTheorems
begin

text \<open>
  Dispatch of a plan: a refused one leaves the queue as it was; a successful one adds exactly one pending
  task per step, under names that were free, within the budget; a second one adds nothing.
\<close>

lemma enqueue_ok:
  assumes "enqueue env t q = (Inr u, q')"
  shows "\<not> task_exists_anywhere q (qt_task_id t)" "task_within (me_total_budget env) t"
    "same_dirs (q\<lparr>q_pending := AList.update (json_name (qt_task_id t)) (TaskFile t) (q_pending q)\<rparr>) q'"
proof -
  have "\<not> task_exists_anywhere q (qt_task_id t) \<and> task_within (me_total_budget env) t"
    using assms by (auto simp: enqueue_def validate_file_component_def task_within_def not_less split: if_splits option.splits)
  then show exists: "\<not> task_exists_anywhere q (qt_task_id t)" and within: "task_within (me_total_budget env) t" by simp_all
  show "same_dirs (q\<lparr>q_pending := AList.update (json_name (qt_task_id t)) (TaskFile t) (q_pending q)\<rparr>) q'"
    using assms exists within
    by (auto simp: enqueue_def validate_file_component_def task_within_def not_less Let_def
        intro: same_dirs_trans[OF same_dirs_best_effort[OF quiet_enqueued] same_dirs_emit] split: if_splits option.splits)
qed

lemma enqueue_refused: "enqueue env t q = (Inl e, q') \<Longrightarrow> q' = q"
  by (erule enqueue_cases) simp_all

lemma enqueue_existing:
  assumes "task_within (me_total_budget env) t" "task_exists_anywhere q (qt_task_id t)"
  shows "enqueue env t q = (Inl (TaskAlreadyExists (qt_task_id t)), q)"
  using assms by (auto simp: enqueue_def validate_file_component_def task_within_def split: option.splits)

text \<open>The pending directory with some more tasks.\<close>

definition with_tasks :: "queue_task list \<Rightarrow> dir \<Rightarrow> dir" where
  "with_tasks ts d = fold (\<lambda>t. AList.update (json_name (qt_task_id t)) (TaskFile t)) ts d"

lemma exists_update:
  assumes "same_dirs (q\<lparr>q_pending := AList.update (json_name i) c (q_pending q)\<rparr>) q'"
  shows "task_exists_anywhere q' j \<longleftrightarrow> i = j \<or> task_exists_anywhere q j"
  using assms by (auto simp: same_dirs_def task_exists_anywhere_def Let_def update_conv' json_name_inj)

lemma enqueue_all_ok:
  assumes "enqueue_all env ts q = (Inr ids, q')"
  shows "ids = map qt_task_id ts" "list_all (task_within (me_total_budget env)) ts" "distinct ids"
    "\<And>j. task_exists_anywhere q' j \<longleftrightarrow> j \<in> set ids \<or> task_exists_anywhere q j"
    "\<forall>j \<in> set ids. \<not> task_exists_anywhere q j"
    "same_dirs (q\<lparr>q_pending := with_tasks ts (q_pending q)\<rparr>) q'"
proof -
  have "ids = map qt_task_id ts \<and> list_all (task_within (me_total_budget env)) ts \<and> distinct ids \<and>
    (\<forall>j. task_exists_anywhere q' j \<longleftrightarrow> j \<in> set ids \<or> task_exists_anywhere q j) \<and>
    (\<forall>j \<in> set ids. \<not> task_exists_anywhere q j) \<and> same_dirs (q\<lparr>q_pending := with_tasks ts (q_pending q)\<rparr>) q'"
    using assms
  proof (induction ts arbitrary: q ids)
    case Nil
    then show ?case by (simp add: with_tasks_def same_dirs_refl)
  next
    case (Cons t ts)
    then obtain q1 ids' where e: "enqueue env t q = (Inr (), q1)" and all: "enqueue_all env ts q1 = (Inr ids', q')"
      and ids: "ids = qt_task_id t # ids'" by (auto simp: result_simps)
    note one = enqueue_ok[OF e]
    note more = Cons.IH[OF all]
    have ex: "task_exists_anywhere q1 j \<longleftrightarrow> qt_task_id t = j \<or> task_exists_anywhere q j" for j
      by (rule exists_update[OF one(3)])
    have "same_dirs (q\<lparr>q_pending := with_tasks (t # ts) (q_pending q)\<rparr>) q'"
      using more one(3) by (auto simp: same_dirs_def with_tasks_def)
    then show ?case using one(1,2) more ex ids by auto
  qed
  then show "ids = map qt_task_id ts" "list_all (task_within (me_total_budget env)) ts" "distinct ids"
    "\<And>j. task_exists_anywhere q' j \<longleftrightarrow> j \<in> set ids \<or> task_exists_anywhere q j"
    "\<forall>j \<in> set ids. \<not> task_exists_anywhere q j" "same_dirs (q\<lparr>q_pending := with_tasks ts (q_pending q)\<rparr>) q'"
    by blast+
qed

text \<open>What the dispatch enqueues, once the plan is loaded and its steps are counted.\<close>

definition dispatch_env :: "mayor_env \<Rightarrow> config \<Rightarrow> mayor_env" where
  "dispatch_env env cfg = env\<lparr>me_config := mayor_config_with_overrides cfg None None None None,
     me_total_budget := or_max_cost (cf_orchestration cfg), me_rpc := False\<rparr>"

definition dispatch_tasks :: "mayor_env \<Rightarrow> config \<Rightarrow> plan_report \<Rightarrow> string \<Rightarrow> u64 option \<Rightarrow> plan_step list \<Rightarrow> queue_task list" where
  "dispatch_tasks env cfg report plan budget steps =
     plan_tasks (me_now env) plan report (unwrap_or budget (default_step_budget cfg)) steps"

lemma dispatch_cases:
  assumes "dispatch_plan_steps env cfg loaded plan max_steps budget q = (r, q')"
  obtains (refused) e where "r = Inl e" "q' = q" "\<And>i m. e \<noteq> StepNotEnqueued i m"
  | (queued) report steps where "loaded = Inr report"
      "limit_steps plan max_steps (parse_plan_steps_from_markdown (pn_plan_markdown report)) = Inr steps"
      "\<forall>t \<in> set (dispatch_tasks env cfg report plan budget steps). is_valid_queue_id (qt_task_id t)"
      "enqueue_all (dispatch_env env cfg) (dispatch_tasks env cfg report plan budget steps) q = (r, q')"
proof (cases loaded)
  case (Inl e)
  show thesis by (rule refused[of "PlanNotLoaded plan"]) (use Inl assms in \<open>simp_all add: dispatch_plan_steps_def\<close>)
next
  case (Inr report)
  let ?limit = "limit_steps plan max_steps (parse_plan_steps_from_markdown (pn_plan_markdown report))"
  show thesis
  proof (cases ?limit)
    case (Inl e)
    have other: "e \<noteq> StepNotEnqueued i m" for i m
      using Inl by (auto simp: limit_steps_def split: if_splits option.splits nat.splits)
    show thesis
      by (rule refused[of e]) (use assms Inl \<open>loaded = Inr report\<close> other in \<open>simp_all add: dispatch_plan_steps_def\<close>)
  next
    case (Inr steps)
    let ?tasks = "dispatch_tasks env cfg report plan budget steps"
    show thesis
    proof (cases "find (\<lambda>t. \<not> is_valid_queue_id (qt_task_id t)) ?tasks")
      case None
      then have "\<forall>t \<in> set ?tasks. is_valid_queue_id (qt_task_id t)" by (auto simp: find_None_iff)
      then show thesis
        using queued[OF \<open>loaded = Inr report\<close> Inr] assms None Inr \<open>loaded = Inr report\<close>
        by (simp add: dispatch_plan_steps_def dispatch_tasks_def dispatch_env_def Let_def)
    next
      case (Some t)
      show thesis
        by (rule refused[of "TaskIdTooLong plan (qt_task_id t)"])
          (use assms Some Inr \<open>loaded = Inr report\<close> in \<open>simp_all add: dispatch_plan_steps_def dispatch_tasks_def Let_def\<close>)
    qed
  qed
qed

lemma parsed_from_markdown_numbered: "steps_numbered (parse_plan_steps_from_markdown md)"
proof -
  have "steps_numbered []" by (simp add: steps_numbered_def)
  then show ?thesis using parse_plan_steps_numbered by (auto simp: parse_plan_steps_from_markdown_def split: option.splits)
qed

lemma limited_indices:
  assumes "limit_steps plan max_steps ps = Inr steps" "steps_numbered ps"
  shows "map pp_index steps = [1..<length steps + 1] \<and> steps \<noteq> []"
proof -
  obtain n where n: "steps = take n ps" "ps \<noteq> []" "0 < n"
    using assms(1) by (auto simp: limit_steps_def split: if_splits option.splits nat.splits intro: that[of "length ps"])
  have "map pp_index steps = take n [1..<length ps + 1]"
    using assms(2) n(1) by (simp add: steps_numbered_def take_map[symmetric])
  then show ?thesis using n by (simp add: take_upt min_def)
qed

text \<open>A dispatch that succeeds has queued the tasks named after the plan and numbered from 1, at least
  one, each of them new, with one budget that is within the ceiling, and has changed nothing else in the
  directories.\<close>

theorem dispatch_queues_plan:
  assumes "dispatch_plan_steps env cfg loaded plan max_steps budget q = (Inr ids, q')"
  shows "\<exists>ts. ids = map (plan_step_id plan) [1..<length ids + 1] \<and> ids \<noteq> [] \<and> distinct ids \<and> map qt_task_id ts = ids \<and>
     same_dirs (q\<lparr>q_pending := with_tasks ts (q_pending q)\<rparr>) q' \<and>
     list_all (\<lambda>i. \<not> task_exists_anywhere q i) ids \<and>
     list_all (\<lambda>t. task_within (or_max_cost (cf_orchestration cfg)) t \<and>
                   qt_budget t = unwrap_or budget (default_step_budget cfg)) ts"
  using assms
proof (cases rule: dispatch_cases)
  case (queued report steps)
  let ?ts = "dispatch_tasks env cfg report plan budget steps"
  note all = enqueue_all_ok[OF queued(4)]
  have ix: "map pp_index steps = [1..<length steps + 1]" "steps \<noteq> []"
    using limited_indices[OF queued(2) parsed_from_markdown_numbered] by auto
  have "ids = map (\<lambda>s. plan_step_id plan (pp_index s)) steps"
    using all(1) by (simp add: dispatch_tasks_def plan_tasks_def plan_step_to_patrol_task_def patrol_task_new_def Let_def comp_def)
  also have "\<dots> = map (plan_step_id plan) [1..<length steps + 1]"
    unfolding ix(1)[symmetric] by (simp add: comp_def)
  finally have ids: "ids = map (plan_step_id plan) [1..<length steps + 1]" .
  have "list_all (\<lambda>t. qt_budget t = unwrap_or budget (default_step_budget cfg)) ?ts"
    by (simp add: dispatch_tasks_def plan_tasks_def plan_step_to_patrol_task_def patrol_task_new_def Let_def list_all_iff)
  moreover have "list_all (task_within (or_max_cost (cf_orchestration cfg))) ?ts"
    using all(2) by (simp add: dispatch_env_def)
  ultimately have tasks: "list_all (\<lambda>t. task_within (or_max_cost (cf_orchestration cfg)) t \<and>
      qt_budget t = unwrap_or budget (default_step_budget cfg)) ?ts"
    by (simp add: list_all_iff)
  have len: "length ids = length steps" unfolding ids by (simp del: upt_Suc)
  then have "ids = map (plan_step_id plan) [1..<length ids + 1]" "ids \<noteq> []" using ids ix(2) by (simp only:) (use ix(2) len in auto)
  moreover have "list_all (\<lambda>i. \<not> task_exists_anywhere q i) ids" using all(5) by (simp add: list_all_iff)
  ultimately show ?thesis using all(1,3,6) tasks by (intro exI[of _ ?ts]) (simp only: simp_thms)
qed simp

lemma enqueue_all_first_exists:
  assumes "ts \<noteq> []" "task_within (me_total_budget env) (hd ts)" "task_exists_anywhere q (qt_task_id (hd ts))"
  shows "enqueue_all env ts q = (Inl (StepNotEnqueued (qt_task_id (hd ts)) (TaskAlreadyExists (qt_task_id (hd ts)))), q)"
  using assms by (cases ts) (simp_all add: st_bind_def st_map_err_def enqueue_existing)

text \<open>The same plan again, while the first of its tasks is still anywhere in the queue: nothing happens.\<close>

theorem dispatch_twice_refused:
  assumes "dispatch_plan_steps env cfg loaded plan max_steps budget q = (Inr ids, q')"
    "task_exists_anywhere q2 (hd ids)"
  shows "dispatch_plan_steps env cfg loaded plan max_steps budget q2 =
     (Inl (StepNotEnqueued (hd ids) (TaskAlreadyExists (hd ids))), q2)"
  using assms(1)
proof (cases rule: dispatch_cases)
  case (queued report steps)
  let ?ts = "dispatch_tasks env cfg report plan budget steps"
  note all = enqueue_all_ok[OF queued(4)]
  have "steps \<noteq> []" using limited_indices[OF queued(2) parsed_from_markdown_numbered] by simp
  then have ne: "?ts \<noteq> []" by (simp add: dispatch_tasks_def plan_tasks_def Let_def)
  then have hd': "hd ids = qt_task_id (hd ?ts)" "task_within (me_total_budget (dispatch_env env cfg)) (hd ?ts)"
    using all(1,2) by (auto simp: hd_map list_all_iff)
  have "find (\<lambda>t. \<not> is_valid_queue_id (qt_task_id t)) ?ts = None" using queued(3) by (auto simp: find_None_iff)
  then have "dispatch_plan_steps env cfg loaded plan max_steps budget q2 = enqueue_all (dispatch_env env cfg) ?ts q2"
    using queued(1,2) by (simp add: dispatch_plan_steps_def dispatch_tasks_def dispatch_env_def Let_def)
  then show ?thesis using enqueue_all_first_exists[OF ne hd'(2)] assms(2) hd'(1) by simp
qed simp

lemma dispatch_refused_keeps:
  assumes "dispatch_plan_steps env cfg loaded plan max_steps budget q = (Inl e, q')" "\<And>i m. e \<noteq> StepNotEnqueued i m"
  shows "q' = q"
  using assms(1)
proof (cases rule: dispatch_cases)
  case (queued report steps)
  have "\<exists>i m. e = StepNotEnqueued i m" if "enqueue_all env' ts q = (Inl e, q')" for env' ts and q :: queue
    using that by (induction ts arbitrary: q) (auto simp: result_simps)
  then show ?thesis using queued(4) assms(2) by blast
qed simp

text \<open>A Patrol claims the least name; the names are padded to two digits, so from a hundred steps on they
  are not in the order of the steps.\<close>

lemma step_100_before_11: "json_name (plan_step_id ''p'' 100) < json_name (plan_step_id ''p'' 11)"
proof -
  have "show_nat 100 = ''100''" "show_nat 11 = ''11''" by code_simp+
  then show ?thesis by (simp add: plan_step_id_def pad2_def json_name_def less_char_def)
qed

text \<open>A heading with spaces before it ends a section but is not found as one.\<close>

lemma indented_heading_lost:
  "extract_section (''## Objective'' @ nl @ ''x'' @ nl @ ''  ## Steps'' @ nl @ ''1. y'') ''Steps'' = None"
  "extract_section (''## Objective'' @ nl @ ''x'' @ nl @ ''  ## Steps'' @ nl @ ''1. y'') ''Objective'' = Some ''x''"
  by code_simp+

text \<open>A comma after a quoted path hides the closing quote from the trimming.\<close>

lemma quoted_path_comma: "bullet_path (''- '' @ [CHR 0x60] @ ''a.rs'' @ [CHR 0x60] @ '','') = Some (''a.rs'' @ [CHR 0x60])"
  by code_simp

end
