(* ===== verification/GoalIntentConvert.thy ===== *)
theory GoalIntentConvert
  imports PlanMode GoalProps
begin

text \<open>
  A sentence becomes a goal, \<^verbatim>\<open>crates/nerve-core/src/goal_intent.rs\<close>: the question to the adapter, the JSON
  object in its answer, and every check on what the object proposes. The lemmas say that what comes out is
  within the rules whatever the adapter answers, and which answers are found.

  The JSON library is the parameter of \<^theory_text>\<open>VerdictParse\<close>; its error text is not modelled.
\<close>

section \<open>Data\<close>

definition goal_intent_system_prompt :: string where
  "goal_intent_system_prompt =
     ''You convert natural-language end conditions into deterministic shell commands. '' @
     ''Output a single JSON object with these fields:'' @ nl @
     ''- '' @ quote @ ''check_cmd'' @ quote @ '': ['' @ quote @ ''argv'' @ quote @ '', ...] '' @ em_dash @
       '' Program name only (PATH-resolved, no shell metachars, no '' @ [CHR 0x27] @ ''/'' @ [CHR 0x27] @
       '', no '' @ [CHR 0x27] @ ''..'' @ [CHR 0x27] @ '').'' @ nl @
     ''- '' @ quote @ ''timeout_secs'' @ quote @ '': integer (1..=3600)'' @ nl @
     ''- '' @ quote @ ''env'' @ quote @ '': object {name: value} (only if specific env vars need overriding)'' @ nl @
     ''- '' @ quote @ ''rationale'' @ quote @ '': short string explaining why this command checks the condition.'' @ nl @
     ''No prose outside the JSON object.''"

text \<open>\<open>DecodeFailed\<close> is the \<^verbatim>\<open>InvalidProposal\<close> with the JSON library's own text.\<close>

datatype goal_intent_error =
  EmptyFreeForm
| AdapterFailed adapter_error
| UnparseableResponse string
| DecodeFailed
| InvalidProposal string
| ValidationFailed config_error

record raw_intent =
  ri_check_cmd :: "string list"
  ri_timeout_secs :: "u64 option"
  ri_env :: "(string \<times> string) list"
  ri_rationale :: string
  ri_cwd :: "string option"

section \<open>The object in an answer\<close>

text \<open>The loop over the bytes: the index, where the object started, the depth, and whether it is in a
  string and after a backslash there.\<close>

fun scan_object :: "nat \<Rightarrow> nat option \<Rightarrow> int \<Rightarrow> bool \<Rightarrow> bool \<Rightarrow> string \<Rightarrow> (nat \<times> nat) option" where
  "scan_object idx start depth in_string escaped [] = None"
| "scan_object idx start depth in_string escaped (c # cs) =
     (if in_string then
        (if escaped then scan_object (idx + 1) start depth True False cs
         else if c = CHR 0x5C then scan_object (idx + 1) start depth True True cs
         else scan_object (idx + 1) start depth (c \<noteq> CHR 0x22) False cs)
      else if c = CHR 0x22 then scan_object (idx + 1) start depth True escaped cs
      else if c = CHR ''{'' then
        scan_object (idx + 1) (if depth = 0 then Some idx else start) (depth + 1) False escaped cs
      else if c = CHR ''}'' then
        (case (if depth - 1 = 0 then start else None) of
           Some begin \<Rightarrow> Some (begin, idx)
         | None \<Rightarrow> scan_object (idx + 1) start (depth - 1) False escaped cs)
      else scan_object (idx + 1) start depth False escaped cs)"

definition slice_incl :: "nat \<times> nat \<Rightarrow> string \<Rightarrow> string" where
  "slice_incl r s = (case r of (a, b) \<Rightarrow> drop a (take (b + 1) s))"

text \<open>\<^verbatim>\<open>trim_start_matches("json")\<close>.\<close>

function trim_json_words :: "string \<Rightarrow> string" where
  "trim_json_words s = (case strip_prefix ''json'' s of Some r \<Rightarrow> trim_json_words r | None \<Rightarrow> s)"
  by pat_completeness auto
termination by (relation "measure length") (auto simp: strip_prefix_Some)

declare trim_json_words.simps [simp del]

definition strip_fenced_block :: "string \<Rightarrow> string option" where
  "strip_fenced_block raw =
     (let t = trim_ws raw; lower = to_lower t in
      Option.bind (case find_sub ''```json'' lower of Some i \<Rightarrow> Some i | None \<Rightarrow> find_sub ''```'' lower) (\<lambda>i.
        (let after = trim_start (trim_json_words (drop (i + 3) t))
         in map_option (\<lambda>e. take e after) (find_sub ''```'' after))))"

definition extract_json_object :: "string \<Rightarrow> string option" where
  "extract_json_object raw =
     (let candidate = unwrap_or (strip_fenced_block raw) raw
      in map_option (\<lambda>r. slice_incl r candidate) (scan_object 0 None 0 False False candidate))"

definition truncate_raw :: "string \<Rightarrow> string" where
  "truncate_raw raw = (if length raw \<le> 512 then raw else truncate_at_char_boundary raw 512 @ ''...'')"

section \<open>Decoding\<close>

text \<open>\<^verbatim>\<open>serde\<close> for a struct that denies unknown fields: every key known and given once, the others required
  or with their default.\<close>

definition known_once :: "string list \<Rightarrow> (string \<times> json) list \<Rightarrow> bool" where
  "known_once known kvs = (list_all (\<lambda>(k, _). k \<in> set known) kvs \<and> distinct (map fst kvs))"

fun all_some :: "'a option list \<Rightarrow> 'a list option" where
  "all_some [] = Some []"
| "all_some (x # xs) = Option.bind x (\<lambda>y. map_option (\<lambda>ys. y # ys) (all_some xs))"

definition string_list_of :: "json \<Rightarrow> string list option" where
  "string_list_of j = Option.bind (as_array j) (\<lambda>js. all_some (map as_str js))"

fun put_string :: "string \<times> string \<Rightarrow> (string \<times> string) list \<Rightarrow> (string \<times> string) list" where
  "put_string kv [] = [kv]"
| "put_string kv (x # xs) =
     (if fst kv = fst x then kv # xs else if fst kv < fst x then kv # x # xs else x # put_string kv xs)"

fun string_map_of :: "json \<Rightarrow> (string \<times> string) list option" where
  "string_map_of (JObj kvs) =
     map_option (\<lambda>ps. fold put_string ps [])
       (all_some (map (\<lambda>(k, v). map_option (\<lambda>s. (k, s)) (as_str v)) kvs))"
| "string_map_of _ = None"

text \<open>An absent field or null is none; anything else must decode.\<close>

definition optional_field :: "(json \<Rightarrow> 'a option) \<Rightarrow> string \<Rightarrow> (string \<times> json) list \<Rightarrow> 'a option option" where
  "optional_field dec k kvs =
     (case map_of kvs k of
        None \<Rightarrow> Some None
      | Some JNull \<Rightarrow> Some None
      | Some j \<Rightarrow> map_option Some (dec j))"

fun decode_raw_intent :: "json \<Rightarrow> raw_intent option" where
  "decode_raw_intent (JObj kvs) =
     (if \<not> known_once [''check_cmd'', ''timeout_secs'', ''env'', ''rationale'', ''cwd''] kvs then None
      else
        Option.bind (Option.bind (map_of kvs ''check_cmd'') string_list_of) (\<lambda>cmd.
        Option.bind (optional_field as_u64 ''timeout_secs'' kvs) (\<lambda>timeout.
        Option.bind (case map_of kvs ''env'' of None \<Rightarrow> Some [] | Some j \<Rightarrow> string_map_of j) (\<lambda>env.
        Option.bind (Option.bind (map_of kvs ''rationale'') as_str) (\<lambda>rationale.
        Option.bind (optional_field as_str ''cwd'' kvs) (\<lambda>cwd.
        Some \<lparr>ri_check_cmd = cmd, ri_timeout_secs = timeout, ri_env = env, ri_rationale = rationale, ri_cwd = cwd\<rparr>))))))"
| "decode_raw_intent _ = None"

section \<open>Conversion\<close>

text \<open>Paths are compared by their components.\<close>

definition checked_timeout :: "u64 option \<Rightarrow> goal_intent_error + u64" where
  "checked_timeout t =
     (case t of
        None \<Rightarrow> Inr 60
      | Some secs \<Rightarrow>
          if 1 \<le> secs \<and> secs \<le> 3600 then Inr secs
          else Inl (InvalidProposal (''timeout_secs '' @ show_nat (unat secs) @ '' must satisfy 1..=3600'')))"

definition vet_proposal ::
  "string \<Rightarrow> timestamp \<Rightarrow> string \<Rightarrow> string \<Rightarrow> string \<Rightarrow> raw_intent \<Rightarrow> goal_intent_error + goal_intent" where
  "vet_proposal uuid now cwd adapter free_form p =
     res_bind (ensure (trim_ws (ri_rationale p) \<noteq> []) (InvalidProposal ''rationale field was empty'')) (\<lambda>_.
     res_bind (ensure (ri_check_cmd p \<noteq> []) (InvalidProposal ''check_cmd field was empty'')) (\<lambda>_.
     res_bind (checked_timeout (ri_timeout_secs p)) (\<lambda>secs.
     res_bind (ensure (case ri_cwd p of Some d \<Rightarrow> path_components d = path_components cwd | None \<Rightarrow> True)
         (InvalidProposal ''cwd field is controlled by caller'')) (\<lambda>_.
     (let spec = \<lparr>gs_id = uuid, gs_check_cmd = ri_check_cmd p, gs_timeout_secs = secs, gs_cwd = Some cwd,
                  gs_env = ri_env p, gs_no_progress_max = None\<rparr>;
          intent = \<lparr>gi_free_form = free_form, gi_proposed_spec = spec, gi_rationale = trim_ws (ri_rationale p),
                    gi_source_adapter = adapter, gi_created_at = now\<rparr>
      in res_bind (res_map_err ValidationFailed (goal_validate spec)) (\<lambda>_.
         res_bind (res_map_err ValidationFailed (goal_intent_validate intent)) (\<lambda>_. Inr intent)))))))"

definition read_answer :: "json_lib \<Rightarrow> string \<Rightarrow> goal_intent_error + raw_intent" where
  "read_answer lib raw =
     (case extract_json_object raw of
        None \<Rightarrow> Inl (UnparseableResponse (truncate_raw raw))
      | Some text \<Rightarrow>
          (case Option.bind (jl_line lib text) decode_raw_intent of
             None \<Rightarrow> Inl DecodeFailed | Some p \<Rightarrow> Inr p))"

definition convert_goal ::
  "json_lib \<Rightarrow> string \<Rightarrow> timestamp \<Rightarrow> 'x oneshot \<Rightarrow> string \<Rightarrow> string \<Rightarrow> ('x world, goal_intent_error, goal_intent) step" where
  "convert_goal lib uuid now a free_form cwd w =
     (let t = trim_ws free_form in
      if t = [] then (Inl EmptyFreeForm, w)
      else
        st_bind (st_map_err AdapterFailed (os_dispatch a goal_intent_system_prompt t)) (\<lambda>raw w'.
          (res_bind (read_answer lib raw) (vet_proposal uuid now cwd (os_id a) t), w')) w)"

section \<open>What comes out\<close>

lemma vet_proposal_ok:
  assumes "vet_proposal uuid now cwd adapter free_form p = Inr intent"
  shows "goal_intent_validate intent = Inr ()" "goal_validate (gi_proposed_spec intent) = Inr ()"
    "gs_cwd (gi_proposed_spec intent) = Some cwd" "gs_id (gi_proposed_spec intent) = uuid"
    "1 \<le> gs_timeout_secs (gi_proposed_spec intent) \<and> gs_timeout_secs (gi_proposed_spec intent) \<le> 3600"
    "gi_source_adapter intent = adapter" "gi_free_form intent = free_form"
  using assms
  by (auto simp: vet_proposal_def result_simps checked_timeout_def Let_def split: if_splits option.splits)

text \<open>Whatever the adapter answers, a converted goal passes the checks of goals and intents, runs in the
  caller's directory, for at most an hour, and sets no variable that could change which code runs.\<close>

theorem converted_goal_vetted:
  assumes "convert_goal lib uuid now a free_form cwd w = (Inr intent, w')"
  shows "goal_intent_validate intent = Inr () \<and> gs_cwd (gi_proposed_spec intent) = Some cwd \<and>
     unat (gs_timeout_secs (gi_proposed_spec intent)) \<in> {1..3600} \<and> gs_check_cmd (gi_proposed_spec intent) \<noteq> [] \<and>
     \<not> program_refused (hd (gs_check_cmd (gi_proposed_spec intent))) \<and>
     list_all (\<lambda>(k, v). \<not> is_forbidden_goal_env_key k \<and> \<not> list_ex is_ascii_control v) (gs_env (gi_proposed_spec intent)) \<and>
     gi_source_adapter intent = os_id a \<and> gi_free_form intent = trim_ws free_form"
proof -
  obtain p where "vet_proposal uuid now cwd (os_id a) (trim_ws free_form) p = Inr intent"
    using assms by (auto simp: convert_goal_def result_simps Let_def split: if_splits)
  note v = vet_proposal_ok[OF this]
  let ?g = "gi_proposed_spec intent"
  have "1 \<le> unat (gs_timeout_secs ?g) \<and> unat (gs_timeout_secs ?g) \<le> 3600"
    using v(5) by (simp add: word_le_nat_alt)
  moreover have "gs_check_cmd ?g \<noteq> [] \<and> \<not> program_refused (hd (gs_check_cmd ?g)) \<and> res_all env_entry_validate (gs_env ?g) = Inr ()"
    using v(2) by (auto simp: goal_validate_def split: if_splits list.splits)
  moreover have "res_all env_entry_validate kvs = Inr () \<Longrightarrow>
      list_all (\<lambda>(k, v). \<not> is_forbidden_goal_env_key k \<and> \<not> list_ex is_ascii_control v) kvs" for kvs
    by (auto simp: result_simps list_all_iff env_entry_validate_def split: if_splits)
  ultimately show ?thesis using v by auto
qed

section \<open>Which answers are found\<close>

text \<open>A character that the search outside of strings passes over.\<close>

definition plain_char :: "char \<Rightarrow> bool" where
  "plain_char c = (c \<notin> {CHR 0x22, CHR ''{'', CHR ''}''})"

lemma scan_plain:
  "list_all plain_char pre \<Longrightarrow> scan_object i start d False False (pre @ s) = scan_object (i + length pre) start d False False s"
  by (induction pre arbitrary: i) (auto simp: plain_char_def)

lemma scan_shift:
  "scan_object (k + i) (map_option ((+) k) start) d in_s e s = map_option (\<lambda>(a, b). (k + a, k + b)) (scan_object i start d in_s e s)"
proof (induction s arbitrary: i start d in_s e)
  case (Cons c cs)
  have ih: "scan_object (Suc (k + i)) None d in_s e cs = map_option (\<lambda>(a, b). (k + a, k + b)) (scan_object (Suc i) None d in_s e cs)"
    "scan_object (Suc (k + i)) (Some (k + j)) d in_s e cs = map_option (\<lambda>(a, b). (k + a, k + b)) (scan_object (Suc i) (Some j) d in_s e cs)"
    for i j d in_s e
    using Cons.IH[of "Suc i" None d in_s e] Cons.IH[of "Suc i" "Some j" d in_s e] by simp_all
  show ?case by (cases start; cases in_s) (simp_all add: ih)
qed simp

lemma scan_append:
  "scan_object i start d in_s e s = Some r \<Longrightarrow> scan_object i start d in_s e (s @ t) = Some r"
  by (induction i start d in_s e s rule: scan_object.induct) (auto split: if_splits option.splits)

text \<open>An answer without fences: the object is found behind text that has no brace and no double quote,
  and with anything after it.\<close>

theorem extract_behind_prose:
  assumes "list_all plain_char pre" "scan_object 0 None 0 False False obj = Some (0, length obj - 1)" "obj \<noteq> []"
    "strip_fenced_block (pre @ obj @ post) = None"
  shows "extract_json_object (pre @ obj @ post) = Some obj"
proof -
  have "scan_object 0 None 0 False False (obj @ post) = Some (0, length obj - 1)" by (rule scan_append[OF assms(2)])
  then have "scan_object (length pre) None 0 False False (obj @ post) = Some (length pre, length pre + (length obj - 1))"
    using scan_shift[of "length pre" 0 None 0 False False "obj @ post"] by simp
  then have "scan_object 0 None 0 False False (pre @ obj @ post) = Some (length pre, length pre + (length obj - 1))"
    using scan_plain[OF assms(1), of 0 None 0 "obj @ post"] by simp
  moreover have "Suc (length pre + (length obj - 1)) = length pre + length obj"
    using assms(3) by (cases obj) auto
  ultimately show ?thesis
    using assms(4) by (simp add: extract_json_object_def unwrap_or_def slice_incl_def)
qed

text \<open>A stray closing brace before the object, or one double quote, hides it.\<close>

lemma stray_brace_hides_object: "extract_json_object ''} {}'' = None"
  by code_simp

lemma stray_quote_hides_object: "extract_json_object (''5'' @ [CHR 0x22] @ '' {}'') = None"
  by code_simp

end
