(* ===== verification/NerveStore.thy ===== *)
theory NerveStore
  imports PlanMode PatchProps "HOL-Library.AList"
begin

text \<open>
  The store below \<^verbatim>\<open>.nerve\<close>, \<^verbatim>\<open>crates/nerve-core/src/store.rs\<close>: reports, patches with their index, checkpoints,
  approvals, plans and the names of sessions.

  A directory is the list of its entries in reading order; an entry is a value of the directory's type or
  a file that does not read as one. Files are written as a whole or not at all, and any write may fail: the
  state holds what becomes of the next ones. The index lock is a file: one left behind by a process that
  died is there until somebody removes it. Times are compared as numbers; the RFC 3339 texts of one zone
  are in the same order.
\<close>

section \<open>Data\<close>

record session_summary =
  sm_id :: string
  sm_name :: "string option"
  sm_prompt :: string
  sm_started_at :: timestamp
  sm_updated_at :: "timestamp option"
  sm_cwd :: loc
  sm_profile :: "string option"
  sm_verdict :: verdict
  sm_rounds :: nat
  sm_patch_id :: "string option"
  sm_applied :: bool
  sm_blocked :: bool
  sm_parent :: "string option"

record session_metadata =
  md_name :: "string option"
  md_parent :: "string option"
  md_updated_at :: "timestamp option"

definition metadata_default :: session_metadata where
  "metadata_default = \<lparr>md_name = None, md_parent = None, md_updated_at = None\<rparr>"

record patch_record =
  px_id :: string
  px_session_id :: string
  px_prompt :: string
  px_created_at :: timestamp
  px_file_count :: nat
  px_changed_files :: "string list"
  px_verdict :: verdict
  px_applied :: bool

type_synonym patch_index = "patch_record list"

datatype run_status = Running | Finished

record run_checkpoint =
  rc_task :: task
  rc_selection :: profile_selection
  rc_status :: run_status
  rc_rounds :: "round_record list"
  rc_updated_at :: timestamp

record approval_grant =
  ag_run_id :: string
  ag_apply_consent :: bool
  ag_granted_at :: timestamp

definition approval_apply :: "timestamp \<Rightarrow> string \<Rightarrow> approval_grant" where
  "approval_apply now run = \<lparr>ag_run_id = run, ag_apply_consent = True, ag_granted_at = now\<rparr>"

datatype 'a stored = Stored 'a | Unreadable

type_synonym 'a entries = "(string \<times> 'a stored) list"

record store =
  so_cwd :: loc
  so_sessions :: "run_report entries"
  so_meta :: "session_metadata entries"
  so_patches :: "nv_patch entries"
  so_index :: "patch_index stored option"
  so_index_lock :: bool
  so_checkpoints :: "run_checkpoint entries"
  so_approvals :: "approval_grant entries"
  so_plans :: "plan_report entries"
  so_faults :: "bool list"

definition store_new :: "loc \<Rightarrow> store" where
  "store_new cwd =
     \<lparr>so_cwd = cwd, so_sessions = [], so_meta = [], so_patches = [], so_index = None, so_index_lock = False,
      so_checkpoints = [], so_approvals = [], so_plans = [], so_faults = []\<rparr>"

datatype store_error =
  StoreIo string
| StoreJson string
| StoreMsg string
| StorePatch patch_error

section \<open>Files\<close>

definition write_json :: "string \<Rightarrow> (store \<Rightarrow> store) \<Rightarrow> (store, store_error, unit) step" where
  "write_json what f s =
     (case so_faults s of
        [] \<Rightarrow> (Inr (), f s)
      | failing # rest \<Rightarrow>
          if failing then (Inl (StoreIo what), s\<lparr>so_faults := rest\<rparr>) else (Inr (), f (s\<lparr>so_faults := rest\<rparr>)))"

definition read_json :: "string \<Rightarrow> 'a entries \<Rightarrow> store_error + 'a" where
  "read_json n d =
     (case map_of d n of
        None \<Rightarrow> Inl (StoreIo n) | Some Unreadable \<Rightarrow> Inl (StoreJson n) | Some (Stored x) \<Rightarrow> Inr x)"

definition read_some :: "(store \<Rightarrow> store_error + 'a) \<Rightarrow> (store, store_error, 'a) step" where
  "read_some f s = (f s, s)"

definition validate_store_id :: "string \<Rightarrow> string \<Rightarrow> store_error + unit" where
  "validate_store_id kind i =
     (if 1 \<le> length i \<and> length i \<le> 128 \<and> list_all id_char i then Inr ()
      else Inl (StoreMsg (''invalid '' @ kind @ '' '' @ bq i @ '': must be 1..=128 chars of [A-Za-z0-9_-]'')))"

definition put_session :: "string \<Rightarrow> run_report \<Rightarrow> store \<Rightarrow> store" where
  "put_session i r s = s\<lparr>so_sessions := AList.update (json_name i) (Stored r) (so_sessions s)\<rparr>"

definition ensure_dirs :: "(store, store_error, unit) step" where
  "ensure_dirs =
     st_all (\<lambda>d. write_json d (\<lambda>s. s)) [''sessions'', ''session-meta'', ''patches'', ''checkpoints'', ''approvals'']"

section \<open>The patch index\<close>

definition with_index_lock :: "(store, store_error, 'a) step \<Rightarrow> (store, store_error, 'a) step" where
  "with_index_lock m =
     st_bind (write_json ''patches'' (\<lambda>s. s)) (\<lambda>_ s.
       if so_index_lock s then (Inl (StoreMsg ''timed out waiting for index.lock''), s)
       else st_bind (write_json ''index.lock'' (\<lambda>s. s\<lparr>so_index_lock := True\<rparr>))
              (\<lambda>_ s'. (case m s' of (r, s'') \<Rightarrow> (r, s''\<lparr>so_index_lock := False\<rparr>))) s)"

definition load_index :: "store \<Rightarrow> store_error + patch_index" where
  "load_index s =
     (case so_index s of
        None \<Rightarrow> Inr [] | Some Unreadable \<Rightarrow> Inl (StoreJson ''index.json'') | Some (Stored ix) \<Rightarrow> Inr ix)"

definition write_index :: "patch_index \<Rightarrow> (store, store_error, unit) step" where
  "write_index ix = write_json ''index.json'' (\<lambda>s. s\<lparr>so_index := Some (Stored ix)\<rparr>)"

definition record_changed_files :: "nv_patch \<Rightarrow> string list" where
  "record_changed_files p =
     concat (map (\<lambda>f. case fp_operation f of Rename from' \<Rightarrow> [from', fp_path f] | _ \<Rightarrow> [fp_path f]) (np_files p))"

definition record_from_report :: "run_report \<Rightarrow> nv_patch \<Rightarrow> patch_record" where
  "record_from_report r p =
     \<lparr>px_id = np_id p, px_session_id = task_id (rr_task r), px_prompt = task_prompt (rr_task r),
      px_created_at = task_started_at (rr_task r), px_file_count = length (np_files p),
      px_changed_files = record_changed_files p, px_verdict = rf_verdict (rr_final_feedback r),
      px_applied = rr_applied r\<rparr>"

definition upsert_patch_record :: "patch_record \<Rightarrow> (store, store_error, unit) step" where
  "upsert_patch_record rec =
     with_index_lock (st_bind (read_some load_index) (\<lambda>ix.
       write_index (filter (\<lambda>x. px_id x \<noteq> px_id rec) ix @ [rec])))"

definition set_session_applied :: "string \<Rightarrow> bool \<Rightarrow> (store, store_error, unit) step" where
  "set_session_applied i applied s =
     (if map_of (so_sessions s) (json_name i) = None then (Inr (), s)
      else st_bind (read_some (\<lambda>s. read_json (json_name i) (so_sessions s)))
             (\<lambda>r. write_json (json_name i) (put_session i (r\<lparr>rr_applied := applied\<rparr>))) s)"

fun mark_first :: "string \<Rightarrow> bool \<Rightarrow> patch_index \<Rightarrow> patch_index" where
  "mark_first i applied [] = []"
| "mark_first i applied (x # xs) = (if px_id x = i then x\<lparr>px_applied := applied\<rparr> # xs else x # mark_first i applied xs)"

definition set_patch_applied :: "string \<Rightarrow> bool \<Rightarrow> (store, store_error, unit) step" where
  "set_patch_applied i applied =
     with_index_lock (st_bind (read_some load_index) (\<lambda>ix.
       (case find (\<lambda>x. px_id x = i) ix of
          None \<Rightarrow> (\<lambda>s. (Inl (StoreMsg (''patch '' @ bq i @ '' is not indexed'')), s))
        | Some x \<Rightarrow> st_bind (write_index (mark_first i applied ix)) (\<lambda>_. set_session_applied (px_session_id x) applied))))"

section \<open>Reports\<close>

definition clear_checkpoint :: "string \<Rightarrow> (store, store_error, unit) step" where
  "clear_checkpoint i s =
     (if map_of (so_checkpoints s) (json_name i) = None then (Inr (), s)
      else write_json (json_name i) (\<lambda>s. s\<lparr>so_checkpoints := AList.delete (json_name i) (so_checkpoints s)\<rparr>) s)"

definition save_patch_of :: "run_report \<Rightarrow> (store, store_error, unit) step" where
  "save_patch_of r =
     (case (rr_blocked r, rr_final_patch r) of
        (False, Some p) \<Rightarrow>
          st_bind (write_json (json_name (np_id p)) (\<lambda>s. s\<lparr>so_patches := AList.update (json_name (np_id p)) (Stored p) (so_patches s)\<rparr>))
            (\<lambda>_. upsert_patch_record (record_from_report r p))
      | _ \<Rightarrow> (\<lambda>s. (Inr (), s)))"

definition save_report :: "run_report \<Rightarrow> (store, store_error, unit) step" where
  "save_report r =
     st_bind ensure_dirs (\<lambda>_.
     st_bind (write_json (json_name (task_id (rr_task r))) (put_session (task_id (rr_task r)) r)) (\<lambda>_.
     st_bind (save_patch_of r) (\<lambda>_.
     clear_checkpoint (task_id (rr_task r)))))"

definition load_report :: "string \<Rightarrow> store \<Rightarrow> store_error + run_report" where
  "load_report i s = read_json (json_name i) (so_sessions s)"

definition load_patch :: "string \<Rightarrow> store \<Rightarrow> store_error + nv_patch" where
  "load_patch i s = read_json (json_name i) (so_patches s)"

text \<open>Applying and undoing work on the tree and the store.\<close>

definition on_tree :: "(fs, patch_error, 'a) step \<Rightarrow> (fs \<times> store, store_error, 'a) step" where
  "on_tree m w = (case m (fst w) of (Inl e, f) \<Rightarrow> (Inl (StorePatch e), f, snd w) | (Inr a, f) \<Rightarrow> (Inr a, f, snd w))"

definition on_store :: "(store, store_error, 'a) step \<Rightarrow> (fs \<times> store, store_error, 'a) step" where
  "on_store m w = (case m (snd w) of (r, s) \<Rightarrow> (r, fst w, s))"

definition apply_patch :: "(string \<Rightarrow> string) \<Rightarrow> string \<Rightarrow> (fs \<times> store, store_error, apply_report) step" where
  "apply_patch digest i w =
     st_bind (on_store (read_some (load_patch i))) (\<lambda>p.
     st_bind (on_tree (nv_apply digest (so_cwd (snd w)) p False)) (\<lambda>report.
     st_bind (on_store (set_patch_applied i True)) (\<lambda>_ w'. (Inr report, w')))) w"

definition rollback_patch :: "(string \<Rightarrow> string) \<Rightarrow> string \<Rightarrow> (fs \<times> store, store_error, apply_report) step" where
  "rollback_patch digest i w =
     st_bind (on_store (read_some (load_patch i))) (\<lambda>p.
     st_bind (on_tree (nv_rollback digest (so_cwd (snd w)) p False)) (\<lambda>report.
     st_bind (on_store (set_patch_applied i False)) (\<lambda>_ w'. (Inr report, w')))) w"

section \<open>Checkpoints, approvals, plans\<close>

definition save_checkpoint :: "run_checkpoint \<Rightarrow> (store, store_error, unit) step" where
  "save_checkpoint c =
     (let n = json_name (task_id (rc_task c)) in
      st_bind (write_json ''checkpoints'' (\<lambda>s. s)) (\<lambda>_.
        write_json n (\<lambda>s. s\<lparr>so_checkpoints := AList.update n (Stored c) (so_checkpoints s)\<rparr>)))"

definition load_checkpoint :: "string \<Rightarrow> store \<Rightarrow> store_error + run_checkpoint" where
  "load_checkpoint i s = read_json (json_name i) (so_checkpoints s)"

definition read_stored :: "string \<times> 'a stored \<Rightarrow> store_error + 'a" where
  "read_stored e = (case e of (n, Stored x) \<Rightarrow> Inr x | (n, Unreadable) \<Rightarrow> Inl (StoreJson n))"

definition latest_first :: "('a \<Rightarrow> timestamp) \<Rightarrow> 'a list \<Rightarrow> 'a list" where
  "latest_first f = sort_key (\<lambda>x. - int (f x))"

definition list_checkpoints :: "store \<Rightarrow> store_error + run_checkpoint list" where
  "list_checkpoints s =
     res_bind (res_map read_stored (filter (\<lambda>(n, _). is_json n) (so_checkpoints s)))
       (\<lambda>cs. Inr (latest_first rc_updated_at cs))"

definition record_approval :: "approval_grant \<Rightarrow> (store, store_error, unit) step" where
  "record_approval g =
     write_json (json_name (ag_run_id g))
       (\<lambda>s. s\<lparr>so_approvals := AList.update (json_name (ag_run_id g)) (Stored g) (so_approvals s)\<rparr>)"

definition load_approval :: "string \<Rightarrow> store \<Rightarrow> store_error + approval_grant option" where
  "load_approval run s =
     (if map_of (so_approvals s) (json_name run) = None then Inr None
      else res_bind (read_json (json_name run) (so_approvals s)) (\<lambda>g. Inr (Some g)))"

definition save_plan :: "plan_report \<Rightarrow> (store, store_error, string) step" where
  "save_plan r s =
     (case validate_store_id ''plan id'' (pn_task_id r) of
        Inl e \<Rightarrow> (Inl e, s)
      | Inr _ \<Rightarrow>
          (let n = json_name (pn_task_id r) in
           st_bind (write_json ''plans'' (\<lambda>s. s)) (\<lambda>_.
           st_bind (write_json n (\<lambda>s. s\<lparr>so_plans := AList.update n (Stored r) (so_plans s)\<rparr>)) (\<lambda>_ s'. (Inr n, s'))) s))"

definition load_plan :: "string \<Rightarrow> store \<Rightarrow> store_error + plan_report" where
  "load_plan i s =
     res_bind (validate_store_id ''plan id'' i) (\<lambda>_.
       if map_of (so_plans s) (json_name i) = None then Inl (StoreMsg (''no stored plan '' @ bq i))
       else read_json (json_name i) (so_plans s))"

definition list_plans :: "store \<Rightarrow> string list" where
  "list_plans s = sort (map (\<lambda>(n, _). fst (split_ext n)) (filter (\<lambda>(n, _). is_json n) (so_plans s)))"

section \<open>Sessions\<close>

definition load_session_metadata :: "string \<Rightarrow> store \<Rightarrow> store_error + session_metadata" where
  "load_session_metadata i s =
     (if map_of (so_meta s) (json_name i) = None then Inr metadata_default else read_json (json_name i) (so_meta s))"

definition save_session_metadata :: "string \<Rightarrow> session_metadata \<Rightarrow> (store, store_error, unit) step" where
  "save_session_metadata i m =
     write_json (json_name i) (\<lambda>s. s\<lparr>so_meta := AList.update (json_name i) (Stored m) (so_meta s)\<rparr>)"

definition summary_from_report :: "run_report \<Rightarrow> session_metadata \<Rightarrow> session_summary" where
  "summary_from_report r m =
     \<lparr>sm_id = task_id (rr_task r), sm_name = md_name m, sm_prompt = task_prompt (rr_task r),
      sm_started_at = task_started_at (rr_task r), sm_updated_at = md_updated_at m, sm_cwd = task_cwd (rr_task r),
      sm_profile = ps_id (rr_selection r), sm_verdict = rf_verdict (rr_final_feedback r),
      sm_rounds = length (rr_rounds r), sm_patch_id = map_option np_id (rr_final_patch r),
      sm_applied = rr_applied r, sm_blocked = rr_blocked r, sm_parent = md_parent m\<rparr>"

definition list_sessions :: "store \<Rightarrow> store_error + session_summary list" where
  "list_sessions s =
     res_bind (res_map (\<lambda>e.
         res_bind (read_stored e) (\<lambda>r.
         res_bind (load_session_metadata (task_id (rr_task r)) s) (\<lambda>m. Inr (summary_from_report r m))))
       (filter (\<lambda>(n, _). is_json n) (so_sessions s)))
     (\<lambda>sums. Inr (latest_first sm_started_at sums))"

definition session_exists :: "string \<Rightarrow> store \<Rightarrow> store_error + unit" where
  "session_exists i s =
     (if map_of (so_sessions s) (json_name i) = None then Inl (StoreMsg (''session '' @ bq i @ '' does not exist'')) else Inr ())"

definition name_session :: "timestamp \<Rightarrow> string \<Rightarrow> string \<Rightarrow> (store, store_error, unit) step" where
  "name_session now i name =
     st_bind (read_some (session_exists i)) (\<lambda>_.
     st_bind (read_some (load_session_metadata i)) (\<lambda>m.
     save_session_metadata i (m\<lparr>md_name := Some name, md_updated_at := Some now\<rparr>)))"

definition link_child_session :: "timestamp \<Rightarrow> string \<Rightarrow> string \<Rightarrow> (store, store_error, unit) step" where
  "link_child_session now child parent =
     st_bind (read_some (session_exists child)) (\<lambda>_.
     st_bind (read_some (session_exists parent)) (\<lambda>_.
     st_bind (read_some (load_session_metadata child)) (\<lambda>m.
     save_session_metadata child (m\<lparr>md_parent := Some parent, md_updated_at := Some now\<rparr>))))"

definition list_patches :: "store \<Rightarrow> store_error + patch_record list" where
  "list_patches s = res_bind (load_index s) (\<lambda>ix. Inr (latest_first px_created_at ix))"

end
