(* ===== verification/StoreProps.thy ===== *)
theory StoreProps
  imports NerveStore
begin

text \<open>
  What the store promises: a saved report reads back, its checkpoint is gone, and its patch is stored and
  indexed once exactly when the run was not blocked; the index names only stored patches, each once,
  whatever write fails; applying and undoing a stored patch is applying and undoing the patch. The last
  section has what an error of these operations can leave behind.
\<close>

section \<open>Writes that succeed\<close>

lemma write_json_ok [result_simps]:
  "write_json what f s = (Inr u, s') \<longleftrightarrow> (\<exists>fl. (so_faults s = [] \<and> fl = [] \<or> so_faults s = False # fl) \<and> s' = f (s\<lparr>so_faults := fl\<rparr>))"
proof (cases "so_faults s")
  case Nil
  have e: "s\<lparr>so_faults := []\<rparr> = s" using Nil by (cases s) simp
  show ?thesis using Nil by (auto simp: write_json_def e)
next
  case (Cons b fl)
  then show ?thesis by (cases b) (auto simp: write_json_def)
qed

lemma write_json_cases:
  assumes "write_json what f s = (r, s')"
  obtains (failed) fl where "s' = s\<lparr>so_faults := fl\<rparr>" "r = Inl (StoreIo what)"
  | (written) fl where "s' = f (s\<lparr>so_faults := fl\<rparr>)" "r = Inr ()"
proof (cases "so_faults s")
  case Nil
  have e: "s\<lparr>so_faults := []\<rparr> = s" using Nil by (cases s) simp
  show thesis using assms Nil by (intro written[of "[]"]) (simp_all add: write_json_def e)
next
  case (Cons b rest)
  then show thesis using assms failed written by (cases b) (auto simp: write_json_def)
qed

text \<open>The store up to the faults to come and the lock.\<close>

definition same_files :: "store \<Rightarrow> store \<Rightarrow> bool" where
  "same_files s s' =
     (so_cwd s' = so_cwd s \<and> so_sessions s' = so_sessions s \<and> so_meta s' = so_meta s \<and> so_patches s' = so_patches s \<and>
      so_index s' = so_index s \<and> so_checkpoints s' = so_checkpoints s \<and> so_approvals s' = so_approvals s \<and>
      so_plans s' = so_plans s)"

lemma ensure_dirs_same:
  assumes "ensure_dirs s = (r, s')"
  shows "same_files s s'"
proof (rule st_all_invariant[OF _ _ assms[unfolded ensure_dirs_def], where P = "same_files s"])
  show "same_files s s" by (simp add: same_files_def)
  show "same_files s t'" if "same_files s t" "write_json d (\<lambda>s. s) t = (x, t')" for d t x t'
    using that(1) by (cases rule: write_json_cases[OF that(2)]) (simp_all add: same_files_def)
qed

lemma with_index_lock_ok:
  assumes "with_index_lock m s = (Inr a, s')"
  obtains s0 s1 where "same_files s s0" "so_index_lock s0" "m s0 = (Inr a, s1)" "s' = s1\<lparr>so_index_lock := False\<rparr>"
    "\<not> so_index_lock s"
proof -
  from assms obtain fl where l: "\<not> so_index_lock s"
    and m: "fst (m (s\<lparr>so_faults := fl, so_index_lock := True\<rparr>)) = Inr a"
      "s' = (snd (m (s\<lparr>so_faults := fl, so_index_lock := True\<rparr>)))\<lparr>so_index_lock := False\<rparr>"
    by (auto simp: with_index_lock_def result_simps case_prod_beta split: if_splits)
  let ?s0 = "s\<lparr>so_faults := fl, so_index_lock := True\<rparr>"
  have "m ?s0 = (Inr a, snd (m ?s0))" using m(1) by (simp add: prod_eq_iff)
  then show thesis using m(2) l by (intro that[of ?s0 "snd (m ?s0)"]) (simp_all add: same_files_def)
qed

lemma upsert_ok:
  assumes "upsert_patch_record rec s = (Inr u, s')"
  obtains ix where "load_index s = Inr ix" "load_index s' = Inr (filter (\<lambda>x. px_id x \<noteq> px_id rec) ix @ [rec])"
    "same_files (s\<lparr>so_index := Some (Stored (filter (\<lambda>x. px_id x \<noteq> px_id rec) ix @ [rec]))\<rparr>) s'"
proof -
  obtain s0 s1 where s: "same_files s s0"
      "st_bind (read_some load_index) (\<lambda>ix. write_index (filter (\<lambda>x. px_id x \<noteq> px_id rec) ix @ [rec])) s0 = (Inr u, s1)"
      "s' = s1\<lparr>so_index_lock := False\<rparr>"
    using assms unfolding upsert_patch_record_def by (rule with_index_lock_ok)
  then obtain ix fl where "load_index s0 = Inr ix"
      "s1 = s0\<lparr>so_faults := fl, so_index := Some (Stored (filter (\<lambda>x. px_id x \<noteq> px_id rec) ix @ [rec]))\<rparr>"
    by (auto simp: result_simps read_some_def write_index_def)
  then show thesis using s(1,3) by (intro that[of ix]) (auto simp: load_index_def same_files_def)
qed

section \<open>Saving a report\<close>

lemma clear_checkpoint_ok:
  assumes "clear_checkpoint i s = (Inr u, s')"
  shows "map_of (so_checkpoints s') (json_name i) = None"
    "same_files (s\<lparr>so_checkpoints := so_checkpoints s'\<rparr>) s'"
  using assms by (auto simp: clear_checkpoint_def result_simps same_files_def delete_conv' split: if_splits)

lemma save_patch_of_ok:
  assumes "save_patch_of r s = (Inr u, s')"
  shows "so_sessions s' = so_sessions s \<and> so_checkpoints s' = so_checkpoints s \<and>
    (case (rr_blocked r, rr_final_patch r) of
       (False, Some p) \<Rightarrow> load_patch (np_id p) s' = Inr p \<and>
         (\<exists>ix. load_index s' = Inr ix \<and> filter (\<lambda>x. px_id x = np_id p) ix = [record_from_report r p])
     | _ \<Rightarrow> so_patches s' = so_patches s \<and> so_index s' = so_index s)"
proof (cases "\<not> rr_blocked r \<and> rr_final_patch r \<noteq> None")
  case False
  then show ?thesis using assms by (auto simp: save_patch_of_def split: bool.splits option.splits)
next
  case True
  then obtain p where p: "\<not> rr_blocked r" "rr_final_patch r = Some p" by auto
  let ?n = "json_name (np_id p)" and ?rec = "record_from_report r p"
  obtain fl where u: "upsert_patch_record ?rec (s\<lparr>so_faults := fl, so_patches := AList.update ?n (Stored p) (so_patches s)\<rparr>) = (Inr u, s')"
    using assms p by (auto simp: save_patch_of_def result_simps)
  let ?s = "s\<lparr>so_faults := fl, so_patches := AList.update ?n (Stored p) (so_patches s)\<rparr>"
  obtain ix where ix: "load_index s' = Inr (filter (\<lambda>x. px_id x \<noteq> px_id ?rec) ix @ [?rec])"
      "same_files (?s\<lparr>so_index := Some (Stored (filter (\<lambda>x. px_id x \<noteq> px_id ?rec) ix @ [?rec]))\<rparr>) s'"
    using u by (rule upsert_ok)
  have id: "px_id ?rec = np_id p" by (simp add: record_from_report_def)
  have "filter (\<lambda>x. px_id x = np_id p) (filter (\<lambda>x. px_id x \<noteq> px_id ?rec) ix @ [?rec]) = [?rec]"
    using id by (simp add: filter_False)
  then show ?thesis using ix p by (auto simp: same_files_def load_patch_def read_json_def update_conv')
qed

text \<open>After a report is saved it reads back, its run has no checkpoint, and the patch of a run that was not
  blocked is stored and has exactly one record in the index; a blocked run leaves the patches alone.\<close>

theorem save_report_reads_back:
  assumes "save_report r s = (Inr (), s')"
  shows "load_report (task_id (rr_task r)) s' = Inr r \<and> map_of (so_checkpoints s') (json_name (task_id (rr_task r))) = None \<and>
    (case (rr_blocked r, rr_final_patch r) of
       (False, Some p) \<Rightarrow> load_patch (np_id p) s' = Inr p \<and>
         (\<exists>ix. load_index s' = Inr ix \<and> filter (\<lambda>x. px_id x = np_id p) ix = [record_from_report r p])
     | _ \<Rightarrow> so_patches s' = so_patches s \<and> so_index s' = so_index s)"
proof -
  let ?i = "task_id (rr_task r)"
  obtain u1 s1 s2 s3 where d: "ensure_dirs s = (Inr u1, s1)"
    and w: "write_json (json_name ?i) (put_session ?i r) s1 = (Inr (), s2)"
    and p: "save_patch_of r s2 = (Inr (), s3)" and c: "clear_checkpoint ?i s3 = (Inr (), s')"
    using assms by (auto simp: save_report_def st_bind_Inr)
  have s1: "same_files s s1" by (rule ensure_dirs_same[OF d])
  have s2: "load_report ?i s2 = Inr r" "so_patches s2 = so_patches s" "so_index s2 = so_index s"
    using w s1 by (auto simp: result_simps put_session_def load_report_def read_json_def update_conv' same_files_def)
  note s3 = save_patch_of_ok[OF p]
  note s4 = clear_checkpoint_ok[OF c]
  have eq: "so_sessions s' = so_sessions s3" "so_patches s' = so_patches s3" "so_index s' = so_index s3"
    using s4(2) by (simp_all add: same_files_def)
  then show ?thesis using s2 s3 s4(1)
    by (simp add: load_report_def load_patch_def load_index_def split: bool.splits option.splits)
qed

section \<open>The index\<close>

text \<open>The index, when it reads, names each patch once and only patches that are stored.\<close>

definition index_ok :: "store \<Rightarrow> bool" where
  "index_ok s = (\<forall>ix. so_index s = Some (Stored ix) \<longrightarrow> distinct (map px_id ix) \<and>
     (\<forall>x \<in> set ix. \<exists>p. map_of (so_patches s) (json_name (px_id x)) = Some (Stored p)))"

definition keeps_index :: "(store, store_error, 'a) step \<Rightarrow> bool" where
  "keeps_index m = (\<forall>s. index_ok s \<longrightarrow> index_ok (snd (m s)))"

lemma index_ok_cong:
  "so_index s' = so_index s \<Longrightarrow> so_patches s' = so_patches s \<Longrightarrow> index_ok s' = index_ok s"
  by (simp add: index_ok_def)

named_theorems index_intros

lemma keeps_index_bind [index_intros]:
  "keeps_index m \<Longrightarrow> (\<And>a. keeps_index (f a)) \<Longrightarrow> keeps_index (st_bind m f)"
  unfolding keeps_index_def st_bind_def by (auto split: prod.splits sum.splits)

lemma keeps_index_read [index_intros]: "keeps_index (read_some f)"
  by (simp add: keeps_index_def read_some_def)

lemma keeps_index_return [index_intros]: "keeps_index (\<lambda>s. (r, s))"
  by (simp add: keeps_index_def)

lemma keeps_index_write [index_intros]:
  assumes "\<And>s. index_ok s \<Longrightarrow> index_ok (f s)"
  shows "keeps_index (write_json what f)"
  unfolding keeps_index_def
proof (intro allI impI)
  fix s assume I: "index_ok s"
  have blind: "index_ok (s\<lparr>so_faults := fl\<rparr>)" for fl using I index_ok_cong[of "s\<lparr>so_faults := fl\<rparr>" s] by simp
  obtain r s' where w: "write_json what f s = (r, s')" by (cases "write_json what f s")
  then show "index_ok (snd (write_json what f s))"
    using assms blind I by (cases rule: write_json_cases[OF w]) auto
qed

lemma keeps_index_lock [index_intros]:
  assumes "keeps_index m"
  shows "keeps_index (with_index_lock m)"
proof -
  have set_lock: "index_ok (s\<lparr>so_index_lock := b\<rparr>) = index_ok s" for s b by (rule index_ok_cong) simp_all
  have inner: "keeps_index (\<lambda>s'. case m s' of (r, s'') \<Rightarrow> (r, s''\<lparr>so_index_lock := False\<rparr>))"
    using assms set_lock by (auto simp: keeps_index_def split: prod.splits)
  have "keeps_index (st_bind (write_json ''index.lock'' (\<lambda>s. s\<lparr>so_index_lock := True\<rparr>))
      (\<lambda>_ s'. case m s' of (r, s'') \<Rightarrow> (r, s''\<lparr>so_index_lock := False\<rparr>)))"
    by (intro keeps_index_bind keeps_index_write inner) (simp add: set_lock)
  then have locked: "keeps_index (\<lambda>s. if so_index_lock s then (Inl (StoreMsg ''timed out waiting for index.lock''), s)
       else st_bind (write_json ''index.lock'' (\<lambda>s. s\<lparr>so_index_lock := True\<rparr>))
              (\<lambda>_ s'. (case m s' of (r, s'') \<Rightarrow> (r, s''\<lparr>so_index_lock := False\<rparr>))) s)"
    by (simp add: keeps_index_def)
  show ?thesis unfolding with_index_lock_def by (intro keeps_index_bind keeps_index_write locked) simp
qed

lemma keeps_index_dirs [index_intros]: "keeps_index ensure_dirs"
proof -
  have "index_ok s'" if "index_ok s" "ensure_dirs s = (r, s')" for s r s'
    using that(1) ensure_dirs_same[OF that(2)] index_ok_cong[of s' s] by (simp add: same_files_def)
  then show ?thesis unfolding keeps_index_def by (metis surjective_pairing)
qed

lemma index_ok_sessions: "index_ok (s\<lparr>so_sessions := x\<rparr>) = index_ok s" "index_ok (s\<lparr>so_checkpoints := y\<rparr>) = index_ok s"
  by (rule index_ok_cong; simp)+

lemma keeps_index_session_applied [index_intros]: "keeps_index (set_session_applied i b)"
proof -
  have "keeps_index (st_bind (read_some (\<lambda>s. read_json (json_name i) (so_sessions s)))
             (\<lambda>r. write_json (json_name i) (put_session i (r\<lparr>rr_applied := b\<rparr>))))"
    by (intro index_intros) (simp add: put_session_def index_ok_sessions)
  then show ?thesis by (simp add: keeps_index_def set_session_applied_def)
qed

lemma keeps_index_clear [index_intros]: "keeps_index (clear_checkpoint i)"
proof -
  have "keeps_index (write_json (json_name i) (\<lambda>s. s\<lparr>so_checkpoints := AList.delete (json_name i) (so_checkpoints s)\<rparr>))"
    by (intro index_intros) (simp add: index_ok_sessions)
  then show ?thesis by (simp add: keeps_index_def clear_checkpoint_def)
qed

lemma mark_first_ids: "map px_id (mark_first i b ix) = map px_id ix"
  by (induction ix) auto

text \<open>Rewriting the index in place: the new one names the same patches, or one more that is stored.\<close>

lemma rewrite_index:
  assumes "index_ok s" "load_index s = Inr ix" "write_index ix' s = (r, s')" "distinct (map px_id ix')"
    "\<And>i. i \<in> px_id ` set ix' \<Longrightarrow> i \<in> px_id ` set ix \<or> (\<exists>p. map_of (so_patches s) (json_name i) = Some (Stored p))"
  shows "index_ok s'"
proof -
  have old: "\<exists>p. map_of (so_patches s) (json_name i) = Some (Stored p)" if "i \<in> px_id ` set ix" for i
    using that assms(1,2) by (auto simp: load_index_def index_ok_def split: option.splits stored.splits)
  show ?thesis
  proof (cases rule: write_json_cases[OF assms(3)[unfolded write_index_def]])
    case (1 fl)
    then show ?thesis using assms(1) index_ok_cong[of s' s] by simp
  next
    case (2 fl)
    then show ?thesis using assms(4,5) old by (auto simp: index_ok_def)
  qed
qed

lemma keeps_index_rewrite:
  assumes "\<And>s ix. index_ok s \<Longrightarrow> load_index s = Inr ix \<Longrightarrow> distinct (map px_id ix) \<Longrightarrow> distinct (map px_id (g ix)) \<and>
     (\<forall>i \<in> px_id ` set (g ix). i \<in> px_id ` set ix \<or> (\<exists>p. map_of (so_patches s) (json_name i) = Some (Stored p)))"
  shows "keeps_index (st_bind (read_some load_index) (\<lambda>ix. write_index (g ix)))"
  unfolding keeps_index_def
proof (intro allI impI)
  fix s assume I: "index_ok s"
  show "index_ok (snd (st_bind (read_some load_index) (\<lambda>ix. write_index (g ix)) s))"
  proof (cases "load_index s")
    case (Inl e)
    then show ?thesis using I by (simp add: st_bind_def read_some_def)
  next
    case (Inr ix)
    obtain r s' where w: "write_index (g ix) s = (r, s')" by (cases "write_index (g ix) s")
    have d: "distinct (map px_id ix)" using I Inr by (auto simp: load_index_def index_ok_def split: option.splits stored.splits)
    have "index_ok s'" by (rule rewrite_index[OF I Inr w]) (use assms[OF I Inr d] in auto)
    then show ?thesis using w Inr by (simp add: st_bind_def read_some_def)
  qed
qed

lemma keeps_index_set_applied: "keeps_index (set_patch_applied i b)"
proof -
  have go: "keeps_index (st_bind (read_some load_index) (\<lambda>ix.
       (case find (\<lambda>x. px_id x = i) ix of
          None \<Rightarrow> (\<lambda>s. (Inl (StoreMsg (''patch '' @ bq i @ '' is not indexed'')), s))
        | Some x \<Rightarrow> st_bind (write_index (mark_first i b ix)) (\<lambda>_. set_session_applied (px_session_id x) b))))"
    unfolding keeps_index_def
  proof (intro allI impI)
    fix s assume I: "index_ok s"
    let ?rest = "\<lambda>ix. case find (\<lambda>x. px_id x = i) ix of
          None \<Rightarrow> (\<lambda>s. (Inl (StoreMsg (''patch '' @ bq i @ '' is not indexed'')), s))
        | Some x \<Rightarrow> st_bind (write_index (mark_first i b ix)) (\<lambda>_. set_session_applied (px_session_id x) b)"
    show "index_ok (snd (st_bind (read_some load_index) ?rest s))"
    proof (cases "load_index s")
      case (Inl e)
      then show ?thesis using I by (simp add: st_bind_def read_some_def)
    next
      case (Inr ix)
      have d: "distinct (map px_id ix)" using I Inr by (auto simp: load_index_def index_ok_def split: option.splits stored.splits)
      have ids: "px_id ` set (mark_first i b ix) = px_id ` set ix" using mark_first_ids[of i b ix] by (metis set_map)
      obtain r s' where w: "write_index (mark_first i b ix) s = (r, s')" by (cases "write_index (mark_first i b ix) s")
      have I': "index_ok s'" by (rule rewrite_index[OF I Inr w]) (use d mark_first_ids ids in auto)
      have "index_ok (snd (set_session_applied j b s'))" for j
        using keeps_index_session_applied I' by (auto simp: keeps_index_def)
      then show ?thesis using Inr w I I' by (auto simp: st_bind_def read_some_def split: option.splits sum.splits)
    qed
  qed
  show ?thesis unfolding set_patch_applied_def by (rule keeps_index_lock[OF go])
qed

lemma keeps_index_upsert_with:
  assumes "index_ok s" "map_of (so_patches s) (json_name (px_id rec)) = Some (Stored p)" "upsert_patch_record rec s = (r, s')"
  shows "index_ok s'"
proof -
  let ?I = "\<lambda>s. index_ok s \<and> map_of (so_patches s) (json_name (px_id rec)) = Some (Stored p)"
  let ?g = "\<lambda>ix. filter (\<lambda>x. px_id x \<noteq> px_id rec) ix @ [rec]"
  have write_I: "?I s2" if "?I s1" "write_json what f s1 = (x, s2)" "\<And>s. ?I s \<Longrightarrow> ?I (f s)" for what f s1 s2 and x :: "store_error + unit"
  proof -
    have "?I (s1\<lparr>so_faults := fl\<rparr>)" for fl using that(1) index_ok_cong[of "s1\<lparr>so_faults := fl\<rparr>" s1] by simp
    then show ?thesis using that(3) by (cases rule: write_json_cases[OF that(2)]) auto
  qed
  have lock_I: "?I (s\<lparr>so_index_lock := b\<rparr>) = ?I s" for s b using index_ok_cong[of "s\<lparr>so_index_lock := b\<rparr>" s] by simp
  have body: "index_ok s2" if "?I s1" "st_bind (read_some load_index) (\<lambda>ix. write_index (?g ix)) s1 = (x, s2)" for s1 x s2
  proof (cases "load_index s1")
    case (Inl e)
    then show ?thesis using that by (simp add: st_bind_def read_some_def)
  next
    case (Inr ix)
    have d: "distinct (map px_id ix)" using that(1) Inr by (auto simp: load_index_def index_ok_def split: option.splits stored.splits)
    have "write_index (?g ix) s1 = (x, s2)" using that(2) Inr by (simp add: st_bind_def read_some_def)
    moreover have "distinct (map px_id (?g ix))" using d by (auto simp: distinct_map_filter)
    ultimately show ?thesis using rewrite_index[of s1 ix "?g ix" x s2] that(1) Inr by auto
  qed
  obtain r0 s0 where d: "write_json ''patches'' (\<lambda>s. s) s = (r0, s0)" by (cases "write_json ''patches'' (\<lambda>s. s) s")
  have I0: "?I s0" by (rule write_I[OF _ d]) (use assms in auto)
  show ?thesis
  proof (cases "isl r0 \<or> so_index_lock s0")
    case True
    then have "s' = s0" using assms(3) d
      by (auto simp: upsert_patch_record_def with_index_lock_def st_bind_def split: sum.splits)
    then show ?thesis using I0 by simp
  next
    case False
    obtain r1 s1 where l: "write_json ''index.lock'' (\<lambda>s. s\<lparr>so_index_lock := True\<rparr>) s0 = (r1, s1)"
      by (cases "write_json ''index.lock'' (\<lambda>s. s\<lparr>so_index_lock := True\<rparr>) s0")
    have I1: "?I s1" by (rule write_I[OF I0 l]) (use lock_I in auto)
    obtain r2 s2 where b: "st_bind (read_some load_index) (\<lambda>ix. write_index (?g ix)) s1 = (r2, s2)"
      by (cases "st_bind (read_some load_index) (\<lambda>ix. write_index (?g ix)) s1")
    have I2: "index_ok s2" by (rule body[OF I1 b])
    have "s' = s1 \<or> s' = s2\<lparr>so_index_lock := False\<rparr>"
      using assms(3) d l b False
      by (cases r0; cases r1) (auto simp: upsert_patch_record_def with_index_lock_def st_bind_def[of "write_json w f" for w f])
    then show ?thesis using I1 I2 index_ok_cong[of "s2\<lparr>so_index_lock := False\<rparr>" s2] by auto
  qed
qed

lemma keeps_index_save_patch: "keeps_index (save_patch_of r)"
proof (cases "\<not> rr_blocked r \<and> rr_final_patch r \<noteq> None")
  case False
  then show ?thesis by (auto simp: save_patch_of_def keeps_index_def split: bool.splits option.splits)
next
  case True
  then obtain p where p: "\<not> rr_blocked r" "rr_final_patch r = Some p" by auto
  let ?f = "\<lambda>s. s\<lparr>so_patches := AList.update (json_name (np_id p)) (Stored p) (so_patches s)\<rparr>"
  have f: "index_ok (?f s)" if "index_ok s" for s using that by (auto simp: index_ok_def update_conv')
  show ?thesis unfolding keeps_index_def
  proof (intro allI impI)
    fix s assume I: "index_ok s"
    obtain r1 s1 where w: "write_json (json_name (np_id p)) ?f s = (r1, s1)" by (cases "write_json (json_name (np_id p)) ?f s")
    have "index_ok (snd (write_json (json_name (np_id p)) ?f s))"
      using keeps_index_write[of ?f "json_name (np_id p)", OF f] I unfolding keeps_index_def by blast
    then have I1: "index_ok s1" using w by simp
    show "index_ok (snd (save_patch_of r s))"
    proof (cases r1)
      case (Inl e)
      then show ?thesis using w p I1 by (simp add: save_patch_of_def st_bind_def)
    next
      case (Inr u)
      then have "map_of (so_patches s1) (json_name (px_id (record_from_report r p))) = Some (Stored p)"
        using w by (auto simp: result_simps record_from_report_def update_conv')
      then have "index_ok (snd (upsert_patch_record (record_from_report r p) s1))"
        by (rule keeps_index_upsert_with[OF I1 _ surjective_pairing])
      then show ?thesis using w p Inr by (simp add: save_patch_of_def st_bind_def)
    qed
  qed
qed

text \<open>Whatever write fails, saving a report and marking a patch keep the index sound.\<close>

theorem index_stays_sound:
  assumes "index_ok s"
  shows "index_ok (snd (save_report r s)) \<and> index_ok (snd (set_patch_applied i b s))"
proof -
  have "index_ok (put_session i' r' s')" if "index_ok s'" for i' r' s'
    using that by (simp add: put_session_def index_ok_sessions)
  then have "keeps_index (save_report r)"
    unfolding save_report_def by (intro index_intros keeps_index_save_patch) auto
  then show ?thesis using assms keeps_index_set_applied by (simp add: keeps_index_def)
qed

section \<open>Plans and applying\<close>

theorem plan_reads_back:
  assumes "save_plan r s = (Inr n, s')"
  shows "load_plan (pn_task_id r) s' = Inr r"
  using assms by (auto simp: save_plan_def load_plan_def result_simps read_json_def update_conv' Let_def split: sum.splits)

lemma plan_id_no_separator:
  "load_plan i s = Inr r \<Longrightarrow> CHR ''/'' \<notin> set i \<and> CHR ''.'' \<notin> set i"
  by (auto simp: load_plan_def validate_store_id_def result_simps list_all_iff id_char_def split: if_splits)

lemma on_tree_Inr [result_simps]: "on_tree m w = (Inr a, w') \<longleftrightarrow> (\<exists>f. m (fst w) = (Inr a, f) \<and> w' = (f, snd w))"
  by (auto simp: on_tree_def split: prod.splits sum.splits)

lemma on_store_Inr [result_simps]: "on_store m w = (Inr a, w') \<longleftrightarrow> (\<exists>s. m (snd w) = (Inr a, s) \<and> w' = (fst w, s))"
  by (auto simp: on_store_def split: prod.splits)

lemma read_some_Inr [result_simps]: "read_some f s = (Inr a, s') \<longleftrightarrow> f s = Inr a \<and> s' = s"
  by (auto simp: read_some_def)

lemma apply_patch_ok:
  assumes "apply_patch digest i (f, s) = (Inr rep, f', s')"
  shows "\<exists>p. load_patch i s = Inr p \<and> nv_apply digest (so_cwd s) p False f = (Inr rep, f') \<and>
    set_patch_applied i True s = (Inr (), s')"
  using assms by (auto simp: apply_patch_def result_simps)

lemma rollback_patch_ok:
  assumes "rollback_patch digest i (f, s) = (Inr rep, f', s')"
  shows "\<exists>p. load_patch i s = Inr p \<and> nv_rollback digest (so_cwd s) p False f = (Inr rep, f') \<and>
    set_patch_applied i False s = (Inr (), s')"
  using assms by (auto simp: rollback_patch_def result_simps)

section \<open>What an error leaves behind\<close>

text \<open>A patch that is stored and not indexed, as after a save whose index write failed, is applied to the tree
  by an operation that then reports an error; so it is when a lock file was left behind.\<close>

lemma unindexed_patch_applied:
  assumes "load_patch i s = Inr p" "nv_apply digest (so_cwd s) p False f = (Inr rep, f')" "so_index s = None"
    "so_faults s = []" "\<not> so_index_lock s"
  shows "\<exists>e s'. apply_patch digest i (f, s) = (Inl e, f', s')"
proof -
  have "\<exists>e s'. set_patch_applied i True s = (Inl e, s')"
    using assms(3-5) by (simp add: set_patch_applied_def with_index_lock_def st_bind_def write_json_def read_some_def load_index_def)
  then show ?thesis using assms(1,2)
    by (auto simp: apply_patch_def st_bind_def on_store_def on_tree_def read_some_def)
qed

lemma stale_lock_after_apply:
  assumes "load_patch i s = Inr p" "nv_apply digest (so_cwd s) p False f = (Inr rep, f')" "so_index_lock s" "so_faults s = []"
  shows "apply_patch digest i (f, s) = (Inl (StoreMsg ''timed out waiting for index.lock''), f', s)"
  using assms
  by (simp add: apply_patch_def st_bind_def on_store_def on_tree_def read_some_def set_patch_applied_def with_index_lock_def write_json_def)

lemma stale_lock_stays: "so_index_lock s \<Longrightarrow> upsert_patch_record rec s = (r, s') \<Longrightarrow> (\<exists>e. r = Inl e) \<and> so_index_lock s'"
  by (auto simp: upsert_patch_record_def with_index_lock_def st_bind_def write_json_def split: list.splits if_splits)

end
