(* ===== verification/SessionFork.thy ===== *)
theory SessionFork
  imports NerveStore "HOL-Library.List_Lexorder"
begin

text \<open>
  Forks of sessions, \<^verbatim>\<open>crates/nerve-core/src/session_fork.rs\<close>: the payload files below
  \<^verbatim>\<open>.nerve/sessions\<close>, one directory per parent, and the flat index of all sessions. The lock says whether
  the advisory lock can be had within five seconds; every write may fail, as in the store. The fresh
  identifier and the time are arguments.
\<close>

section \<open>Data\<close>

record core_fork_config =
  fk_copy_patch_history :: bool
  fk_max_copied_rounds :: nat

definition fork_config_default :: core_fork_config where
  "fork_config_default = \<lparr>fk_copy_patch_history = True, fk_max_copied_rounds = 1024\<rparr>"

record fork_options =
  fo_from_round :: "u32 option"
  fo_name :: "string option"
  fo_from_patch_sha :: "string option"

datatype fork_error =
  ParentNotFound string
| InvalidRound u32
| Collision string
| InvalidName string
| ForkIo string
| ForkLockTimeout
| ForkSerde string

record session_node =
  sf_id :: string
  sf_name :: "string option"
  sf_parent_id :: "string option"
  sf_branched_at_round :: "u32 option"
  sf_branched_from_patch_sha :: "string option"
  sf_forked_at :: timestamp
  sf_children :: "string list"
  sf_rounds :: "round_record list"

definition session_root :: "timestamp \<Rightarrow> string \<Rightarrow> string option \<Rightarrow> session_node" where
  "session_root now i name =
     \<lparr>sf_id = i, sf_name = name, sf_parent_id = None, sf_branched_at_round = None, sf_branched_from_patch_sha = None,
      sf_forked_at = now, sf_children = [], sf_rounds = []\<rparr>"

record session_index_entry =
  xe_parent_id :: "string option"
  xe_name :: "string option"
  xe_forked_at :: timestamp

text \<open>A \<^verbatim>\<open>BTreeMap\<close>: entries in the order of their keys.\<close>

type_synonym session_index = "(string \<times> session_index_entry) list"

fun put_sorted :: "'k::linorder \<Rightarrow> 'v \<Rightarrow> ('k \<times> 'v) list \<Rightarrow> ('k \<times> 'v) list" where
  "put_sorted k v [] = [(k, v)]"
| "put_sorted k v ((k', v') # xs) =
     (if k = k' then (k, v) # xs else if k < k' then (k, v) # (k', v') # xs else (k', v') # put_sorted k v xs)"

lemma map_of_put_sorted: "map_of (put_sorted k v xs) = (map_of xs)(k \<mapsto> v)"
  by (induction k v xs rule: put_sorted.induct) auto

text \<open>Payloads by directory and identifier.\<close>

record fork_store =
  fs_index :: "session_index stored option"
  fs_payloads :: "((string \<times> string) \<times> session_node stored) list"
  fs_lock :: bool
  fs_faults :: "bool list"

definition fork_store_new :: fork_store where
  "fork_store_new = \<lparr>fs_index = None, fs_payloads = [], fs_lock = True, fs_faults = []\<rparr>"

section \<open>Files\<close>

definition fork_write :: "(fork_store \<Rightarrow> fork_store) \<Rightarrow> (fork_store, fork_error, unit) step" where
  "fork_write f s =
     (case fs_faults s of
        [] \<Rightarrow> (Inr (), f s)
      | failing # rest \<Rightarrow>
          if failing then (Inl (ForkIo ''write''), s\<lparr>fs_faults := rest\<rparr>) else (Inr (), f (s\<lparr>fs_faults := rest\<rparr>)))"

definition fork_read :: "(fork_store \<Rightarrow> fork_error + 'a) \<Rightarrow> (fork_store, fork_error, 'a) step" where
  "fork_read f s = (f s, s)"

definition with_sessions_lock :: "(fork_store, fork_error, 'a) step \<Rightarrow> (fork_store, fork_error, 'a) step" where
  "with_sessions_lock m s = (if fs_lock s then m s else (Inl ForkLockTimeout, s))"

definition load_session_index :: "fork_store \<Rightarrow> fork_error + session_index" where
  "load_session_index s =
     (case fs_index s of
        None \<Rightarrow> Inr [] | Some Unreadable \<Rightarrow> Inl (ForkSerde ''index.json'') | Some (Stored ix) \<Rightarrow> Inr ix)"

definition write_session_index :: "session_index \<Rightarrow> (fork_store, fork_error, unit) step" where
  "write_session_index ix = fork_write (\<lambda>s. s\<lparr>fs_index := Some (Stored ix)\<rparr>)"

definition read_payload :: "fork_store \<Rightarrow> string \<times> string \<Rightarrow> fork_error + session_node" where
  "read_payload s k =
     (case map_of (fs_payloads s) k of
        None \<Rightarrow> Inl (ForkIo (snd k)) | Some Unreadable \<Rightarrow> Inl (ForkSerde (snd k)) | Some (Stored t) \<Rightarrow> Inr t)"

definition load_session_payload :: "fork_store \<Rightarrow> string \<Rightarrow> fork_error + session_node" where
  "load_session_payload s i =
     (if map_of (fs_payloads s) (i, i) \<noteq> None then read_payload s (i, i)
      else res_bind (load_session_index s) (\<lambda>ix.
        (case map_of ix i of
           None \<Rightarrow> Inl (ParentNotFound i)
         | Some e \<Rightarrow> read_payload s (unwrap_or (xe_parent_id e) i, i))))"

definition write_session_payload :: "string \<Rightarrow> session_node \<Rightarrow> (fork_store, fork_error, unit) step" where
  "write_session_payload dir t =
     fork_write (\<lambda>s. s\<lparr>fs_payloads := AList.update (dir, sf_id t) (Stored t) (fs_payloads s)\<rparr>)"

section \<open>Operations\<close>

definition sanitize_name :: "string \<Rightarrow> fork_error + string" where
  "sanitize_name raw =
     (let t = trim_ws raw in
      if t = [] \<or> length t > 64 then Inl (InvalidName raw)
      else if \<not> list_all id_char t then Inl (InvalidName raw)
      else Inr t)"

definition persist_root :: "session_node \<Rightarrow> (fork_store, fork_error, unit) step" where
  "persist_root t =
     (case sf_parent_id t of
        Some p \<Rightarrow> (\<lambda>s. (Inl (InvalidName
          (''persist_root called with non-root tree (parent_id=Some('' @ quote @ p @ quote @ ''))'')), s))
      | None \<Rightarrow> with_sessions_lock (
        st_bind (write_session_payload (sf_id t) t) (\<lambda>_.
        st_bind (fork_read load_session_index) (\<lambda>ix.
        write_session_index (put_sorted (sf_id t)
          \<lparr>xe_parent_id = None, xe_name = sf_name t, xe_forked_at = sf_forked_at t\<rparr> ix)))))"

definition round_no :: "round_record \<Rightarrow> u32" where
  "round_no r = ucast (rd_round r)"

definition resolve_round :: "session_node \<Rightarrow> u32 option \<Rightarrow> fork_error + u32 option" where
  "resolve_round parent from_round =
     (case from_round of
        Some requested \<Rightarrow>
          if list_ex (\<lambda>r. round_no r = requested) (sf_rounds parent) then Inr (Some requested) else Inl (InvalidRound requested)
      | None \<Rightarrow> Inr (if sf_rounds parent = [] then None else Some (round_no (last (sf_rounds parent)))))"

definition resolve_patch_sha :: "session_node \<Rightarrow> u32 option \<Rightarrow> string option \<Rightarrow> string option" where
  "resolve_patch_sha parent round' given =
     (case given of
        Some sha \<Rightarrow> Some sha
      | None \<Rightarrow> Option.bind round' (\<lambda>n. Option.bind (find (\<lambda>r. round_no r = n) (sf_rounds parent)) rd_patch_sha))"

definition copied_rounds :: "core_fork_config \<Rightarrow> session_node \<Rightarrow> u32 option \<Rightarrow> round_record list" where
  "copied_rounds cfg parent round' =
     (case round' of
        Some n \<Rightarrow> if fk_copy_patch_history cfg
                  then take (fk_max_copied_rounds cfg) (takeWhile (\<lambda>r. round_no r \<le> n) (sf_rounds parent)) else []
      | None \<Rightarrow> [])"

text \<open>What a fork is made of, once its parent is known: the entry of the parent, its payload and the child.\<close>

definition plan_fork ::
  "core_fork_config \<Rightarrow> string \<Rightarrow> timestamp \<Rightarrow> string option \<Rightarrow> string \<Rightarrow> fork_options \<Rightarrow> fork_store \<Rightarrow>
   fork_error + (session_index \<times> session_index_entry \<times> session_node \<times> session_node)" where
  "plan_fork cfg child_id now name parent_id opts s =
     res_bind (load_session_index s) (\<lambda>ix.
     (case map_of ix parent_id of
        None \<Rightarrow> Inl (ParentNotFound parent_id)
      | Some entry' \<Rightarrow>
          res_bind (load_session_payload s parent_id) (\<lambda>parent.
          res_bind (resolve_round parent (fo_from_round opts)) (\<lambda>round'.
          if map_of ix child_id \<noteq> None \<or> map_of (fs_payloads s) (child_id, child_id) \<noteq> None
          then Inl (Collision child_id)
          else Inr (ix, entry', parent,
             \<lparr>sf_id = child_id, sf_name = name, sf_parent_id = Some parent_id, sf_branched_at_round = round',
              sf_branched_from_patch_sha = resolve_patch_sha parent round' (fo_from_patch_sha opts),
              sf_forked_at = now, sf_children = [], sf_rounds = copied_rounds cfg parent round'\<rparr>)))))"

definition commit_fork ::
  "string \<Rightarrow> session_index \<times> session_index_entry \<times> session_node \<times> session_node \<Rightarrow>
   (fork_store, fork_error, session_node) step" where
  "commit_fork parent_id plan =
     (case plan of (ix, entry', parent, child) \<Rightarrow>
        st_bind (write_session_payload parent_id child) (\<lambda>_.
        st_bind (write_session_payload (unwrap_or (xe_parent_id entry') parent_id)
            (parent\<lparr>sf_children := sf_children parent @ [sf_id child]\<rparr>)) (\<lambda>_.
        st_bind (write_session_index (put_sorted (sf_id child)
            \<lparr>xe_parent_id = Some parent_id, xe_name = sf_name child, xe_forked_at = sf_forked_at child\<rparr> ix)) (\<lambda>_ s.
        (Inr child, s)))))"

definition fork ::
  "core_fork_config \<Rightarrow> string \<Rightarrow> timestamp \<Rightarrow> string \<Rightarrow> fork_options \<Rightarrow> (fork_store, fork_error, session_node) step" where
  "fork cfg child_id now parent_id opts s =
     (case (case fo_name opts of Some raw \<Rightarrow> res_bind (sanitize_name raw) (\<lambda>t. Inr (Some t)) | None \<Rightarrow> Inr None) of
        Inl e \<Rightarrow> (Inl e, s)
      | Inr name \<Rightarrow>
          with_sessions_lock (st_bind (fork_read (plan_fork cfg child_id now name parent_id opts)) (commit_fork parent_id)) s)"

definition hydrate :: "fork_store \<Rightarrow> session_index \<Rightarrow> string \<Rightarrow> fork_error + session_node" where
  "hydrate s ix i =
     res_bind (load_session_payload s i) (\<lambda>t.
       Inr (t\<lparr>sf_children := fold (\<lambda>c cs. if c \<in> set cs then cs else cs @ [c])
          (sort (map fst (filter (\<lambda>(_, e). xe_parent_id e = Some i) ix))) (sf_children t)\<rparr>))"

definition list_root :: "fork_store \<Rightarrow> fork_error + session_node list" where
  "list_root s =
     res_bind (load_session_index s) (\<lambda>ix.
     res_bind (res_map (\<lambda>(i, _). hydrate s ix i) (filter (\<lambda>(_, e). xe_parent_id e = None) ix)) (\<lambda>ts.
       Inr (sort_key sf_forked_at ts)))"

definition session_tree_of :: "fork_store \<Rightarrow> string \<Rightarrow> fork_error + session_node" where
  "session_tree_of s i =
     res_bind (load_session_index s) (\<lambda>ix. if map_of ix i = None then Inl (ParentNotFound i) else hydrate s ix i)"

definition get_session :: "fork_store \<Rightarrow> string \<Rightarrow> fork_error + session_node option" where
  "get_session s i =
     res_bind (load_session_index s) (\<lambda>ix.
       if map_of ix i = None then Inr None else res_bind (load_session_payload s i) (\<lambda>t. Inr (Some t)))"

definition payload_path :: "string \<Rightarrow> string option \<Rightarrow> string \<times> string" where
  "payload_path i parent = (unwrap_or parent i, json_name i)"

text \<open>The store's directory of reports is the one the index lies in, and the index is no report.\<close>

definition sessions_with_index :: "fork_store \<Rightarrow> store \<Rightarrow> store" where
  "sessions_with_index f s =
     (case fs_index f of
        None \<Rightarrow> s | Some _ \<Rightarrow> s\<lparr>so_sessions := AList.update ''index.json'' Unreadable (so_sessions s)\<rparr>)"

end
