(* ===== verification/ForkProps.thy ===== *)
theory ForkProps
  imports SessionFork
begin

text \<open>
  Forks leave what is there alone: whatever happens, no stored session loses or changes a round, and the
  index never names a session without a payload. A fork that succeeds has made exactly one child, with a
  prefix of its parent's rounds. The last lemmas show where the code falls short of its comments.
\<close>

section \<open>Writes\<close>

text \<open>A step that keeps a property of the store, whether it succeeds or not.\<close>

definition keeps :: "(fork_store \<Rightarrow> bool) \<Rightarrow> (fork_store, fork_error, 'a) step \<Rightarrow> bool" where
  "keeps I m = (\<forall>s. I s \<longrightarrow> I (snd (m s)))"

named_theorems keep_intros

lemma keepsD: "keeps I m \<Longrightarrow> I s \<Longrightarrow> m s = (r, s') \<Longrightarrow> I s'"
  unfolding keeps_def by (metis snd_conv)

lemma keeps_bind [keep_intros]: "keeps I m \<Longrightarrow> (\<And>a. keeps I (f a)) \<Longrightarrow> keeps I (st_bind m f)"
  unfolding keeps_def st_bind_def by (auto split: prod.splits sum.splits)

lemma keeps_read [keep_intros]: "keeps I (fork_read f)"
  by (simp add: keeps_def fork_read_def)

lemma keeps_lock [keep_intros]: "keeps I m \<Longrightarrow> keeps I (with_sessions_lock m)"
  by (simp add: keeps_def with_sessions_lock_def)

text \<open>The properties here do not look at the faults to come.\<close>

definition fault_blind :: "(fork_store \<Rightarrow> bool) \<Rightarrow> bool" where
  "fault_blind I = (\<forall>s fs. I (s\<lparr>fs_faults := fs\<rparr>) = I s)"

lemma fork_write_cases:
  assumes "fork_write f s = (r, s')"
  obtains (failed) fs e where "s' = s\<lparr>fs_faults := fs\<rparr>" "r = Inl e" | (written) fs where "s' = f (s\<lparr>fs_faults := fs\<rparr>)" "r = Inr ()"
proof (cases "fs_faults s")
  case Nil
  have "s\<lparr>fs_faults := []\<rparr> = s" using Nil by (cases s) simp
  have e: "s\<lparr>fs_faults := []\<rparr> = s" using Nil by (cases s) simp
  show thesis using assms Nil by (intro written[of "[]"]) (simp_all add: fork_write_def e)
next
  case (Cons b rest)
  then show thesis using assms failed written by (cases b) (auto simp: fork_write_def)
qed

lemma keeps_write:
  assumes "fault_blind I" "\<And>s. I s \<Longrightarrow> I (f s)"
  shows "keeps I (fork_write f)"
  unfolding keeps_def
proof (intro allI impI)
  fix s assume I: "I s"
  obtain r s' where w: "fork_write f s = (r, s')" by (cases "fork_write f s")
  then show "I (snd (fork_write f s))"
    using assms I by (cases rule: fork_write_cases[OF w]) (auto simp: fault_blind_def)
qed

section \<open>The index and the payloads\<close>

text \<open>Every indexed session has a payload in its directory, under its own name.\<close>

definition indexed_ok :: "fork_store \<Rightarrow> bool" where
  "indexed_ok s =
     (\<forall>ix i e. fs_index s = Some (Stored ix) \<and> map_of ix i = Some e \<longrightarrow>
        (\<exists>t. map_of (fs_payloads s) (unwrap_or (xe_parent_id e) i, i) = Some (Stored t) \<and> sf_id t = i))"

lemma indexed_blind: "fault_blind indexed_ok"
  by (simp add: fault_blind_def indexed_ok_def)

lemma indexed_new: "indexed_ok fork_store_new"
  by (simp add: indexed_ok_def fork_store_new_def)

lemma indexed_payload [keep_intros]: "keeps indexed_ok (write_session_payload dir t)"
  unfolding write_session_payload_def
  by (rule keeps_write[OF indexed_blind]) (auto simp: indexed_ok_def update_conv')

text \<open>An entry added after its payload.\<close>

lemma indexed_index:
  assumes "indexed_ok s" "load_session_index s = Inr ix" "write_session_index (put_sorted i e ix) s = (r, s')"
    "map_of (fs_payloads s) (unwrap_or (xe_parent_id e) i, i) = Some (Stored t)" "sf_id t = i"
  shows "indexed_ok s'"
proof (cases rule: fork_write_cases[OF assms(3)[unfolded write_session_index_def]])
  case (1 fs e)
  then show ?thesis using assms(1) by (simp add: indexed_ok_def)
next
  case (2 fs)
  have old: "\<exists>t. map_of (fs_payloads s) (unwrap_or (xe_parent_id e') j, j) = Some (Stored t) \<and> sf_id t = j"
    if "map_of ix j = Some e'" for j e'
    using assms(1,2) that
    by (auto simp: load_session_index_def indexed_ok_def split: option.splits stored.splits)
  show ?thesis
    unfolding indexed_ok_def using 2 assms(4,5) old by (auto simp: map_of_put_sorted)
qed

lemma payload_written:
  assumes "write_session_payload dir t s = (Inr u, s')"
  shows "map_of (fs_payloads s') = (map_of (fs_payloads s))((dir, sf_id t) \<mapsto> Stored t)" "fs_index s' = fs_index s"
    "fs_lock s' = fs_lock s"
  using assms by (cases rule: fork_write_cases[OF assms[unfolded write_session_payload_def]]; simp add: update_conv')+

lemma index_written:
  assumes "write_session_index ix s = (Inr u, s')"
  shows "fs_index s' = Some (Stored ix)" "fs_payloads s' = fs_payloads s"
  using assms by (cases rule: fork_write_cases[OF assms[unfolded write_session_index_def]]; simp)+

lemma persist_root_indexed [keep_intros]: "keeps indexed_ok (persist_root t)"
proof (cases "sf_parent_id t")
  case (Some p)
  then show ?thesis by (simp add: persist_root_def keeps_def)
next
  case None
  let ?e = "\<lparr>xe_parent_id = None, xe_name = sf_name t, xe_forked_at = sf_forked_at t\<rparr>"
  have "keeps indexed_ok (st_bind (write_session_payload (sf_id t) t) (\<lambda>_.
      st_bind (fork_read load_session_index) (\<lambda>ix. write_session_index (put_sorted (sf_id t) ?e ix))))"
    unfolding keeps_def
  proof (intro allI impI)
    fix s assume I: "indexed_ok s"
    obtain r1 s1 where w: "write_session_payload (sf_id t) t s = (r1, s1)" by (cases "write_session_payload (sf_id t) t s")
    have I1: "indexed_ok s1" by (rule keepsD[OF indexed_payload I w])
    show "indexed_ok (snd (st_bind (write_session_payload (sf_id t) t) (\<lambda>_.
        st_bind (fork_read load_session_index) (\<lambda>ix. write_session_index (put_sorted (sf_id t) ?e ix))) s))"
    proof (cases "r1")
      case (Inl e)
      then show ?thesis using w I1 by (simp add: st_bind_def)
    next
      case (Inr u)
      have p: "map_of (fs_payloads s1) (sf_id t, sf_id t) = Some (Stored t)" using payload_written(1) w Inr by simp
      show ?thesis
      proof (cases "load_session_index s1")
        case (Inl e)
        then show ?thesis using w I1 \<open>r1 = Inr u\<close> by (simp add: st_bind_def fork_read_def)
      next
        case ix: (Inr ix)
        obtain r2 s2 where w2: "write_session_index (put_sorted (sf_id t) ?e ix) s1 = (r2, s2)"
          by (cases "write_session_index (put_sorted (sf_id t) ?e ix) s1")
        have "indexed_ok s2" by (rule indexed_index[OF I1 ix w2]) (use p in \<open>simp_all add: unwrap_or_def\<close>)
        then show ?thesis using w w2 \<open>r1 = Inr u\<close> ix by (simp add: st_bind_def fork_read_def)
      qed
    qed
  qed
  then show ?thesis using None by (simp add: persist_root_def keeps_lock)
qed

section \<open>A fork, step by step\<close>

abbreviation pays :: "fork_store \<Rightarrow> string \<times> string \<Rightarrow> session_node stored option" where
  "pays s \<equiv> map_of (fs_payloads s)"

definition grown :: "session_node \<Rightarrow> session_node \<Rightarrow> session_node" where
  "grown parent child = parent\<lparr>sf_children := sf_children parent @ [sf_id child]\<rparr>"

definition child_entry :: "string \<Rightarrow> session_node \<Rightarrow> session_index_entry" where
  "child_entry pid child = \<lparr>xe_parent_id = Some pid, xe_name = sf_name child, xe_forked_at = sf_forked_at child\<rparr>"

lemma commit_cases:
  assumes "commit_fork pid (ix, e, parent, child) s = (r, s')"
  obtains (untouched) x where "pays s' = pays s" "fs_index s' = fs_index s" "r = Inl x"
  | (child) x where "pays s' = (pays s)((pid, sf_id child) \<mapsto> Stored child)" "fs_index s' = fs_index s" "r = Inl x"
  | (parent) x where
      "pays s' = (pays s)((pid, sf_id child) \<mapsto> Stored child, (unwrap_or (xe_parent_id e) pid, sf_id parent) \<mapsto> Stored (grown parent child))"
      "fs_index s' = fs_index s" "r = Inl x"
  | (all)
      "pays s' = (pays s)((pid, sf_id child) \<mapsto> Stored child, (unwrap_or (xe_parent_id e) pid, sf_id parent) \<mapsto> Stored (grown parent child))"
      "fs_index s' = Some (Stored (put_sorted (sf_id child) (child_entry pid child) ix))" "r = Inr child"
proof -
  let ?w1 = "write_session_payload pid child"
  let ?w2 = "write_session_payload (unwrap_or (xe_parent_id e) pid) (grown parent child)"
  let ?w3 = "write_session_index (put_sorted (sf_id child) (child_entry pid child) ix)"
  have run: "st_bind ?w1 (\<lambda>_. st_bind ?w2 (\<lambda>_. st_bind ?w3 (\<lambda>_ s. (Inr child, s)))) s = (r, s')"
    using assms by (simp add: commit_fork_def grown_def child_entry_def)
  obtain r1 s1 where w1: "?w1 s = (r1, s1)" by (cases "?w1 s")
  note c1 = fork_write_cases[OF w1[unfolded write_session_payload_def]]
  show thesis
  proof (cases r1)
    case (Inl x)
    then have "s' = s1" "r = Inl x" using run w1 by (simp_all add: st_bind_def)
    moreover have "pays s1 = pays s" "fs_index s1 = fs_index s" using Inl by (cases rule: c1; simp)+
    ultimately show thesis by (intro untouched[of x]) simp_all
  next
    case (Inr u)
    note p1 = payload_written(1,2)[OF w1[unfolded Inr]]
    obtain r2 s2 where w2: "?w2 s1 = (r2, s2)" by (cases "?w2 s1")
    note c2 = fork_write_cases[OF w2[unfolded write_session_payload_def]]
    show thesis
    proof (cases r2)
      case (Inl x)
      then have "s' = s2" "r = Inl x" using run w1 w2 Inr by (simp_all add: st_bind_def)
      moreover have "pays s2 = pays s1" "fs_index s2 = fs_index s1" using Inl by (cases rule: c2; simp)+
      ultimately show thesis using p1 by (intro child[of x]) simp_all
    next
      case i2: (Inr u2)
      note p2 = payload_written(1,2)[OF w2[unfolded i2]]
      have id: "sf_id (grown parent child) = sf_id parent" by (simp add: grown_def)
      obtain r3 s3 where w3: "?w3 s2 = (r3, s3)" by (cases "?w3 s2")
      show thesis
      proof (cases r3)
        case (Inl x)
        then have "s' = s3" "r = Inl x" using run w1 w2 w3 Inr i2 by (simp_all add: st_bind_def)
        moreover have "pays s3 = pays s2" "fs_index s3 = fs_index s2"
          using Inl by (cases rule: fork_write_cases[OF w3[unfolded write_session_index_def]]; simp)+
        ultimately show thesis using p1 p2 id by (intro parent[of x]) simp_all
      next
        case i3: (Inr u3)
        then have "s' = s3" "r = Inr child" using run w1 w2 w3 Inr i2 by (simp_all add: st_bind_def)
        then show thesis using p1 p2 id index_written[OF w3[unfolded i3]] by (intro all) simp_all
      qed
    qed
  qed
qed

lemma fork_cases:
  assumes "fork cfg c now pid opts s = (r, s')"
  obtains (refused) x where "s' = s" "r = Inl x"
  | (planned) name ix e parent child where "plan_fork cfg c now name pid opts s = Inr (ix, e, parent, child)"
      "commit_fork pid (ix, e, parent, child) s = (r, s')"
proof -
  let ?name = "case fo_name opts of Some raw \<Rightarrow> res_bind (sanitize_name raw) (\<lambda>t. Inr (Some t)) | None \<Rightarrow> Inr None"
  show thesis
  proof (cases ?name)
    case (Inl x)
    then show thesis using assms by (intro refused[of x]) (simp_all add: fork_def)
  next
    case (Inr name)
    show thesis
    proof (cases "fs_lock s")
      case False
      then show thesis using assms Inr by (intro refused[of ForkLockTimeout]) (simp_all add: fork_def with_sessions_lock_def)
    next
      case True
      show thesis
      proof (cases "plan_fork cfg c now name pid opts s")
        case (Inl x)
        then show thesis using assms Inr True
          by (intro refused[of x]) (simp_all add: fork_def with_sessions_lock_def st_bind_def fork_read_def)
      next
        case p: (Inr plan)
        obtain ix e parent child where "plan = (ix, e, parent, child)" by (cases plan)
        then show thesis using assms Inr True p
          by (intro planned[of name ix e parent child]) (simp_all add: fork_def with_sessions_lock_def st_bind_def fork_read_def)
      qed
    qed
  qed
qed

lemma plan_fork_ok:
  assumes "plan_fork cfg c now name pid opts s = Inr (ix, e, parent, child)"
  shows "load_session_index s = Inr ix" "map_of ix pid = Some e" "load_session_payload s pid = Inr parent"
    "map_of ix c = None" "pays s (c, c) = None" "sf_id child = c" "sf_parent_id child = Some pid" "sf_children child = []"
    "resolve_round parent (fo_from_round opts) = Inr (sf_branched_at_round child)"
    "sf_rounds child = copied_rounds cfg parent (sf_branched_at_round child)"
  using assms by (auto simp: plan_fork_def result_simps split: option.splits if_splits)

section \<open>What forks keep\<close>

text \<open>Files are named after their sessions, and a session with a parent has no file in a directory of its own.\<close>

definition named_ok :: "fork_store \<Rightarrow> bool" where
  "named_ok s = (\<forall>d i t. pays s (d, i) = Some (Stored t) \<longrightarrow> sf_id t = i)"

definition buckets_ok :: "fork_store \<Rightarrow> bool" where
  "buckets_ok s = (\<forall>ix i e. fs_index s = Some (Stored ix) \<and> map_of ix i = Some e \<and> xe_parent_id e \<noteq> None \<longrightarrow> pays s (i, i) = None)"

definition rounds_kept :: "fork_store \<Rightarrow> fork_store \<Rightarrow> bool" where
  "rounds_kept s s' =
     (\<forall>k t. pays s k = Some (Stored t) \<longrightarrow>
        (\<exists>more. pays s' k = Some (Stored (t\<lparr>sf_children := sf_children t @ more\<rparr>))))"

lemma loaded_where:
  assumes "load_session_payload s pid = Inr parent" "load_session_index s = Inr ix" "map_of ix pid = Some e" "buckets_ok s"
  shows "pays s (unwrap_or (xe_parent_id e) pid, pid) = Some (Stored parent)"
proof -
  have own: "pays s (pid, pid) = None" if "xe_parent_id e \<noteq> None"
    using assms(2-4) that by (auto simp: buckets_ok_def load_session_index_def split: option.splits stored.splits)
  have stored: "read_payload s k = Inr parent \<Longrightarrow> pays s k = Some (Stored parent)" for k
    by (auto simp: read_payload_def split: option.splits stored.splits)
  show ?thesis
  proof (cases "pays s (pid, pid) = None")
    case True
    then have "read_payload s (unwrap_or (xe_parent_id e) pid, pid) = Inr parent"
      using assms(1-3) by (simp add: load_session_payload_def)
    then show ?thesis by (rule stored)
  next
    case False
    then have "read_payload s (pid, pid) = Inr parent" using assms(1) by (simp add: load_session_payload_def)
    moreover have "xe_parent_id e = None" using own False by blast
    ultimately show ?thesis using stored by (simp add: unwrap_or_def)
  qed
qed

text \<open>Whatever becomes of a fork - refused, broken off by a failing write after any step, or done - every
  session that was stored still is, with the same rounds; its children have at most grown.\<close>

theorem fork_keeps_rounds:
  assumes "fork cfg c now pid opts s = (r, s')" "named_ok s" "buckets_ok s" "pays s (pid, c) = None"
  shows "rounds_kept s s' \<and> named_ok s'"
  using assms(1)
proof (cases rule: fork_cases)
  case (refused x)
  have "\<exists>more. t = t\<lparr>sf_children := sf_children t @ more\<rparr>" for t :: session_node by (intro exI[of _ "[]"]) simp
  then show ?thesis using refused assms(2) by (simp add: rounds_kept_def)
next
  case (planned name ix e parent child)
  note plan = plan_fork_ok[OF planned(1)]
  let ?b = "(unwrap_or (xe_parent_id e) pid, pid)"
  have parent: "pays s ?b = Some (Stored parent)" by (rule loaded_where[OF plan(3,1,2) assms(3)])
  then have pid: "sf_id parent = pid" using assms(2) by (simp add: named_ok_def)
  have ne: "c \<noteq> pid" using plan(2,4) by auto
  have same: "\<exists>more. t = t\<lparr>sf_children := sf_children t @ more\<rparr>" for t :: session_node by (intro exI[of _ "[]"]) simp
  have kept: "rounds_kept s s1 \<and> named_ok s1"
    if "pays s1 = pays s \<or> pays s1 = (pays s)((pid, c) \<mapsto> Stored child) \<or>
        pays s1 = (pays s)((pid, c) \<mapsto> Stored child, ?b \<mapsto> Stored (grown parent child))" for s1
    using that
  proof (elim disjE)
    assume "pays s1 = pays s"
    then show ?thesis using assms(2) same by (simp add: rounds_kept_def named_ok_def)
  next
    assume p: "pays s1 = (pays s)((pid, c) \<mapsto> Stored child)"
    have "rounds_kept s s1" unfolding rounds_kept_def
    proof (intro allI impI)
      fix k t assume k: "pays s k = Some (Stored t)"
      then have "k \<noteq> (pid, c)" using assms(4) by auto
      then show "\<exists>more. pays s1 k = Some (Stored (t\<lparr>sf_children := sf_children t @ more\<rparr>))"
        using p k by (intro exI[of _ "[]"]) simp
    qed
    moreover have "named_ok s1" using p plan(6) assms(2) by (auto simp: named_ok_def)
    ultimately show ?thesis ..
  next
    assume p: "pays s1 = (pays s)((pid, c) \<mapsto> Stored child, ?b \<mapsto> Stored (grown parent child))"
    have "rounds_kept s s1" unfolding rounds_kept_def
    proof (intro allI impI)
      fix k t assume k: "pays s k = Some (Stored t)"
      then have kc: "k \<noteq> (pid, c)" using assms(4) by auto
      show "\<exists>more. pays s1 k = Some (Stored (t\<lparr>sf_children := sf_children t @ more\<rparr>))"
      proof (cases "k = ?b")
        case True
        then have "t = parent" using k parent by simp
        then show ?thesis using p True by (intro exI[of _ "[sf_id child]"]) (simp add: grown_def)
      next
        case False
        then show ?thesis using p k kc by (intro exI[of _ "[]"]) simp
      qed
    qed
    moreover have "named_ok s1" using p plan(6) assms(2) pid by (auto simp: named_ok_def grown_def)
    ultimately show ?thesis ..
  qed
  show ?thesis
    by (cases rule: commit_cases[OF planned(2)]) (rule kept; use plan(6) pid in simp)+
qed

text \<open>The index stays sound through every outcome too.\<close>

theorem fork_indexed:
  assumes "fork cfg c now pid opts s = (r, s')" "indexed_ok s"
  shows "indexed_ok s'"
  using assms(1)
proof (cases rule: fork_cases)
  case (refused x)
  then show ?thesis using assms(2) by simp
next
  case (planned name ix e parent child)
  note plan = plan_fork_ok[OF planned(1)]
  have old: "\<exists>t. pays s (unwrap_or (xe_parent_id e') j, j) = Some (Stored t) \<and> sf_id t = j" if "map_of ix j = Some e'" for j e'
    using assms(2) plan(1) that by (auto simp: load_session_index_def indexed_ok_def split: option.splits stored.splits)
  show ?thesis
  proof (cases rule: commit_cases[OF planned(2)])
    case (1 x)
    then show ?thesis using assms(2) by (simp add: indexed_ok_def)
  next
    case (2 x)
    then show ?thesis using assms(2) by (auto simp: indexed_ok_def)
  next
    case (3 x)
    then show ?thesis using assms(2) by (auto simp: indexed_ok_def grown_def)
  next
    case 4
    then show ?thesis
      using old plan(6) by (auto simp: indexed_ok_def map_of_put_sorted child_entry_def grown_def unwrap_or_def)
  qed
qed

section \<open>What a fork makes\<close>

lemma copied_rounds_prefix:
  "\<exists>rest. sf_rounds parent = copied_rounds cfg parent b @ rest"
proof (cases b)
  case None
  then show ?thesis by (simp add: copied_rounds_def)
next
  case (Some n)
  let ?t = "takeWhile (\<lambda>r. round_no r \<le> n) (sf_rounds parent)"
  have "sf_rounds parent = take (fk_max_copied_rounds cfg) ?t @ (drop (fk_max_copied_rounds cfg) ?t @ dropWhile (\<lambda>r. round_no r \<le> n) (sf_rounds parent))"
    by (metis append.assoc append_take_drop_id takeWhile_dropWhile_id)
  then show ?thesis using Some by (auto simp: copied_rounds_def)
qed

lemma copied_rounds_bound:
  "length (copied_rounds cfg parent b) \<le> fk_max_copied_rounds cfg"
  "r \<in> set (copied_rounds cfg parent (Some n)) \<Longrightarrow> round_no r \<le> n"
  by (auto simp: copied_rounds_def split: option.splits if_splits dest!: in_set_takeD set_takeWhileD)

text \<open>After a fork the child reads back as it was returned; its rounds are the first of its parent, up to the
  branch point and the limit; and the parent's children end with it.\<close>

theorem fork_makes_child:
  assumes "fork cfg c now pid opts s = (Inr child, s')" "named_ok s" "buckets_ok s"
  shows "get_session s' c = Inr (Some child) \<and> sf_id child = c \<and> sf_parent_id child = Some pid \<and>
    (\<exists>parent rest. load_session_payload s pid = Inr parent \<and> sf_rounds parent = sf_rounds child @ rest \<and>
       load_session_payload s' pid = Inr (grown parent child)) \<and>
    length (sf_rounds child) \<le> fk_max_copied_rounds cfg"
  using assms(1)
proof (cases rule: fork_cases)
  case (planned name ix e parent child')
  note plan = plan_fork_ok[OF planned(1)]
  let ?b = "(unwrap_or (xe_parent_id e) pid, pid)"
  have at: "pays s ?b = Some (Stored parent)" by (rule loaded_where[OF plan(3,1,2) assms(3)])
  then have pid: "sf_id parent = pid" using assms(2) by (simp add: named_ok_def)
  have ne: "c \<noteq> pid" using plan(2,4) by auto
  show ?thesis
  proof (cases rule: commit_cases[OF planned(2)])
    case 4
    have ch: "child' = child" using 4(3) by simp
    have ix': "load_session_index s' = Inr (put_sorted c (child_entry pid child) ix)"
      using 4(2) plan(6) ch by (simp add: load_session_index_def)
    have p': "pays s' = (pays s)((pid, c) \<mapsto> Stored child, ?b \<mapsto> Stored (grown parent child))"
      using 4(1) plan(6) ch pid by simp
    have own: "pays s (pid, pid) = None" if "xe_parent_id e \<noteq> None"
      using assms(3) plan(1,2) that by (auto simp: buckets_ok_def load_session_index_def split: option.splits stored.splits)
    have "pays s' (c, c) = None" using p' ne plan(5) by simp
    moreover have "read_payload s' (pid, c) = Inr child" using p' ne by (simp add: read_payload_def)
    ultimately have "load_session_payload s' c = Inr child"
      using ix' by (simp add: load_session_payload_def map_of_put_sorted child_entry_def unwrap_or_def)
    moreover have "load_session_payload s' pid = Inr (grown parent child)"
    proof (cases "xe_parent_id e")
      case None
      then show ?thesis using p' by (simp add: load_session_payload_def read_payload_def unwrap_or_def)
    next
      case (Some q)
      then have "pays s (pid, pid) = None" using own by simp
      then show ?thesis using p' ix' Some ne plan(2) at
        by (auto simp: load_session_payload_def read_payload_def unwrap_or_def map_of_put_sorted)
    qed
    ultimately show ?thesis
      using ix' plan(3,6,7) ch copied_rounds_prefix[of parent cfg "sf_branched_at_round child"] plan(10)
        copied_rounds_bound(1)[of cfg parent "sf_branched_at_round child"]
      by (auto simp: get_session_def map_of_put_sorted)
  qed simp_all
qed simp

section \<open>Where the code falls short\<close>

text \<open>The limit keeps the oldest rounds: the child of a long session lacks the round it branched at.\<close>

lemma branch_round_dropped:
  assumes "sf_rounds parent = [r0, r1]" "round_no r0 < round_no r1" "fk_max_copied_rounds cfg = 1"
  shows "r1 \<notin> set (copied_rounds cfg parent (Some (round_no r1)))"
  using assms by (auto simp: copied_rounds_def)

text \<open>As soon as there is an index, the store cannot list its sessions any more: the index lies among the
  reports and does not read as one.\<close>

lemma res_map_each: "res_map f xs = Inr ys \<Longrightarrow> x \<in> set xs \<Longrightarrow> \<exists>y. f x = Inr y"
  by (induction xs arbitrary: ys) (auto simp: result_simps)

lemma fork_hides_sessions:
  assumes "fs_index f \<noteq> None"
  shows "\<exists>e. list_sessions (sessions_with_index f s) = Inl e"
proof (cases "list_sessions (sessions_with_index f s)")
  case (Inr sums)
  let ?entries = "filter (\<lambda>(n, _). is_json n) (so_sessions (sessions_with_index f s))"
  obtain ix where "fs_index f = Some ix" using assms by auto
  then have "map_of (so_sessions (sessions_with_index f s)) ''index.json'' = Some Unreadable"
    by (simp add: sessions_with_index_def update_conv')
  moreover have "is_json ''index.json''" by code_simp
  ultimately have bad: "(''index.json'', Unreadable) \<in> set ?entries" by (auto dest: map_of_SomeD)
  let ?f = "\<lambda>e. res_bind (read_stored e) (\<lambda>r.
       res_bind (load_session_metadata (task_id (rr_task r)) (sessions_with_index f s)) (\<lambda>m. Inr (summary_from_report r m)))"
  obtain ys where "res_map ?f ?entries = Inr ys" using Inr by (auto simp: list_sessions_def result_simps)
  then have "\<exists>y. ?f (''index.json'', Unreadable) = Inr y"
    by (rule res_map_each[OF _ bad])
  then show ?thesis by (simp add: read_stored_def)
qed simp

text \<open>A store with one root, and one that also holds the payload of a child that was never indexed.\<close>

definition demo_fork_root :: session_node where
  "demo_fork_root = session_root 5 ''r'' None"

definition demo_fork_child :: "string \<Rightarrow> session_node" where
  "demo_fork_child c =
     \<lparr>sf_id = c, sf_name = None, sf_parent_id = Some ''r'', sf_branched_at_round = None,
      sf_branched_from_patch_sha = None, sf_forked_at = 7, sf_children = [], sf_rounds = []\<rparr>"

definition demo_fork_opts :: fork_options where
  "demo_fork_opts = \<lparr>fo_from_round = None, fo_name = None, fo_from_patch_sha = None\<rparr>"

definition demo_fork_store :: "bool list \<Rightarrow> fork_store" where
  "demo_fork_store fl =
     \<lparr>fs_index = Some (Stored [(''r'', \<lparr>xe_parent_id = None, xe_name = None, xe_forked_at = 5\<rparr>)]),
      fs_payloads = [((''r'', ''r''), Stored demo_fork_root)], fs_lock = True, fs_faults = fl\<rparr>"

lemmas demo_fork_defs =
  demo_fork_store_def demo_fork_root_def demo_fork_opts_def demo_fork_child_def session_root_def

lemmas fork_run_defs =
  fork_def with_sessions_lock_def plan_fork_def commit_fork_def st_bind_def fork_read_def load_session_index_def
  load_session_payload_def read_payload_def resolve_round_def resolve_patch_sha_def copied_rounds_def unwrap_or_def
  write_session_payload_def write_session_index_def fork_write_def

lemma demo_fork_runs:
  "fst (fork fork_config_default ''c'' 7 ''r'' demo_fork_opts (demo_fork_store [])) = Inr (demo_fork_child ''c'')"
  by (simp add: fork_run_defs demo_fork_defs fork_config_default_def)

theorem fork_makes_child_witness:
  "\<exists>child s'. fork fork_config_default ''c'' 7 ''r'' demo_fork_opts (demo_fork_store []) = (Inr child, s') \<and>
     get_session s' ''c'' = Inr (Some child) \<and> sf_parent_id child = Some ''r''"
proof -
  have ok: "named_ok (demo_fork_store [])" "buckets_ok (demo_fork_store [])"
    by (auto simp: named_ok_def buckets_ok_def demo_fork_defs split: if_splits)
  obtain s' where "fork fork_config_default ''c'' 7 ''r'' demo_fork_opts (demo_fork_store []) = (Inr (demo_fork_child ''c''), s')"
    using demo_fork_runs by (metis surjective_pairing)
  from fork_makes_child[OF this ok] this show ?thesis by blast
qed

text \<open>A fork whose last write fails leaves a child that its parent lists and that cannot be had.\<close>

lemma interrupted_fork_dangles:
  "\<exists>e s'. fork fork_config_default ''c'' 7 ''r'' demo_fork_opts (demo_fork_store [False, False, True]) = (Inl e, s') \<and>
     get_session s' ''c'' = Inr None \<and>
     (\<exists>t. session_tree_of s' ''r'' = Inr t \<and> sf_children t = [''c''])"
  by (simp add: fork_run_defs demo_fork_defs fork_config_default_def get_session_def session_tree_of_def hydrate_def)

text \<open>The collision check looks for a payload in the child's own directory, where no child is kept: a payload
  of the same name in the parent's directory is overwritten.\<close>

lemma collision_overwrites:
  "\<exists>child s'. fork fork_config_default ''c'' 7 ''r'' demo_fork_opts
       ((demo_fork_store [])\<lparr>fs_payloads := [((''r'', ''r''), Stored demo_fork_root),
          ((''r'', ''c''), Stored ((demo_fork_child ''c'')\<lparr>sf_children := [''old'']\<rparr>))]\<rparr>) = (Inr child, s') \<and>
     pays s' (''r'', ''c'') = Some (Stored child) \<and> sf_children child = []"
  by (simp add: fork_run_defs demo_fork_defs fork_config_default_def update_conv')

end
