(* ===== verification/RpcBus.thy ===== *)
theory RpcBus
  imports PatchProps GoalProps "HOL-Library.AList"
begin

text \<open>
  The event bus of the daemon and its bearer token, \<^verbatim>\<open>crates/nerve-core/src/rpc.rs\<close> as built on Unix.

  The token lives in a file. The files are a list of paths with their text and their permission bits; any
  system call may fail, after a failed write part of the text is there, and the bytes of the random source
  are a sequence of which a part is used up. Directories are not modelled: making one is a call that may
  fail. The broadcast channel is the list of what was sent: a receiver reads what comes after its subscription.
\<close>

section \<open>Files with modes\<close>

record tok_file =
  tf_text :: string
  tf_mode :: nat

record tok_dir =
  td_files :: "(string \<times> tok_file) list"
  td_faults :: "fault list"
  td_umask :: "nat \<Rightarrow> nat"
  td_random :: "nat \<Rightarrow> char"
  td_random_pos :: nat

text \<open>A system call; a partial fault gives how much of a write was done.\<close>

definition tok_call ::
  "(tok_dir \<Rightarrow> (io_kind + 'a) \<times> tok_dir) \<Rightarrow> (nat \<Rightarrow> tok_dir \<Rightarrow> tok_dir) \<Rightarrow> (tok_dir, io_kind, 'a) step" where
  "tok_call f broken s =
     (let s' = s\<lparr>td_faults := tl (td_faults s)\<rparr> in
      case td_faults s of
        Refused # _ \<Rightarrow> (Inl OtherIo, s') | Partial k # _ \<Rightarrow> (Inl OtherIo, broken k s') | _ \<Rightarrow> f s')"

definition put_file :: "string \<Rightarrow> string \<Rightarrow> nat \<Rightarrow> tok_dir \<Rightarrow> tok_dir" where
  "put_file p t md s = s\<lparr>td_files := AList.update p \<lparr>tf_text = t, tf_mode = md\<rparr> (td_files s)\<rparr>"

definition mode_of :: "tok_dir \<Rightarrow> string \<Rightarrow> nat \<Rightarrow> nat" where
  "mode_of s p fresh = (case map_of (td_files s) p of Some f \<Rightarrow> tf_mode f | None \<Rightarrow> td_umask s fresh)"

definition make_dirs :: "(tok_dir, io_kind, unit) step" where
  "make_dirs = tok_call (\<lambda>s. (Inr (), s)) (\<lambda>_ s. s)"

definition read_token_file :: "string \<Rightarrow> (tok_dir, io_kind, string) step" where
  "read_token_file p =
     tok_call (\<lambda>s. (case map_of (td_files s) p of
                      None \<Rightarrow> Inl NotFound
                    | Some f \<Rightarrow> if valid_utf8 (tf_text f) then Inr (tf_text f) else Inl InvalidData, s)) (\<lambda>_ s. s)"

text \<open>\<^verbatim>\<open>open\<close> with create, truncate and a mode: the mode is used for a new file only.\<close>

definition open_truncated :: "string \<Rightarrow> nat \<Rightarrow> (tok_dir, io_kind, unit) step" where
  "open_truncated p md = tok_call (\<lambda>s. (Inr (), put_file p [] (mode_of s p md) s)) (\<lambda>_ s. s)"

definition write_text :: "string \<Rightarrow> string \<Rightarrow> (tok_dir, io_kind, unit) step" where
  "write_text p t =
     tok_call (\<lambda>s. (Inr (), put_file p t (mode_of s p 0) s)) (\<lambda>k s. put_file p (take k t) (mode_of s p 0) s)"

definition sync_file :: "(tok_dir, io_kind, unit) step" where
  "sync_file = tok_call (\<lambda>s. (Inr (), s)) (\<lambda>_ s. s)"

definition chmod :: "string \<Rightarrow> nat \<Rightarrow> (tok_dir, io_kind, unit) step" where
  "chmod p md =
     tok_call (\<lambda>s. case map_of (td_files s) p of
                     None \<Rightarrow> (Inl NotFound, s) | Some f \<Rightarrow> (Inr (), put_file p (tf_text f) md s)) (\<lambda>_ s. s)"

definition move_file :: "string \<Rightarrow> string \<Rightarrow> (tok_dir, io_kind, unit) step" where
  "move_file a b =
     tok_call (\<lambda>s. case map_of (td_files s) a of
                     None \<Rightarrow> (Inl NotFound, s)
                   | Some f \<Rightarrow> (Inr (), s\<lparr>td_files := AList.update b f (AList.delete a (td_files s))\<rparr>)) (\<lambda>_ s. s)"

definition remove_token_file :: "string \<Rightarrow> (tok_dir, io_kind, unit) step" where
  "remove_token_file p =
     tok_call (\<lambda>s. if map_of (td_files s) p = None then (Inl NotFound, s)
                   else (Inr (), s\<lparr>td_files := AList.delete p (td_files s)\<rparr>)) (\<lambda>_ s. s)"

section \<open>The token\<close>

datatype rpc_error =
  TokenIo io_kind
| InvalidConfig config_error
| NoTokenBytes
| ChannelPanic

text \<open>A step on the token files within the errors of the bus.\<close>

definition tok_io :: "(tok_dir, io_kind, 'a) step \<Rightarrow> (tok_dir, rpc_error, 'a) step" where
  "tok_io = st_map_err TokenIo"

definition resolve_token_path :: "rpc_config \<Rightarrow> loc \<Rightarrow> string" where
  "resolve_token_path cfg ws =
     (if starts_with ''/'' (rpc_token_path cfg) then rpc_token_path cfg
      else path_join (show_loc ws) (rpc_token_path cfg))"

definition ensure_parent_dir :: "string \<Rightarrow> (tok_dir, rpc_error, unit) step" where
  "ensure_parent_dir p = (if p = ''/'' then (\<lambda>s. (Inr (), s)) else tok_io make_dirs)"

definition hex_encode :: "string \<Rightarrow> string" where
  "hex_encode bs = concat (map hex_byte bs)"

definition generate_token_hex :: "nat \<Rightarrow> (tok_dir, rpc_error, string) step" where
  "generate_token_hex n s =
     (if n = 0 then (Inl NoTokenBytes, s)
      else (Inr (hex_encode (map (td_random s) [td_random_pos s..<td_random_pos s + n])),
            s\<lparr>td_random_pos := td_random_pos s + n\<rparr>))"

definition staging_path :: "string \<Rightarrow> string" where
  "staging_path p = p @ ''.tmp''"

definition owner_rw :: nat where
  "owner_rw = 384"

definition atomic_write_token :: "string \<Rightarrow> string \<Rightarrow> (tok_dir, rpc_error, unit) step" where
  "atomic_write_token p token =
     (let tmp = staging_path p in
      tok_io (st_bind (open_truncated tmp owner_rw) (\<lambda>_.
              st_bind (write_text tmp token) (\<lambda>_.
              st_bind sync_file (\<lambda>_.
              st_bind (chmod tmp owner_rw) (\<lambda>_.
              move_file tmp p))))))"

text \<open>On Unix a token found on disk is always reused.\<close>

definition existing_token_is_trusted :: "string \<Rightarrow> bool" where
  "existing_token_is_trusted p = True"

definition fresh_token :: "string \<Rightarrow> nat \<Rightarrow> (tok_dir, rpc_error, string) step" where
  "fresh_token p n =
     st_bind (generate_token_hex n) (\<lambda>token. st_bind (atomic_write_token p token) (\<lambda>_ s. (Inr token, s)))"

definition read_or_create_token :: "string \<Rightarrow> nat \<Rightarrow> (tok_dir, rpc_error, string) step" where
  "read_or_create_token p n s =
     (case read_token_file p s of
        (Inr existing, s') \<Rightarrow>
          if trim_ws existing = [] \<or> \<not> existing_token_is_trusted p then fresh_token p n s'
          else (Inr (trim_ws existing), s')
      | (Inl NotFound, s') \<Rightarrow> fresh_token p n s'
      | (Inl e, s') \<Rightarrow> (Inl (TokenIo e), s'))"

section \<open>The bus\<close>

record rpc_bus =
  rb_config :: rpc_config
  rb_token_path :: string
  rb_bearer_token :: string
  rb_sent :: "rpc_envelope list"
  rb_dropped :: u64

text \<open>\<^verbatim>\<open>broadcast::channel\<close> panics above half of the range of \<^verbatim>\<open>usize\<close>.\<close>

definition channel_limit :: nat where
  "channel_limit = 2 ^ 63 - 1"

definition bus_new :: "rpc_config \<Rightarrow> loc \<Rightarrow> (tok_dir, rpc_error, rpc_bus) step" where
  "bus_new cfg ws s =
     (case rpc_validate cfg of
        Inl e \<Rightarrow> (Inl (InvalidConfig e), s)
      | Inr _ \<Rightarrow>
          (let p = resolve_token_path cfg ws in
           st_bind (ensure_parent_dir p) (\<lambda>_.
           st_bind (read_or_create_token p (rpc_token_size_bytes cfg)) (\<lambda>token s'.
             if rpc_per_consumer_queue cfg > channel_limit then (Inl ChannelPanic, s')
             else (Inr \<lparr>rb_config = cfg, rb_token_path = p, rb_bearer_token = token, rb_sent = [], rb_dropped = 0\<rparr>,
                   s'))) s))"

definition envelope_fresh :: "string \<Rightarrow> timestamp \<Rightarrow> string \<Rightarrow> json \<Rightarrow> rpc_envelope" where
  "envelope_fresh ulid now kind payload =
     (envelope_new kind payload)\<lparr>re_envelope_id := Some ulid, re_emitted_at := Some now\<rparr>"

definition preview_bytes :: "string \<Rightarrow> nat \<Rightarrow> nat \<Rightarrow> string" where
  "preview_bytes buf start n = from_utf8_lossy (take (min (start + n) (length buf) - start) (drop start buf))"

definition preview_len :: nat where
  "preview_len = 256"

definition enforce_payload_cap :: "(json \<Rightarrow> string) \<Rightarrow> nat \<Rightarrow> json \<Rightarrow> json" where
  "enforce_payload_cap encode cap payload =
     (let encoded = encode payload in
      if cap = 0 \<or> length encoded \<le> cap then payload
      else JObj [(''head'', JStr (preview_bytes encoded 0 preview_len)),
                 (''original_size'', JNum (show_nat (length encoded))),
                 (''tail'', JStr (preview_bytes encoded (length encoded - preview_len) preview_len)),
                 (''truncated'', JBool True)])"

definition payload_cap_bytes :: "rpc_config \<Rightarrow> nat" where
  "payload_cap_bytes cfg = min (rpc_payload_cap_kib cfg * 1024) (2 ^ 64 - 1)"

definition bus_emit :: "(json \<Rightarrow> string) \<Rightarrow> string \<Rightarrow> timestamp \<Rightarrow> string \<Rightarrow> json \<Rightarrow> rpc_bus \<Rightarrow> u64 \<times> rpc_bus" where
  "bus_emit encode ulid now kind payload b =
     (rb_dropped b,
      b\<lparr>rb_sent := rb_sent b @
          [envelope_fresh ulid now kind (enforce_payload_cap encode (payload_cap_bytes (rb_config b)) payload)]\<rparr>)"

definition note_lag :: "u64 \<Rightarrow> rpc_bus \<Rightarrow> rpc_bus" where
  "note_lag n b = b\<lparr>rb_dropped := rb_dropped b + n\<rparr>"

definition rotate_token :: "loc \<Rightarrow> rpc_bus \<Rightarrow> tok_dir \<Rightarrow> (rpc_error + string) \<times> rpc_bus \<times> tok_dir" where
  "rotate_token ws b s =
     (let p = resolve_token_path (rb_config b) ws in
      case st_bind (ensure_parent_dir p) (\<lambda>_. fresh_token p (rpc_token_size_bytes (rb_config b))) s of
        (Inl e, s') \<Rightarrow> (Inl e, b, s')
      | (Inr token, s') \<Rightarrow> (Inr token, b\<lparr>rb_bearer_token := token\<rparr>, s'))"

definition bus_shutdown :: "rpc_bus \<Rightarrow> (tok_dir, rpc_error, unit) step" where
  "bus_shutdown b s =
     (case remove_token_file (rb_token_path b) s of
        (Inr _, s') \<Rightarrow> (Inr (), s')
      | (Inl NotFound, s') \<Rightarrow> (Inr (), s')
      | (Inl e, s') \<Rightarrow> (Inl (TokenIo e), s'))"

end
