(* ===== verification/RpcProps.thy ===== *)
theory RpcProps
  imports RpcBus PlanProps
begin

text \<open>
  What the bearer token on disk satisfies: a write is all or nothing under every fault, a token survives a
  restart of the daemon, and the three ways in which it is weaker than its documentation.
\<close>

section \<open>Calls\<close>

lemma tok_call_cases:
  obtains "tok_call f broken s = f (s\<lparr>td_faults := tl (td_faults s)\<rparr>)"
  | k where "tok_call f broken s = (Inl OtherIo, s\<lparr>td_faults := tl (td_faults s)\<rparr>) \<or>
             tok_call f broken s = (Inl OtherIo, broken k (s\<lparr>td_faults := tl (td_faults s)\<rparr>))"
  by (cases "td_faults s"; cases "hd (td_faults s)") (auto simp: tok_call_def Let_def)

lemmas token_calls =
  open_truncated_def write_text_def sync_file_def chmod_def move_file_def read_token_file_def
  remove_token_file_def make_dirs_def

text \<open>No call but the rename touches a file other than the one it names.\<close>

lemma other_file:
  "q \<noteq> p \<Longrightarrow> map_of (td_files (snd (open_truncated p md s))) q = map_of (td_files s) q"
  "q \<noteq> p \<Longrightarrow> map_of (td_files (snd (write_text p t s))) q = map_of (td_files s) q"
  "q \<noteq> p \<Longrightarrow> map_of (td_files (snd (chmod p md s))) q = map_of (td_files s) q"
  "map_of (td_files (snd (sync_file s))) q = map_of (td_files s) q"
  "td_files (snd (make_dirs s)) = td_files s"
  by (auto simp: token_calls tok_call_def Let_def put_file_def update_conv' split: list.splits fault.splits option.splits)

text \<open>What is in the staging file after each call that succeeds.\<close>

lemma staged:
  "open_truncated p md s = (Inr u, s') \<Longrightarrow> \<exists>m. map_of (td_files s') p = Some \<lparr>tf_text = [], tf_mode = m\<rparr>"
  "write_text p t s = (Inr u, s') \<Longrightarrow> \<exists>m. map_of (td_files s') p = Some \<lparr>tf_text = t, tf_mode = m\<rparr>"
  "sync_file s = (Inr u, s') \<Longrightarrow> td_files s' = td_files s"
  "chmod p md s = (Inr u, s') \<Longrightarrow>
     (\<exists>f. map_of (td_files s) p = Some f \<and> map_of (td_files s') p = Some \<lparr>tf_text = tf_text f, tf_mode = md\<rparr>)"
  "move_file p q s = (Inr u, s') \<Longrightarrow> p \<noteq> q \<Longrightarrow>
     map_of (td_files s') q = map_of (td_files s) p \<and> map_of (td_files s') p = None"
  by (auto simp: token_calls tok_call_def Let_def put_file_def update_conv' delete_conv' split: list.splits fault.splits option.splits)

lemma move_refused: "move_file p q s = (Inl e, s') \<Longrightarrow> td_files s' = td_files s"
  by (auto simp: token_calls tok_call_def Let_def split: list.splits fault.splits option.splits)

lemma staging_other [simp]: "staging_path p \<noteq> p" "p \<noteq> staging_path p"
  by (simp_all add: staging_path_def)

section \<open>Writing is all or nothing\<close>

lemma atomic_write_ok:
  assumes "atomic_write_token p token s = (Inr u, s')"
  shows "map_of (td_files s') p = Some \<lparr>tf_text = token, tf_mode = owner_rw\<rparr>"
    and "map_of (td_files s') (staging_path p) = None"
  using assms unfolding atomic_write_token_def tok_io_def Let_def
  by (auto simp: result_simps dest!: staged)

lemma atomic_write_failed:
  assumes "atomic_write_token p token s = (Inl e, s')"
  shows "map_of (td_files s') p = map_of (td_files s) p"
proof -
  let ?t = "staging_path p"
  have o1: "map_of (td_files s1) p = map_of (td_files s0) p" if "open_truncated ?t owner_rw s0 = (r, s1)" for r s0 s1
    using other_file(1)[of p ?t owner_rw s0] that by simp
  have o2: "map_of (td_files s1) p = map_of (td_files s0) p" if "write_text ?t token s0 = (r, s1)" for r s0 s1
    using other_file(2)[of p ?t token s0] that by simp
  have o3: "map_of (td_files s1) p = map_of (td_files s0) p" if "chmod ?t owner_rw s0 = (r, s1)" for r s0 s1
    using other_file(3)[of p ?t owner_rw s0] that by simp
  have o4: "map_of (td_files s1) p = map_of (td_files s0) p" if "sync_file s0 = (r, s1)" for r s0 s1
    using other_file(4)[of s0 p] that by simp
  show ?thesis
    using assms unfolding atomic_write_token_def tok_io_def Let_def
    by (auto simp: result_simps dest!: o1 o2 o3 o4 move_refused)
qed

lemma hex_length [simp]: "length (hex_encode bs) = 2 * length bs"
  by (induction bs) (simp_all add: hex_encode_def hex_byte_def)

lemma fresh_ok:
  "fresh_token p n s = (Inr token, s') \<Longrightarrow>
     map_of (td_files s') p = Some \<lparr>tf_text = token, tf_mode = owner_rw\<rparr> \<and> 0 < n \<and>
     (\<exists>bs. length bs = n \<and> token = hex_encode bs)"
  by (auto simp: fresh_token_def generate_token_hex_def result_simps dest!: atomic_write_ok(1) split: if_splits
      intro!: exI[of _ "map (td_random s) [td_random_pos s..<td_random_pos s + n]"])

lemma fresh_failed: "fresh_token p n s = (Inl e, s') \<Longrightarrow> map_of (td_files s') p = map_of (td_files s) p"
  by (auto simp: fresh_token_def generate_token_hex_def result_simps dest!: atomic_write_failed split: if_splits)

text \<open>C40. Whatever fails, a fresh token is on disk as a whole and readable by its owner only, and is what the caller
  gets, or the token file is what it was.\<close>

theorem token_all_or_nothing:
  "case fresh_token p n s of
     (Inr token, s') \<Rightarrow> map_of (td_files s') p = Some \<lparr>tf_text = token, tf_mode = owner_rw\<rparr> \<and> length token = 2 * n
   | (Inl _, s') \<Rightarrow> map_of (td_files s') p = map_of (td_files s) p"
  using fresh_ok[of p n s] fresh_failed[of p n s] by (fastforce split: prod.split sum.split)

section \<open>A token survives a restart\<close>

lemma hex_digit_code: "n < 16 \<Longrightarrow> 48 \<le> (of_char (hex_digit n) :: nat) \<and> (of_char (hex_digit n) :: nat) < 103"
  by (simp add: hex_digit_def)

lemma hex_char:
  assumes "c \<in> set (hex_encode bs)"
  shows "48 \<le> (of_char c :: nat)" "(of_char c :: nat) < 103"
proof -
  have "(of_char b :: nat) div 16 < 16" for b :: char
    by (rule less_mult_imp_div_less) simp
  then have "48 \<le> (of_char c :: nat) \<and> (of_char c :: nat) < 103"
    using assms hex_digit_code by (fastforce simp: hex_encode_def hex_byte_def)
  then show "48 \<le> (of_char c :: nat)" "(of_char c :: nat) < 103" by simp_all
qed

lemma hex_not_ws: "c \<in> set (hex_encode bs) \<Longrightarrow> \<not> is_ws c"
  using hex_char[of c bs] by (auto simp: is_ws_def)

lemma hex_utf8: "valid_utf8 (hex_encode bs)"
  unfolding valid_utf8_def by (rule ascii_utf8) (fastforce simp: list_all_iff dest: hex_char)

lemma read_back:
  assumes "read_or_create_token p n s = (Inr token, s')" and "td_faults s' = []"
  shows "read_or_create_token p k s' = (Inr token, s')"
proof (cases "\<exists>r. fst (read_token_file p s) = Inr r \<and> trim_ws r \<noteq> []")
  case True
  then obtain r where r: "read_token_file p s = (Inr r, snd (read_token_file p s))" "trim_ws r \<noteq> []"
    by (metis prod.collapse)
  with assms(1) have eq: "token = trim_ws r" "s' = snd (read_token_file p s)"
    by (auto simp: read_or_create_token_def existing_token_is_trusted_def split: prod.splits sum.splits if_splits)
  have "\<exists>f. map_of (td_files s') p = Some f \<and> tf_text f = r \<and> valid_utf8 r"
    using r(1) unfolding eq(2)
    by (auto simp: token_calls tok_call_def Let_def split: list.splits fault.splits option.splits if_splits)
  then obtain f where f: "map_of (td_files s') p = Some f" "tf_text f = r" "valid_utf8 r" by auto
  then have "read_token_file p s' = (Inr r, s')"
    using assms(2) by (cases s') (simp add: read_token_file_def tok_call_def)
  then show ?thesis using r(2) eq(1)
    by (simp add: read_or_create_token_def existing_token_is_trusted_def)
next
  case False
  with assms(1) obtain s1 where "fresh_token p n s1 = (Inr token, s')"
    by (auto simp: read_or_create_token_def existing_token_is_trusted_def split: prod.splits sum.splits if_splits io_kind.splits)
  from fresh_ok[OF this] obtain bs where bs: "length bs = n" "0 < n" "token = hex_encode bs"
    and stored: "map_of (td_files s') p = Some \<lparr>tf_text = token, tf_mode = owner_rw\<rparr>" by auto
  have "token \<noteq> []" using bs by (metis hex_length length_0_conv mult_eq_0_iff not_less0 zero_neq_numeral)
  moreover have "trim_ws token = token" unfolding bs(3) by (rule trim_no_ws) (rule hex_not_ws)
  moreover have "read_token_file p s' = (Inr token, s')"
    using stored assms(2) hex_utf8[of bs] bs(3) by (cases s') (simp add: read_token_file_def tok_call_def)
  ultimately show ?thesis by (simp add: read_or_create_token_def existing_token_is_trusted_def)
qed

text \<open>A daemon that starts again finds the token it had, and changes no file.\<close>

theorem token_survives_restart:
  assumes "bus_new cfg ws s = (Inr b, s')" and "td_faults s' = []"
  shows "bus_new cfg ws s' = (Inr b, s')"
proof -
  let ?p = "resolve_token_path cfg ws"
  from assms(1) have ok: "rpc_validate cfg = Inr ()" by (auto simp: bus_new_def split: sum.splits)
  have quiet: "ensure_parent_dir ?p s' = (Inr (), s')"
    using assms(2) by (cases s') (simp add: ensure_parent_dir_def tok_io_def st_map_err_def make_dirs_def tok_call_def)
  from assms(1) ok obtain s1 where read: "read_or_create_token ?p (rpc_token_size_bytes cfg) s1 = (Inr (rb_bearer_token b), s')"
    and fits: "\<not> rpc_per_consumer_queue cfg > channel_limit"
    and b: "b = \<lparr>rb_config = cfg, rb_token_path = ?p, rb_bearer_token = rb_bearer_token b, rb_sent = [], rb_dropped = 0\<rparr>"
    by (auto simp: bus_new_def Let_def result_simps split: if_splits)
  have "bus_new cfg ws s' =
      (Inr \<lparr>rb_config = cfg, rb_token_path = ?p, rb_bearer_token = rb_bearer_token b, rb_sent = [], rb_dropped = 0\<rparr>, s')"
    using ok quiet read_back[OF read assms(2)] fits by (simp add: bus_new_def Let_def st_bind_def)
  with b show ?thesis by simp
qed

section \<open>Rotation and shutdown\<close>

lemma rotate_ok:
  "rotate_token ws b s = (Inr token, b', s') \<Longrightarrow>
     rb_bearer_token b' = token \<and>
     map_of (td_files s') (resolve_token_path (rb_config b) ws) = Some \<lparr>tf_text = token, tf_mode = owner_rw\<rparr>"
  by (auto simp: rotate_token_def Let_def result_simps dest!: fresh_ok split: prod.splits sum.splits)

lemma parent_dir_files: "td_files (snd (ensure_parent_dir p s)) = td_files s"
  by (auto simp: ensure_parent_dir_def tok_io_def st_map_err_def make_dirs_def tok_call_def Let_def
      split: list.splits fault.splits)

lemma rotate_failed:
  assumes "rotate_token ws b s = (Inl e, b', s')"
  shows "b' = b" and "map_of (td_files s') (resolve_token_path (rb_config b) ws) = map_of (td_files s) (resolve_token_path (rb_config b) ws)"
proof -
  let ?p = "resolve_token_path (rb_config b) ws"
  show "b' = b" using assms by (auto simp: rotate_token_def Let_def split: prod.splits sum.splits)
  have "st_bind (ensure_parent_dir ?p) (\<lambda>_. fresh_token ?p (rpc_token_size_bytes (rb_config b))) s = (Inl e, s')"
    using assms by (auto simp: rotate_token_def Let_def split: prod.splits sum.splits)
  then show "map_of (td_files s') ?p = map_of (td_files s) ?p"
    using parent_dir_files[of ?p s] by (auto simp: result_simps dest!: fresh_failed)
qed

lemma shutdown_removes: "bus_shutdown b s = (Inr u, s') \<Longrightarrow> map_of (td_files s') (rb_token_path b) = None"
  by (auto simp: bus_shutdown_def remove_token_file_def tok_call_def Let_def delete_conv'
      split: prod.splits sum.splits list.splits fault.splits if_splits io_kind.splits)

section \<open>What is sent\<close>

lemma lossy_length: "length (lossy bs) \<le> 3 * length bs"
proof (induction bs rule: length_induct)
  case (1 bs)
  show ?case
  proof (cases bs)
    case (Cons a r)
    have ih: "length (lossy (drop k r)) \<le> 3 * length (drop k r)" for k
      using 1[rule_format, of "drop k r"] Cons by simp
    have repl: "length replacement = 3" by (simp add: replacement_def)
    note small = ih[of 0] ih[of 1] ih[of 2] ih[of 3] repl
    show ?thesis
    proof (cases r)
      case Nil
      then show ?thesis using Cons small by (subst Cons, subst lossy.simps(2)) simp
    next
      case r: (Cons b r1)
      show ?thesis
      proof (cases r1)
        case Nil
        then show ?thesis using r Cons small by (subst Cons, subst lossy.simps(2)) (simp del: lossy.simps(2))
      next
        case r1: (Cons c r2)
        show ?thesis
          using r r1 Cons small by (subst Cons, subst lossy.simps(2), cases r2) (simp_all del: lossy.simps(2))
      qed
    qed
  qed simp
qed

lemma preview_length: "length (preview_bytes buf i n) \<le> 3 * n"
proof -
  let ?t = "take (min (i + n) (length buf) - i) (drop i buf)"
  have "length ?t \<le> n" by simp
  moreover have "length (preview_bytes buf i n) \<le> 3 * length ?t"
    using lossy_length[of "map of_char ?t"] by (simp add: preview_bytes_def from_utf8_lossy_def del: length_take length_drop)
  ultimately show ?thesis by linarith
qed

lemma oversized_payload:
  assumes "cap < length (encode payload)" "0 < cap"
  obtains h t where "enforce_payload_cap encode cap payload =
      JObj [(''head'', JStr h), (''original_size'', JNum (show_nat (length (encode payload)))),
            (''tail'', JStr t), (''truncated'', JBool True)]"
    and "length h \<le> 768" "length t \<le> 768"
  using assms preview_length[of "encode payload" 0 256] preview_length[of "encode payload" "length (encode payload) - 256" 256]
  by (simp add: enforce_payload_cap_def Let_def preview_len_def)

section \<open>Weaknesses\<close>

text \<open>A staging file left with a wide mode receives the token before its mode is set.\<close>

lemma loose_staging_file:
  "map_of (td_files s) (staging_path p) = Some f \<Longrightarrow> td_faults s = [Fine, Fine, Fine, Refused] \<Longrightarrow>
     map_of (td_files (snd (atomic_write_token p token s))) (staging_path p) =
       Some \<lparr>tf_text = token, tf_mode = tf_mode f\<rparr>"
  by (simp add: atomic_write_token_def tok_io_def st_map_err_def st_bind_def Let_def token_calls tok_call_def
      put_file_def mode_of_def update_conv')

text \<open>Any text that is not blank is taken as a token, whatever its length and its mode.\<close>

lemma weak_token_reused:
  "map_of (td_files s) p = Some \<lparr>tf_text = ''x'', tf_mode = m\<rparr> \<Longrightarrow> td_faults s = [] \<Longrightarrow>
     read_or_create_token p 32 s = (Inr ''x'', s)"
  by (cases s) (simp add: read_or_create_token_def read_token_file_def tok_call_def existing_token_is_trusted_def
      trim_ws_def trim_start_def trim_end_def is_ws_def valid_utf8_def)

text \<open>Two daemons of one directory share the file: the one that stops takes it from the other.\<close>

lemma shutdown_of_the_other:
  assumes "bus_new cfg ws s = (Inr a, s1)" "bus_new cfg ws s1 = (Inr b, s2)" "bus_shutdown a s2 = (Inr u, s3)"
  shows "map_of (td_files s3) (rb_token_path b) = None"
proof -
  have "rb_token_path a = resolve_token_path cfg ws" "rb_token_path b = resolve_token_path cfg ws"
    using assms(1,2) by (auto simp: bus_new_def Let_def result_simps split: sum.splits if_splits)
  with shutdown_removes[OF assms(3)] show ?thesis by simp
qed

end
