(* ===== verification/Spec2Isabelle.thy ===== *)
theory Spec2Isabelle
  imports NervePrelude NerveFs PatchModel UndoStore PatchStore PatchProps PatchSafety DiffModel DiffProps DiffRoundtrip
    NerveTypes NerveConfig Sandbox GoalCheck GoalProps ApplyGate SynapticLoop LoopInvariant LoopDemo LoopProps
    Transitions MayorQueue MayorProps MayorSystem MayorTheorems MayorLedger BudgetAudit AuditProps
    McpGate McpProps VerdictParse VerdictProps ConfigProps Adapters AdapterProps
    PlanMode PlanProps DispatchProps GoalIntentConvert NerveStore StoreProps SessionFork ForkProps RpcBus RpcProps
begin

text \<open>
  A verification development for Nerve, a command line orchestrator that lets one coding agent
  (the lead) propose patches and another (the reviewer) judge them, in rounds, with a
  deterministic check as the gate, and that applies the final patch only when everything agrees.

  \<^bold>\<open>The layers.\<close>

  \<^item> \<^theory_text>\<open>NervePrelude\<close>: results and steps (an error or a value, with a state threaded through), the
    Rust string operations on byte strings, saturating and checked words, number parsing.
  \<^item> \<^theory_text>\<open>NerveFs\<close>: the file system behind \<^verbatim>\<open>std::fs\<close>: a map from absolute locations to directories, files
    and links, path walking with a bound on links, and a fault plan by which any call may fail.
  \<^item> \<^theory_text>\<open>PatchModel\<close>, \<^theory_text>\<open>DiffModel\<close>: \<^verbatim>\<open>crates/nerve-patch/src/lib.rs\<close>: patches, validation against the tree,
    application with snapshots, rollback, canonical hash, path safety, and the unified-diff reader.
    \<^theory_text>\<open>UndoStore\<close> states the contract of a store with undo as a locale; \<^theory_text>\<open>PatchStore\<close> interprets it on
    \<^verbatim>\<open>apply\<close>. \<^theory_text>\<open>PatchProps\<close>, \<^theory_text>\<open>PatchSafety\<close>, \<^theory_text>\<open>DiffProps\<close>, \<^theory_text>\<open>DiffRoundtrip\<close> hold the theorems.
  \<^item> \<^theory_text>\<open>NerveTypes\<close>: \<^verbatim>\<open>crates/nerve-types\<close>, the records that all crates exchange.
  \<^item> \<^theory_text>\<open>NerveConfig\<close>: \<^verbatim>\<open>crates/nerve-config\<close>: the configuration, every validation, the loading order,
    the trust rules for a project's own configuration, profile selection, goals.
  \<^item> \<^theory_text>\<open>Sandbox\<close>, \<^theory_text>\<open>GoalCheck\<close>: \<^verbatim>\<open>sandbox.rs\<close>, \<^verbatim>\<open>goal.rs\<close> and \<^verbatim>\<open>verifier.rs\<close> of \<^verbatim>\<open>crates/nerve-core\<close>: how a check
    is confined, spawned, awaited and read. \<^theory_text>\<open>GoalProps\<close> has the theorems.
  \<^item> \<^theory_text>\<open>ApplyGate\<close>, \<^theory_text>\<open>SynapticLoop\<close>: \<^verbatim>\<open>crates/nerve-core/src/lib.rs\<close>: the run itself, in the code's order.
    \<^theory_text>\<open>LoopInvariant\<close> has the contract of the refinement loop as a locale with five interpretations;
    \<^theory_text>\<open>LoopDemo\<close> a complete run to evaluate on; \<^theory_text>\<open>LoopProps\<close> the theorems about runs.

  \<^item> \<^theory_text>\<open>MayorQueue\<close>: \<^verbatim>\<open>crates/nerve-core/src/mayor_patrol.rs\<close>: the task queue on disk that one Mayor and
    many Patrols share, with the coordination ledger and the mailbox. \<^theory_text>\<open>Transitions\<close> states what an
    invariant of a transition system is as a locale; \<^theory_text>\<open>MayorSystem\<close> interleaves the operations, with
    crashes between any two steps, and interprets it; \<^theory_text>\<open>MayorProps\<close> and \<^theory_text>\<open>MayorTheorems\<close> have the
    lemmas and theorems about the queue; \<^theory_text>\<open>MayorLedger\<close> the refinement between ledger and directories.

  \<^item> \<^theory_text>\<open>BudgetAudit\<close>, \<^theory_text>\<open>AuditProps\<close>: \<^verbatim>\<open>crates/nerve-core/src/budget_audit.rs\<close>: the hash-chained log of budget
    changes, keyed or not, and what a keyed chain protects.
  \<^item> \<^theory_text>\<open>McpGate\<close>, \<^theory_text>\<open>McpProps\<close>: \<^verbatim>\<open>crates/nerve-adapter/src/mcp.rs\<close>: the client of tool servers, the gates before a
    call, the argument policy and the registry.
  \<^item> \<^theory_text>\<open>VerdictParse\<close>, \<^theory_text>\<open>VerdictProps\<close>: \<^verbatim>\<open>crates/nerve-adapter/src/lib.rs\<close>: from the raw text of an agent to a
    verdict, a patch and a cost.
  \<^item> \<^theory_text>\<open>ConfigProps\<close>: what every loaded configuration satisfies.
  \<^item> \<^theory_text>\<open>Adapters\<close>, \<^theory_text>\<open>AdapterProps\<close>: the other half of \<^verbatim>\<open>crates/nerve-adapter/src/lib.rs\<close>: the processes behind
    an adapter, with spawn retries, stream caps and deadlines, their prompts, and the mock adapters.
  \<^item> \<^theory_text>\<open>PlanMode\<close>, \<^theory_text>\<open>PlanProps\<close>, \<^theory_text>\<open>DispatchProps\<close>: \<^verbatim>\<open>crates/nerve-core/src/plan.rs\<close> and the command that
    puts the steps of a stored plan in the queue of \<^theory_text>\<open>MayorQueue\<close>.
  \<^item> \<^theory_text>\<open>GoalIntentConvert\<close>: \<^verbatim>\<open>crates/nerve-core/src/goal_intent.rs\<close>: from a sentence to a vetted goal.
  \<^item> \<^theory_text>\<open>NerveStore\<close>, \<^theory_text>\<open>StoreProps\<close>: \<^verbatim>\<open>crates/nerve-core/src/store.rs\<close>: reports, patches with their index,
    checkpoints, approvals and plans below \<^verbatim>\<open>.nerve\<close>; \<^verbatim>\<open>apply_patch\<close> runs \<^theory_text>\<open>PatchModel\<close>'s \<^verbatim>\<open>apply\<close>.
  \<^item> \<^theory_text>\<open>SessionFork\<close>, \<^theory_text>\<open>ForkProps\<close>: \<^verbatim>\<open>crates/nerve-core/src/session_fork.rs\<close>: the tree of sessions.

  \<^item> \<^theory_text>\<open>RpcBus\<close>, \<^theory_text>\<open>RpcProps\<close>: \<^verbatim>\<open>crates/nerve-core/src/rpc.rs\<close>: the bearer token on disk, written under
    faults at every call, and the bus that sends capped envelopes.

  \<^bold>\<open>Conventions.\<close> Strings are byte strings. Machine integers keep their width. Fallible code is a sum;
  stateful code is a function from a world to a result and a world. A check that never ends is the
  value \<open>None\<close>; the refinement loop runs over the list of its round indices, so no fuel is needed.
  Code outside the repository is a parameter: the digest, uuid and time sources, glob and JSON
  libraries, the text diff, git, the adapters and the host's processes.

  \<^bold>\<open>Not modelled.\<close> The command line, the terminal and the daemon's loop (\<^verbatim>\<open>crates/nerve-cli\<close>, of which the
  dispatch of plans and the commands named above are), the dashboard (\<^verbatim>\<open>crates/nerve-tui\<close>), the access
  control lists of Windows, the system calls of landlock, seccomp, cgroups and rlimits, and git itself with
  the worktrees it makes.
\<close>

end
